(* ===== verification/Prelude.thy ===== *)
theory Prelude
  imports Complex_Main "HOL-Library.AList"
begin

text \<open>
  What every component of the model shares: Python values, dictionaries with insertion order,
  exceptions, programs that read and write a state and may raise, and the machinery with which
  the components prove that their programs keep a two-state guarantee.

  Numbers are exact rationals: a Python \<open>int\<close>, \<open>float\<close> or \<open>Decimal\<close> is a \<open>rat\<close>, so the binary
  rounding of \<open>float\<close> is not modelled.  The text that \<open>json.dumps\<close> makes of a value \<open>v\<close> is the
  value \<open>PJson v\<close>, a string whose only use is \<open>json.loads\<close>; the text that \<open>isoformat\<close> makes of
  an instant \<open>t\<close> (seconds since the epoch) is \<open>PTime t\<close>, read back by \<open>datetime.fromisoformat\<close>.
\<close>

named_theorems prog_simps "equations that run a program on a state"
named_theorems prog_intros "rules that derive a guarantee of a program from its parts"

section \<open>Python values and dictionaries\<close>

datatype pyval =
    PNone
  | PBool bool
  | PNum rat
  | PStr string
  | PTime rat
  | PJson pyval
  | PList "pyval list"
  | PDict "(string \<times> pyval) list"

type_synonym dict = "(string \<times> pyval) list"

text \<open>The truth value that \<open>if v:\<close>, \<open>not v\<close> and \<open>v or w\<close> use.\<close>

fun truthy :: "pyval \<Rightarrow> bool" where
  "truthy PNone = False"
| "truthy (PBool b) = b"
| "truthy (PNum x) = (x \<noteq> 0)"
| "truthy (PStr s) = (s \<noteq> [])"
| "truthy (PTime t) = True"
| "truthy (PJson v) = True"
| "truthy (PList vs) = (vs \<noteq> [])"
| "truthy (PDict d) = (d \<noteq> [])"

definition py_or :: "pyval \<Rightarrow> pyval \<Rightarrow> pyval" where
  "py_or v w = (if truthy v then v else w)"

text \<open>An optional string argument is absent or present; \<open>if s:\<close> also rejects the empty string.\<close>

definition of_opt_str :: "string option \<Rightarrow> pyval" where
  "of_opt_str so = (case so of None \<Rightarrow> PNone | Some s \<Rightarrow> PStr s)"

fun to_opt_str :: "pyval \<Rightarrow> string option" where
  "to_opt_str (PStr s) = Some s"
| "to_opt_str _ = None"

definition truthy_str :: "string option \<Rightarrow> bool" where
  "truthy_str so = (case so of None \<Rightarrow> False | Some s \<Rightarrow> s \<noteq> [])"

definition of_opt_num :: "rat option \<Rightarrow> pyval" where
  "of_opt_num xo = (case xo of None \<Rightarrow> PNone | Some x \<Rightarrow> PNum x)"

definition of_opt_bool :: "bool option \<Rightarrow> pyval" where
  "of_opt_bool bo = (case bo of None \<Rightarrow> PNone | Some b \<Rightarrow> PBool b)"

definition of_strs :: "string list \<Rightarrow> pyval" where
  "of_strs ss = PList (map PStr ss)"

text \<open>The text of an optional argument, with a default for an absent one.\<close>

definition opt_default :: "'a \<Rightarrow> 'a option \<Rightarrow> 'a" where
  "opt_default d xo = (case xo of None \<Rightarrow> d | Some x \<Rightarrow> x)"

lemma opt_default_simps [simp]: "opt_default d None = d" "opt_default d (Some x) = x"
  by (simp_all add: opt_default_def)

text \<open>\<open>d.get(k)\<close>, \<open>d.get(k, v)\<close>, \<open>k in d\<close> and \<open>d[k] = v\<close> (which keeps the position of a key).\<close>

definition dget :: "dict \<Rightarrow> string \<Rightarrow> pyval" where
  "dget d k = (case map_of d k of None \<Rightarrow> PNone | Some v \<Rightarrow> v)"

definition dget_default :: "dict \<Rightarrow> string \<Rightarrow> pyval \<Rightarrow> pyval" where
  "dget_default d k v = (case map_of d k of None \<Rightarrow> v | Some w \<Rightarrow> w)"

definition has_key :: "dict \<Rightarrow> string \<Rightarrow> bool" where
  "has_key d k = (map_of d k \<noteq> None)"

definition dset :: "string \<Rightarrow> pyval \<Rightarrow> dict \<Rightarrow> dict" where
  "dset k v d = AList.update k v d"

definition dupdate :: "dict \<Rightarrow> dict \<Rightarrow> dict" where
  "dupdate d e = fold (\<lambda>(k, v) acc. dset k v acc) e d"

lemma map_of_dset [simp]: "map_of (dset k v d) = (map_of d)(k \<mapsto> v)"
  by (simp add: dset_def update_conv')

lemma dget_dset [simp]: "dget (dset k v d) k' = (if k' = k then v else dget d k')"
  by (simp add: dget_def)

lemma has_key_dset [simp]: "has_key (dset k v d) k' = (k' = k \<or> has_key d k')"
  by (simp add: has_key_def)

lemma dget_Nil [simp]: "dget [] k = PNone"
  by (simp add: dget_def)

lemma dget_Cons [simp]: "dget ((a, v) # d) k = (if k = a then v else dget d k)"
  by (simp add: dget_def)

lemma has_key_Nil [simp]: "\<not> has_key [] k"
  by (simp add: has_key_def)

lemma has_key_Cons [simp]: "has_key ((a, v) # d) k = (k = a \<or> has_key d k)"
  by (simp add: has_key_def)

lemma has_key_append [simp]: "has_key (d @ e) k = (has_key d k \<or> has_key e k)"
  by (auto simp: has_key_def map_add_def split: option.splits)

lemma dget_append: "dget (d @ e) k = (if has_key d k then dget d k else dget e k)"
  by (auto simp: dget_def has_key_def map_add_def map_of_append[symmetric] split: option.splits)

lemma dget_not_has_key: "\<not> has_key d k \<Longrightarrow> dget d k = PNone"
  by (simp add: dget_def has_key_def)

lemma dupdate_Nil [simp]: "dupdate d [] = d"
  by (simp add: dupdate_def)

lemma dupdate_Cons [simp]: "dupdate d ((k, v) # e) = dupdate (dset k v d) e"
  by (simp add: dupdate_def)

lemma dget_dupdate_other: "\<not> has_key e k \<Longrightarrow> dget (dupdate d e) k = dget d k"
  by (induction e arbitrary: d) (auto split: prod.splits)

lemma has_key_dupdate [simp]: "has_key (dupdate d e) k = (has_key d k \<or> has_key e k)"
  by (induction e arbitrary: d) (auto split: prod.splits)

section \<open>Exceptions\<close>

text \<open>
  The exceptions the code raises or catches by name: a failed DynamoDB condition is told apart
  from every other \<open>ClientError\<close>, and an \<open>HTTPException\<close> carries its status code.
\<close>

datatype exn =
    ConditionalCheckFailed
  | ClientErr string
  | ValueErr string
  | RuntimeErr string
  | KeyErr string
  | TypeErr string
  | HTTPExc nat string
  | RetryErr string
  | ImageConversionErr string
  | OtherExc string

text \<open>\<open>json.loads\<close>; a text that no \<open>json.dumps\<close> of the model made is malformed.\<close>

fun json_loads :: "pyval \<Rightarrow> exn + pyval" where
  "json_loads (PJson v) = Inr v"
| "json_loads (PStr s) = Inl (ValueErr ''JSONDecodeError'')"
| "json_loads _ = Inl (TypeErr ''the JSON object must be str'')"

text \<open>\<open>v < y\<close> for a number \<open>y\<close>: numbers and booleans compare, anything else raises.\<close>

fun py_less :: "pyval \<Rightarrow> rat \<Rightarrow> exn + bool" where
  "py_less (PNum x) y = Inr (x < y)"
| "py_less (PBool b) y = Inr ((if b then 1 else 0) < y)"
| "py_less _ y = Inl (TypeErr ''not supported between instances'')"

text \<open>\<open>str\<close> of a natural number.\<close>

fun nat_str :: "nat \<Rightarrow> string" where
  "nat_str n =
     (if n < 10 then [char_of (48 + n)] else nat_str (n div 10) @ [char_of (48 + n mod 10)])"

declare nat_str.simps [simp del]

section \<open>Programs\<close>

text \<open>
  A program runs on a state and returns a value or raises; what it has written before it raises
  stays written, as in Python.
\<close>

type_synonym ('s, 'a) prog = "'s \<Rightarrow> (exn + 'a) \<times> 's"

definition ret :: "'a \<Rightarrow> ('s, 'a) prog" where
  "ret x = (\<lambda>s. (Inr x, s))"

definition raise :: "exn \<Rightarrow> ('s, 'a) prog" where
  "raise e = (\<lambda>s. (Inl e, s))"

definition lift_result :: "exn + 'a \<Rightarrow> ('s, 'a) prog" where
  "lift_result r = (\<lambda>s. (r, s))"

definition bindP :: "('s, 'a) prog \<Rightarrow> ('a \<Rightarrow> ('s, 'b) prog) \<Rightarrow> ('s, 'b) prog" where
  "bindP m f = (\<lambda>s. case m s of (Inl e, s') \<Rightarrow> (Inl e, s') | (Inr x, s') \<Rightarrow> f x s')"

definition thenP :: "('s, 'a) prog \<Rightarrow> ('s, 'b) prog \<Rightarrow> ('s, 'b) prog" where
  "thenP m n = bindP m (\<lambda>_. n)"

definition catchP :: "('s, 'a) prog \<Rightarrow> (exn \<Rightarrow> ('s, 'a) prog) \<Rightarrow> ('s, 'a) prog" where
  "catchP m h = (\<lambda>s. case m s of (Inl e, s') \<Rightarrow> h e s' | (Inr x, s') \<Rightarrow> (Inr x, s'))"

definition whenP :: "bool \<Rightarrow> ('s, unit) prog \<Rightarrow> ('s, unit) prog" where
  "whenP b m = (if b then m else ret ())"

definition reads :: "('s \<Rightarrow> 'a) \<Rightarrow> ('s, 'a) prog" where
  "reads f = (\<lambda>s. (Inr (f s), s))"

definition modifies :: "('s \<Rightarrow> 's) \<Rightarrow> ('s, unit) prog" where
  "modifies f = (\<lambda>s. (Inr (), f s))"

fun forP :: "('a \<Rightarrow> ('s, unit) prog) \<Rightarrow> 'a list \<Rightarrow> ('s, unit) prog" where
  "forP f [] = ret ()"
| "forP f (x # xs) = thenP (f x) (forP f xs)"

text \<open>Running a sequence of independent invocations: one that raises does not stop the next.\<close>

fun run_each :: "('s, 'a) prog list \<Rightarrow> 's \<Rightarrow> (exn + 'a) list \<times> 's" where
  "run_each [] s = ([], s)"
| "run_each (m # ms) s =
     (case m s of (r, s') \<Rightarrow> (case run_each ms s' of (rs, s'') \<Rightarrow> (r # rs, s'')))"

lemma ret_run [simp, prog_simps]: "ret x s = (Inr x, s)"
  by (simp add: ret_def)

lemma raise_run [simp, prog_simps]: "raise e s = (Inl e, s)"
  by (simp add: raise_def)

lemma lift_result_run [simp, prog_simps]: "lift_result r s = (r, s)"
  by (simp add: lift_result_def)

lemma bindP_run [prog_simps]:
  "bindP m f s = (case m s of (Inl e, s') \<Rightarrow> (Inl e, s') | (Inr x, s') \<Rightarrow> f x s')"
  by (simp add: bindP_def)

lemma thenP_run [prog_simps]:
  "thenP m n s = (case m s of (Inl e, s') \<Rightarrow> (Inl e, s') | (Inr x, s') \<Rightarrow> n s')"
  by (simp add: thenP_def bindP_def)

lemma catchP_run [prog_simps]:
  "catchP m h s = (case m s of (Inl e, s') \<Rightarrow> h e s' | (Inr x, s') \<Rightarrow> (Inr x, s'))"
  by (simp add: catchP_def)

lemma whenP_run [prog_simps]: "whenP b m s = (if b then m s else (Inr (), s))"
  by (simp add: whenP_def)

lemma reads_run [simp, prog_simps]: "reads f s = (Inr (f s), s)"
  by (simp add: reads_def)

lemma modifies_run [simp, prog_simps]: "modifies f s = (Inr (), f s)"
  by (simp add: modifies_def)

lemma bindP_ret [simp]: "bindP (ret x) f = f x"
  by (simp add: bindP_def ret_def)

lemma bindP_raise [simp]: "bindP (raise e) f = raise e"
  by (simp add: bindP_def raise_def)

lemma thenP_ret [simp]: "thenP (ret x) n = n"
  by (simp add: thenP_def)

lemma length_run_each: "length (fst (run_each ms s)) = length ms"
proof (induction ms arbitrary: s)
  case Nil
  then show ?case by simp
next
  case (Cons m ms)
  obtain r s' where "m s = (r, s')" by (cases "m s")
  moreover obtain rs t where "run_each ms s' = (rs, t)" by (cases "run_each ms s'")
  ultimately show ?case using Cons [of s'] by simp
qed

lemma run_each_state: "snd (run_each (m # ms) s) = snd (run_each ms (snd (m s)))"
  by (simp split: prod.splits)

lemma run_each_snoc: "snd (run_each (ms @ [m]) s) = snd (m (snd (run_each ms s)))"
  by (induction ms arbitrary: s) (simp_all add: run_each_state del: run_each.simps(2))

section \<open>Two-state guarantees\<close>

text \<open>
  \<open>guarantees R m\<close>: whatever \<open>m\<close> returns or raises, the state it leaves is related to the state
  it found.  A relation that is reflexive and transitive is a guarantee of a composed program as
  soon as it is one of the parts; the locale proves that once, and each component interprets it
  at the relation it promises.
\<close>

definition guarantees :: "('s \<Rightarrow> 's \<Rightarrow> bool) \<Rightarrow> ('s, 'a) prog \<Rightarrow> bool" where
  "guarantees R m = (\<forall>s. R s (snd (m s)))"

lemma guaranteesI [intro]: "(\<And>s. R s (snd (m s))) \<Longrightarrow> guarantees R m"
  by (simp add: guarantees_def)

lemma guaranteesD: "guarantees R m \<Longrightarrow> m s = (r, s') \<Longrightarrow> R s s'"
  unfolding guarantees_def by (metis snd_conv)

locale state_order =
  fixes R :: "'s \<Rightarrow> 's \<Rightarrow> bool"
  assumes R_refl: "R s s"
    and R_trans: "R s t \<Longrightarrow> R t u \<Longrightarrow> R s u"
begin

lemma g_ret: "guarantees R (ret x)"
  by (rule guaranteesI) (simp add: R_refl)

lemma g_raise: "guarantees R (raise e)"
  by (rule guaranteesI) (simp add: R_refl)

lemma g_lift: "guarantees R (lift_result r)"
  by (rule guaranteesI) (simp add: R_refl)

lemma g_reads: "guarantees R (reads f)"
  by (rule guaranteesI) (simp add: R_refl)

lemma g_bind:
  assumes "guarantees R m" and "\<And>x. guarantees R (f x)"
  shows "guarantees R (bindP m f)"
proof (rule guaranteesI)
  fix s
  obtain r s' where m: "m s = (r, s')" by (cases "m s")
  have "R s s'" using assms(1) m by (rule guaranteesD)
  then show "R s (snd (bindP m f s))"
    using assms(2) m by (cases r) (auto simp: bindP_run guarantees_def intro: R_trans)
qed

lemma g_then:
  assumes "guarantees R m" and "guarantees R n"
  shows "guarantees R (thenP m n)"
  unfolding thenP_def using assms by (intro g_bind)

lemma g_catch:
  assumes "guarantees R m" and "\<And>e. guarantees R (h e)"
  shows "guarantees R (catchP m h)"
proof (rule guaranteesI)
  fix s
  obtain r s' where m: "m s = (r, s')" by (cases "m s")
  have "R s s'" using assms(1) m by (rule guaranteesD)
  then show "R s (snd (catchP m h s))"
    using assms(2) m by (cases r) (auto simp: catchP_run guarantees_def intro: R_trans)
qed

lemma g_when: "guarantees R m \<Longrightarrow> guarantees R (whenP b m)"
  unfolding whenP_def by (auto intro: g_ret)

lemma g_if: "guarantees R m \<Longrightarrow> guarantees R n \<Longrightarrow> guarantees R (if b then m else n)"
  by simp

lemma g_option:
  "guarantees R m \<Longrightarrow> (\<And>x. guarantees R (f x)) \<Longrightarrow>
   guarantees R (case xo of None \<Rightarrow> m | Some x \<Rightarrow> f x)"
  by (cases xo) auto

lemma g_sum:
  "(\<And>e. guarantees R (f e)) \<Longrightarrow> (\<And>x. guarantees R (g x)) \<Longrightarrow>
   guarantees R (case z of Inl e \<Rightarrow> f e | Inr x \<Rightarrow> g x)"
  by (cases z) auto

lemma g_prod:
  "(\<And>x y. guarantees R (f x y)) \<Longrightarrow> guarantees R (case p of (x, y) \<Rightarrow> f x y)"
  by (cases p) auto

lemma g_let: "(\<And>x. guarantees R (f x)) \<Longrightarrow> guarantees R (Let x f)"
  by (simp add: Let_def)

lemma g_for: "(\<And>x. guarantees R (f x)) \<Longrightarrow> guarantees R (forP f xs)"
  by (induction xs) (auto intro: g_ret g_then)

lemma g_run_each: "(\<And>m. m \<in> set ms \<Longrightarrow> guarantees R m) \<Longrightarrow> R s (snd (run_each ms s))"
proof (induction ms arbitrary: s)
  case Nil
  then show ?case by (simp add: R_refl)
next
  case (Cons m ms)
  obtain r s' where m: "m s = (r, s')" by (cases "m s")
  have "R s s'" using Cons.prems m by (intro guaranteesD [of R m]) auto
  moreover have "R s' (snd (run_each ms s'))" using Cons by auto
  ultimately show ?case using m by (auto split: prod.splits intro: R_trans)
qed

lemmas g_rules = g_ret g_raise g_lift g_reads g_bind g_then g_catch g_when g_if g_option g_sum
  g_prod g_let g_for

end

text \<open>
  The other kind of promise: a program that only reads.  It leaves the state alone, so it keeps
  every reflexive relation.
\<close>

definition read_only :: "('s, 'a) prog \<Rightarrow> bool" where
  "read_only m = (\<forall>s. snd (m s) = s)"

interpretation unchanged: state_order "(\<lambda>s t. t = s) :: 's \<Rightarrow> 's \<Rightarrow> bool"
  by unfold_locales auto

lemma read_only_iff: "read_only m = guarantees (\<lambda>s t. t = s) m"
  by (simp add: read_only_def guarantees_def)

lemma read_only_guarantees: "read_only m \<Longrightarrow> (\<And>s. R s s) \<Longrightarrow> guarantees R m"
  by (simp add: read_only_def guarantees_def)

section \<open>Rounding\<close>

text \<open>Python's \<open>round\<close>: to the nearest integer, ties to the even one.\<close>

definition round_half_even :: "rat \<Rightarrow> int" where
  "round_half_even x =
     (let f = \<lfloor>x\<rfloor>; d = x - of_int f
      in if d < 1/2 then f else if d > 1/2 then f + 1 else if even f then f else f + 1)"

definition py_round2 :: "rat \<Rightarrow> rat" where
  "py_round2 x = of_int (round_half_even (x * 100)) / 100"

lemma round_half_even_error: "\<bar>of_int (round_half_even x) - x\<bar> \<le> 1/2"
proof -
  have "of_int \<lfloor>x\<rfloor> \<le> x" "x < of_int \<lfloor>x\<rfloor> + 1" by linarith+
  then show ?thesis
    unfolding round_half_even_def Let_def by (auto simp: abs_le_iff)
qed

lemma py_round2_error: "\<bar>py_round2 x - x\<bar> \<le> 1/200"
proof -
  have "\<bar>of_int (round_half_even (x * 100)) - x * 100\<bar> \<le> 1/2"
    by (rule round_half_even_error)
  then show ?thesis unfolding py_round2_def by (auto simp: abs_le_iff field_simps)
qed

end
