(* ===== verification/Processing_Status.thy ===== *)
theory Processing_Status
  imports Prelude
begin

text \<open>
  The enumerations of \<open>constants/processing.py\<close> and the code table of \<open>utils/response_codes.py\<close>.
  A status is an enumeration member; the class methods take the text that the member stands for,
  because that is what a DynamoDB record holds, and so do their models.
\<close>

section \<open>The status of a document\<close>

datatype process_status =
    PS_AI_CONSENT_DECLINED
  | PS_BLURRY_DOCUMENT_DETECTED
  | PS_CONVERSION_FAILED
  | PS_DELETED
  | PS_EXCLUDED_PER_PRECLASSIFICATION
  | PS_FAILED
  | PS_MULTIPLE_DOCUMENTS_IN_MULTIPAGE
  | PS_MULTIPLE_DOCUMENTS_ON_SINGLE_PAGE
  | PS_NO_CUSTOM_BLUEPRINT_MATCHED
  | PS_NO_DOCUMENT_DETECTED
  | PS_NOT_IMPLEMENTED
  | PS_NOT_STARTED
  | PS_PASSWORD_PROTECTED
  | PS_PENDING_IMAGE_OPTIMIZATION
  | PS_PENDING_UPLOAD
  | PS_BLUEPRINT_DISABLED
  | PS_PROCESSING_EXCLUDED
  | PS_STARTED
  | PS_SUCCESS
  | PS_TIMED_OUT

fun ps_value :: "process_status \<Rightarrow> string" where
  "ps_value PS_AI_CONSENT_DECLINED = ''ai_consent_declined''"
| "ps_value PS_BLURRY_DOCUMENT_DETECTED = ''blurry_document_detected''"
| "ps_value PS_CONVERSION_FAILED = ''conversion_failed''"
| "ps_value PS_DELETED = ''deleted''"
| "ps_value PS_EXCLUDED_PER_PRECLASSIFICATION = ''excluded_per_preclassification''"
| "ps_value PS_FAILED = ''failed''"
| "ps_value PS_MULTIPLE_DOCUMENTS_IN_MULTIPAGE = ''multiple_documents_in_multipage''"
| "ps_value PS_MULTIPLE_DOCUMENTS_ON_SINGLE_PAGE = ''multiple_documents_single_page''"
| "ps_value PS_NO_CUSTOM_BLUEPRINT_MATCHED = ''no_custom_blueprint_matched''"
| "ps_value PS_NO_DOCUMENT_DETECTED = ''no_document_detected''"
| "ps_value PS_NOT_IMPLEMENTED = ''not_implemented''"
| "ps_value PS_NOT_STARTED = ''not_started''"
| "ps_value PS_PASSWORD_PROTECTED = ''password_protected''"
| "ps_value PS_PENDING_IMAGE_OPTIMIZATION = ''pending_image_optimization''"
| "ps_value PS_PENDING_UPLOAD = ''pending_upload''"
| "ps_value PS_BLUEPRINT_DISABLED = ''blueprint_disabled''"
| "ps_value PS_PROCESSING_EXCLUDED = ''processing_excluded''"
| "ps_value PS_STARTED = ''started''"
| "ps_value PS_SUCCESS = ''success''"
| "ps_value PS_TIMED_OUT = ''timed_out''"

definition all_process_status :: "process_status list" where
  "all_process_status =
     [PS_AI_CONSENT_DECLINED, PS_BLURRY_DOCUMENT_DETECTED, PS_CONVERSION_FAILED, PS_DELETED,
      PS_EXCLUDED_PER_PRECLASSIFICATION, PS_FAILED, PS_MULTIPLE_DOCUMENTS_IN_MULTIPAGE,
      PS_MULTIPLE_DOCUMENTS_ON_SINGLE_PAGE, PS_NO_CUSTOM_BLUEPRINT_MATCHED,
      PS_NO_DOCUMENT_DETECTED, PS_NOT_IMPLEMENTED, PS_NOT_STARTED, PS_PASSWORD_PROTECTED,
      PS_PENDING_IMAGE_OPTIMIZATION, PS_PENDING_UPLOAD, PS_BLUEPRINT_DISABLED,
      PS_PROCESSING_EXCLUDED, PS_STARTED, PS_SUCCESS, PS_TIMED_OUT]"

definition in_status :: "process_status list \<Rightarrow> string \<Rightarrow> bool" where
  "in_status sts v = (v \<in> set (map ps_value sts))"

definition is_completed :: "string \<Rightarrow> bool" where
  "is_completed v = in_status
     [PS_AI_CONSENT_DECLINED, PS_BLUEPRINT_DISABLED, PS_CONVERSION_FAILED, PS_PROCESSING_EXCLUDED,
      PS_SUCCESS, PS_FAILED, PS_NO_DOCUMENT_DETECTED, PS_NO_CUSTOM_BLUEPRINT_MATCHED,
      PS_TIMED_OUT] v"

definition is_classified :: "string \<Rightarrow> bool" where
  "is_classified v = in_status
     [PS_AI_CONSENT_DECLINED, PS_BLUEPRINT_DISABLED, PS_BLURRY_DOCUMENT_DETECTED,
      PS_CONVERSION_FAILED, PS_DELETED, PS_FAILED, PS_MULTIPLE_DOCUMENTS_IN_MULTIPAGE,
      PS_MULTIPLE_DOCUMENTS_ON_SINGLE_PAGE, PS_NO_CUSTOM_BLUEPRINT_MATCHED,
      PS_NO_DOCUMENT_DETECTED, PS_NOT_IMPLEMENTED, PS_EXCLUDED_PER_PRECLASSIFICATION,
      PS_PASSWORD_PROTECTED, PS_PROCESSING_EXCLUDED, PS_SUCCESS, PS_TIMED_OUT] v"

definition is_not_supported :: "string \<Rightarrow> bool" where
  "is_not_supported v = in_status
     [PS_MULTIPLE_DOCUMENTS_IN_MULTIPAGE, PS_MULTIPLE_DOCUMENTS_ON_SINGLE_PAGE,
      PS_PASSWORD_PROTECTED] v"

definition is_pending_extraction :: "string \<Rightarrow> bool" where
  "is_pending_extraction v = in_status [PS_PENDING_IMAGE_OPTIMIZATION, PS_NOT_STARTED] v"

definition is_awaiting_processing :: "string \<Rightarrow> bool" where
  "is_awaiting_processing v = in_status [PS_NOT_STARTED, PS_PENDING_UPLOAD] v"

definition pending_message :: "string \<Rightarrow> string" where
  "pending_message v =
     (if is_awaiting_processing v then ''Awaiting processing'' else ''Processing in progress'')"

definition is_successful :: "string \<Rightarrow> bool" where
  "is_successful v = in_status
     [PS_SUCCESS, PS_NO_CUSTOM_BLUEPRINT_MATCHED, PS_NOT_IMPLEMENTED,
      PS_EXCLUDED_PER_PRECLASSIFICATION] v"

definition non_terminal :: "process_status list" where
  "non_terminal = [PS_STARTED, PS_NOT_STARTED, PS_PENDING_UPLOAD, PS_PENDING_IMAGE_OPTIMIZATION]"

section \<open>Batches, builds, extraction engines\<close>

datatype batch_status = BS_UPLOADING | BS_PROCESSING | BS_COMPLETED | BS_PARTIAL | BS_FAILED

fun bs_value :: "batch_status \<Rightarrow> string" where
  "bs_value BS_UPLOADING = ''uploading''"
| "bs_value BS_PROCESSING = ''processing''"
| "bs_value BS_COMPLETED = ''completed''"
| "bs_value BS_PARTIAL = ''partial''"
| "bs_value BS_FAILED = ''failed''"

datatype extract_method = EM_BDA | EM_TEXTRACT | EM_OCR_MAPPING

fun em_value :: "extract_method \<Rightarrow> string" where
  "em_value EM_BDA = ''bda''"
| "em_value EM_TEXTRACT = ''textract''"
| "em_value EM_OCR_MAPPING = ''ocr-mapping''"

datatype llm_usage_reason =
  LU_PRECLASSIFICATION | LU_BLUEPRINT_MATCH | LU_OCR_MAPPING | LU_CROP_DETECTION

fun lu_value :: "llm_usage_reason \<Rightarrow> string" where
  "lu_value LU_PRECLASSIFICATION = ''preclassification''"
| "lu_value LU_BLUEPRINT_MATCH = ''blueprintMatch''"
| "lu_value LU_OCR_MAPPING = ''ocrMapping''"
| "lu_value LU_CROP_DETECTION = ''cropDetection''"

datatype deletion_type = DEL_SOFT | DEL_HARD

fun del_value :: "deletion_type \<Rightarrow> string" where
  "del_value DEL_SOFT = ''soft''"
| "del_value DEL_HARD = ''hard''"

datatype bda_job_status =
  BDA_CREATED | BDA_IN_PROGRESS | BDA_SUCCESS | BDA_SERVICE_ERROR | BDA_CLIENT_ERROR

fun bda_value :: "bda_job_status \<Rightarrow> string" where
  "bda_value BDA_CREATED = ''Created''"
| "bda_value BDA_IN_PROGRESS = ''InProgress''"
| "bda_value BDA_SUCCESS = ''Success''"
| "bda_value BDA_SERVICE_ERROR = ''ServiceError''"
| "bda_value BDA_CLIENT_ERROR = ''ClientError''"

definition bda_is_running :: "string \<Rightarrow> bool" where
  "bda_is_running v = (v \<in> set (map bda_value [BDA_CREATED, BDA_IN_PROGRESS]))"

definition bda_is_completed :: "string \<Rightarrow> bool" where
  "bda_is_completed v = (v = bda_value BDA_SUCCESS)"

definition bda_is_failed :: "string \<Rightarrow> bool" where
  "bda_is_failed v = (v \<in> set (map bda_value [BDA_SERVICE_ERROR, BDA_CLIENT_ERROR]))"

section \<open>Response codes\<close>

abbreviation RC_SUCCESS :: string where "RC_SUCCESS \<equiv> ''000''"
abbreviation RC_NO_BLUEPRINT_MATCHED :: string where "RC_NO_BLUEPRINT_MATCHED \<equiv> ''002''"
abbreviation RC_AI_CONSENT_DECLINED :: string where "RC_AI_CONSENT_DECLINED \<equiv> ''003''"
abbreviation RC_PROCESSING_EXCLUDED :: string where "RC_PROCESSING_EXCLUDED \<equiv> ''004''"
abbreviation RC_SKIPPED_PER_PRECLASSIFICATION :: string where
  "RC_SKIPPED_PER_PRECLASSIFICATION \<equiv> ''005''"
abbreviation RC_BLUEPRINT_DISABLED :: string where "RC_BLUEPRINT_DISABLED \<equiv> ''006''"
abbreviation RC_MISSING_FIELDS :: string where "RC_MISSING_FIELDS \<equiv> ''101''"
abbreviation RC_MISCATEGORIZED :: string where "RC_MISCATEGORIZED \<equiv> ''102''"
abbreviation RC_NO_DOCUMENT_DETECTED :: string where "RC_NO_DOCUMENT_DETECTED \<equiv> ''103''"
abbreviation RC_BLURRY_DOCUMENT_DETECTED :: string where
  "RC_BLURRY_DOCUMENT_DETECTED \<equiv> ''104''"
abbreviation RC_LOW_EXTRACTION_CONFIDENCE :: string where
  "RC_LOW_EXTRACTION_CONFIDENCE \<equiv> ''105''"
abbreviation RC_PASSWORD_PROTECTED :: string where "RC_PASSWORD_PROTECTED \<equiv> ''106''"
abbreviation RC_MULTIPLE_DOCUMENTS_ON_SINGLE_PAGE :: string where
  "RC_MULTIPLE_DOCUMENTS_ON_SINGLE_PAGE \<equiv> ''400''"
abbreviation RC_MULTIPLE_DOCUMENTS_IN_MULTIPAGE :: string where
  "RC_MULTIPLE_DOCUMENTS_IN_MULTIPAGE \<equiv> ''401''"
abbreviation RC_INTERNAL_PROCESSING_ERROR :: string where
  "RC_INTERNAL_PROCESSING_ERROR \<equiv> ''999''"

definition response_messages :: "(string \<times> string) list" where
  "response_messages =
     [(RC_SUCCESS, ''Document validation passed''),
      (RC_PROCESSING_EXCLUDED, ''Document not chosen for extraction''),
      (RC_SKIPPED_PER_PRECLASSIFICATION, ''Skipped per preclassification''),
      (RC_BLUEPRINT_DISABLED, ''Tenant disabled blueprint''),
      (RC_NO_BLUEPRINT_MATCHED, ''No matching blueprint found''),
      (RC_AI_CONSENT_DECLINED, ''Document not processed - AI consent not provided''),
      (RC_MISSING_FIELDS, ''Missing fields''),
      (RC_MISCATEGORIZED, ''Document category mismatch''),
      (RC_LOW_EXTRACTION_CONFIDENCE, ''Average field confidence below tenant threshold''),
      (RC_PASSWORD_PROTECTED, ''Password protected document''),
      (RC_NO_DOCUMENT_DETECTED, ''No document detected''),
      (RC_BLURRY_DOCUMENT_DETECTED, ''Document is blurry''),
      (RC_MULTIPLE_DOCUMENTS_ON_SINGLE_PAGE, ''Multiple documents detected on single page''),
      (RC_MULTIPLE_DOCUMENTS_IN_MULTIPAGE,
         ''Pages are not continuations of a single document instance''),
      (RC_INTERNAL_PROCESSING_ERROR, ''Internal processing error'')]"

definition get_message :: "string \<Rightarrow> string" where
  "get_message code = (case map_of response_messages code of None \<Rightarrow> [] | Some m \<Rightarrow> m)"

definition evaluation_keys :: "(string \<times> string) list" where
  "evaluation_keys =
     [(RC_BLURRY_DOCUMENT_DETECTED, ''blur''),
      (RC_MISSING_FIELDS, ''missingFields''),
      (RC_MISCATEGORIZED, ''miscategorization''),
      (RC_LOW_EXTRACTION_CONFIDENCE, ''extractionConfidence''),
      (RC_PASSWORD_PROTECTED, ''passwordProtected''),
      (RC_NO_DOCUMENT_DETECTED, ''documentDetected'')]"

definition get_evaluation_key :: "string \<Rightarrow> string option" where
  "get_evaluation_key code = map_of evaluation_keys code"

definition is_document_type_identified :: "string \<Rightarrow> bool" where
  "is_document_type_identified code =
     (code \<in> {RC_SUCCESS, RC_MISSING_FIELDS, RC_MISCATEGORIZED, RC_LOW_EXTRACTION_CONFIDENCE})"

definition is_success_response_code :: "string \<Rightarrow> bool" where
  "is_success_response_code code = (case code of [] \<Rightarrow> False | c # _ \<Rightarrow> c = CHR ''0'')"

section \<open>Facts about the status classes\<close>

lemma ps_value_inject [simp]: "(ps_value a = ps_value b) = (a = b)"
  by (cases a; cases b; simp)

lemma all_process_status_complete: "a \<in> set all_process_status"
  by (cases a) (simp_all add: all_process_status_def)

lemma in_status_value [simp]: "in_status sts (ps_value a) = (a \<in> set sts)"
  by (induction sts) (auto simp: in_status_def)

lemma bs_value_inject [simp]: "(bs_value a = bs_value b) = (a = b)"
  by (cases a; cases b; simp)

lemma em_value_inject [simp]: "(em_value a = em_value b) = (a = b)"
  by (cases a; cases b; simp)

text \<open>From here on a status stays the member it is; its text is opened where it is compared.\<close>

declare ps_value.simps [simp del] bs_value.simps [simp del] em_value.simps [simp del]

lemmas status_classes = is_completed_def is_classified_def is_not_supported_def
  is_pending_extraction_def is_awaiting_processing_def is_successful_def

lemma non_terminal_not_classified: "st \<in> set non_terminal \<Longrightarrow> \<not> is_classified (ps_value st)"
  by (auto simp: non_terminal_def is_classified_def)

lemma in_status_imp_ex: "in_status sts v \<Longrightarrow> \<exists>a \<in> set sts. v = ps_value a"
  by (auto simp: in_status_def)

text \<open>Every document status is either classified (final) or in the list that the guarded
  writers accept as not final, and never both; so a guarded write is refused exactly on the
  statuses that send a record to the metrics queue.\<close>

theorem status_partition:
  "is_classified (ps_value st) = (\<not> in_status non_terminal (ps_value st))"
  by (cases st) (simp_all add: is_classified_def non_terminal_def)

text \<open>C40: The classes of a status are consistent: a completed, unsupported or successful status is
  classified, a status pending extraction or awaiting processing is not, and no unsupported status is
  completed or successful.\<close>

theorem status_class_inclusions:
  "(is_completed v \<or> is_not_supported v \<or> is_successful v \<longrightarrow> is_classified v) \<and>
   (is_pending_extraction v \<or> is_awaiting_processing v \<longrightarrow> \<not> is_classified v) \<and>
   (is_not_supported v \<longrightarrow> \<not> is_completed v \<and> \<not> is_successful v)"
proof (cases "\<exists>st. v = ps_value st")
  case True
  then obtain st where "v = ps_value st" by blast
  then show ?thesis by (cases st) (simp_all add: status_classes)
next
  case False
  then have "\<not> in_status sts v" for sts using in_status_imp_ex by blast
  then show ?thesis by (simp add: status_classes)
qed

lemma status_class_inclusions_witness:
  "is_completed (ps_value PS_SUCCESS) \<and> is_classified (ps_value PS_SUCCESS) \<and>
   is_not_supported (ps_value PS_PASSWORD_PROTECTED) \<and>
   \<not> is_completed (ps_value PS_PASSWORD_PROTECTED) \<and>
   is_awaiting_processing (ps_value PS_NOT_STARTED) \<and>
   \<not> is_classified (ps_value PS_NOT_STARTED)"
proof -
  have a: "is_completed (ps_value PS_SUCCESS)" by (simp add: is_completed_def)
  have b: "is_not_supported (ps_value PS_PASSWORD_PROTECTED)"
    by (simp add: is_not_supported_def)
  have c: "is_awaiting_processing (ps_value PS_NOT_STARTED)"
    by (simp add: is_awaiting_processing_def)
  show ?thesis
    using a b c status_class_inclusions [of "ps_value PS_SUCCESS"]
      status_class_inclusions [of "ps_value PS_PASSWORD_PROTECTED"]
      status_class_inclusions [of "ps_value PS_NOT_STARTED"] by blast
qed

end
