(* ===== verification/Py_Text.thy ===== *)
theory Py_Text
  imports Prelude "HOL-Library.Char_ord" "HOL-Library.List_Lexorder"
begin

text \<open>
  The string utilities of \<open>utils/strings.py\<close>, \<open>utils/s3.py\<close>, \<open>utils/dates.py\<close>,
  \<open>utils/numbers.py\<close> and \<open>utils/response_builder.py\<close>, over the Python string operations they
  use.  A string is a list of 8-bit characters; case conversion is the ASCII one.
\<close>

named_theorems text_defs "definitions of the string utilities, to evaluate them"

section \<open>Python string operations\<close>

definition char_lower :: "char \<Rightarrow> char" where
  "char_lower c = (let n = (of_char c :: nat) in if 65 \<le> n \<and> n \<le> 90 then char_of (n + 32) else c)"

definition char_upper :: "char \<Rightarrow> char" where
  "char_upper c = (let n = (of_char c :: nat) in if 97 \<le> n \<and> n \<le> 122 then char_of (n - 32) else c)"

definition str_lower :: "string \<Rightarrow> string" where
  "str_lower s = map char_lower s"

definition str_upper :: "string \<Rightarrow> string" where
  "str_upper s = map char_upper s"

definition str_capitalize :: "string \<Rightarrow> string" where
  "str_capitalize s = (case s of [] \<Rightarrow> [] | c # cs \<Rightarrow> char_upper c # str_lower cs)"

definition starts_with :: "string \<Rightarrow> string \<Rightarrow> bool" where
  "starts_with p s = (take (length p) s = p)"

definition ends_with :: "string \<Rightarrow> string \<Rightarrow> bool" where
  "ends_with p s = (drop (length s - length p) s = p)"

fun contains_sub :: "string \<Rightarrow> string \<Rightarrow> bool" where
  "contains_sub p [] = (p = [])"
| "contains_sub p (c # cs) = (starts_with p (c # cs) \<or> contains_sub p cs)"

fun split_on :: "char \<Rightarrow> string \<Rightarrow> string list" where
  "split_on c [] = [[]]"
| "split_on c (x # xs) =
     (if x = c then [] # split_on c xs
      else (case split_on c xs of [] \<Rightarrow> [[x]] | p # ps \<Rightarrow> (x # p) # ps))"

fun str_join :: "string \<Rightarrow> string list \<Rightarrow> string" where
  "str_join sep [] = []"
| "str_join sep [s] = s"
| "str_join sep (s # t # ts) = s @ sep @ str_join sep (t # ts)"

text \<open>\<open>s.partition(c)\<close> without the separator itself: what stands before and after the first \<open>c\<close>.\<close>

definition partition_at :: "char \<Rightarrow> string \<Rightarrow> string \<times> string" where
  "partition_at c s = (takeWhile (\<lambda>x. x \<noteq> c) s, drop 1 (dropWhile (\<lambda>x. x \<noteq> c) s))"

definition strip_char :: "char \<Rightarrow> string \<Rightarrow> string" where
  "strip_char c s = rev (dropWhile (\<lambda>x. x = c) (rev (dropWhile (\<lambda>x. x = c) s)))"

text \<open>Space characters (of ASCII) as \<open>str.strip\<close> takes them.\<close>

definition is_space :: "char \<Rightarrow> bool" where
  "is_space c = (let n = (of_char c :: nat) in n = 32 \<or> 9 \<le> n \<and> n \<le> 13 \<or> 28 \<le> n \<and> n \<le> 31)"

definition str_strip :: "string \<Rightarrow> string" where
  "str_strip s = rev (dropWhile is_space (rev (dropWhile is_space s)))"

lemma split_on_nonempty [simp]: "split_on c s \<noteq> []"
  by (induction s) (auto split: list.splits)

lemma join_split: "str_join [c] (split_on c s) = s"
proof (induction s)
  case Nil
  then show ?case by simp
next
  case (Cons x xs)
  obtain p ps where ps: "split_on c xs = p # ps" by (cases "split_on c xs") auto
  with Cons show ?case by (cases ps) auto
qed

lemma split_join:
  "ss \<noteq> [] \<Longrightarrow> (\<And>s. s \<in> set ss \<Longrightarrow> c \<notin> set s) \<Longrightarrow> split_on c (str_join [c] ss) = ss"
proof (induction "[c]" ss rule: str_join.induct)
  case 1
  then show ?case by simp
next
  case (2 s)
  then have "c \<notin> set s" by simp
  then show ?case by (induction s) auto
next
  case (3 s t ts)
  then have IH: "split_on c (str_join [c] (t # ts)) = t # ts" and s: "c \<notin> set s" by auto
  from s have "split_on c (s @ [c] @ str_join [c] (t # ts)) = s # t # ts"
    by (induction s) (auto simp: IH)
  then show ?case by simp
qed

lemma split_on_no_sep: "s \<in> set (split_on c t) \<Longrightarrow> c \<notin> set s"
proof (induction t arbitrary: s)
  case Nil
  then show ?case by simp
next
  case (Cons x xs)
  obtain p ps where ps: "split_on c xs = p # ps" by (cases "split_on c xs") auto
  with Cons show ?case by (auto split: if_splits)
qed

lemma starts_with_append: "starts_with p (p @ s)"
  by (simp add: starts_with_def)

lemma starts_with_iff: "starts_with p s \<longleftrightarrow> (\<exists>t. s = p @ t)"
  unfolding starts_with_def by (metis append_eq_conv_conj append_take_drop_id)

section \<open>Names and dates\<close>

definition snake_to_camel :: "string \<Rightarrow> string" where
  "snake_to_camel s =
     (case split_on CHR ''_'' s of [] \<Rightarrow> []
      | c # cs \<Rightarrow> str_lower c @ concat (map str_capitalize cs))"

definition strip_time :: "string \<Rightarrow> string" where
  "strip_time v = (if CHR ''T'' \<in> set v then hd (split_on CHR ''T'' v) else v)"

definition get_month_prefix :: "string \<Rightarrow> string" where
  "get_month_prefix d = take 7 d"

lemma split_on_hd: "hd (split_on c s) = takeWhile (\<lambda>x. x \<noteq> c) s"
  by (induction s) (auto split: list.splits)

lemma strip_time_eq: "strip_time v = takeWhile (\<lambda>x. x \<noteq> CHR ''T'') v"
  by (auto simp: strip_time_def split_on_hd intro!: takeWhile_eq_all_conv [THEN iffD2, symmetric])

lemma strip_time_idem: "strip_time (strip_time v) = strip_time v"
  by (simp add: strip_time_eq)

section \<open>S3 locations\<close>

definition parse_s3_uri :: "string \<Rightarrow> exn + (string \<times> string)" where
  "parse_s3_uri uri =
     (if starts_with ''s3://'' uri then Inr (partition_at CHR ''/'' (drop 5 uri))
      else Inl (ValueErr (''Invalid S3 URI: '' @ uri)))"

definition build_s3_key :: "string list \<Rightarrow> string" where
  "build_s3_key parts = str_join ''/'' (map (strip_char CHR ''/'') (filter (\<lambda>p. p \<noteq> []) parts))"

definition get_bucket_and_key :: "string \<Rightarrow> string option \<Rightarrow> string \<Rightarrow> exn + (string \<times> string)" where
  "get_bucket_and_key location_uri tenant_id file_name =
     (case parse_s3_uri location_uri of Inl e \<Rightarrow> Inl e
      | Inr (bucket, prefix) \<Rightarrow>
          Inr (bucket, build_s3_key
                 [prefix, (case tenant_id of None \<Rightarrow> [] | Some t \<Rightarrow> t), file_name]))"

definition generate_s3_uri :: "string \<Rightarrow> string \<Rightarrow> string \<Rightarrow> string \<Rightarrow> exn + string" where
  "generate_s3_uri location_uri tenant_id ddb_key extraction_method =
     (case get_bucket_and_key location_uri (Some tenant_id) (ddb_key @ ''/'' @ extraction_method) of
        Inl e \<Rightarrow> Inl e
      | Inr (bucket, key) \<Rightarrow> Inr (''s3://'' @ bucket @ ''/'' @ key))"

text \<open>\<open>os.path.basename\<close> and \<open>os.path.splitext\<close>: an extension needs a non-dot before its dot.\<close>

definition basename :: "string \<Rightarrow> string" where
  "basename p = rev (takeWhile (\<lambda>x. x \<noteq> CHR ''/'') (rev p))"

definition splitext :: "string \<Rightarrow> string \<times> string" where
  "splitext p =
     (let tail = basename p; dir = take (length p - length tail) p in
      if CHR ''.'' \<in> set tail then
        (let e = rev (takeWhile (\<lambda>x. x \<noteq> CHR ''.'') (rev tail));
             stem = take (length tail - length e - 1) tail
         in if list_ex (\<lambda>c. c \<noteq> CHR ''.'') stem then (dir @ stem, CHR ''.'' # e) else (p, []))
      else (p, []))"

definition get_truncated_object_key :: "string \<Rightarrow> string" where
  "get_truncated_object_key k = (case splitext k of (b, e) \<Rightarrow> b @ ''_truncated'' @ e)"

definition banned_ordinals :: "nat list" where
  "banned_ordinals = [34, 35, 37, 60, 62, 91, 92, 93, 94, 96, 123, 124, 125, 126]"

definition s3_unsafe :: "char \<Rightarrow> bool" where
  "s3_unsafe c = (let n = (of_char c :: nat) in n > 126 \<or> n < 32 \<or> n \<in> set banned_ordinals)"

definition sanitize_for_s3_key :: "string \<Rightarrow> string" where
  "sanitize_for_s3_key v = map (\<lambda>c. if s3_unsafe c then CHR ''_'' else c) v"

definition generate_unique_filename :: "string \<Rightarrow> string \<Rightarrow> exn + string" where
  "generate_unique_filename filename job_id =
     (if filename = [] then Inl (ValueErr ''Invalid filename'')
      else (case splitext (basename (sanitize_for_s3_key filename)) of
              (name, ext) \<Rightarrow> Inr (name @ ''-'' @ job_id @ ext)))"

lemma s3_unsafe_underscore [simp]: "\<not> s3_unsafe CHR ''_''"
  by (simp add: s3_unsafe_def banned_ordinals_def)

lemma sanitize_safe: "c \<in> set (sanitize_for_s3_key v) \<Longrightarrow> \<not> s3_unsafe c"
  by (auto simp: sanitize_for_s3_key_def split: if_splits)

lemma basename_no_slash: "CHR ''/'' \<notin> set (basename p)"
  by (auto simp: basename_def dest: set_takeWhileD)

lemma set_basename: "set (basename p) \<subseteq> set p"
  unfolding basename_def by (auto dest: set_takeWhileD)

lemma basename_suffix: "take (length p - length (basename p)) p @ basename p = p"
proof -
  have "rev p = rev (basename p) @ dropWhile (\<lambda>x. x \<noteq> CHR ''/'') (rev p)"
    by (simp add: basename_def)
  then have "p = rev (dropWhile (\<lambda>x. x \<noteq> CHR ''/'') (rev p)) @ basename p"
    by (metis rev_append rev_rev_ident)
  then show ?thesis
    by (metis append_eq_conv_conj diff_add_inverse2 length_append)
qed

lemma extension_suffix:
  fixes tail :: string
  assumes "CHR ''.'' \<in> set tail"
  defines "x \<equiv> rev (takeWhile (\<lambda>x. x \<noteq> CHR ''.'') (rev tail))"
  shows "take (length tail - length x - 1) tail @ CHR ''.'' # x = tail"
proof -
  obtain d where d: "dropWhile (\<lambda>x. x \<noteq> CHR ''.'') (rev tail) = CHR ''.'' # d"
    using assms(1) by (cases "dropWhile (\<lambda>x. x \<noteq> CHR ''.'') (rev tail)")
      (auto simp: dropWhile_eq_Cons_conv dropWhile_eq_Nil_conv)
  have "rev tail = rev x @ CHR ''.'' # d"
    unfolding x_def using d by (metis rev_rev_ident takeWhile_dropWhile_id)
  then have "tail = rev d @ CHR ''.'' # x"
    by (metis rev_append rev_rev_ident append_Cons append_Nil append_assoc rev.simps(2))
  then show ?thesis
    by (metis (no_types, lifting) append_eq_conv_conj diff_Suc_1 diff_add_inverse2 diff_diff_left
        length_Cons length_append length_rev plus_1_eq_Suc add.commute)
qed

lemma splitext_append: "splitext p = (b, e) \<Longrightarrow> b @ e = p"
  using basename_suffix [of p] extension_suffix [of "basename p"]
  by (auto simp: splitext_def Let_def simp del: length_rev split: if_splits)

section \<open>ARNs\<close>

definition extract_region_from_bda_arn :: "string \<Rightarrow> string option" where
  "extract_region_from_bda_arn arn =
     (let parts = split_on CHR '':'' arn in if 4 \<le> length parts then Some (parts ! 3) else None)"

definition bda_invocation_id :: "string \<Rightarrow> string" where
  "bda_invocation_id arn = last (split_on CHR ''/'' arn)"

section \<open>Calendar dates\<close>

text \<open>
  The UTC calendar date of an instant, as \<open>strftime("%Y-%m-%d")\<close> and \<open>date.isoformat()\<close> print it
  (four digits of year).  Years are counted from March, in eras of 400 years.
\<close>

definition civil_from_days :: "int \<Rightarrow> int \<times> int \<times> int" where
  "civil_from_days z0 =
     (let z = z0 + 719468; era = z div 146097; doe = z mod 146097;
          yoe = (doe - doe div 1460 + doe div 36524 - doe div 146096) div 365;
          doy = doe - (365 * yoe + yoe div 4 - yoe div 100);
          mp = (5 * doy + 2) div 153;
          d = doy - (153 * mp + 2) div 5 + 1;
          m = (if mp < 10 then mp + 3 else mp - 9);
          y = yoe + era * 400
      in (if m \<le> 2 then y + 1 else y, m, d))"

fun digits :: "nat \<Rightarrow> int \<Rightarrow> string" where
  "digits 0 x = []"
| "digits (Suc n) x = digits n (x div 10) @ [char_of (48 + nat (x mod 10))]"

definition date_str :: "rat \<Rightarrow> string" where
  "date_str t =
     (case civil_from_days (\<lfloor>t\<rfloor> div 86400) of
        (y, m, d) \<Rightarrow> digits 4 y @ ''-'' @ digits 2 m @ ''-'' @ digits 2 d)"

lemma length_digits [simp]: "length (digits n x) = n"
  by (induction n arbitrary: x) auto

lemma length_date_str: "length (date_str t) = 10"
  by (simp add: date_str_def split: prod.splits)

lemma get_month_prefix_date: "length (get_month_prefix (date_str t)) = 7"
  by (simp add: get_month_prefix_def length_date_str)

lemma date_str_example: "date_str 1751328000 = ''2025-07-01''"
  by code_simp

end
