(* ===== verification/Dynamo.thy ===== *)
theory Dynamo
  imports Processing_Status Py_Text
begin

text \<open>
  The tables the program keeps its state in, and \<open>services/ddb.py\<close>, through which it reaches them.

  DynamoDB itself is not part of the repository.  Its table client is a parameter: the record
  \<open>client\<close> of the operations the program calls, which may fail in any way and may keep a state of
  its own.  The expressions the program hands to it (\<open>SET\<close>, \<open>ADD\<close>, \<open>REMOVE\<close>, \<open>if_not_exists\<close>,
  \<open>attribute_not_exists\<close>, \<open>IN\<close>, \<open>=\<close>, \<open>>\<close>) are the data types \<open>upd\<close> and \<open>cond\<close>, with the meaning
  DynamoDB documents for them.  What the program relies on is the locale \<open>ddb_laws\<close>: a read,
  a query and a scan return what is stored, an update is atomic, is applied only where its condition holds, and
  touches no other item, and an operation that reports an error has written nothing.
  \<open>reliable_ddb\<close> adds that no operation fails for another reason.  \<open>mem_client\<close> is an executable
  client that meets both, with which the theorems are evaluated.
\<close>

section \<open>Expressions\<close>

datatype tname =
    DocumentMetadataT
  | DocumentBatchesT
  | DocumentBuildsT
  | TenantsT
  | TenantRequestCountsT
  | ApiKeysT
  | ExtractionRulesT
  | DocumentCategoriesT
  | AuditEventsT

fun key_fields :: "tname \<Rightarrow> string list" where
  "key_fields DocumentMetadataT = [''fileName'']"
| "key_fields DocumentBatchesT = [''batchId'']"
| "key_fields DocumentBuildsT = [''buildId'', ''pageNumber'']"
| "key_fields TenantsT = [''tenantId'']"
| "key_fields TenantRequestCountsT = [''tenantId'', ''date'']"
| "key_fields ApiKeysT = [''keyHash'']"
| "key_fields ExtractionRulesT = [''tenantId'', ''documentType'']"
| "key_fields DocumentCategoriesT = [''tenantId'', ''categoryName'']"
| "key_fields AuditEventsT = [''tenantId'', ''timestamp#eventId'']"

definition key_of :: "tname \<Rightarrow> dict \<Rightarrow> dict" where
  "key_of T item = map (\<lambda>a. (a, dget item a)) (key_fields T)"

datatype upd =
    USet string pyval
  | USetIfNotExists string pyval
  | USetPath string string pyval
  | UAdd string rat
  | URemove string

datatype cond =
    CTrue
  | CNotExists string
  | CEq string pyval
  | CIn string "pyval list"
  | CGt string rat
  | COr cond cond

fun cond_holds :: "cond \<Rightarrow> dict \<Rightarrow> bool" where
  "cond_holds CTrue item = True"
| "cond_holds (CNotExists a) item = (\<not> has_key item a)"
| "cond_holds (CEq a v) item = (map_of item a = Some v)"
| "cond_holds (CIn a vs) item = (\<exists>v \<in> set vs. map_of item a = Some v)"
| "cond_holds (CGt a x) item = (case map_of item a of Some (PNum y) \<Rightarrow> x < y | _ \<Rightarrow> False)"
| "cond_holds (COr c d) item = (cond_holds c item \<or> cond_holds d item)"

fun upd_attr :: "upd \<Rightarrow> string" where
  "upd_attr (USet a v) = a"
| "upd_attr (USetIfNotExists a v) = a"
| "upd_attr (USetPath a k v) = a"
| "upd_attr (UAdd a n) = a"
| "upd_attr (URemove a) = a"

text \<open>
  The operands of an action read the item as it was before the update.  An action on a path into
  a map fails where the map is absent, \<open>ADD\<close> where the attribute is not a number, and an
  expression is rejected whole when two of its paths overlap or it touches a key attribute.
\<close>

fun apply_upd :: "dict \<Rightarrow> upd \<Rightarrow> dict \<Rightarrow> dict option" where
  "apply_upd old (USet a v) acc = Some (dset a v acc)"
| "apply_upd old (USetIfNotExists a v) acc = Some (if has_key old a then acc else dset a v acc)"
| "apply_upd old (USetPath a k v) acc =
     (case map_of acc a of Some (PDict d) \<Rightarrow> Some (dset a (PDict (dset k v d)) acc) | _ \<Rightarrow> None)"
| "apply_upd old (UAdd a n) acc =
     (case map_of old a of
        None \<Rightarrow> Some (dset a (PNum n) acc)
      | Some (PNum m) \<Rightarrow> Some (dset a (PNum (m + n)) acc)
      | _ \<Rightarrow> None)"
| "apply_upd old (URemove a) acc = Some (filter (\<lambda>(b, _). b \<noteq> a) acc)"

fun apply_upds :: "dict \<Rightarrow> upd list \<Rightarrow> dict \<Rightarrow> dict option" where
  "apply_upds old [] acc = Some acc"
| "apply_upds old (u # us) acc =
     (case apply_upd old u acc of None \<Rightarrow> None | Some acc' \<Rightarrow> apply_upds old us acc')"

fun same_path :: "upd \<Rightarrow> upd \<Rightarrow> bool" where
  "same_path (USetPath a k _) (USetPath b l _) = (a = b \<and> k = l)"
| "same_path u w = (upd_attr u = upd_attr w)"

fun overlapping :: "upd list \<Rightarrow> bool" where
  "overlapping [] = False"
| "overlapping (u # us) = (list_ex (same_path u) us \<or> overlapping us)"

definition updated_item :: "dict \<Rightarrow> dict option \<Rightarrow> upd list \<Rightarrow> dict option" where
  "updated_item key item us =
     (if overlapping us \<or> list_ex (\<lambda>u. has_key key (upd_attr u)) us then None
      else let base = opt_default key item in apply_upds base us base)"

section \<open>The table client and the program's world\<close>

datatype keycond = KEq string pyval | KBegins string string | KLt string pyval

fun keycond_holds :: "dict \<Rightarrow> keycond \<Rightarrow> bool" where
  "keycond_holds item (KEq a v) = (map_of item a = Some v)"
| "keycond_holds item (KBegins a p) =
     (case map_of item a of Some (PStr s) \<Rightarrow> starts_with p s | _ \<Rightarrow> False)"
| "keycond_holds item (KLt a v) =
     (case (map_of item a, v) of (Some (PTime s), PTime t) \<Rightarrow> s < t | _ \<Rightarrow> False)"

text \<open>A query or scan returns its pages in order; each page but the last carries a
  \<open>LastEvaluatedKey\<close>.\<close>

record 't client =
  db_get :: "tname \<Rightarrow> dict \<Rightarrow> ('t, dict option) prog"
  db_put :: "tname \<Rightarrow> dict \<Rightarrow> cond \<Rightarrow> ('t, unit) prog"
  db_update :: "tname \<Rightarrow> dict \<Rightarrow> upd list \<Rightarrow> cond \<Rightarrow> ('t, dict) prog"
  db_delete :: "tname \<Rightarrow> dict \<Rightarrow> ('t, unit) prog"
  db_query :: "tname \<Rightarrow> keycond list \<Rightarrow> ('t, dict list list) prog"
  db_scan :: "tname \<Rightarrow> ('t, dict list list) prog"

text \<open>A write to S3: an upload has a bucket, a key, a body, a content type and its metadata.\<close>

datatype s3_op =
    S3Put string string pyval "string option" dict
  | S3Delete string string
  | S3DeletePrefix string string

text \<open>
  The world a program runs in: the tables, the messages handed to SQS (queue and body, in order),
  the writes made to S3, the invocations of the external engines, and the in-memory structures of
  the container: the cache of \<open>utils/cache.py\<close>, the registered categories, the times at which the
  last use of a key was written and the pepper, once it has been asked for.
\<close>

record 't world =
  store :: 't
  outbox :: "(string \<times> pyval) list"
  s3_writes :: "s3_op list"
  invocations :: "(string \<times> pyval) list"
  cache_items :: "(string \<times> pyval \<times> rat) list"
  registered_categories :: "(string \<times> string) list"
  last_used_written :: "(string \<times> rat) list"
  pepper_cached :: "string option option"

text \<open>
  The environment of one invocation.  The clock is read as the value \<open>now\<close>; SQS, the reads of S3
  objects and the failures of the writes to it, the identifiers it draws (by position), the
  feature flags (which the code reads through SSM with a default, so that reading one never
  raises) and the configuration are functions of it.
\<close>

record 't env =
  client :: "'t client"
  now :: rat
  metrics_queue_url :: "string option"
  sqs_error :: "string \<Rightarrow> pyval \<Rightarrow> exn option"
  s3_last_modified :: "string \<Rightarrow> string \<Rightarrow> exn + rat"
  s3_object :: "string \<Rightarrow> string \<Rightarrow> exn + pyval"
  feature_flag :: "string \<Rightarrow> bool"
  field_label :: "pyval \<Rightarrow> string \<Rightarrow> string"
  table_configured :: "tname \<Rightarrow> bool"
  output_location :: "string option"
  input_location :: "string option"
  preprocessing_location :: "string option"
  s3_error :: "s3_op \<Rightarrow> exn option"
  fresh_id :: "nat \<Rightarrow> string"

type_synonym ('t, 'a) wprog = "('t world, 'a) prog"

definition is_missing_geo_included_with_missing_fields :: "'t env \<Rightarrow> bool" where
  "is_missing_geo_included_with_missing_fields e =
     feature_flag e ''include-missing-geo-with-missing-fields''"

definition on_store :: "('t, 'a) prog \<Rightarrow> ('t, 'a) wprog" where
  "on_store m = (\<lambda>w. case m (store w) of (r, t) \<Rightarrow> (r, w\<lparr>store := t\<rparr>))"

definition item_in :: "('t \<Rightarrow> tname \<Rightarrow> dict \<Rightarrow> dict option) \<Rightarrow> 't world \<Rightarrow> tname \<Rightarrow> dict \<Rightarrow> dict option" where
  "item_in look w = look (store w)"

section \<open>services/ddb.py\<close>

definition get_item :: "'t env \<Rightarrow> tname \<Rightarrow> dict \<Rightarrow> ('t, dict option) wprog" where
  "get_item e T key = on_store (db_get (client e) T key)"

definition put_item :: "'t env \<Rightarrow> tname \<Rightarrow> dict \<Rightarrow> cond \<Rightarrow> ('t, unit) wprog" where
  "put_item e T item c = on_store (db_put (client e) T item c)"

definition update_item :: "'t env \<Rightarrow> tname \<Rightarrow> dict \<Rightarrow> upd list \<Rightarrow> cond \<Rightarrow> ('t, dict) wprog" where
  "update_item e T key us c = on_store (db_update (client e) T key us c)"

definition delete_item :: "'t env \<Rightarrow> tname \<Rightarrow> dict \<Rightarrow> ('t, unit) wprog" where
  "delete_item e T key = on_store (db_delete (client e) T key)"

fun first_page :: "dict list list \<Rightarrow> dict list" where
  "first_page [] = []"
| "first_page (p # ps) = p"

fun collect_pages :: "dict list \<Rightarrow> dict list list \<Rightarrow> dict list" where
  "collect_pages items [] = items"
| "collect_pages items (p # ps) = collect_pages (items @ p) ps"

definition query_by_pk :: "'t env \<Rightarrow> tname \<Rightarrow> string \<Rightarrow> string \<Rightarrow> ('t, dict list) wprog" where
  "query_by_pk e T pk v =
     bindP (on_store (db_query (client e) T [KEq pk (PStr v)])) (\<lambda>pages. ret (first_page pages))"

definition scan :: "'t env \<Rightarrow> tname \<Rightarrow> ('t, dict list) wprog" where
  "scan e T =
     bindP (on_store (db_scan (client e) T)) (\<lambda>pages. ret (collect_pages [] pages))"

definition query_by_key ::
  "'t env \<Rightarrow> tname \<Rightarrow> string \<Rightarrow> string \<Rightarrow> (string \<times> string) option \<Rightarrow> ('t, dict list) wprog" where
  "query_by_key e T pk v sk =
     bindP (on_store (db_query (client e) T
              (KEq pk (PStr v) #
               (case sk of Some (a, x) \<Rightarrow> if a \<noteq> [] \<and> x \<noteq> [] then [KEq a (PStr x)] else []
                | None \<Rightarrow> []))))
       (\<lambda>pages. ret (collect_pages [] pages))"

lemma collect_pages_concat: "collect_pages items ps = items @ concat ps"
  by (induction ps arbitrary: items) auto

section \<open>What the program relies on\<close>

locale ddb_laws =
  fixes look :: "'t \<Rightarrow> tname \<Rightarrow> dict \<Rightarrow> dict option"
    and D :: "'t client"
  assumes get_frame: "db_get D T k t = (r, t') \<Longrightarrow> look t' = look t"
    and get_val: "db_get D T k t = (Inr x, t') \<Longrightarrow> x = look t T k"
    and put_ok: "db_put D T it c t = (Inr u, t') \<Longrightarrow>
      cond_holds c (opt_default [] (look t T (key_of T it))) \<and>
      look t' = (look t)(T := (look t T)(key_of T it \<mapsto> it))"
    and put_err: "db_put D T it c t = (Inl err, t') \<Longrightarrow> look t' = look t"
    and put_refused: "db_put D T it c t = (Inl ConditionalCheckFailed, t') \<Longrightarrow>
      \<not> cond_holds c (opt_default [] (look t T (key_of T it)))"
    and update_ok: "db_update D T k us c t = (Inr it, t') \<Longrightarrow>
      cond_holds c (opt_default [] (look t T k)) \<and> updated_item k (look t T k) us = Some it \<and>
      look t' = (look t)(T := (look t T)(k \<mapsto> it))"
    and update_err: "db_update D T k us c t = (Inl err, t') \<Longrightarrow> look t' = look t"
    and update_refused: "db_update D T k us c t = (Inl ConditionalCheckFailed, t') \<Longrightarrow>
      \<not> cond_holds c (opt_default [] (look t T k))"
    and delete_ok: "db_delete D T k t = (Inr u, t') \<Longrightarrow>
      look t' = (look t)(T := (look t T)(k := None))"
    and delete_err: "db_delete D T k t = (Inl err, t') \<Longrightarrow> look t' = look t"
    and query_frame: "db_query D T ks t = (r2, t') \<Longrightarrow> look t' = look t"
    and query_sound: "db_query D T ks t = (Inr pages, t') \<Longrightarrow> it \<in> set (concat pages) \<Longrightarrow>
      \<forall>kc \<in> set ks. keycond_holds it kc"
    and scan_frame: "db_scan D T t = (r2, t') \<Longrightarrow> look t' = look t"
    and scan_sound: "db_scan D T t = (Inr pages, t') \<Longrightarrow> it \<in> set (concat pages) \<Longrightarrow>
      \<exists>k. look t T k = Some it"

locale reliable_ddb = ddb_laws +
  assumes get_total: "\<exists>t'. db_get D T k t = (Inr (look t T k), t')"
    and put_total: "cond_holds c (opt_default [] (look t T (key_of T it))) \<Longrightarrow>
      \<exists>t'. db_put D T it c t = (Inr (), t')"
    and put_fails: "\<not> cond_holds c (opt_default [] (look t T (key_of T it))) \<Longrightarrow>
      \<exists>t'. db_put D T it c t = (Inl ConditionalCheckFailed, t')"
    and update_total: "cond_holds c (opt_default [] (look t T k)) \<Longrightarrow>
      updated_item k (look t T k) us = Some it \<Longrightarrow> \<exists>t'. db_update D T k us c t = (Inr it, t')"
    and update_fails: "\<not> cond_holds c (opt_default [] (look t T k)) \<Longrightarrow>
      \<exists>t'. db_update D T k us c t = (Inl ConditionalCheckFailed, t')"
    and update_invalid: "cond_holds c (opt_default [] (look t T k)) \<Longrightarrow>
      updated_item k (look t T k) us = None \<Longrightarrow>
      \<exists>t'. db_update D T k us c t = (Inl (ClientErr ''ValidationException''), t')"
    and delete_total: "\<exists>t'. db_delete D T k t = (Inr (), t')"
    and query_total: "\<exists>pages t'. db_query D T ks t = (Inr pages, t') \<and>
      set (concat pages) = {it. (\<exists>k. look t T k = Some it) \<and> (\<forall>kc \<in> set ks. keycond_holds it kc)}"
    and scan_total: "\<exists>pages t'. db_scan D T t = (Inr pages, t') \<and>
      set (concat pages) = {it. \<exists>k. look t T k = Some it}"


section \<open>An executable client\<close>

text \<open>The tables as one association list from a table and a key to an item.\<close>

type_synonym mem = "((tname \<times> dict) \<times> dict) list"

definition mem_look :: "mem \<Rightarrow> tname \<Rightarrow> dict \<Rightarrow> dict option" where
  "mem_look t T k = map_of t (T, k)"

definition mem_get :: "tname \<Rightarrow> dict \<Rightarrow> (mem, dict option) prog" where
  "mem_get T k t = (Inr (mem_look t T k), t)"

definition mem_put :: "tname \<Rightarrow> dict \<Rightarrow> cond \<Rightarrow> (mem, unit) prog" where
  "mem_put T it c t =
     (if cond_holds c (opt_default [] (mem_look t T (key_of T it)))
      then (Inr (), AList.update (T, key_of T it) it t) else (Inl ConditionalCheckFailed, t))"

definition mem_update :: "tname \<Rightarrow> dict \<Rightarrow> upd list \<Rightarrow> cond \<Rightarrow> (mem, dict) prog" where
  "mem_update T k us c t =
     (if cond_holds c (opt_default [] (mem_look t T k)) then
        (case updated_item k (mem_look t T k) us of
           None \<Rightarrow> (Inl (ClientErr ''ValidationException''), t)
         | Some it \<Rightarrow> (Inr it, AList.update (T, k) it t))
      else (Inl ConditionalCheckFailed, t))"

definition mem_delete :: "tname \<Rightarrow> dict \<Rightarrow> (mem, unit) prog" where
  "mem_delete T k t = (Inr (), AList.delete (T, k) t)"

definition mem_items :: "tname \<Rightarrow> mem \<Rightarrow> dict list" where
  "mem_items T t = map snd (filter (\<lambda>((U, k), it). U = T) (AList.clearjunk t))"

definition mem_query :: "tname \<Rightarrow> keycond list \<Rightarrow> (mem, dict list list) prog" where
  "mem_query T ks t =
     (Inr [filter (\<lambda>it. list_all (keycond_holds it) ks) (mem_items T t)], t)"

definition mem_scan :: "tname \<Rightarrow> (mem, dict list list) prog" where
  "mem_scan T t = (Inr [mem_items T t], t)"

definition mem_client :: "mem client" where
  "mem_client = \<lparr>db_get = mem_get, db_put = mem_put, db_update = mem_update,
     db_delete = mem_delete, db_query = mem_query, db_scan = mem_scan\<rparr>"

lemmas mem_defs = mem_client_def mem_get_def mem_put_def mem_update_def mem_delete_def
  mem_query_def mem_scan_def

lemma mem_look_update [simp]:
  "mem_look (AList.update (T, k) it t) = (mem_look t)(T := (mem_look t T)(k \<mapsto> it))"
  by (auto simp: mem_look_def update_conv' fun_eq_iff)

lemma mem_look_delete [simp]:
  "mem_look (AList.delete (T, k) t) = (mem_look t)(T := (mem_look t T)(k := None))"
  by (auto simp: mem_look_def delete_conv' fun_eq_iff)

lemma mem_items_look: "it \<in> set (mem_items T t) \<longleftrightarrow> (\<exists>k. mem_look t T k = Some it)"
proof -
  have "it \<in> set (mem_items T t) \<longleftrightarrow> (\<exists>k. ((T, k), it) \<in> set (AList.clearjunk t))"
    unfolding mem_items_def by force
  also have "\<dots> \<longleftrightarrow> (\<exists>k. map_of (AList.clearjunk t) (T, k) = Some it)"
    by (simp add: map_of_eq_Some_iff distinct_clearjunk)
  finally show ?thesis by (simp add: mem_look_def map_of_clearjunk)
qed

interpretation mem: reliable_ddb mem_look mem_client
proof unfold_locales
  fix t T k it c us ks
  show "\<exists>pages t'. db_query mem_client T ks t = (Inr pages, t') \<and>
      set (concat pages) = {it. (\<exists>k. mem_look t T k = Some it) \<and> (\<forall>kc\<in>set ks. keycond_holds it kc)}"
    by (auto simp: mem_defs mem_items_look list_all_iff)
  show "\<exists>pages t'. db_scan mem_client T t = (Inr pages, t') \<and>
      set (concat pages) = {it. \<exists>k. mem_look t T k = Some it}"
    by (auto simp: mem_defs mem_items_look)
  show "\<exists>k. mem_look t T k = Some it"
    if "db_scan mem_client T t = (Inr pages, t')" "it \<in> set (concat pages)" for pages t'
    using that by (auto simp: mem_defs mem_items_look)
qed (auto simp: mem_defs list_all_iff split: if_splits option.splits)

lemmas mem_laws = mem.ddb_laws_axioms
lemmas mem_reliable = mem.reliable_ddb_axioms

definition base_env :: "mem env" where
  "base_env = \<lparr>client = mem_client, now = 0, metrics_queue_url = Some ''metrics'',
     sqs_error = (\<lambda>_ _. None), s3_last_modified = (\<lambda>_ _. Inl (ClientErr ''NoSuchKey'')),
     s3_object = (\<lambda>_ _. Inl (ClientErr ''NoSuchKey'')),
     feature_flag = (\<lambda>_. False), field_label = (\<lambda>_ f. f), table_configured = (\<lambda>_. True),
     output_location = None, input_location = Some ''s3://in'',
     preprocessing_location = Some ''s3://pre'', s3_error = (\<lambda>_. None),
     fresh_id = (\<lambda>n. ''id-'' @ nat_str n)\<rparr>"

definition world_of :: "mem \<Rightarrow> mem world" where
  "world_of t = \<lparr>store = t, outbox = [], s3_writes = [], invocations = [],
     cache_items = [], registered_categories = [], last_used_written = [], pepper_cached = None\<rparr>"

end
