(* ===== verification/Store_Reasoning.thy ===== *)
theory Store_Reasoning
  imports Dynamo
begin

text \<open>
  How the components reason about the tables: what an update expression does to one attribute,
  what one call of \<open>services/ddb.py\<close> does to the items, and the guarantees of the form
  ``whatever the program does, every item changes only in this way''.
\<close>

section \<open>What an update does to an attribute\<close>

lemma map_of_filter_key: "a \<noteq> b \<Longrightarrow> map_of (filter (\<lambda>(c, _). c \<noteq> b) d) a = map_of d a"
  by (induction d) auto

lemma apply_upd_other:
  "apply_upd old u acc = Some acc' \<Longrightarrow> a \<noteq> upd_attr u \<Longrightarrow> map_of acc' a = map_of acc a"
  by (induction old u acc rule: apply_upd.induct)
    (auto simp: map_of_filter_key split: option.splits pyval.splits if_splits)

lemma apply_upds_other:
  "apply_upds old us acc = Some acc' \<Longrightarrow> a \<notin> upd_attr ` set us \<Longrightarrow> map_of acc' a = map_of acc a"
proof (induction us arbitrary: acc)
  case (Cons u us)
  then obtain b where b: "apply_upd old u acc = Some b" "apply_upds old us b = Some acc'"
    by (auto split: option.splits)
  have "map_of acc' a = map_of b a" using Cons b by auto
  also have "\<dots> = map_of acc a" using Cons.prems b by (auto intro: apply_upd_other)
  finally show ?case .
qed simp

lemma same_path_attr: "\<not> same_path (USet a v) u \<Longrightarrow> upd_attr u \<noteq> a"
  by (cases u) auto

lemma same_path_attr_ifne: "\<not> same_path (USetIfNotExists a v) u \<Longrightarrow> upd_attr u \<noteq> a"
  by (cases u) auto

lemma same_path_attr_add: "\<not> same_path (UAdd a n) u \<Longrightarrow> upd_attr u \<noteq> a"
  by (cases u) auto

lemma apply_upds_at:
  assumes "apply_upds old us acc = Some acc'" "\<not> overlapping us" "u \<in> set us"
    and "\<And>x. \<not> same_path u x \<Longrightarrow> upd_attr x \<noteq> upd_attr u"
    and "\<And>x. \<not> same_path x u \<Longrightarrow> upd_attr x \<noteq> upd_attr u"
  shows "\<exists>b b'. map_of b (upd_attr u) = map_of acc (upd_attr u) \<and> apply_upd old u b = Some b' \<and>
    map_of acc' (upd_attr u) = map_of b' (upd_attr u)"
  using assms(1-3)
proof (induction us arbitrary: acc)
  case (Cons x us)
  then obtain b where b: "apply_upd old x acc = Some b" "apply_upds old us b = Some acc'"
    by (auto split: option.splits)
  show ?case
  proof (cases "x = u")
    case True
    have "upd_attr u \<notin> upd_attr ` set us"
      using Cons.prems(2) True assms(4) by (fastforce simp: list_ex_iff)
    then have "map_of acc' (upd_attr u) = map_of b (upd_attr u)"
      using b(2) by (auto intro: apply_upds_other)
    then show ?thesis using b True by blast
  next
    case False
    with Cons.prems have u: "u \<in> set us" by auto
    have "upd_attr x \<noteq> upd_attr u" using Cons.prems(2) u assms(5) by (auto simp: list_ex_iff)
    then have "map_of b (upd_attr u) = map_of acc (upd_attr u)"
      using b(1) by (auto intro: apply_upd_other)
    then show ?thesis using Cons.IH [OF b(2)] Cons.prems(2) u by auto
  qed
qed simp

lemma same_path_attr_r:
  "\<not> same_path x (USet a v) \<Longrightarrow> upd_attr x \<noteq> a"
  "\<not> same_path x (USetIfNotExists a v) \<Longrightarrow> upd_attr x \<noteq> a"
  "\<not> same_path x (UAdd a n) \<Longrightarrow> upd_attr x \<noteq> a"
  by (cases x; simp)+

lemma updated_item_other:
  "updated_item k it us = Some it' \<Longrightarrow> a \<notin> upd_attr ` set us \<Longrightarrow>
   map_of it' a = map_of (opt_default k it) a"
  by (auto simp: updated_item_def Let_def intro: apply_upds_other split: if_splits)

lemma updated_item_dget_other:
  "updated_item k it us = Some it' \<Longrightarrow> a \<notin> upd_attr ` set us \<Longrightarrow>
   dget it' a = dget (opt_default k it) a"
  by (simp add: dget_def updated_item_other)

lemma updated_item_at:
  assumes "updated_item k it us = Some it'" "u \<in> set us"
    and "\<And>x. \<not> same_path u x \<Longrightarrow> upd_attr x \<noteq> upd_attr u"
    and "\<And>x. \<not> same_path x u \<Longrightarrow> upd_attr x \<noteq> upd_attr u"
  obtains b b' where "map_of b (upd_attr u) = map_of (opt_default k it) (upd_attr u)"
    "apply_upd (opt_default k it) u b = Some b'" "map_of it' (upd_attr u) = map_of b' (upd_attr u)"
proof -
  have "apply_upds (opt_default k it) us (opt_default k it) = Some it'" "\<not> overlapping us"
    using assms(1) by (auto simp: updated_item_def Let_def split: if_splits)
  from apply_upds_at [OF this assms(2-4)] show ?thesis using that by blast
qed

lemma updated_item_set:
  assumes "updated_item k it us = Some it'" "USet a v \<in> set us"
  shows "map_of it' a = Some v"
  using updated_item_at [OF assms] same_path_attr same_path_attr_r(1) by (metis
      apply_upd.simps(1) map_of_dset fun_upd_same option.inject upd_attr.simps(1))

lemma updated_item_add:
  assumes "updated_item k it us = Some it'" "UAdd a n \<in> set us"
  shows "(map_of (opt_default k it) a = None \<and> map_of it' a = Some (PNum n)) \<or>
    (\<exists>m. map_of (opt_default k it) a = Some (PNum m) \<and> map_of it' a = Some (PNum (m + n)))"
proof -
  obtain b b' where b: "apply_upd (opt_default k it) (UAdd a n) b = Some b'"
      "map_of it' a = map_of b' a"
    using updated_item_at [OF assms] same_path_attr_add same_path_attr_r(3)
    by (metis upd_attr.simps(4))
  then show ?thesis by (auto split: option.splits pyval.splits)
qed

lemma updated_item_if_not_exists:
  assumes "updated_item k it us = Some it'" "USetIfNotExists a v \<in> set us"
  shows "map_of it' a =
    (if has_key (opt_default k it) a then map_of (opt_default k it) a else Some v)"
proof -
  obtain b b' where b: "map_of b a = map_of (opt_default k it) a"
      "apply_upd (opt_default k it) (USetIfNotExists a v) b = Some b'"
      "map_of it' a = map_of b' a"
    using updated_item_at [OF assms] same_path_attr_ifne same_path_attr_r(2)
    by (metis upd_attr.simps(2))
  then show ?thesis by auto
qed

lemma updated_item_key:
  "updated_item k it us = Some it' \<Longrightarrow> has_key k a \<Longrightarrow> map_of it' a = map_of (opt_default k it) a"
  by (intro updated_item_other) (auto simp: updated_item_def list_ex_iff split: if_splits)

lemma apply_upds_simple:
  "list_all (\<lambda>u. case u of USet a v \<Rightarrow> True | USetIfNotExists a v \<Rightarrow> True | URemove a \<Rightarrow> True
     | _ \<Rightarrow> False) us \<Longrightarrow> \<exists>it'. apply_upds old us acc = Some it'"
  by (induction us arbitrary: acc) (auto split: upd.splits)

section \<open>What one call does to the items\<close>

definition items_rel ::
  "('t \<Rightarrow> tname \<Rightarrow> dict \<Rightarrow> dict option) \<Rightarrow>
   (tname \<Rightarrow> dict \<Rightarrow> dict option \<Rightarrow> dict option \<Rightarrow> bool) \<Rightarrow> 't world \<Rightarrow> 't world \<Rightarrow> bool" where
  "items_rel look P w w' = (\<forall>T k. P T k (item_in look w T k) (item_in look w' T k))"

lemma on_store_run [prog_simps]:
  "on_store m w = (case m (store w) of (r, t) \<Rightarrow> (r, w\<lparr>store := t\<rparr>))"
  by (simp add: on_store_def)

lemma on_store_eq:
  "on_store m w = (r, w') \<Longrightarrow> m (store w) = (r, store w') \<and> outbox w' = outbox w"
  by (auto simp: on_store_def split: prod.splits)

locale service = ddb_laws look "client e"
  for look :: "'t \<Rightarrow> tname \<Rightarrow> dict \<Rightarrow> dict option" and e :: "'t env"
begin

lemma get_item_ok:
  "get_item e T k w = (Inr x, w') \<Longrightarrow> x = item_in look w T k"
  unfolding get_item_def item_in_def by (auto dest!: on_store_eq get_val)

lemma get_item_frame:
  "get_item e T k w = (r, w') \<Longrightarrow> item_in look w' = item_in look w \<and> outbox w' = outbox w"
  unfolding get_item_def item_in_def by (auto dest!: on_store_eq dest: get_frame)

lemma update_item_ok:
  "update_item e T k us c w = (Inr it, w') \<Longrightarrow>
   cond_holds c (opt_default [] (item_in look w T k)) \<and>
   updated_item k (item_in look w T k) us = Some it \<and>
   item_in look w' = (item_in look w)(T := (item_in look w T)(k \<mapsto> it)) \<and> outbox w' = outbox w"
  unfolding update_item_def item_in_def
  by (auto dest!: on_store_eq dest: update_ok)

lemma update_item_err:
  "update_item e T k us c w = (Inl x, w') \<Longrightarrow>
   item_in look w' = item_in look w \<and> outbox w' = outbox w \<and>
   (x = ConditionalCheckFailed \<longrightarrow> \<not> cond_holds c (opt_default [] (item_in look w T k)))"
  unfolding update_item_def item_in_def
  by (auto dest!: on_store_eq dest: update_err update_refused)

lemma put_item_ok:
  "put_item e T it c w = (Inr u, w') \<Longrightarrow>
   cond_holds c (opt_default [] (item_in look w T (key_of T it))) \<and>
   item_in look w' = (item_in look w)(T := (item_in look w T)(key_of T it \<mapsto> it)) \<and>
   outbox w' = outbox w"
  unfolding put_item_def item_in_def
  by (auto dest!: on_store_eq dest: put_ok)

lemma put_item_err:
  "put_item e T it c w = (Inl x, w') \<Longrightarrow>
   item_in look w' = item_in look w \<and> outbox w' = outbox w \<and>
   (x = ConditionalCheckFailed \<longrightarrow>
      \<not> cond_holds c (opt_default [] (item_in look w T (key_of T it))))"
  unfolding put_item_def item_in_def
  by (auto dest!: on_store_eq dest: put_err put_refused)

lemma delete_item_ok:
  "delete_item e T k w = (Inr u, w') \<Longrightarrow>
   item_in look w' = (item_in look w)(T := (item_in look w T)(k := None)) \<and> outbox w' = outbox w"
  unfolding delete_item_def item_in_def
  by (auto dest!: on_store_eq dest: delete_ok)

lemma delete_item_err:
  "delete_item e T k w = (Inl x, w') \<Longrightarrow> item_in look w' = item_in look w \<and> outbox w' = outbox w"
  unfolding delete_item_def item_in_def
  by (auto dest!: on_store_eq dest: delete_err)

lemma query_store_frame:
  "on_store (db_query (client e) T ks) w = (r, w') \<Longrightarrow>
   item_in look w' = item_in look w \<and> outbox w' = outbox w"
  unfolding item_in_def
  by (auto dest!: on_store_eq dest: query_frame)

lemma scan_store_frame:
  "on_store (db_scan (client e) T) w = (r, w') \<Longrightarrow>
   item_in look w' = item_in look w \<and> outbox w' = outbox w"
  unfolding item_in_def
  by (auto dest!: on_store_eq dest: scan_frame)

end

locale reliable_service = reliable_ddb look "client e"
  for look :: "'t \<Rightarrow> tname \<Rightarrow> dict \<Rightarrow> dict option" and e :: "'t env"

sublocale reliable_service \<subseteq> service
  by unfold_locales

context reliable_service begin

lemma get_item_total:
  obtains w' where "get_item e T k w = (Inr (item_in look w T k), w')"
    "item_in look w' = item_in look w" "outbox w' = outbox w"
proof -
  obtain t' where "db_get (client e) T k (store w) = (Inr (look (store w) T k), t')"
    using get_total by blast
  then have "get_item e T k w = (Inr (item_in look w T k), w\<lparr>store := t'\<rparr>)"
    by (simp add: get_item_def on_store_def item_in_def)
  then show ?thesis using that get_item_frame by blast
qed

lemma update_item_total:
  assumes "cond_holds c (opt_default [] (item_in look w T k))"
    and "updated_item k (item_in look w T k) us = Some it"
  obtains w' where "update_item e T k us c w = (Inr it, w')"
    "item_in look w' = (item_in look w)(T := (item_in look w T)(k \<mapsto> it))" "outbox w' = outbox w"
proof -
  obtain t' where "db_update (client e) T k us c (store w) = (Inr it, t')"
    using update_total assms unfolding item_in_def by blast
  then have "update_item e T k us c w = (Inr it, w\<lparr>store := t'\<rparr>)"
    by (simp add: update_item_def on_store_def)
  then show ?thesis using that update_item_ok by blast
qed

lemma update_item_refused:
  assumes "\<not> cond_holds c (opt_default [] (item_in look w T k))"
  obtains w' where "update_item e T k us c w = (Inl ConditionalCheckFailed, w')"
    "item_in look w' = item_in look w" "outbox w' = outbox w"
proof -
  obtain t' where "db_update (client e) T k us c (store w) = (Inl ConditionalCheckFailed, t')"
    using update_fails assms unfolding item_in_def by blast
  then have "update_item e T k us c w = (Inl ConditionalCheckFailed, w\<lparr>store := t'\<rparr>)"
    by (simp add: update_item_def on_store_def)
  then show ?thesis using that update_item_err by blast
qed

lemma update_item_rejected:
  assumes "cond_holds c (opt_default [] (item_in look w T k))"
    and "updated_item k (item_in look w T k) us = None"
  obtains w' where "update_item e T k us c w = (Inl (ClientErr ''ValidationException''), w')"
    "item_in look w' = item_in look w" "outbox w' = outbox w"
proof -
  obtain t' where
    "db_update (client e) T k us c (store w) = (Inl (ClientErr ''ValidationException''), t')"
    using update_invalid assms unfolding item_in_def by blast
  then have "update_item e T k us c w =
      (Inl (ClientErr ''ValidationException''), w\<lparr>store := t'\<rparr>)"
    by (simp add: update_item_def on_store_def)
  then show ?thesis using that update_item_err by blast
qed

lemma query_by_key_total:
  obtains items w' where "query_by_key e T a v None w = (Inr items, w')"
    "set items = {it. (\<exists>k. item_in look w T k = Some it) \<and> map_of it a = Some (PStr v)}"
    "item_in look w' = item_in look w" "outbox w' = outbox w"
proof -
  obtain pages t' where q: "db_query (client e) T [KEq a (PStr v)] (store w) = (Inr pages, t')"
    and pages: "set (concat pages) =
      {it. (\<exists>k. look (store w) T k = Some it) \<and> (\<forall>kc \<in> set [KEq a (PStr v)]. keycond_holds it kc)}"
    using query_total by blast
  have run: "on_store (db_query (client e) T [KEq a (PStr v)]) w = (Inr pages, w\<lparr>store := t'\<rparr>)"
    by (simp add: on_store_def q)
  have "query_by_key e T a v None w = (Inr (concat pages), w\<lparr>store := t'\<rparr>)"
    by (simp add: query_by_key_def bindP_run run collect_pages_concat)
  moreover have "set (concat pages) =
      {it. (\<exists>k. item_in look w T k = Some it) \<and> map_of it a = Some (PStr v)}"
    using pages by (simp add: item_in_def)
  ultimately show ?thesis using that query_store_frame [OF run] by blast
qed

end

lemma reliable_serviceI: "reliable_ddb look (client e) \<Longrightarrow> reliable_service look e"
  by (simp add: reliable_service_def)

lemma serviceI: "ddb_laws look (client e) \<Longrightarrow> service look e"
  by (simp add: service_def)

lemma client_base_env [simp]: "client base_env = mem_client"
  by (simp add: base_env_def)

interpretation base: reliable_service mem_look base_env
  by (rule reliable_serviceI) (simp add: mem_reliable)

section \<open>Guarantees on items\<close>

text \<open>
  \<open>P T k x y\<close> says how the item under a key of a table may change.  The reads keep every such
  relation; an update keeps it when each result its condition lets through does.
\<close>

locale item_order = service look e
  for look :: "'t \<Rightarrow> tname \<Rightarrow> dict \<Rightarrow> dict option" and e :: "'t env" +
  fixes P :: "tname \<Rightarrow> dict \<Rightarrow> dict option \<Rightarrow> dict option \<Rightarrow> bool"
  assumes P_refl: "P T k x x"
    and P_trans: "P T k x y \<Longrightarrow> P T k y z \<Longrightarrow> P T k x z"

sublocale item_order \<subseteq> order: state_order "items_rel look P"
  unfolding items_rel_def by unfold_locales (blast intro: P_refl P_trans)+

context item_order begin

lemma g_same: "(\<And>w r w'. m w = (r, w') \<Longrightarrow> item_in look w' = item_in look w) \<Longrightarrow>
  guarantees (items_rel look P) m"
  by (rule guaranteesI) (metis P_refl items_rel_def prod.collapse)

lemma g_get_item: "guarantees (items_rel look P) (get_item e T k)"
  by (rule g_same) (simp add: get_item_frame)

lemma g_query: "guarantees (items_rel look P) (on_store (db_query (client e) T ks))"
  by (rule g_same) (simp add: query_store_frame)

lemma g_scan: "guarantees (items_rel look P) (on_store (db_scan (client e) T))"
  by (rule g_same) (simp add: scan_store_frame)

lemma g_modifies: "(\<And>w. store (f w) = store w) \<Longrightarrow> guarantees (items_rel look P) (modifies f)"
  by (rule g_same) (auto simp: item_in_def modifies_def)

lemma g_update_item:
  assumes "\<And>it it'. cond_holds c (opt_default [] it) \<Longrightarrow> updated_item k it us = Some it' \<Longrightarrow>
    P T k it (Some it')"
  shows "guarantees (items_rel look P) (update_item e T k us c)"
proof (rule guaranteesI)
  fix w
  obtain r w' where r: "update_item e T k us c w = (r, w')"
    by (cases "update_item e T k us c w")
  show "items_rel look P w (snd (update_item e T k us c w))"
  proof (cases r)
    case (Inl x)
    then show ?thesis using r update_item_err [of T k us c w x w'] by (simp add: items_rel_def P_refl)
  next
    case (Inr it)
    then show ?thesis using r update_item_ok [of T k us c w it w'] assms
      by (auto simp: items_rel_def P_refl)
  qed
qed

lemma g_put_item:
  assumes "\<And>x. cond_holds c (opt_default [] x) \<Longrightarrow> P T (key_of T it) x (Some it)"
  shows "guarantees (items_rel look P) (put_item e T it c)"
proof (rule guaranteesI)
  fix w
  obtain r w' where r: "put_item e T it c w = (r, w')"
    by (cases "put_item e T it c w")
  show "items_rel look P w (snd (put_item e T it c w))"
  proof (cases r)
    case (Inl x)
    then show ?thesis using r put_item_err [of T it c w x w'] by (simp add: items_rel_def P_refl)
  next
    case (Inr u)
    then show ?thesis using r put_item_ok [of T it c w u w'] assms
      by (auto simp: items_rel_def P_refl)
  qed
qed

lemma g_delete_item:
  assumes "\<And>x. P T k x None"
  shows "guarantees (items_rel look P) (delete_item e T k)"
proof (rule guaranteesI)
  fix w
  obtain r w' where r: "delete_item e T k w = (r, w')"
    by (cases "delete_item e T k w")
  show "items_rel look P w (snd (delete_item e T k w))"
  proof (cases r)
    case (Inl x)
    then show ?thesis using r delete_item_err [of T k w x w'] by (simp add: items_rel_def P_refl)
  next
    case (Inr u)
    then show ?thesis using r delete_item_ok [of T k w u w'] assms
      by (auto simp: items_rel_def P_refl)
  qed
qed

lemma g_query_by_pk: "guarantees (items_rel look P) (query_by_pk e T pk v)"
  unfolding query_by_pk_def by (intro order.g_rules g_query)

lemma g_query_by_key: "guarantees (items_rel look P) (query_by_key e T pk v sk)"
  unfolding query_by_key_def by (intro order.g_rules g_query)

lemma g_scan_all: "guarantees (items_rel look P) (scan e T)"
  unfolding scan_def by (intro order.g_rules g_scan)

lemmas g_store = g_get_item g_modifies g_query_by_pk g_query_by_key g_scan_all g_query g_scan

end

end
