(* ===== verification/Document_Record.thy ===== *)
theory Document_Record
  imports Store_Reasoning
begin

text \<open>
  The record of a document in the document-metadata table: the data transfer objects of
  \<open>dtos/\<close>, the timing and field metrics of \<open>utils/extraction_timing.py\<close>, and the writers of
  \<open>utils/ddb.py\<close>.  An update expression is the list of its actions in the order in which the code
  appends them.
\<close>

section \<open>Data transfer objects\<close>

type_synonym scores = "(string \<times> rat) list list"

record extraction_result =
  er_document_type :: "string option"
  er_output_uri :: "string option"
  er_field_confidence_scores :: scores
  er_processing_started_at :: "rat option"
  er_processing_completed_at :: "rat option"
  er_processing_duration_seconds :: "rat option"
  er_field_empty_list :: "string list"
  er_field_missing_geometry_list :: "string list"
  er_matched_blueprint_name :: "string option"
  er_matched_blueprint_confidence :: "rat option"

record classification_data =
  cd_bda_output_s3_uri :: "string option"
  cd_matched_document_class :: "string option"
  cd_matched_blueprint_name :: "string option"
  cd_matched_blueprint_confidence :: "rat option"
  cd_field_confidence_scores :: "scores option"
  cd_field_below_threshold_list :: "string list option"
  cd_field_empty_list :: "string list option"
  cd_field_missing_geometry_list :: "string list option"
  cd_additional_info :: "string option"

definition from_extraction_result ::
  "extraction_result \<Rightarrow> string option \<Rightarrow> string option \<Rightarrow> classification_data" where
  "from_extraction_result r output_uri additional_info =
     \<lparr>cd_bda_output_s3_uri = output_uri,
      cd_matched_document_class = er_document_type r,
      cd_matched_blueprint_name = er_matched_blueprint_name r,
      cd_matched_blueprint_confidence = er_matched_blueprint_confidence r,
      cd_field_confidence_scores = Some (er_field_confidence_scores r),
      cd_field_below_threshold_list = None,
      cd_field_empty_list = Some (er_field_empty_list r),
      cd_field_missing_geometry_list = Some (er_field_missing_geometry_list r),
      cd_additional_info = additional_info\<rparr>"

record internal_api_response =
  validation_passed :: bool
  document_category :: "string option"
  matched_document_class :: "string option"
  response_code :: string
  response_message :: string

definition internal_response_dict :: "internal_api_response \<Rightarrow> dict" where
  "internal_response_dict r =
     [(''validation_passed'', PBool (validation_passed r)),
      (''document_category'', of_opt_str (document_category r)),
      (''matched_document_class'', of_opt_str (matched_document_class r)),
      (''response_code'', PStr (response_code r)),
      (''response_message'', PStr (response_message r))]"

record field_metrics =
  field_count :: nat
  field_count_not_empty :: nat
  field_not_empty_avg_confidence :: "rat option"

record processing_times =
  total_processing_time_seconds :: rat
  bda_processing_time_seconds :: rat

record update_ddb_record =
  ud_object_key :: string
  ud_status :: process_status
  ud_internal_api_response :: "internal_api_response option"
  ud_data :: "classification_data option"
  ud_bda_invocation_arn :: "string option"
  ud_bda_project_arn_used :: "string option"
  ud_used_category_specific_project :: bool
  ud_error_message :: "string option"
  ud_below_extraction_confidence_floor :: bool
  ud_extraction_rules_configured :: "bool option"
  ud_missing_required_field_list :: "string list option"
  ud_required_field_list :: "string list option"
  ud_applied_extraction_confidence_floor :: "rat option"
  ud_used_default_confidence_floor :: "bool option"
  ud_pages_sent_to_bda :: "nat option"
  ud_result_processor_started_at :: "pyval option"
  ud_bda_invoke_duration_seconds :: "rat option"
  ud_bda_invoke_retry_count :: "nat option"
  ud_extraction_method :: extract_method

definition update_record :: "string \<Rightarrow> process_status \<Rightarrow> update_ddb_record" where
  "update_record k st =
     \<lparr>ud_object_key = k, ud_status = st, ud_internal_api_response = None, ud_data = None,
      ud_bda_invocation_arn = None, ud_bda_project_arn_used = None,
      ud_used_category_specific_project = False, ud_error_message = None,
      ud_below_extraction_confidence_floor = False, ud_extraction_rules_configured = None,
      ud_missing_required_field_list = None, ud_required_field_list = None,
      ud_applied_extraction_confidence_floor = None, ud_used_default_confidence_floor = None,
      ud_pages_sent_to_bda = None, ud_result_processor_started_at = None,
      ud_bda_invoke_duration_seconds = None, ud_bda_invoke_retry_count = None,
      ud_extraction_method = EM_BDA\<rparr>"

section \<open>utils/bda.py and utils/extraction_timing.py\<close>

definition of_scores :: "scores \<Rightarrow> pyval" where
  "of_scores ss = PList (map (\<lambda>d. PDict (map (\<lambda>(f, c). (f, PNum c)) d)) ss)"

definition calculate_average_non_empty_confidence ::
  "scores \<Rightarrow> string list \<Rightarrow> string list \<Rightarrow> rat option" where
  "calculate_average_non_empty_confidence field_confidence_map_list empty_fields missing_geometry =
     (let excluded = set empty_fields \<union> set missing_geometry;
          ss = [conf. field_map \<leftarrow> field_confidence_map_list, (name, conf) \<leftarrow> field_map,
                  name \<notin> excluded]
      in if ss = [] then None else Some (sum_list ss / of_nat (length ss)))"

definition get_elapsed_time_seconds :: "rat \<Rightarrow> rat \<Rightarrow> rat" where
  "get_elapsed_time_seconds start_time end_time = py_round2 (end_time - start_time)"

fun from_iso :: "pyval \<Rightarrow> exn + rat" where
  "from_iso (PTime t) = Inr t"
| "from_iso (PStr s) = Inl (ValueErr ''Invalid isoformat string'')"
| "from_iso _ = Inl (TypeErr ''fromisoformat: argument must be str'')"

definition calculate_processing_times :: "dict \<Rightarrow> rat \<Rightarrow> exn + processing_times" where
  "calculate_processing_times r completion_time =
     (let created = dget r ''createdAt'';
          started = py_or (dget r ''extractionStartedAt'') (dget r ''bdaStartedAt'');
          elapsed = (\<lambda>v. if truthy v
                         then (case from_iso v of Inl x \<Rightarrow> Inl x
                               | Inr t \<Rightarrow> Inr (get_elapsed_time_seconds t completion_time))
                         else Inr 0)
      in (case elapsed created of Inl x \<Rightarrow> Inl x
          | Inr tot \<Rightarrow>
              (case elapsed started of Inl x \<Rightarrow> Inl x
               | Inr bda \<Rightarrow> Inr \<lparr>total_processing_time_seconds = tot,
                                  bda_processing_time_seconds = bda\<rparr>)))"

definition calculate_wait_time :: "'t env \<Rightarrow> dict \<Rightarrow> exn + rat option" where
  "calculate_wait_time e r =
     (let created = dget r ''createdAt'' in
      if \<not> truthy created then Inr None
      else (case from_iso created of Inl x \<Rightarrow> Inl x
            | Inr t \<Rightarrow> Inr (Some (get_elapsed_time_seconds t (now e)))))"

fun count_not_in :: "string set \<Rightarrow> scores \<Rightarrow> exn + nat" where
  "count_not_in excluded [] = Inr 0"
| "count_not_in excluded ([] # ss) = Inl (RuntimeErr ''generator raised StopIteration'')"
| "count_not_in excluded (((name, c) # d) # ss) =
     (case count_not_in excluded ss of Inl x \<Rightarrow> Inl x
      | Inr n \<Rightarrow> Inr (if name \<notin> excluded then Suc n else n))"

definition calculate_field_metrics :: "'t env \<Rightarrow> classification_data \<Rightarrow> exn + field_metrics" where
  "calculate_field_metrics e data =
     (case opt_default [] (cd_field_confidence_scores data) of
        [] \<Rightarrow> Inr \<lparr>field_count = 0, field_count_not_empty = 0, field_not_empty_avg_confidence = None\<rparr>
      | s # ss \<Rightarrow>
          (let empty = opt_default [] (cd_field_empty_list data);
               missing = (if is_missing_geo_included_with_missing_fields e
                          then opt_default [] (cd_field_missing_geometry_list data) else [])
           in (case count_not_in (set empty \<union> set missing) (s # ss) of Inl x \<Rightarrow> Inl x
               | Inr n \<Rightarrow>
                   Inr \<lparr>field_count = length (s # ss), field_count_not_empty = n,
                        field_not_empty_avg_confidence =
                          calculate_average_non_empty_confidence (s # ss) empty missing\<rparr>)))"

section \<open>Reading a record\<close>

definition doc_key :: "string \<Rightarrow> dict" where
  "doc_key object_key = [(''fileName'', PStr object_key)]"

definition get_ddb_record :: "'t env \<Rightarrow> string \<Rightarrow> ('t, dict option) wprog" where
  "get_ddb_record e object_key =
     bindP (get_item e DocumentMetadataT (doc_key object_key))
       (\<lambda>item. ret (case item of None \<Rightarrow> None | Some it \<Rightarrow> if it = [] then None else Some it))"

definition get_ddb_by_job_id :: "'t env \<Rightarrow> string \<Rightarrow> ('t, dict option) wprog" where
  "get_ddb_by_job_id e job_id =
     bindP (query_by_key e DocumentMetadataT ''jobId'' job_id None)
       (\<lambda>items. ret (case items of [] \<Rightarrow> None | i # _ \<Rightarrow> Some i))"

definition get_user_provided_document_category ::
  "'t env \<Rightarrow> string \<Rightarrow> ('t, string option) wprog" where
  "get_user_provided_document_category e object_key =
     bindP (get_ddb_record e object_key)
       (\<lambda>r. ret (case r of None \<Rightarrow> None
                 | Some it \<Rightarrow> to_opt_str (dget it ''userProvidedDocumentCategory'')))"

definition get_internal_api_response ::
  "'t env \<Rightarrow> string \<Rightarrow> string \<Rightarrow> string option \<Rightarrow> string option \<Rightarrow> ('t, internal_api_response) wprog"
where
  "get_internal_api_response e object_key code matched category =
     bindP (if truthy_str category then ret category
            else get_user_provided_document_category e object_key)
       (\<lambda>cat. ret \<lparr>validation_passed = is_success_response_code code,
                    document_category = cat, matched_document_class = matched,
                    response_code = code, response_message = get_message code\<rparr>)"

section \<open>Timing updates\<close>

definition calculate_bda_processing_times ::
  "'t env \<Rightarrow> string \<Rightarrow> rat \<Rightarrow> ('t, processing_times) wprog" where
  "calculate_bda_processing_times e object_key completion_time =
     bindP (get_ddb_record e object_key)
       (\<lambda>r. case r of
          None \<Rightarrow> ret \<lparr>total_processing_time_seconds = 0, bda_processing_time_seconds = 0\<rparr>
        | Some it \<Rightarrow> lift_result (calculate_processing_times it completion_time))"

definition calculate_wait_time_for :: "'t env \<Rightarrow> string \<Rightarrow> ('t, rat option) wprog" where
  "calculate_wait_time_for e object_key =
     bindP (get_ddb_record e object_key)
       (\<lambda>r. case r of None \<Rightarrow> ret None | Some it \<Rightarrow> lift_result (calculate_wait_time e it))"

definition completed_time :: "'t env \<Rightarrow> string option \<Rightarrow> rat" where
  "completed_time e bda_output_s3_uri =
     (if truthy_str bda_output_s3_uri then
        (case parse_s3_uri (opt_default [] bda_output_s3_uri) of
           Inl x \<Rightarrow> now e
         | Inr (bucket, key) \<Rightarrow>
             (case s3_last_modified e bucket key of Inl x \<Rightarrow> now e | Inr t \<Rightarrow> t))
      else now e)"

definition build_completion_timing ::
  "'t env \<Rightarrow> string \<Rightarrow> string option \<Rightarrow> ('t, upd list) wprog" where
  "build_completion_timing e object_key bda_output_s3_uri =
     bindP (get_ddb_record e object_key) (\<lambda>r. case r of
       None \<Rightarrow> ret []
     | Some it \<Rightarrow>
         if truthy (dget it ''bdaStartedAt'') \<or> truthy (dget it ''extractionStartedAt'') then
           (let t = completed_time e bda_output_s3_uri in
            bindP (calculate_bda_processing_times e object_key t) (\<lambda>times.
              ret ([USet ''extractionCompletedAt'' (PTime t),
                    USet ''processedDate'' (PStr (date_str t))] @
                   (if total_processing_time_seconds times \<noteq> 0
                    then [USet ''totalProcessingTimeSeconds''
                            (PNum (total_processing_time_seconds times))] else []) @
                   (if bda_processing_time_seconds times \<noteq> 0
                    then [USet ''extractionProcessingTimeSeconds''
                            (PNum (bda_processing_time_seconds times))] else []))))
         else ret [])"

definition build_timing_updates ::
  "'t env \<Rightarrow> string \<Rightarrow> process_status \<Rightarrow> string option \<Rightarrow> ('t, upd list) wprog" where
  "build_timing_updates e object_key st bda_output_s3_uri =
     (if st = PS_STARTED then
        catchP
          (bindP (calculate_wait_time_for e object_key)
            (\<lambda>wait. ret [USet ''extractionStartedAt'' (PTime (now e)),
                          USet ''extractionWaitTimeSeconds'' (of_opt_num wait)]))
          (\<lambda>x. ret [USet ''extractionStartedAt'' (PTime (now e))])
      else if is_completed (ps_value st) then
        build_completion_timing e object_key bda_output_s3_uri
      else ret [])"

section \<open>The update expression\<close>

definition set_if_str :: "string \<Rightarrow> string option \<Rightarrow> upd list" where
  "set_if_str a so = (if truthy_str so then [USet a (PStr (opt_default [] so))] else [])"

definition set_opt :: "string \<Rightarrow> pyval option \<Rightarrow> upd list" where
  "set_opt a vo = (case vo of None \<Rightarrow> [] | Some v \<Rightarrow> [USet a v])"

definition data_fields :: "classification_data \<Rightarrow> field_metrics \<Rightarrow> (string \<times> pyval option) list" where
  "data_fields data m =
     [(''bdaOutputS3Uri'', map_option PStr (cd_bda_output_s3_uri data)),
      (''matchedBlueprintName'', map_option PStr (cd_matched_blueprint_name data)),
      (''matchedBlueprintConfidence'', map_option PNum (cd_matched_blueprint_confidence data)),
      (''fieldConfidenceScores'',
         map_option (PJson \<circ> of_scores) (cd_field_confidence_scores data)),
      (''additionalInfo'', map_option PStr (cd_additional_info data)),
      (''bdaMatchedDocumentClass'', map_option PStr (cd_matched_document_class data)),
      (''matchedBlueprintFieldEmptyList'',
         map_option (PJson \<circ> of_strs) (cd_field_empty_list data)),
      (''matchedBlueprintFieldMissingGeometryList'',
         map_option (PJson \<circ> of_strs) (cd_field_missing_geometry_list data)),
      (''matchedBlueprintFieldBelowThresholdList'',
         map_option (PJson \<circ> of_strs) (cd_field_below_threshold_list data)),
      (''matchedBlueprintFieldCount'', Some (PNum (of_nat (field_count m)))),
      (''matchedBlueprintFieldCountNotEmpty'', Some (PNum (of_nat (field_count_not_empty m)))),
      (''matchedBlueprintFieldNotEmptyAvgConfidence'',
         map_option PNum (field_not_empty_avg_confidence m))]"

definition arn_fields :: "extract_method \<Rightarrow> string option \<Rightarrow> upd list" where
  "arn_fields em arn =
     (if truthy_str arn then
        (let a = opt_default [] arn;
             region = (case extract_region_from_bda_arn a of
                         Some r \<Rightarrow> if r \<noteq> [] then r else ''N/A'' | None \<Rightarrow> ''N/A'')
         in [USet ''bdaInvocationArn'' (PStr a),
             USet ''bdaInvocationId'' (PStr (bda_invocation_id a)),
             USet ''bdaRegionUsed'' (PStr region),
             USet ''extractionMethod'' (PStr (em_value em))])
      else [])"

definition build_update_expression :: "'t env \<Rightarrow> update_ddb_record \<Rightarrow> exn + upd list" where
  "build_update_expression e d =
     (case (case ud_data d of
              None \<Rightarrow> Inr []
            | Some data \<Rightarrow>
                (case calculate_field_metrics e data of Inl x \<Rightarrow> Inl x
                 | Inr m \<Rightarrow> Inr (concat (map (\<lambda>(a, vo). set_opt a vo) (data_fields data m))))) of
        Inl x \<Rightarrow> Inl x
      | Inr data_updates \<Rightarrow>
          Inr ([USet ''processStatus'' (PStr (ps_value (ud_status d))),
                USet ''updatedAt'' (PTime (now e))] @
               data_updates @
               (case ud_internal_api_response d of None \<Rightarrow> []
                | Some r \<Rightarrow> [USet ''responseJson'' (PJson (PDict (internal_response_dict r))),
                             USet ''responseCode'' (PStr (response_code r))]) @
               arn_fields (ud_extraction_method d) (ud_bda_invocation_arn d) @
               set_if_str ''bdaProjectArn'' (ud_bda_project_arn_used d) @
               (if ud_used_category_specific_project d
                then [USet ''usedCategorySpecificProject'' (PBool True)] else []) @
               set_if_str ''errorMessage'' (ud_error_message d) @
               (if ud_below_extraction_confidence_floor d
                then [USet ''belowExtractionConfidenceFloor'' (PBool True)] else []) @
               set_opt ''extractionRulesConfigured''
                 (map_option PBool (ud_extraction_rules_configured d)) @
               set_opt ''missingRequiredFieldList''
                 (map_option (PJson \<circ> of_strs) (ud_missing_required_field_list d)) @
               set_opt ''requiredFieldList''
                 (map_option (PJson \<circ> of_strs) (ud_required_field_list d)) @
               set_opt ''extractionConfidenceThreshold''
                 (map_option PNum (ud_applied_extraction_confidence_floor d)) @
               set_opt ''usedDefaultExtractionConfidenceThreshold''
                 (map_option PBool (ud_used_default_confidence_floor d))))"

definition extra_updates :: "update_ddb_record \<Rightarrow> upd list" where
  "extra_updates d =
     set_opt ''pagesSentToBda'' (map_option (PNum \<circ> of_nat) (ud_pages_sent_to_bda d)) @
     set_opt ''bdaInvokeDurationSeconds'' (map_option PNum (ud_bda_invoke_duration_seconds d)) @
     set_opt ''bdaInvokeRetryCount'' (map_option (PNum \<circ> of_nat) (ud_bda_invoke_retry_count d)) @
     set_opt ''resultProcessorStartedAt'' (ud_result_processor_started_at d)"

section \<open>Writing a record\<close>

definition execute_ddb_update ::
  "'t env \<Rightarrow> string \<Rightarrow> upd list \<Rightarrow> cond \<Rightarrow> ('t, unit) wprog" where
  "execute_ddb_update e object_key us c =
     thenP (update_item e DocumentMetadataT (doc_key object_key) us c) (ret ())"

definition send_message :: "'t env \<Rightarrow> string \<Rightarrow> pyval \<Rightarrow> ('t, unit) wprog" where
  "send_message e queue_url body =
     (case sqs_error e queue_url body of
        Some x \<Rightarrow> raise x
      | None \<Rightarrow> modifies (\<lambda>w. w\<lparr>outbox := outbox w @ [(queue_url, body)]\<rparr>))"

definition send_record_to_metrics_queue :: "'t env \<Rightarrow> string \<Rightarrow> ('t, unit) wprog" where
  "send_record_to_metrics_queue e object_key =
     catchP
       (if \<not> truthy_str (metrics_queue_url e) then ret ()
        else bindP (get_item e DocumentMetadataT (doc_key object_key)) (\<lambda>item. case item of
          None \<Rightarrow> ret ()
        | Some it \<Rightarrow>
            if it = [] \<or> truthy (dget it ''isCompare'') then ret ()
            else send_message e (opt_default [] (metrics_queue_url e)) (PJson (PDict it))))
       (\<lambda>x. ret ())"

definition update_ddb :: "'t env \<Rightarrow> update_ddb_record \<Rightarrow> cond \<Rightarrow> ('t, unit) wprog" where
  "update_ddb e d c =
     bindP (lift_result (build_update_expression e d)) (\<lambda>us.
     bindP (build_timing_updates e (ud_object_key d) (ud_status d)
              (case ud_data d of None \<Rightarrow> None | Some data \<Rightarrow> cd_bda_output_s3_uri data)) (\<lambda>timing.
     thenP (execute_ddb_update e (ud_object_key d) (us @ extra_updates d @ timing) c)
       (whenP (is_classified (ps_value (ud_status d)))
          (send_record_to_metrics_queue e (ud_object_key d)))))"

definition set_extract_method ::
  "'t env \<Rightarrow> string \<Rightarrow> extract_method \<Rightarrow> pyval \<Rightarrow> ('t, unit) wprog" where
  "set_extract_method e object_key m started_at =
     execute_ddb_update e object_key
       [USet ''extractionStartedAt'' started_at, USet ''extractionMethod'' (PStr (em_value m))]
       CTrue"

definition write_tokens_by_model ::
  "'t env \<Rightarrow> string \<Rightarrow> string \<Rightarrow> llm_usage_reason \<Rightarrow> nat \<Rightarrow> nat \<Rightarrow> ('t, unit) wprog" where
  "write_tokens_by_model e object_key model_id reason input_tokens output_tokens =
     execute_ddb_update e object_key
       [USetPath ''tokensByModel'' (model_id @ ''#'' @ lu_value reason)
          (PDict [(''inputTokens'', PNum (of_nat input_tokens)),
                  (''outputTokens'', PNum (of_nat output_tokens))])] CTrue"

definition mark_document_deleted :: "'t env \<Rightarrow> string \<Rightarrow> deletion_type \<Rightarrow> ('t, unit) wprog" where
  "mark_document_deleted e object_key how =
     execute_ddb_update e object_key
       [USet ''processStatus'' (PStr (ps_value PS_DELETED)),
        USet ''deletionType'' (PStr (del_value how)),
        USet ''updatedAt'' (PTime (now e))] CTrue"

section \<open>Creating a record: \<open>upsert_ddb\<close>\<close>

record bedrock_result =
  br_document_type :: string
  br_confidence :: rat
  br_max_document_count_on_page :: int
  br_max_document_count_on_page_reason :: string
  br_has_multipage_inconsistency :: bool
  br_has_multipage_inconsistency_reason :: string
  br_category_match :: "bool option"
  br_is_identity_document :: bool
  br_input_tokens :: "nat option"
  br_output_tokens :: "nat option"
  br_duration_seconds :: "rat option"
  br_model_id :: "string option"

record match_result =
  mr_matched_document_type :: "string option"
  mr_confidence :: rat
  mr_category :: "string option"
  mr_input_tokens :: "nat option"
  mr_output_tokens :: "nat option"
  mr_duration_seconds :: "rat option"

record preclassification_fields =
  pc_document_type :: "string option"
  pc_confidence :: "rat option"
  pc_input_tokens :: "nat option"
  pc_output_tokens :: "nat option"
  pc_duration_seconds :: "rat option"
  pc_model_id :: "string option"
  pc_category_match :: "bool option"
  pc_blueprint_matched_document_type :: "string option"
  pc_blueprint_match_confidence :: "rat option"
  pc_blueprint_match_input_tokens :: "nat option"
  pc_blueprint_match_output_tokens :: "nat option"
  pc_blueprint_match_duration_seconds :: "rat option"
  pc_blueprint_match_category :: "string option"
  pc_max_document_count_on_page :: "int option"
  pc_max_document_count_on_page_reason :: "string option"
  pc_has_multipage_inconsistency :: "bool option"
  pc_has_multipage_inconsistency_reason :: "string option"

definition from_results :: "bedrock_result \<Rightarrow> match_result option \<Rightarrow> preclassification_fields" where
  "from_results c bm =
     \<lparr>pc_document_type = Some (br_document_type c), pc_confidence = Some (br_confidence c),
      pc_input_tokens = br_input_tokens c, pc_output_tokens = br_output_tokens c,
      pc_duration_seconds = br_duration_seconds c, pc_model_id = br_model_id c,
      pc_category_match = br_category_match c,
      pc_blueprint_matched_document_type = Option.bind bm mr_matched_document_type,
      pc_blueprint_match_confidence = map_option mr_confidence bm,
      pc_blueprint_match_input_tokens = Option.bind bm mr_input_tokens,
      pc_blueprint_match_output_tokens = Option.bind bm mr_output_tokens,
      pc_blueprint_match_duration_seconds = Option.bind bm mr_duration_seconds,
      pc_blueprint_match_category = Option.bind bm mr_category,
      pc_max_document_count_on_page = Some (br_max_document_count_on_page c),
      pc_max_document_count_on_page_reason = Some (br_max_document_count_on_page_reason c),
      pc_has_multipage_inconsistency = Some (br_has_multipage_inconsistency c),
      pc_has_multipage_inconsistency_reason = Some (br_has_multipage_inconsistency_reason c)\<rparr>"

definition of_opt_nat :: "nat option \<Rightarrow> pyval" where
  "of_opt_nat no = (case no of None \<Rightarrow> PNone | Some n \<Rightarrow> PNum (of_nat n))"

definition preclassification_ddb_fields :: "preclassification_fields \<Rightarrow> (string \<times> pyval) list" where
  "preclassification_ddb_fields p =
     [(''preclassificationCategory'', of_opt_str (pc_document_type p)),
      (''preclassificationConfidence'', of_opt_num (pc_confidence p)),
      (''preclassificationInputTokens'', of_opt_nat (pc_input_tokens p)),
      (''preclassificationOutputTokens'', of_opt_nat (pc_output_tokens p)),
      (''preclassificationDurationSeconds'', of_opt_num (pc_duration_seconds p)),
      (''preclassificationModelId'', of_opt_str (pc_model_id p)),
      (''preclassificationCategoryMatch'', of_opt_bool (pc_category_match p)),
      (''preclassificationBlueprintMatchedType'',
         of_opt_str (pc_blueprint_matched_document_type p)),
      (''preclassificationBlueprintMatchConfidence'',
         of_opt_num (pc_blueprint_match_confidence p)),
      (''preclassificationBlueprintMatchInputTokens'',
         of_opt_nat (pc_blueprint_match_input_tokens p)),
      (''preclassificationBlueprintMatchOutputTokens'',
         of_opt_nat (pc_blueprint_match_output_tokens p)),
      (''preclassificationBlueprintMatchDurationSeconds'',
         of_opt_num (pc_blueprint_match_duration_seconds p)),
      (''preclassificationBlueprintMatchCategory'',
         of_opt_str (pc_blueprint_match_category p)),
      (''preclassificationMaxDocumentCountOnPage'',
         of_opt_num (map_option of_int (pc_max_document_count_on_page p))),
      (''preclassificationMaxDocumentCountOnPageReason'',
         of_opt_str (pc_max_document_count_on_page_reason p)),
      (''preclassificationHasMultipageInconsistency'',
         of_opt_bool (pc_has_multipage_inconsistency p)),
      (''preclassificationHasMultipageInconsistencyReason'',
         of_opt_str (pc_has_multipage_inconsistency_reason p))]"

text \<open>
  A field that was not set and a field set to \<open>None\<close> are both absent (\<open>upsert_ddb\<close> skips both),
  so an optional field of the record is an option; the three booleans with a default are options
  too, \<open>None\<close> when they were not set explicitly.
\<close>

record initial_ddb_record =
  in_object_key :: string
  in_original_file_name :: string
  in_process_status :: process_status
  in_user_provided_document_category :: "string option"
  in_internal_api_response :: "internal_api_response option"
  in_file_size_bytes :: "nat option"
  in_content_type :: "string option"
  in_pages_detected :: "nat option"
  in_job_id :: "string option"
  in_system_document_id :: "string option"
  in_trace_id :: "string option"
  in_batch_id :: "string option"
  in_is_password_protected :: bool
  in_is_document_blurry :: bool
  in_blur_analysis_failed :: bool
  in_ocr_avg_word_confidence :: "rat option"
  in_document_word_count :: "nat option"
  in_blur_llm_checked :: bool
  in_blur_reason_text :: "string option"
  in_blur_quadrant_stats :: "dict option"
  in_pre_classification :: "preclassification_fields option"
  in_external_document_id :: "string option"
  in_external_system_id :: "string option"
  in_ai_consent_flag :: bool
  in_upload_method :: "string option"
  in_upload_source :: "string option"
  in_tenant_id :: "string option"
  in_api_key_name :: "string option"
  in_is_demo :: "bool option"
  in_is_test_run :: "bool option"
  in_is_compare :: "bool option"
  in_ttl_days :: "int option"
  in_document_processor_started_at :: "pyval"
  in_is_document_processor_cold_start :: "bool option"
  in_processing_percentage :: "rat option"
  in_processing_assigned_value :: "rat option"
  in_s3_fetch_duration_seconds :: "rat option"
  in_blur_detection_duration_seconds :: "rat option"
  in_traceparent :: "string option"
  in_image_opt_crop_block_duration_seconds :: "rat option"
  in_image_opt_write_duration_seconds :: "rat option"

definition initial_record :: "string \<Rightarrow> string \<Rightarrow> initial_ddb_record" where
  "initial_record object_key name =
     \<lparr>in_object_key = object_key, in_original_file_name = name,
      in_process_status = PS_NOT_STARTED, in_user_provided_document_category = None,
      in_internal_api_response = None, in_file_size_bytes = None, in_content_type = None,
      in_pages_detected = None, in_job_id = None, in_system_document_id = None,
      in_trace_id = None, in_batch_id = None, in_is_password_protected = False,
      in_is_document_blurry = False, in_blur_analysis_failed = False,
      in_ocr_avg_word_confidence = None, in_document_word_count = None,
      in_blur_llm_checked = False, in_blur_reason_text = None, in_blur_quadrant_stats = None,
      in_pre_classification = None, in_external_document_id = None,
      in_external_system_id = None, in_ai_consent_flag = True, in_upload_method = None,
      in_upload_source = None, in_tenant_id = None, in_api_key_name = None, in_is_demo = None,
      in_is_test_run = None, in_is_compare = None, in_ttl_days = None,
      in_document_processor_started_at = PNone, in_is_document_processor_cold_start = None,
      in_processing_percentage = None, in_processing_assigned_value = None,
      in_s3_fetch_duration_seconds = None, in_blur_detection_duration_seconds = None,
      in_traceparent = None, in_image_opt_crop_block_duration_seconds = None,
      in_image_opt_write_duration_seconds = None\<rparr>"

definition initial_ddb_fields :: "initial_ddb_record \<Rightarrow> (string \<times> pyval) list" where
  "initial_ddb_fields d =
     [(''fileSizeBytes'', of_opt_nat (in_file_size_bytes d)),
      (''contentType'', of_opt_str (in_content_type d)),
      (''pagesDetected'', of_opt_nat (in_pages_detected d)),
      (''jobId'', of_opt_str (in_job_id d)),
      (''systemDocumentId'', of_opt_str (in_system_document_id d)),
      (''traceId'', of_opt_str (in_trace_id d)),
      (''batchId'', of_opt_str (in_batch_id d)),
      (''ocrAvgWordConfidence'', of_opt_num (in_ocr_avg_word_confidence d)),
      (''documentWordCount'', of_opt_nat (in_document_word_count d)),
      (''isDocumentBlurryReason'', of_opt_str (in_blur_reason_text d)),
      (''documentWordQuadrantStats'',
         (case in_blur_quadrant_stats d of None \<Rightarrow> PNone | Some s \<Rightarrow> PDict s)),
      (''externalDocumentId'', of_opt_str (in_external_document_id d)),
      (''externalSystemId'', of_opt_str (in_external_system_id d)),
      (''uploadMethod'', of_opt_str (in_upload_method d)),
      (''uploadSource'', of_opt_str (in_upload_source d)),
      (''tenantId'', of_opt_str (in_tenant_id d)),
      (''apiKeyName'', of_opt_str (in_api_key_name d)),
      (''isDemo'', of_opt_bool (in_is_demo d)),
      (''isTestRun'', of_opt_bool (in_is_test_run d)),
      (''isCompare'', of_opt_bool (in_is_compare d)),
      (''documentProcessorStartedAt'', in_document_processor_started_at d),
      (''isDocumentProcessorColdStart'', of_opt_bool (in_is_document_processor_cold_start d)),
      (''processingPercentage'', of_opt_num (in_processing_percentage d)),
      (''processingAssignedValue'', of_opt_num (in_processing_assigned_value d)),
      (''s3FetchDurationSeconds'', of_opt_num (in_s3_fetch_duration_seconds d)),
      (''blurDetectionDurationSeconds'', of_opt_num (in_blur_detection_duration_seconds d)),
      (''traceparent'', of_opt_str (in_traceparent d)),
      (''imageOptCropBlockDurationSeconds'',
         of_opt_num (in_image_opt_crop_block_duration_seconds d)),
      (''imageOptWriteDurationSeconds'', of_opt_num (in_image_opt_write_duration_seconds d))]"

fun ddb_field_value :: "pyval \<Rightarrow> pyval" where
  "ddb_field_value (PDict d) = PJson (PDict d)"
| "ddb_field_value v = v"

definition apply_ddb_fields :: "(string \<times> pyval) list \<Rightarrow> upd list" where
  "apply_ddb_fields fs =
     concat (map (\<lambda>(a, v). if v = PNone then [] else [USet a (ddb_field_value v)]) fs)"

definition get_ttl_epoch_in_days :: "'t env \<Rightarrow> int \<Rightarrow> int" where
  "get_ttl_epoch_in_days e days = \<lfloor>now e\<rfloor> + days * 24 * 60 * 60"

definition upsert_updates :: "'t env \<Rightarrow> initial_ddb_record \<Rightarrow> upd list" where
  "upsert_updates e d =
     [USet ''originalFileName'' (PStr (in_original_file_name d)),
      USet ''originalFileNameLower'' (PStr (str_lower (in_original_file_name d))),
      USet ''processStatus'' (PStr (ps_value (in_process_status d))),
      USetIfNotExists ''createdAt'' (PTime (now e)),
      USet ''updatedAt'' (PTime (now e)),
      USet ''isPasswordProtected'' (PBool (in_is_password_protected d)),
      USet ''isDocumentBlurry'' (PBool (in_is_document_blurry d)),
      USet ''blurAnalysisFailed'' (PBool (in_blur_analysis_failed d)),
      USet ''wasBlurLlmInvoked'' (PBool (in_blur_llm_checked d)),
      USetIfNotExists ''aiConsentFlag'' (PBool (in_ai_consent_flag d)),
      USetIfNotExists ''ttl''
        (PNum (of_int (get_ttl_epoch_in_days e
           (case in_ttl_days d of None \<Rightarrow> 180 | Some n \<Rightarrow> if n = 0 then 180 else n))))] @
     (if truthy_str (in_user_provided_document_category d)
      then [USet ''userProvidedDocumentCategory''
              (PStr (opt_default [] (in_user_provided_document_category d)))] else []) @
     (if in_is_compare d = Some True
      then [USetIfNotExists ''apiResponsesByMethod'' (PDict []),
            USetIfNotExists ''durationsByMethod'' (PDict [])] else []) @
     [USetIfNotExists ''tokensByModel'' (PDict [])] @
     apply_ddb_fields (initial_ddb_fields d) @
     (case in_internal_api_response d of None \<Rightarrow> []
      | Some r \<Rightarrow> [USet ''responseJson'' (PJson (PDict (internal_response_dict r)))]) @
     (case in_pre_classification d of None \<Rightarrow> []
      | Some p \<Rightarrow> apply_ddb_fields (preclassification_ddb_fields p))"

definition write_preclassification_tokens ::
  "'t env \<Rightarrow> string \<Rightarrow> preclassification_fields \<Rightarrow> ('t, unit) wprog" where
  "write_preclassification_tokens e object_key p =
     (if truthy_str (pc_model_id p) then
        (let model_id = opt_default [] (pc_model_id p);
             n = opt_default 0 in
         thenP
           (whenP (n (pc_input_tokens p) \<noteq> 0 \<or> n (pc_output_tokens p) \<noteq> 0)
             (write_tokens_by_model e object_key model_id LU_PRECLASSIFICATION
                (n (pc_input_tokens p)) (n (pc_output_tokens p))))
           (whenP (n (pc_blueprint_match_input_tokens p) \<noteq> 0 \<or>
                   n (pc_blueprint_match_output_tokens p) \<noteq> 0)
             (write_tokens_by_model e object_key model_id LU_BLUEPRINT_MATCH
                (n (pc_blueprint_match_input_tokens p))
                (n (pc_blueprint_match_output_tokens p)))))
      else ret ())"

definition upsert_ddb :: "'t env \<Rightarrow> initial_ddb_record \<Rightarrow> ('t, unit) wprog" where
  "upsert_ddb e d =
     thenP (execute_ddb_update e (in_object_key d) (upsert_updates e d) CTrue)
     (thenP (case in_pre_classification d of None \<Rightarrow> ret ()
             | Some p \<Rightarrow> write_preclassification_tokens e (in_object_key d) p)
       (whenP (is_classified (ps_value (in_process_status d)))
          (send_record_to_metrics_queue e (in_object_key d))))"

section \<open>Token usage\<close>

fun int_of :: "pyval \<Rightarrow> int" where
  "int_of (PNum x) = (if 0 \<le> x then \<lfloor>x\<rfloor> else \<lceil>x\<rceil>)"
| "int_of (PBool b) = (if b then 1 else 0)"
| "int_of _ = 0"

fun as_dict :: "pyval \<Rightarrow> dict" where
  "as_dict (PDict d) = d"
| "as_dict _ = []"

definition tokens_by_model_of :: "dict option \<Rightarrow> dict" where
  "tokens_by_model_of r =
     (case r of None \<Rightarrow> [] | Some it \<Rightarrow> as_dict (dget it ''tokensByModel''))"

definition token_count :: "string \<Rightarrow> pyval \<Rightarrow> int" where
  "token_count a entry = int_of (dget_default (as_dict entry) a (PNum 0))"

fun add_usage :: "(string \<times> int \<times> int) list \<Rightarrow> dict \<Rightarrow> (string \<times> int \<times> int) list" where
  "add_usage totals [] = totals"
| "add_usage totals ((composite_key, entry) # rest) =
     (let model_id = fst (partition_at CHR ''#'' composite_key);
          bucket = opt_default (0, 0) (map_of totals model_id)
      in add_usage (AList.update model_id
           (fst bucket + token_count ''inputTokens'' entry,
            snd bucket + token_count ''outputTokens'' entry) totals) rest)"

definition sum_token_usage_by_model ::
  "'t env \<Rightarrow> string \<Rightarrow> ('t, (string \<times> int \<times> int) list) wprog" where
  "sum_token_usage_by_model e object_key =
     bindP (get_ddb_record e object_key) (\<lambda>r. ret (add_usage [] (tokens_by_model_of r)))"

definition get_token_usage_by_reason ::
  "'t env \<Rightarrow> string \<Rightarrow> ('t, (string \<times> int \<times> int) list) wprog" where
  "get_token_usage_by_reason e object_key =
     bindP (get_ddb_record e object_key)
       (\<lambda>r. ret (map (\<lambda>(k, v). (k, token_count ''inputTokens'' v, token_count ''outputTokens'' v))
                  (tokens_by_model_of r)))"

end
