(* ===== verification/Document_Writes.thy ===== *)
theory Document_Writes
  imports Document_Record "HOL-Library.Sublist"
begin

text \<open>
  What the writers of \<open>Document_Record\<close> do: every update expression they build is one that
  DynamoDB accepts, what a written record holds afterwards, and that the token counts that are
  reported by model and by reason agree.
\<close>

section \<open>Expressions that are accepted\<close>

fun plain_set :: "upd \<Rightarrow> bool" where
  "plain_set (USet a v) = True"
| "plain_set (USetIfNotExists a v) = True"
| "plain_set _ = False"

lemma same_path_plain: "plain_set u \<Longrightarrow> plain_set w \<Longrightarrow> same_path u w = (upd_attr u = upd_attr w)"
  by (cases u; cases w) auto

lemma not_overlapping:
  "list_all plain_set us \<Longrightarrow> distinct (map upd_attr us) \<Longrightarrow> \<not> overlapping us"
  by (induction us) (auto simp: list_ex_iff list_all_iff same_path_plain)

lemma apply_upds_plain: "list_all plain_set us \<Longrightarrow> \<exists>it'. apply_upds old us acc = Some it'"
proof (induction us arbitrary: acc)
  case (Cons u us)
  then show ?case by (cases u) auto
qed simp

lemma subseq_set: "subseq xs ys \<Longrightarrow> set xs \<subseteq> set ys"
  by (induction rule: list_emb.induct) auto

lemma subseq_distinct: "subseq xs ys \<Longrightarrow> distinct ys \<Longrightarrow> distinct xs"
  by (induction rule: list_emb.induct) (auto dest: subseq_set)

text \<open>An expression that sets a subsequence of a list of distinct attributes, none of them in the
  key, is accepted whatever the item holds.\<close>

lemma accepted:
  assumes "list_all plain_set us" "subseq (map upd_attr us) as" "distinct as"
    "\<forall>a \<in> set as. \<not> has_key k a"
  shows "\<exists>it'. updated_item k it us = Some it'"
proof -
  have d: "distinct (map upd_attr us)" using assms(2,3) by (rule subseq_distinct)
  have "set (map upd_attr us) \<subseteq> set as" using subseq_set [OF assms(2)] by simp
  then have "\<not> list_ex (\<lambda>u. has_key k (upd_attr u)) us"
    using assms(4) by (auto simp: list_ex_iff)
  then show ?thesis
    using not_overlapping [OF assms(1) d] apply_upds_plain [OF assms(1)]
    by (simp add: updated_item_def Let_def)
qed

lemma subseq_append: "subseq xs as \<Longrightarrow> subseq ys bs \<Longrightarrow> subseq (xs @ ys) (as @ bs)"
  by (rule list_emb_append_mono)

lemma plain_set_if_str: "list_all plain_set (set_if_str a so)"
  by (simp add: set_if_str_def)

lemma attr_set_if_str: "subseq (map upd_attr (set_if_str a so)) [a]"
  by (simp add: set_if_str_def)

lemma plain_set_opt: "list_all plain_set (set_opt a vo)"
  by (simp add: set_opt_def split: option.splits)

lemma attr_set_opt: "subseq (map upd_attr (set_opt a vo)) [a]"
  by (simp add: set_opt_def split: option.splits)

lemma plain_set_opts: "list_all plain_set (concat (map (\<lambda>(a, vo). set_opt a vo) fs))"
  by (induction fs) (auto simp: plain_set_opt)

lemma attr_set_opts:
  "subseq (map upd_attr (concat (map (\<lambda>(a, vo). set_opt a vo) fs))) (map fst fs)"
proof (induction fs)
  case (Cons f fs)
  have "subseq (map upd_attr (set_opt (fst f) (snd f)) @
      map upd_attr (concat (map (\<lambda>(a, vo). set_opt a vo) fs))) ([fst f] @ map fst fs)"
    by (rule subseq_append [OF attr_set_opt Cons.IH])
  then show ?case by (simp add: case_prod_unfold)
qed simp

lemma plain_ddb_fields: "list_all plain_set (apply_ddb_fields fs)"
  by (induction fs) (auto simp: apply_ddb_fields_def)

lemma attr_ddb_fields: "subseq (map upd_attr (apply_ddb_fields fs)) (map fst fs)"
proof (induction fs)
  case (Cons f fs)
  have "subseq (map upd_attr (if snd f = PNone then [] else [USet (fst f) (ddb_field_value (snd f))]) @
      map upd_attr (apply_ddb_fields fs)) ([fst f] @ map fst fs)"
    by (rule subseq_append [OF _ Cons.IH]) simp
  then show ?case by (simp add: apply_ddb_fields_def case_prod_beta)
qed (simp add: apply_ddb_fields_def)

definition data_attrs :: "string list" where
  "data_attrs =
     [''bdaOutputS3Uri'', ''matchedBlueprintName'', ''matchedBlueprintConfidence'',
      ''fieldConfidenceScores'', ''additionalInfo'', ''bdaMatchedDocumentClass'',
      ''matchedBlueprintFieldEmptyList'', ''matchedBlueprintFieldMissingGeometryList'',
      ''matchedBlueprintFieldBelowThresholdList'', ''matchedBlueprintFieldCount'',
      ''matchedBlueprintFieldCountNotEmpty'', ''matchedBlueprintFieldNotEmptyAvgConfidence'']"

definition update_attrs :: "string list" where
  "update_attrs =
     [''processStatus'', ''updatedAt''] @ data_attrs @
     [''responseJson'', ''responseCode''] @
     [''bdaInvocationArn'', ''bdaInvocationId'', ''bdaRegionUsed'', ''extractionMethod''] @
     [''bdaProjectArn''] @ [''usedCategorySpecificProject''] @ [''errorMessage''] @
     [''belowExtractionConfidenceFloor''] @ [''extractionRulesConfigured''] @
     [''missingRequiredFieldList''] @ [''requiredFieldList''] @
     [''extractionConfidenceThreshold''] @ [''usedDefaultExtractionConfidenceThreshold'']"

definition extra_attrs :: "string list" where
  "extra_attrs =
     [''pagesSentToBda''] @ [''bdaInvokeDurationSeconds''] @ [''bdaInvokeRetryCount''] @
     [''resultProcessorStartedAt'']"

definition timing_attrs :: "string list" where
  "timing_attrs =
     [''extractionStartedAt'', ''extractionWaitTimeSeconds'', ''extractionCompletedAt'',
      ''processedDate''] @ [''totalProcessingTimeSeconds''] @
     [''extractionProcessingTimeSeconds'']"

lemma map_fst_data_fields: "map fst (data_fields data m) = data_attrs"
  by (simp add: data_fields_def data_attrs_def)

lemma build_update_expression_form:
  assumes "build_update_expression e d = Inr us"
  shows "list_all plain_set us" "subseq (map upd_attr us) update_attrs"
    "\<exists>rest. us = USet ''processStatus'' (PStr (ps_value (ud_status d))) #
       USet ''updatedAt'' (PTime (now e)) # rest"
proof -
  obtain dat where us: "us =
      [USet ''processStatus'' (PStr (ps_value (ud_status d))), USet ''updatedAt'' (PTime (now e))] @
      dat @
      (case ud_internal_api_response d of None \<Rightarrow> []
       | Some r \<Rightarrow> [USet ''responseJson'' (PJson (PDict (internal_response_dict r))),
                    USet ''responseCode'' (PStr (response_code r))]) @
      arn_fields (ud_extraction_method d) (ud_bda_invocation_arn d) @
      set_if_str ''bdaProjectArn'' (ud_bda_project_arn_used d) @
      (if ud_used_category_specific_project d
       then [USet ''usedCategorySpecificProject'' (PBool True)] else []) @
      set_if_str ''errorMessage'' (ud_error_message d) @
      (if ud_below_extraction_confidence_floor d
       then [USet ''belowExtractionConfidenceFloor'' (PBool True)] else []) @
      set_opt ''extractionRulesConfigured''
        (map_option PBool (ud_extraction_rules_configured d)) @
      set_opt ''missingRequiredFieldList''
        (map_option (PJson \<circ> of_strs) (ud_missing_required_field_list d)) @
      set_opt ''requiredFieldList'' (map_option (PJson \<circ> of_strs) (ud_required_field_list d)) @
      set_opt ''extractionConfidenceThreshold''
        (map_option PNum (ud_applied_extraction_confidence_floor d)) @
      set_opt ''usedDefaultExtractionConfidenceThreshold''
        (map_option PBool (ud_used_default_confidence_floor d))"
    and dat: "list_all plain_set dat" "subseq (map upd_attr dat) data_attrs"
  proof (cases "ud_data d")
    case None
    with assms that [of "[]"] show ?thesis by (simp add: build_update_expression_def)
  next
    case (Some data)
    then obtain m where "calculate_field_metrics e data = Inr m"
      using assms by (auto simp: build_update_expression_def split: sum.splits)
    with assms Some that [of "concat (map (\<lambda>(a, vo). set_opt a vo) (data_fields data m))"]
    show ?thesis
      using attr_set_opts [of "data_fields data m"] plain_set_opts [of "data_fields data m"]
      by (simp add: build_update_expression_def map_fst_data_fields)
  qed
  show "list_all plain_set us"
    unfolding us using dat(1) by (auto simp: plain_set_opt plain_set_if_str arn_fields_def Let_def
        split: option.splits)
  show "subseq (map upd_attr us) update_attrs"
    unfolding us update_attrs_def map_append
    by (intro subseq_append attr_set_opt attr_set_if_str dat(2))
      (auto simp: arn_fields_def Let_def split: option.splits)
  show "\<exists>rest. us = USet ''processStatus'' (PStr (ps_value (ud_status d))) #
       USet ''updatedAt'' (PTime (now e)) # rest"
    unfolding us by simp
qed

lemma extra_updates_form:
  "list_all plain_set (extra_updates d) \<and> subseq (map upd_attr (extra_updates d)) extra_attrs"
proof
  show "list_all plain_set (extra_updates d)" by (simp add: extra_updates_def plain_set_opt)
  show "subseq (map upd_attr (extra_updates d)) extra_attrs"
    unfolding extra_updates_def extra_attrs_def map_append
    by (intro subseq_append attr_set_opt)
qed

lemma completion_timing_form:
  "build_completion_timing e k uri w = (Inr us, w') \<Longrightarrow>
   list_all plain_set us \<and> subseq (map upd_attr us) timing_attrs"
  by (auto simp: build_completion_timing_def bindP_run Let_def timing_attrs_def
      split: prod.splits sum.splits option.splits if_splits)

lemma timing_updates_form:
  assumes "build_timing_updates e k st uri w = (Inr us, w')"
  shows "list_all plain_set us \<and> subseq (map upd_attr us) timing_attrs"
proof (cases "st = PS_STARTED")
  case True
  with assms show ?thesis
    by (auto simp: build_timing_updates_def bindP_run catchP_run timing_attrs_def
        split: prod.splits sum.splits)
next
  case False
  with assms show ?thesis
    by (auto simp: build_timing_updates_def dest: completion_timing_form split: if_splits)
qed

lemma document_attrs_distinct: "distinct (update_attrs @ extra_attrs @ timing_attrs)"
  by code_simp

lemma document_attrs_not_key:
  "\<forall>a \<in> set (update_attrs @ extra_attrs @ timing_attrs). \<not> has_key (doc_key k) a"
proof -
  have "''fileName'' \<notin> set (update_attrs @ extra_attrs @ timing_attrs)" by code_simp
  then show ?thesis by (auto simp: doc_key_def)
qed

section \<open>What \<open>update_ddb\<close> and \<open>upsert_ddb\<close> write\<close>

text \<open>C4: The expression that \<open>update_ddb\<close> builds is accepted by DynamoDB for every record and every
  status: no two of its actions touch the same attribute and none touches the key, so the item it
  leaves exists, holds the new status and the write time, and keeps its file name.\<close>

theorem update_ddb_expression_accepted:
  assumes "build_update_expression e d = Inr us"
    and "build_timing_updates e key st uri w = (Inr tm, w')"
  shows "\<exists>it'. updated_item (doc_key key) it (us @ extra_updates d @ tm) = Some it' \<and>
    map_of it' ''processStatus'' = Some (PStr (ps_value (ud_status d))) \<and>
    map_of it' ''updatedAt'' = Some (PTime (now e)) \<and>
    map_of it' ''fileName'' = map_of (opt_default (doc_key key) it) ''fileName''"
proof -
  let ?us = "us @ extra_updates d @ tm"
  note u = build_update_expression_form [OF assms(1)]
  note x = extra_updates_form [of d] and t = timing_updates_form [OF assms(2)]
  have plain: "list_all plain_set ?us" using u(1) x t by simp
  have attrs: "subseq (map upd_attr ?us) (update_attrs @ extra_attrs @ timing_attrs)"
    using u(2) x t by (simp add: subseq_append)
  obtain it' where it: "updated_item (doc_key key) it ?us = Some it'"
    using accepted [OF plain attrs document_attrs_distinct document_attrs_not_key] by blast
  have "USet ''processStatus'' (PStr (ps_value (ud_status d))) \<in> set ?us"
    "USet ''updatedAt'' (PTime (now e)) \<in> set ?us"
    using u(3) by auto
  with it show ?thesis
    by (auto simp: doc_key_def dest: updated_item_set intro: updated_item_key)
qed

lemma update_ddb_expression_accepted_witness:
  "\<exists>it'. updated_item (doc_key ''f'') None
     ([USet ''processStatus'' (PStr ''failed''), USet ''updatedAt'' (PTime 0)] @
      extra_updates (update_record ''f'' PS_FAILED) @ []) = Some it' \<and>
   map_of it' ''processStatus'' = Some (PStr ''failed'')"
proof -
  have a: "build_update_expression base_env (update_record ''f'' PS_FAILED) =
      Inr [USet ''processStatus'' (PStr ''failed''), USet ''updatedAt'' (PTime 0)]"
    by code_simp
  have b: "build_timing_updates base_env ''f'' PS_FAILED None (world_of []) =
      (Inr [], world_of [])"
    by code_simp
  have "ps_value (ud_status (update_record ''f'' PS_FAILED)) = ''failed''" by code_simp
  then show ?thesis using update_ddb_expression_accepted [OF a b, of None] by auto
qed

definition upsert_attrs :: "string list" where
  "upsert_attrs =
     [''originalFileName'', ''originalFileNameLower'', ''processStatus'', ''createdAt'',
      ''updatedAt'', ''isPasswordProtected'', ''isDocumentBlurry'', ''blurAnalysisFailed'',
      ''wasBlurLlmInvoked'', ''aiConsentFlag'', ''ttl''] @ [''userProvidedDocumentCategory''] @
     [''apiResponsesByMethod'', ''durationsByMethod''] @ [''tokensByModel''] @
     map fst (initial_ddb_fields (initial_record [] [])) @ [''responseJson''] @
     map fst (preclassification_ddb_fields
       \<lparr>pc_document_type = None, pc_confidence = None, pc_input_tokens = None,
        pc_output_tokens = None, pc_duration_seconds = None, pc_model_id = None,
        pc_category_match = None, pc_blueprint_matched_document_type = None,
        pc_blueprint_match_confidence = None, pc_blueprint_match_input_tokens = None,
        pc_blueprint_match_output_tokens = None, pc_blueprint_match_duration_seconds = None,
        pc_blueprint_match_category = None, pc_max_document_count_on_page = None,
        pc_max_document_count_on_page_reason = None, pc_has_multipage_inconsistency = None,
        pc_has_multipage_inconsistency_reason = None\<rparr>)"

lemma upsert_attrs_distinct: "distinct upsert_attrs"
  by code_simp

lemma upsert_attrs_not_key: "\<forall>a \<in> set upsert_attrs. \<not> has_key (doc_key k) a"
proof -
  have "''fileName'' \<notin> set upsert_attrs" by code_simp
  then show ?thesis by (auto simp: doc_key_def)
qed

lemma upsert_updates_form:
  "list_all plain_set (upsert_updates e d)"
  "subseq (map upd_attr (upsert_updates e d)) upsert_attrs"
proof -
  show "list_all plain_set (upsert_updates e d)"
    by (simp add: upsert_updates_def plain_ddb_fields split: option.splits)
  have a: "map fst (initial_ddb_fields (initial_record [] [])) = map fst (initial_ddb_fields d)"
    by (simp add: initial_ddb_fields_def)
  have b: "subseq (map upd_attr (apply_ddb_fields (preclassification_ddb_fields p)))
      (map fst (preclassification_ddb_fields q))" for p q
    using attr_ddb_fields [of "preclassification_ddb_fields p"]
    by (simp add: preclassification_ddb_fields_def)
  show "subseq (map upd_attr (upsert_updates e d)) upsert_attrs"
    unfolding upsert_updates_def upsert_attrs_def map_append a
    by (intro subseq_append attr_ddb_fields)
      (auto split: option.splits intro: b)
qed

text \<open>\<open>upsert_ddb\<close> builds an expression that DynamoDB accepts for every record.  Afterwards the
  record has the given status; the creation time, the consent flag and the expiry are those of
  the first upsert; and the map of token counts exists.\<close>

theorem upsert_expression_accepted:
  defines "kept \<equiv> \<lambda>it a v. if has_key it a then map_of it a else Some v"
  shows "\<exists>it'. updated_item (doc_key key) it (upsert_updates e d) = Some it' \<and>
    map_of it' ''processStatus'' = Some (PStr (ps_value (in_process_status d))) \<and>
    map_of it' ''createdAt'' = kept (opt_default (doc_key key) it) ''createdAt'' (PTime (now e)) \<and>
    map_of it' ''aiConsentFlag'' =
      kept (opt_default (doc_key key) it) ''aiConsentFlag'' (PBool (in_ai_consent_flag d)) \<and>
    map_of it' ''tokensByModel'' =
      kept (opt_default (doc_key key) it) ''tokensByModel'' (PDict [])"
proof -
  obtain it' where it: "updated_item (doc_key key) it (upsert_updates e d) = Some it'"
    using accepted [OF upsert_updates_form upsert_attrs_distinct upsert_attrs_not_key] by blast
  have "USet ''processStatus'' (PStr (ps_value (in_process_status d))) \<in> set (upsert_updates e d)"
    "USetIfNotExists ''createdAt'' (PTime (now e)) \<in> set (upsert_updates e d)"
    "USetIfNotExists ''aiConsentFlag'' (PBool (in_ai_consent_flag d)) \<in> set (upsert_updates e d)"
    "USetIfNotExists ''tokensByModel'' (PDict []) \<in> set (upsert_updates e d)"
    by (simp_all add: upsert_updates_def)
  with it show ?thesis
    unfolding kept_def using updated_item_set [OF it] updated_item_if_not_exists [OF it] by blast
qed

lemma send_record_total: "fst (send_record_to_metrics_queue e k w) = Inr ()"
  by (auto simp: send_record_to_metrics_queue_def catchP_run split: prod.splits sum.splits)

lemma token_path_accepted:
  assumes "map_of it ''tokensByModel'' = Some (PDict m)"
  shows "updated_item (doc_key k) (Some it) [USetPath ''tokensByModel'' a v] =
    Some (dset ''tokensByModel'' (PDict (dset a v m)) it)"
  using assms by (simp add: updated_item_def doc_key_def)

context reliable_service begin

lemma write_tokens_ok:
  assumes "item_in look w DocumentMetadataT (doc_key k) = Some it"
    and "map_of it ''tokensByModel'' = Some (PDict m)"
  obtains w' it' m' where "write_tokens_by_model e k model_id reason i out w = (Inr (), w')"
    "item_in look w' DocumentMetadataT (doc_key k) = Some it'"
    "map_of it' ''tokensByModel'' = Some (PDict m')"
proof -
  have acc: "updated_item (doc_key k) (item_in look w DocumentMetadataT (doc_key k))
      [USetPath ''tokensByModel'' a v] = Some (dset ''tokensByModel'' (PDict (dset a v m)) it)"
    for a v using token_path_accepted [OF assms(2)] assms(1) by simp
  let ?v = "PDict [(''inputTokens'', PNum (of_nat i)), (''outputTokens'', PNum (of_nat out))]"
  let ?a = "model_id @ ''#'' @ lu_value reason"
  obtain w' where w': "update_item e DocumentMetadataT (doc_key k)
      [USetPath ''tokensByModel'' ?a ?v] CTrue w =
        (Inr (dset ''tokensByModel'' (PDict (dset ?a ?v m)) it), w')"
    "item_in look w' = (item_in look w)(DocumentMetadataT :=
        (item_in look w DocumentMetadataT)(doc_key k \<mapsto>
          dset ''tokensByModel'' (PDict (dset ?a ?v m)) it))"
    by (rule update_item_total [OF _ acc, of CTrue]) simp_all
  have "write_tokens_by_model e k model_id reason i out w = (Inr (), w')"
    unfolding write_tokens_by_model_def execute_ddb_update_def thenP_run w'(1) by simp
  moreover have "item_in look w' DocumentMetadataT (doc_key k) =
      Some (dset ''tokensByModel'' (PDict (dset ?a ?v m)) it)"
    unfolding w'(2) by simp
  moreover have "map_of (dset ''tokensByModel'' (PDict (dset ?a ?v m)) it) ''tokensByModel'' =
      Some (PDict (dset ?a ?v m))"
    by (simp only: map_of_dset fun_upd_same)
  ultimately show ?thesis by (rule that)
qed

lemma preclassification_tokens_ok:
  assumes "item_in look w DocumentMetadataT (doc_key k) = Some it"
    and "map_of it ''tokensByModel'' = Some (PDict m)"
  shows "fst (write_preclassification_tokens e k p w) = Inr ()"
proof -
  have one: "\<exists>w' it' m'. whenP b (write_tokens_by_model e k model_id reason i out) w = (Inr (), w') \<and>
      item_in look w' DocumentMetadataT (doc_key k) = Some it' \<and>
      map_of it' ''tokensByModel'' = Some (PDict m')"
    if "item_in look w DocumentMetadataT (doc_key k) = Some it"
      "map_of it ''tokensByModel'' = Some (PDict m)" for w b model_id reason i out it m
    using that write_tokens_ok [OF that] by (cases b) (auto simp: whenP_run, blast)
  have "fst (thenP (whenP b (write_tokens_by_model e k model_id r1 i1 o1))
      (whenP c (write_tokens_by_model e k model_id r2 i2 o2)) w) = Inr ()"
    for b c model_id r1 i1 o1 r2 i2 o2
  proof -
    obtain w1 it1 m1 where 1: "whenP b (write_tokens_by_model e k model_id r1 i1 o1) w = (Inr (), w1)"
      "item_in look w1 DocumentMetadataT (doc_key k) = Some it1"
      "map_of it1 ''tokensByModel'' = Some (PDict m1)"
      using one [OF assms] by blast
    obtain w2 where "whenP c (write_tokens_by_model e k model_id r2 i2 o2) w1 = (Inr (), w2)"
      using one [OF 1(2,3)] by blast
    with 1(1) show ?thesis by (simp add: thenP_run)
  qed
  then show ?thesis by (simp add: write_preclassification_tokens_def Let_def)
qed

lemma upsert_ddb_ok:
  assumes "map_of (opt_default [] (item_in look w DocumentMetadataT (doc_key (in_object_key d))))
      ''tokensByModel'' \<in> {None} \<union> Some ` range PDict"
  shows "fst (upsert_ddb e d w) = Inr ()"
proof -
  let ?k = "doc_key (in_object_key d)"
  let ?it = "item_in look w DocumentMetadataT ?k"
  obtain it' where it': "updated_item ?k ?it (upsert_updates e d) = Some it'"
      "map_of it' ''tokensByModel'' =
        (if has_key (opt_default ?k ?it) ''tokensByModel''
         then map_of (opt_default ?k ?it) ''tokensByModel'' else Some (PDict []))"
    using upsert_expression_accepted [of "in_object_key d" ?it e d] by (elim exE conjE)
  obtain m where m: "map_of it' ''tokensByModel'' = Some (PDict m)"
    using it'(2) assms by (cases ?it) (auto simp: has_key_def doc_key_def split: if_splits)
  obtain w' where w': "update_item e DocumentMetadataT ?k (upsert_updates e d) CTrue w = (Inr it', w')"
      "item_in look w' DocumentMetadataT ?k = Some it'"
    by (rule update_item_total [OF _ it'(1), of CTrue]) simp_all
  have "fst ((case in_pre_classification d of None \<Rightarrow> ret ()
      | Some p \<Rightarrow> write_preclassification_tokens e (in_object_key d) p) w') = Inr ()"
    using preclassification_tokens_ok [OF w'(2) m] by (cases "in_pre_classification d") auto
  then show ?thesis
    using w'(1) send_record_total
    by (auto simp: upsert_ddb_def thenP_run execute_ddb_update_def whenP_run
        split: prod.splits)
qed

end

text \<open>On a table service that does not fail for reasons of its own, \<open>upsert_ddb\<close> returns for
  every record whose token map is absent or a map: its update, both nested token writes (which
  need the map that the upsert has just created) and the enqueueing all go through.\<close>

theorem upsert_ddb_returns:
  assumes "reliable_ddb look (client e)"
    and "map_of (opt_default [] (item_in look w DocumentMetadataT (doc_key (in_object_key d))))
      ''tokensByModel'' \<in> {None} \<union> Some ` range PDict"
  shows "fst (upsert_ddb e d w) = Inr ()"
  using reliable_service.upsert_ddb_ok [OF reliable_serviceI [OF assms(1)] assms(2)] .

lemma upsert_ddb_returns_witness:
  "fst (upsert_ddb base_env (initial_record ''f'' ''a.pdf'') (world_of [])) = Inr ()"
  by (rule upsert_ddb_returns [OF mem_reliable [folded client_base_env]])
    (simp add: item_in_def mem_look_def world_of_def)

section \<open>Token counts by model and by reason\<close>

definition model_of :: "string \<Rightarrow> string" where
  "model_of key = fst (partition_at CHR ''#'' key)"

lemma add_usage_lookup:
  "opt_default (0, 0) (map_of (add_usage totals d) m) =
   (fst (opt_default (0, 0) (map_of totals m)) +
      sum_list [token_count ''inputTokens'' v. (k, v) \<leftarrow> d, model_of k = m],
    snd (opt_default (0, 0) (map_of totals m)) +
      sum_list [token_count ''outputTokens'' v. (k, v) \<leftarrow> d, model_of k = m])"
  by (induction totals d rule: add_usage.induct)
    (auto simp: Let_def model_of_def update_conv' simp del: token_count_def)

lemma add_usage_dom: "fst ` set (add_usage totals d) = fst ` set totals \<union> model_of ` fst ` set d"
  by (induction totals d rule: add_usage.induct) (auto simp: Let_def model_of_def dom_update)

lemma add_usage_map_of:
  "map_of (add_usage [] d) m =
   (if m \<in> model_of ` fst ` set d
    then Some (sum_list [token_count ''inputTokens'' v. (k, v) \<leftarrow> d, model_of k = m],
               sum_list [token_count ''outputTokens'' v. (k, v) \<leftarrow> d, model_of k = m])
    else None)"
proof (cases "m \<in> model_of ` fst ` set d")
  case True
  then have "m \<in> fst ` set (add_usage [] d)" by (simp add: add_usage_dom)
  then obtain x where "map_of (add_usage [] d) m = Some x"
    by (metis not_None_eq map_of_eq_None_iff)
  then show ?thesis using True add_usage_lookup [of "[]" d m] by simp
next
  case False
  then have "m \<notin> fst ` set (add_usage [] d)" by (simp add: add_usage_dom)
  then have "map_of (add_usage [] d) m = None" by (simp add: map_of_eq_None_iff)
  with False show ?thesis by simp
qed

context service begin

lemma get_ddb_record_run:
  assumes "get_ddb_record e k w = (Inr r, w')"
  shows "r = (case item_in look w DocumentMetadataT (doc_key k) of
      None \<Rightarrow> None | Some it \<Rightarrow> if it = [] then None else Some it)"
    and "item_in look w' = item_in look w" and "outbox w' = outbox w"
proof -
  obtain x where x: "get_item e DocumentMetadataT (doc_key k) w = (Inr x, w')"
      "r = (case x of None \<Rightarrow> None | Some it \<Rightarrow> if it = [] then None else Some it)"
    using assms by (auto simp: get_ddb_record_def bindP_run split: prod.splits sum.splits)
  then show "r = (case item_in look w DocumentMetadataT (doc_key k) of
      None \<Rightarrow> None | Some it \<Rightarrow> if it = [] then None else Some it)"
    and "item_in look w' = item_in look w" and "outbox w' = outbox w"
    using get_item_ok [OF x(1)] get_item_frame [OF x(1)] by simp_all
qed

lemma get_ddb_record_frame:
  "get_ddb_record e k w = (r, w') \<Longrightarrow> item_in look w' = item_in look w \<and> outbox w' = outbox w"
  by (auto simp: get_ddb_record_def bindP_run dest: get_item_frame split: prod.splits sum.splits)

end

lemma sum_by_reason:
  "sum_list [i. (k, i, j) \<leftarrow> map (\<lambda>(k, v). (k, f v, g v)) d, model_of k = m] =
   sum_list [f v. (k, v) \<leftarrow> d, model_of k = m]"
  "sum_list [j. (k, i, j) \<leftarrow> map (\<lambda>(k, v). (k, f v, g v)) d, model_of k = m] =
   sum_list [g v. (k, v) \<leftarrow> d, model_of k = m]"
  for f g :: "pyval \<Rightarrow> int"
  by (induction d) auto

text \<open>The usage report by model is the report by reason with the reasons summed away: a model is
  listed exactly when some reason is listed for it, and its input and output counts are the sums
  of the counts of its reasons, none lost and none counted twice.\<close>

theorem token_usage_by_model_sums_reasons:
  assumes "ddb_laws look (client e)"
    and "sum_token_usage_by_model e key w = (Inr xs, w1)"
    and "get_token_usage_by_reason e key w1 = (Inr ys, w2)"
  shows "map_of xs m =
    (if m \<in> model_of ` fst ` set ys
     then Some (sum_list [i. (k, i, j) \<leftarrow> ys, model_of k = m],
                sum_list [j. (k, i, j) \<leftarrow> ys, model_of k = m])
     else None)"
proof -
  note S = serviceI [OF assms(1)]
  obtain r where r: "get_ddb_record e key w = (Inr r, w1)" "xs = add_usage [] (tokens_by_model_of r)"
    using assms(2) by (auto simp: sum_token_usage_by_model_def bindP_run split: prod.splits sum.splits)
  obtain r' where r': "get_ddb_record e key w1 = (Inr r', w2)"
      "ys = map (\<lambda>(k, v). (k, token_count ''inputTokens'' v, token_count ''outputTokens'' v))
              (tokens_by_model_of r')"
    using assms(3) by (auto simp: get_token_usage_by_reason_def bindP_run split: prod.splits sum.splits)
  have "r' = r" using service.get_ddb_record_run [OF S r(1)] service.get_ddb_record_run [OF S r'(1)] by simp
  moreover have "fst ` set ys = fst ` set (tokens_by_model_of r')"
    unfolding r'(2) by force
  ultimately show ?thesis
    unfolding r(2) add_usage_map_of by (simp only: r'(2) sum_by_reason)
qed

definition token_item :: dict where
  "token_item = [(''fileName'', PStr ''f''), (''tokensByModel'', PDict
     [(''m#a'', PDict [(''inputTokens'', PNum 3), (''outputTokens'', PNum 1)]),
      (''m#b'', PDict [(''inputTokens'', PNum 4)])])]"

lemma token_usage_by_model_sums_reasons_witness:
  "map_of (projr (fst (sum_token_usage_by_model base_env ''f''
     (world_of [((DocumentMetadataT, doc_key ''f''), token_item)])))) ''m'' = Some (3 + 4, 1 + 0)"
proof -
  let ?w = "world_of [((DocumentMetadataT, doc_key ''f''), token_item)]"
  have a: "sum_token_usage_by_model base_env ''f'' ?w = (Inr [(''m'', 7, 1)], ?w)" by code_simp
  have b: "get_token_usage_by_reason base_env ''f'' ?w =
      (Inr [(''m#a'', 3, 1), (''m#b'', 4, 0)], ?w)" by code_simp
  have m: "model_of ''m#a'' = ''m''" "model_of ''m#b'' = ''m''" by code_simp+
  show ?thesis
    using token_usage_by_model_sums_reasons [OF mem_laws [folded client_base_env] a b, of "''m''"]
    by (simp add: m a)
qed

end
