(* ===== verification/Batches.thy ===== *)
theory Batches
  imports Document_Record
begin

text \<open>
  The batch counter of \<open>utils/batch_operations.py\<close>: a batch is created uploading, is moved to
  processing, counts its resolved jobs, and is finalised by the job that resolves the last one.
\<close>

definition batch_key :: "string \<Rightarrow> dict" where
  "batch_key batch_id = [(''batchId'', PStr batch_id)]"

definition batch_item ::
  "'t env \<Rightarrow> string \<Rightarrow> nat \<Rightarrow> string option \<Rightarrow> batch_status \<Rightarrow> string option \<Rightarrow> string option \<Rightarrow> dict"
where
  "batch_item e batch_id total_files category st tenant_id api_key_name =
     [(''batchId'', PStr batch_id), (''batchStatus'', PStr (bs_value st)),
      (''totalFiles'', PNum (of_nat total_files)), (''createdAt'', PTime (now e)),
      (''ttl'', PNum (of_int (get_ttl_epoch_in_days e 30)))] @
     (if truthy_str category then [(''category'', PStr (opt_default [] category))] else []) @
     (case tenant_id of None \<Rightarrow> [] | Some t \<Rightarrow> [(''tenantId'', PStr t)]) @
     (case api_key_name of None \<Rightarrow> [] | Some n \<Rightarrow> [(''apiKeyName'', PStr n)])"

definition create_batch ::
  "'t env \<Rightarrow> string \<Rightarrow> nat \<Rightarrow> string option \<Rightarrow> batch_status \<Rightarrow> string option \<Rightarrow> string option \<Rightarrow>
   ('t, pyval) wprog"
where
  "create_batch e batch_id total_files category st tenant_id api_key_name =
     thenP
       (catchP (put_item e DocumentBatchesT
                 (batch_item e batch_id total_files category st tenant_id api_key_name)
                 (CNotExists ''batchId''))
         (\<lambda>x. if x = ConditionalCheckFailed
              then raise (HTTPExc 409 ''Batch ID already exists'') else raise x))
       (ret (PTime (now e)))"

definition update_batch_status ::
  "'t env \<Rightarrow> string \<Rightarrow> batch_status \<Rightarrow> string option \<Rightarrow> cond \<Rightarrow> ('t, unit) wprog" where
  "update_batch_status e batch_id st error_message c =
     thenP (update_item e DocumentBatchesT (batch_key batch_id)
              ([USet ''batchStatus'' (PStr (bs_value st)), USet ''updatedAt'' (PTime (now e))] @
               set_if_str ''errorMessage'' error_message) c)
       (ret ())"

definition get_batch :: "'t env \<Rightarrow> string \<Rightarrow> ('t, dict option) wprog" where
  "get_batch e batch_id = get_item e DocumentBatchesT (batch_key batch_id)"

definition query_jobs_by_batch_id :: "'t env \<Rightarrow> string \<Rightarrow> ('t, dict list) wprog" where
  "query_jobs_by_batch_id e batch_id =
     query_by_key e DocumentMetadataT ''batchId'' batch_id None"

definition failed_jobs :: "dict list \<Rightarrow> nat" where
  "failed_jobs jobs =
     length (filter (\<lambda>j. dget j ''processStatus'' = PStr (ps_value PS_FAILED) \<or>
                         dget j ''processStatus'' = PStr (ps_value PS_TIMED_OUT)) jobs)"

definition terminal_batch_status :: "nat \<Rightarrow> int \<Rightarrow> batch_status" where
  "terminal_batch_status failed_count total_files =
     (if failed_count = 0 then BS_COMPLETED
      else if int failed_count = total_files then BS_FAILED
      else BS_PARTIAL)"

definition count_field :: "dict \<Rightarrow> string \<Rightarrow> int" where
  "count_field item a = int_of (py_or (dget item a) (PNum 0))"

definition processing_cond :: cond where
  "processing_cond = CEq ''batchStatus'' (PStr (bs_value BS_PROCESSING))"

definition count_resolved :: "'t env \<Rightarrow> string \<Rightarrow> ('t, dict) wprog" where
  "count_resolved e batch_id =
     update_item e DocumentBatchesT (batch_key batch_id)
       [UAdd ''resolvedCount'' 1, USet ''updatedAt'' (PTime (now e))] processing_cond"

definition finalise_batch :: "'t env \<Rightarrow> string \<Rightarrow> int \<Rightarrow> ('t, unit) wprog" where
  "finalise_batch e batch_id total_files =
     bindP (query_jobs_by_batch_id e batch_id) (\<lambda>jobs.
       update_batch_status e batch_id (terminal_batch_status (failed_jobs jobs) total_files) None
         processing_cond)"

definition increment_resolved_count :: "'t env \<Rightarrow> string \<Rightarrow> ('t, unit) wprog" where
  "increment_resolved_count e batch_id =
     catchP
       (bindP (count_resolved e batch_id) (\<lambda>updated.
          if count_field updated ''resolvedCount'' < count_field updated ''totalFiles'' then ret ()
          else finalise_batch e batch_id (count_field updated ''totalFiles'')))
       (\<lambda>x. ret ())"

section \<open>The life of a batch\<close>

text \<open>
  The invariant of the table: whatever the programs above do, a batch that exists keeps its total
  and never loses a resolved job, and a finished batch keeps its status, except by the direct
  writes of \<open>update_batch_status\<close> without a condition, which the routers make while uploading.
\<close>

definition batch_done :: "dict \<Rightarrow> bool" where
  "batch_done it =
     (dget it ''batchStatus'' \<in> (PStr \<circ> bs_value) ` {BS_COMPLETED, BS_PARTIAL, BS_FAILED})"

fun batch_step :: "tname \<Rightarrow> dict \<Rightarrow> dict option \<Rightarrow> dict option \<Rightarrow> bool" where
  "batch_step DocumentBatchesT k (Some it) y =
     (case y of None \<Rightarrow> False
      | Some it' \<Rightarrow>
          dget it' ''totalFiles'' = dget it ''totalFiles'' \<and>
          count_field it ''resolvedCount'' \<le> count_field it' ''resolvedCount'' \<and>
          (batch_done it \<longrightarrow> dget it' ''batchStatus'' = dget it ''batchStatus'' \<and>
             dget it' ''resolvedCount'' = dget it ''resolvedCount''))"
| "batch_step DocumentBatchesT k None y = (y = None)"
| "batch_step T k x y = (T \<noteq> DocumentBatchesT \<longrightarrow> x = y)"

lemma batch_step_refl: "batch_step T k x x"
  by (cases T; cases x) auto

lemma batch_step_trans: "batch_step T k x y \<Longrightarrow> batch_step T k y z \<Longrightarrow> batch_step T k x z"
  by (cases T; cases x; cases y; cases z) (auto simp: batch_done_def)

sublocale service \<subseteq> batches: item_order look e batch_step
  by unfold_locales (fact batch_step_refl, fact batch_step_trans)

definition batch_counts_ok :: "dict \<Rightarrow> bool" where
  "batch_counts_ok it =
     (map_of it ''resolvedCount'' = None \<or>
      (\<exists>r. map_of it ''resolvedCount'' = Some (PNum (of_nat r))))"

lemma processing_cond_iff:
  "cond_holds processing_cond it = (map_of it ''batchStatus'' = Some (PStr (bs_value BS_PROCESSING)))"
  by (simp add: processing_cond_def)

lemma batch_done_not_processing:
  "map_of it ''batchStatus'' = Some (PStr (bs_value BS_PROCESSING)) \<Longrightarrow> \<not> batch_done it"
  by (auto simp: batch_done_def dget_def)

lemma count_field_of: "map_of it a = Some (PNum x) \<Longrightarrow> count_field it a = int_of (PNum x)"
  by (cases "x = 0") (simp_all add: count_field_def dget_def py_or_def)

lemma count_field_num: "map_of it a = Some (PNum (of_nat n)) \<Longrightarrow> count_field it a = int n"
  by (simp add: count_field_def dget_def py_or_def)

lemma count_field_none: "map_of it a = None \<Longrightarrow> count_field it a = 0"
  by (simp add: count_field_def dget_def py_or_def)

lemma int_of_mono: "x \<le> y \<Longrightarrow> int_of (PNum x) \<le> int_of (PNum y)"
  by (auto intro: floor_mono ceiling_mono)
    (metis (no_types, lifting) ceiling_le_zero dual_order.trans linorder_le_cases zero_le_floor)

lemma count_field_add:
  assumes "updated_item k (Some it) us = Some it'" "UAdd a 1 \<in> set us"
  shows "count_field it a \<le> count_field it' a"
proof -
  from updated_item_add [OF assms] consider
      "map_of it a = None" "map_of it' a = Some (PNum 1)"
    | m where "map_of it a = Some (PNum m)" "map_of it' a = Some (PNum (m + 1))"
    by auto
  then show ?thesis
  proof cases
    case 1
    then show ?thesis by (simp add: count_field_def dget_def py_or_def)
  next
    case 2
    then show ?thesis
      using int_of_mono [of m "m + 1"] by (simp add: count_field_of del: int_of.simps)
  qed
qed

context service begin

lemma g_count_resolved: "guarantees (items_rel look batch_step) (count_resolved e b)"
  unfolding count_resolved_def
proof (rule batches.g_update_item)
  fix it it'
  assume c: "cond_holds processing_cond (opt_default [] it)"
    and u: "updated_item (batch_key b) it
      [UAdd ''resolvedCount'' 1, USet ''updatedAt'' (PTime (now e))] = Some it'"
  then obtain x where x: "it = Some x" "map_of x ''batchStatus'' = Some (PStr (bs_value BS_PROCESSING))"
    by (cases it) (auto simp: processing_cond_iff)
  have "count_field x ''resolvedCount'' \<le> count_field it' ''resolvedCount''"
    by (rule count_field_add [OF u [unfolded x(1)]]) simp
  moreover have "dget it' ''totalFiles'' = dget x ''totalFiles''"
    using updated_item_dget_other [OF u, of "''totalFiles''"] x(1) by simp
  ultimately show "batch_step DocumentBatchesT (batch_key b) it (Some it')"
    using batch_done_not_processing [OF x(2)] x(1) by simp
qed

lemma g_update_batch_status:
  "guarantees (items_rel look batch_step) (update_batch_status e b st msg processing_cond)"
  unfolding update_batch_status_def
proof (intro batches.order.g_rules batches.g_update_item)
  fix it it'
  assume c: "cond_holds processing_cond (opt_default [] it)"
    and u: "updated_item (batch_key b) it
      ([USet ''batchStatus'' (PStr (bs_value st)), USet ''updatedAt'' (PTime (now e))] @
       set_if_str ''errorMessage'' msg) = Some it'"
  then obtain x where x: "it = Some x" "map_of x ''batchStatus'' = Some (PStr (bs_value BS_PROCESSING))"
    by (cases it) (auto simp: processing_cond_iff)
  have "dget it' a = dget x a" if "a \<in> {''totalFiles'', ''resolvedCount''}" for a
    using updated_item_dget_other [OF u, of a] x(1) that by (auto simp: set_if_str_def)
  then show "batch_step DocumentBatchesT (batch_key b) it (Some it')"
    using batch_done_not_processing [OF x(2)] x(1) by (simp add: count_field_def)
qed

lemma g_increment_resolved_count:
  "guarantees (items_rel look batch_step) (increment_resolved_count e b)"
  unfolding increment_resolved_count_def finalise_batch_def query_jobs_by_batch_id_def
  by (intro batches.order.g_rules g_count_resolved g_update_batch_status batches.g_store)

end

lemma increment_total: "fst (increment_resolved_count e b w) = Inr ()"
  by (auto simp: increment_resolved_count_def catchP_run split: prod.splits sum.splits)

text \<open>C3: Whatever the table service does, a call of \<open>increment_resolved_count\<close> never raises, and no
  batch loses by it: a batch keeps its total, its resolved count does not go down, and a batch
  that is completed, partial or failed keeps that status and its count.  No other table changes
  and no batch is created.\<close>

theorem increment_resolved_count_safe:
  assumes "ddb_laws look (client e)"
  shows "fst (increment_resolved_count e b w) = Inr () \<and>
    items_rel look batch_step w (snd (increment_resolved_count e b w))"
  using increment_total service.g_increment_resolved_count [OF serviceI [OF assms]]
  by (simp add: guarantees_def)

definition example_batch :: "nat \<Rightarrow> nat \<Rightarrow> mem" where
  "example_batch r n =
     [((DocumentBatchesT, batch_key ''b''),
       [(''batchId'', PStr ''b''), (''batchStatus'', PStr ''processing''),
        (''totalFiles'', PNum (of_nat n)), (''resolvedCount'', PNum (of_nat r))])]"

lemma increment_resolved_count_safe_witness:
  "items_rel mem_look batch_step (world_of (example_batch 1 2))
     (snd (increment_resolved_count base_env ''b'' (world_of (example_batch 1 2))))"
  using increment_resolved_count_safe [OF mem_laws [folded client_base_env],
      of "''b''" "world_of (example_batch 1 2)"] by simp

section \<open>Counting down to the final status\<close>

definition batch_has_failure :: "('t \<Rightarrow> tname \<Rightarrow> dict \<Rightarrow> dict option) \<Rightarrow> string \<Rightarrow> 't world \<Rightarrow> bool" where
  "batch_has_failure look b w =
     (\<exists>k it. item_in look w DocumentMetadataT k = Some it \<and> map_of it ''batchId'' = Some (PStr b) \<and>
        dget it ''processStatus'' \<in> {PStr (ps_value PS_FAILED), PStr (ps_value PS_TIMED_OUT)})"

lemma failed_jobs_zero:
  assumes "set items = {it. (\<exists>k. item_in look w DocumentMetadataT k = Some it) \<and>
    map_of it ''batchId'' = Some (PStr b)}"
  shows "failed_jobs items = 0 \<longleftrightarrow> \<not> batch_has_failure look b w"
  using assms by (auto simp: failed_jobs_def filter_empty_conv batch_has_failure_def)

lemma terminal_completed: "terminal_batch_status n t = BS_COMPLETED \<longleftrightarrow> n = 0"
  by (simp add: terminal_batch_status_def)

lemma terminal_not_processing:
  "terminal_batch_status n t \<noteq> BS_PROCESSING" "terminal_batch_status n t \<noteq> BS_UPLOADING"
  by (simp_all add: terminal_batch_status_def)

lemma count_update_accepted:
  assumes "batch_counts_ok it"
  obtains it' where
    "updated_item (batch_key b) (Some it) [UAdd ''resolvedCount'' 1, USet ''updatedAt'' v] = Some it'"
    "map_of it' ''resolvedCount'' = Some (PNum (of_nat (Suc (nat (count_field it ''resolvedCount'')))))"
proof -
  let ?us = "[UAdd ''resolvedCount'' 1, USet ''updatedAt'' v]"
  from assms consider "map_of it ''resolvedCount'' = None"
    | r where "map_of it ''resolvedCount'' = Some (PNum (of_nat r))"
    by (auto simp: batch_counts_ok_def)
  then show ?thesis
  proof cases
    case 1
    then have "updated_item (batch_key b) (Some it) ?us =
        Some (dset ''updatedAt'' v (dset ''resolvedCount'' (PNum 1) it))"
      by (simp add: updated_item_def batch_key_def)
    then show ?thesis by (rule that) (simp add: count_field_none [OF 1])
  next
    case (2 r)
    then have "updated_item (batch_key b) (Some it) ?us =
        Some (dset ''updatedAt'' v (dset ''resolvedCount'' (PNum (of_nat r + 1)) it))"
      by (simp add: updated_item_def batch_key_def)
    then show ?thesis by (rule that) (simp add: count_field_num [OF 2])
  qed
qed

context reliable_service begin

lemma increment_not_processing:
  assumes "item_in look w DocumentBatchesT (batch_key b) = Some it"
    and "map_of it ''batchStatus'' \<noteq> Some (PStr (bs_value BS_PROCESSING))"
  shows "item_in look (snd (increment_resolved_count e b w)) = item_in look w"
proof -
  have "\<not> cond_holds processing_cond (opt_default [] (item_in look w DocumentBatchesT (batch_key b)))"
    using assms by (simp add: processing_cond_iff)
  then obtain w' where "count_resolved e b w = (Inl ConditionalCheckFailed, w')"
      "item_in look w' = item_in look w"
    unfolding count_resolved_def by (rule update_item_refused) blast
  then show ?thesis by (simp add: increment_resolved_count_def catchP_run bindP_run)
qed

lemma increment_processing:
  assumes it: "item_in look w DocumentBatchesT (batch_key b) = Some it"
    and pr: "map_of it ''batchStatus'' = Some (PStr (bs_value BS_PROCESSING))"
    and ok: "batch_counts_ok it"
  obtains it' w' where "increment_resolved_count e b w = (Inr (), w')"
    "item_in look w' = (item_in look w)(DocumentBatchesT :=
       (item_in look w DocumentBatchesT)(batch_key b \<mapsto> it'))"
    "batch_counts_ok it'"
    "count_field it' ''resolvedCount'' = count_field it ''resolvedCount'' + 1"
    "count_field it' ''totalFiles'' = count_field it ''totalFiles''"
    "\<exists>st. map_of it' ''batchStatus'' = Some (PStr (bs_value st)) \<and>
       (st = BS_PROCESSING \<longleftrightarrow> count_field it ''resolvedCount'' + 1 < count_field it ''totalFiles'') \<and>
       (st = BS_COMPLETED \<longleftrightarrow>
          \<not> count_field it ''resolvedCount'' + 1 < count_field it ''totalFiles'' \<and>
          \<not> batch_has_failure look b w) \<and> st \<noteq> BS_UPLOADING"
proof -
  let ?k = "batch_key b"
  have nn: "0 \<le> count_field it ''resolvedCount''"
    using ok by (auto simp: batch_counts_ok_def count_field_none count_field_num)
  obtain it1 where u1: "updated_item ?k (Some it)
      [UAdd ''resolvedCount'' 1, USet ''updatedAt'' (PTime (now e))] = Some it1"
    and r1: "map_of it1 ''resolvedCount'' =
      Some (PNum (of_nat (Suc (nat (count_field it ''resolvedCount'')))))"
    using count_update_accepted [OF ok] by metis
  have rc1: "count_field it1 ''resolvedCount'' = count_field it ''resolvedCount'' + 1"
    using count_field_num [OF r1] nn by simp
  have same1: "map_of it1 a = map_of it a" if "a \<in> {''totalFiles'', ''batchStatus''}" for a
    using updated_item_other [OF u1, of a] that by auto
  have tot1: "count_field it1 ''totalFiles'' = count_field it ''totalFiles''"
    using same1 [of "''totalFiles''"] by (simp add: count_field_def dget_def)
  have pr1: "map_of it1 ''batchStatus'' = Some (PStr (bs_value BS_PROCESSING))"
    using same1 [of "''batchStatus''"] pr by simp
  have ok1: "batch_counts_ok it1" using r1 unfolding batch_counts_ok_def by blast
  obtain w1 where c1: "count_resolved e b w = (Inr it1, w1)"
    and i1: "item_in look w1 = (item_in look w)(DocumentBatchesT :=
      (item_in look w DocumentBatchesT)(?k \<mapsto> it1))"
    unfolding count_resolved_def
    by (rule update_item_total [of processing_cond w DocumentBatchesT ?k
          "[UAdd ''resolvedCount'' 1, USet ''updatedAt'' (PTime (now e))]" it1])
      (simp_all add: it u1 pr processing_cond_iff)
  show ?thesis
  proof (cases "count_field it ''resolvedCount'' + 1 < count_field it ''totalFiles''")
    case True
    have "increment_resolved_count e b w = (Inr (), w1)"
      using c1 True by (simp add: increment_resolved_count_def catchP_run bindP_run rc1 tot1)
    then show ?thesis
      by (rule that [OF _ i1 ok1 rc1 tot1]) (use pr1 True in auto)
  next
    case False
    obtain items w2 where q: "query_by_key e DocumentMetadataT ''batchId'' b None w1 = (Inr items, w2)"
      and items: "set items = {it. (\<exists>k. item_in look w1 DocumentMetadataT k = Some it) \<and>
          map_of it ''batchId'' = Some (PStr b)}"
      and i2: "item_in look w2 = item_in look w1"
      by (rule query_by_key_total)
    let ?st = "terminal_batch_status (failed_jobs items) (count_field it1 ''totalFiles'')"
    let ?us = "[USet ''batchStatus'' (PStr (bs_value ?st)), USet ''updatedAt'' (PTime (now e))]"
    have u2: "updated_item ?k (Some it1) ?us =
        Some (dset ''updatedAt'' (PTime (now e)) (dset ''batchStatus'' (PStr (bs_value ?st)) it1))"
        (is "_ = Some ?it2")
      by (simp add: updated_item_def batch_key_def)
    obtain w3 where f: "update_item e DocumentBatchesT ?k ?us processing_cond w2 = (Inr ?it2, w3)"
      and i3: "item_in look w3 = (item_in look w2)(DocumentBatchesT :=
          (item_in look w2 DocumentBatchesT)(?k \<mapsto> ?it2))"
      by (rule update_item_total [of processing_cond w2 DocumentBatchesT ?k ?us ?it2])
        (simp_all add: i2 i1 u2 pr1 processing_cond_iff)
    have run: "increment_resolved_count e b w = (Inr (), w3)"
      using c1 q f False
      by (simp add: increment_resolved_count_def catchP_run bindP_run rc1 tot1 finalise_batch_def
          query_jobs_by_batch_id_def update_batch_status_def thenP_run set_if_str_def truthy_str_def)
    have fail: "failed_jobs items = 0 \<longleftrightarrow> \<not> batch_has_failure look b w"
      by (rule failed_jobs_zero) (simp add: items i1)
    have i: "item_in look w3 = (item_in look w)(DocumentBatchesT :=
        (item_in look w DocumentBatchesT)(?k \<mapsto> ?it2))"
      by (simp add: i3 i2 i1)
    have ok2: "batch_counts_ok ?it2" using ok1 by (simp add: batch_counts_ok_def)
    have rc2: "count_field ?it2 ''resolvedCount'' = count_field it ''resolvedCount'' + 1"
      using rc1 by (simp add: count_field_def)
    have tot2: "count_field ?it2 ''totalFiles'' = count_field it ''totalFiles''"
      using tot1 by (simp add: count_field_def)
    have st: "?st \<noteq> BS_PROCESSING \<and> ?st \<noteq> BS_UPLOADING \<and>
        (?st = BS_COMPLETED \<longleftrightarrow> \<not> batch_has_failure look b w)"
      by (simp add: terminal_not_processing terminal_completed fail)
    have "map_of ?it2 ''batchStatus'' = Some (PStr (bs_value ?st))" by simp
    with st False show ?thesis
      by (intro that [OF run i ok2 rc2 tot2] exI [of _ ?st]) simp
  qed
qed

end

text \<open>The resolved count and the status of a batch after \<open>m\<close> jobs have reported.\<close>

context reliable_service begin

lemma increments:
  assumes "item_in look w DocumentBatchesT (batch_key b) = Some it"
    and "map_of it ''batchStatus'' = Some (PStr (bs_value BS_PROCESSING))"
    and "batch_counts_ok it"
    and "count_field it ''resolvedCount'' < count_field it ''totalFiles''"
  shows "\<exists>it' st. item_in look (snd (run_each (replicate m (increment_resolved_count e b)) w))
      DocumentBatchesT (batch_key b) = Some it' \<and>
    count_field it' ''resolvedCount'' =
      min (count_field it ''resolvedCount'' + int m) (count_field it ''totalFiles'') \<and>
    map_of it' ''batchStatus'' = Some (PStr (bs_value st)) \<and>
    (st = BS_PROCESSING \<longleftrightarrow>
       count_field it ''resolvedCount'' + int m < count_field it ''totalFiles'') \<and>
    (st = BS_COMPLETED \<longrightarrow> \<not> batch_has_failure look b w) \<and> st \<noteq> BS_UPLOADING"
  using assms
proof (induction m arbitrary: w it)
  case 0
  then show ?case by auto
next
  case (Suc m)
  obtain it1 w1 st1 where 1: "increment_resolved_count e b w = (Inr (), w1)"
    "item_in look w1 = (item_in look w)(DocumentBatchesT :=
       (item_in look w DocumentBatchesT)(batch_key b \<mapsto> it1))"
    "batch_counts_ok it1"
    "count_field it1 ''resolvedCount'' = count_field it ''resolvedCount'' + 1"
    "count_field it1 ''totalFiles'' = count_field it ''totalFiles''"
    "map_of it1 ''batchStatus'' = Some (PStr (bs_value st1))"
    "st1 = BS_PROCESSING \<longleftrightarrow> count_field it ''resolvedCount'' + 1 < count_field it ''totalFiles''"
    "st1 = BS_COMPLETED \<longrightarrow> \<not> batch_has_failure look b w" "st1 \<noteq> BS_UPLOADING"
    using increment_processing [OF Suc.prems(1-3)] by metis
  have run: "snd (run_each (replicate (Suc m) (increment_resolved_count e b)) w) =
      snd (run_each (replicate m (increment_resolved_count e b)) w1)"
    using 1(1) by (simp split: prod.splits)
  have look1: "item_in look w1 DocumentBatchesT (batch_key b) = Some it1" using 1(2) by simp
  have fail: "batch_has_failure look b w1 = batch_has_failure look b w"
    using 1(2) by (simp add: batch_has_failure_def)
  show ?case
  proof (cases "count_field it ''resolvedCount'' + 1 < count_field it ''totalFiles''")
    case True
    have pr: "map_of it1 ''batchStatus'' = Some (PStr (bs_value BS_PROCESSING))"
      using True 1(6,7) by simp
    have lt: "count_field it1 ''resolvedCount'' < count_field it1 ''totalFiles''"
      using True 1(4,5) by simp
    have eq: "count_field it1 ''resolvedCount'' + int m = count_field it ''resolvedCount'' + int (Suc m)"
      using 1(4) by simp
    show ?thesis
      using Suc.IH [OF look1 pr 1(3) lt] unfolding run fail eq 1(5) .
  next
    case False
    have "item_in look (snd (run_each (replicate m (increment_resolved_count e b)) w1))
        DocumentBatchesT (batch_key b) = Some it1"
    proof (induction m)
      case (Suc m)
      then show ?case
        using increment_not_processing [OF Suc] 1(6,7) False
        by (simp add: replicate_append_same [symmetric] run_each_snoc del: run_each.simps(2))
    qed (simp add: look1)
    then show ?thesis
      unfolding run using 1(4-9) False Suc.prems(4)
      by (intro exI [of _ it1] exI [of _ st1]) auto
  qed
qed

end



end
