(* ===== verification/Crud_Tables.thy ===== *)
theory Crud_Tables
  imports Document_Record
begin

text \<open>
  The generic tables of \<open>utils/base_readonly_table.py\<close> and \<open>utils/base_crud_table.py\<close>, and the
  tables declared with them: tenants (\<open>utils/tenants.py\<close>), document categories
  (\<open>utils/document_categories.py\<close>, with the cache of \<open>utils/cache.py\<close>) and extraction rules
  (\<open>schemas/extraction_rules.py\<close>).  A table class is the record of its class attributes.
\<close>

section \<open>Table classes\<close>

record crud_table =
  ct_name :: tname
  ct_pk :: string
  ct_sk :: "string option"
  ct_active :: string
  ct_created :: string
  ct_updated :: string
  ct_clearable :: "string list"

definition tenants_table :: crud_table where
  "tenants_table =
     \<lparr>ct_name = TenantsT, ct_pk = ''tenantId'', ct_sk = None, ct_active = ''isActive'',
      ct_created = ''createdAt'', ct_updated = ''updatedAt'',
      ct_clearable = [''primaryContact'', ''extractionConfidenceFloor'', ''maxWritesPerDay'',
        ''maxWritesPerMonth'', ''disabledBlueprintList'']\<rparr>"

definition categories_table :: crud_table where
  "categories_table =
     \<lparr>ct_name = DocumentCategoriesT, ct_pk = ''tenantId'', ct_sk = Some ''categoryName'',
      ct_active = ''isActive'', ct_created = ''createdAt'', ct_updated = ''updatedAt'',
      ct_clearable = []\<rparr>"

definition rules_table :: crud_table where
  "rules_table =
     \<lparr>ct_name = ExtractionRulesT, ct_pk = ''tenantId'', ct_sk = Some ''documentType'',
      ct_active = '''', ct_created = ''createdAt'', ct_updated = ''updatedAt'',
      ct_clearable = []\<rparr>"

section \<open>Reading\<close>

definition get_table_name :: "'t env \<Rightarrow> crud_table \<Rightarrow> exn + tname" where
  "get_table_name e tb =
     (if table_configured e (ct_name tb) then Inr (ct_name tb)
      else Inl (HTTPExc 503 ''Storage not configured''))"

definition build_key :: "crud_table \<Rightarrow> pyval \<Rightarrow> pyval \<Rightarrow> dict" where
  "build_key tb pk sk =
     (ct_pk tb, pk) #
     (case ct_sk tb of None \<Rightarrow> []
      | Some f \<Rightarrow> if f \<noteq> [] \<and> truthy sk then [(f, sk)] else [])"

definition table_get :: "'t env \<Rightarrow> crud_table \<Rightarrow> pyval \<Rightarrow> pyval \<Rightarrow> ('t, dict option) wprog" where
  "table_get e tb pk sk =
     bindP (lift_result (get_table_name e tb)) (\<lambda>T. get_item e T (build_key tb pk sk))"

text \<open>\<open>if existing:\<close> on an item, which is never the empty dictionary unless it is absent.\<close>

definition present :: "dict option \<Rightarrow> bool" where
  "present x = (case x of None \<Rightarrow> False | Some it \<Rightarrow> it \<noteq> [])"

definition active_items :: "crud_table \<Rightarrow> bool \<Rightarrow> dict list \<Rightarrow> dict list" where
  "active_items tb active_only items =
     (if active_only \<and> ct_active tb \<noteq> []
      then filter (\<lambda>i. truthy (dget_default i (ct_active tb) (PBool True))) items else items)"

definition table_list_by_pk ::
  "'t env \<Rightarrow> crud_table \<Rightarrow> string \<Rightarrow> bool \<Rightarrow> ('t, dict list) wprog" where
  "table_list_by_pk e tb pk active_only =
     (case ct_sk tb of None \<Rightarrow> raise (OtherExc ''NotImplementedError'')
      | Some f \<Rightarrow>
          bindP (lift_result (get_table_name e tb)) (\<lambda>T.
          bindP (query_by_pk e T (ct_pk tb) pk) (\<lambda>items. ret (active_items tb active_only items))))"

definition table_list_all :: "'t env \<Rightarrow> crud_table \<Rightarrow> bool \<Rightarrow> ('t, dict list) wprog" where
  "table_list_all e tb active_only =
     bindP (lift_result (get_table_name e tb)) (\<lambda>T.
     bindP (scan e T) (\<lambda>items. ret (active_items tb active_only items)))"

section \<open>Writing\<close>

definition set_default :: "string \<Rightarrow> pyval \<Rightarrow> dict \<Rightarrow> dict" where
  "set_default k v d = (if has_key d k then d else dset k v d)"

definition with_defaults :: "'t env \<Rightarrow> crud_table \<Rightarrow> dict \<Rightarrow> dict" where
  "with_defaults e tb item =
     (let d = set_default (ct_updated tb) (PTime (now e))
                (set_default (ct_created tb) (PTime (now e)) item)
      in if ct_active tb \<noteq> [] then set_default (ct_active tb) (PBool True) d else d)"

definition table_create :: "'t env \<Rightarrow> crud_table \<Rightarrow> dict \<Rightarrow> bool \<Rightarrow> ('t, dict) wprog" where
  "table_create e tb item check_exists =
     (case map_of item (ct_pk tb) of
        None \<Rightarrow> raise (KeyErr (ct_pk tb))
      | Some pk \<Rightarrow>
          (let sk = (case ct_sk tb of None \<Rightarrow> PNone | Some f \<Rightarrow> dget item f);
               item' = with_defaults e tb item
           in thenP (if check_exists
                     then bindP (table_get e tb pk sk) (\<lambda>old.
                       if present old then raise (ValueErr ''Item already exists'') else ret ())
                     else ret ())
              (thenP (bindP (lift_result (get_table_name e tb)) (\<lambda>T. put_item e T item' CTrue))
                 (ret item'))))"

definition update_actions :: "'t env \<Rightarrow> crud_table \<Rightarrow> dict \<Rightarrow> string list \<Rightarrow> upd list" where
  "update_actions e tb updates clear_fields =
     map (\<lambda>(f, v). USet f v) (dset (ct_updated tb) (PTime (now e)) updates) @
     map URemove clear_fields"

definition table_update ::
  "'t env \<Rightarrow> crud_table \<Rightarrow> pyval \<Rightarrow> pyval \<Rightarrow> string list \<Rightarrow> dict \<Rightarrow> ('t, dict) wprog" where
  "table_update e tb pk sk clear_fields flds =
     bindP (table_get e tb pk sk) (\<lambda>existing.
       if \<not> present existing then raise (ValueErr ''Item not found'')
       else
         (let updates = filter (\<lambda>(k, v). v \<noteq> PNone) flds in
          if updates = [] \<and> clear_fields = [] then raise (ValueErr ''No fields to update'')
          else
            bindP (lift_result (get_table_name e tb)) (\<lambda>T.
            thenP (update_item e T (build_key tb pk sk) (update_actions e tb updates clear_fields)
                     CTrue)
            (bindP (table_get e tb pk sk) (\<lambda>updated.
               case updated of None \<Rightarrow> raise (ValueErr ''Update failed'')
               | Some it \<Rightarrow> if it = [] then raise (ValueErr ''Update failed'') else ret it)))))"

definition table_upsert ::
  "'t env \<Rightarrow> crud_table \<Rightarrow> pyval \<Rightarrow> pyval \<Rightarrow> dict \<Rightarrow> ('t, dict) wprog" where
  "table_upsert e tb pk sk flds =
     bindP (lift_result (get_table_name e tb)) (\<lambda>T.
       update_item e T (build_key tb pk sk)
         (map (\<lambda>(f, v). USet f v) (filter (\<lambda>(k, v). v \<noteq> PNone) flds) @
          [USet (ct_updated tb) (PTime (now e)),
           USetIfNotExists (ct_created tb) (PTime (now e))]) CTrue)"

definition table_deactivate :: "'t env \<Rightarrow> crud_table \<Rightarrow> pyval \<Rightarrow> pyval \<Rightarrow> ('t, bool) wprog" where
  "table_deactivate e tb pk sk =
     bindP (table_get e tb pk sk) (\<lambda>existing.
       if \<not> present existing then ret False
       else bindP (lift_result (get_table_name e tb)) (\<lambda>T.
         thenP (update_item e T (build_key tb pk sk)
                  [USet (ct_active tb) (PBool False), USet (ct_updated tb) (PTime (now e))] CTrue)
           (ret True)))"

definition table_delete :: "'t env \<Rightarrow> crud_table \<Rightarrow> pyval \<Rightarrow> pyval \<Rightarrow> ('t, bool) wprog" where
  "table_delete e tb pk sk =
     bindP (lift_result (get_table_name e tb)) (\<lambda>T.
     bindP (get_item e T (build_key tb pk sk)) (\<lambda>existing.
       if \<not> present existing then ret False
       else thenP (delete_item e T (build_key tb pk sk)) (ret True)))"

section \<open>utils/tenants.py\<close>

definition get_tenant :: "'t env \<Rightarrow> string \<Rightarrow> ('t, dict option) wprog" where
  "get_tenant e tenant_id = table_get e tenants_table (PStr tenant_id) PNone"

fun float_of :: "pyval \<Rightarrow> exn + rat" where
  "float_of (PNum x) = Inr x"
| "float_of (PBool b) = Inr (if b then 1 else 0)"
| "float_of _ = Inl (TypeErr ''float() argument'')"

definition get_extraction_confidence_floor :: "'t env \<Rightarrow> string option \<Rightarrow> ('t, rat) wprog" where
  "get_extraction_confidence_floor e tenant_id =
     (if truthy_str tenant_id then
        bindP (get_tenant e (opt_default [] tenant_id)) (\<lambda>r.
          case r of
            Some it \<Rightarrow> (case map_of it ''extractionConfidenceFloor'' of
                Some v \<Rightarrow> lift_result (float_of v) | None \<Rightarrow> ret (65 / 100))
          | None \<Rightarrow> ret (65 / 100))
      else ret (65 / 100))"

definition tenant_has_confidence_floor :: "'t env \<Rightarrow> string option \<Rightarrow> ('t, bool) wprog" where
  "tenant_has_confidence_floor e tenant_id =
     (if \<not> truthy_str tenant_id then ret False
      else bindP (get_tenant e (opt_default [] tenant_id)) (\<lambda>r.
        ret (case r of None \<Rightarrow> False | Some it \<Rightarrow> has_key it ''extractionConfidenceFloor'')))"

definition list_tenants :: "'t env \<Rightarrow> bool \<Rightarrow> ('t, dict list) wprog" where
  "list_tenants e active_only = table_list_all e tenants_table active_only"

definition tenant_item ::
  "string \<Rightarrow> string \<Rightarrow> string option \<Rightarrow> rat option \<Rightarrow> nat option \<Rightarrow> nat option \<Rightarrow> dict" where
  "tenant_item tenant_id display_name contact conf_floor per_day per_month =
     [(''tenantId'', PStr tenant_id), (''displayName'', PStr display_name)] @
     (if truthy_str contact then [(''primaryContact'', PStr (opt_default [] contact))] else []) @
     (case conf_floor of None \<Rightarrow> [] | Some x \<Rightarrow> [(''extractionConfidenceFloor'', PNum x)]) @
     (case per_day of None \<Rightarrow> [] | Some n \<Rightarrow> [(''maxWritesPerDay'', PNum (of_nat n))]) @
     (case per_month of None \<Rightarrow> [] | Some n \<Rightarrow> [(''maxWritesPerMonth'', PNum (of_nat n))])"

definition create_tenant ::
  "'t env \<Rightarrow> string \<Rightarrow> string \<Rightarrow> string option \<Rightarrow> rat option \<Rightarrow> nat option \<Rightarrow> nat option \<Rightarrow>
   ('t, dict) wprog"
where
  "create_tenant e tenant_id display_name contact conf_floor per_day per_month =
     table_create e tenants_table
       (tenant_item tenant_id display_name contact conf_floor per_day per_month) True"

definition to_ddb_fields :: "dict \<Rightarrow> dict" where
  "to_ddb_fields flds = fold (\<lambda>(k, v) d. dset (snake_to_camel k) v d) flds []"

definition update_tenant ::
  "'t env \<Rightarrow> string \<Rightarrow> string list \<Rightarrow> dict \<Rightarrow> ('t, dict) wprog" where
  "update_tenant e tenant_id clear_fields flds =
     (let ddb_fields = to_ddb_fields (filter (\<lambda>(k, v). v \<noteq> PNone) flds);
          ddb_clear = remdups (filter (\<lambda>c. c \<in> set (ct_clearable tenants_table))
                                 (map snake_to_camel clear_fields))
      in if ddb_fields = [] \<and> ddb_clear = [] then raise (ValueErr ''No fields to update'')
         else table_update e tenants_table (PStr tenant_id) PNone ddb_clear ddb_fields)"

definition deactivate_tenant :: "'t env \<Rightarrow> string \<Rightarrow> ('t, bool) wprog" where
  "deactivate_tenant e tenant_id = table_deactivate e tenants_table (PStr tenant_id) PNone"

section \<open>utils/cache.py\<close>

definition cache_add :: "'t env \<Rightarrow> string \<Rightarrow> pyval \<Rightarrow> nat \<Rightarrow> ('t, unit) wprog" where
  "cache_add e key v ttl_minutes =
     modifies (\<lambda>w. w\<lparr>cache_items :=
       AList.update key (v, now e + 60 * of_nat ttl_minutes) (cache_items w)\<rparr>)"

definition cache_get :: "'t env \<Rightarrow> string \<Rightarrow> ('t, pyval) wprog" where
  "cache_get e key =
     (\<lambda>w. case map_of (cache_items w) key of
        None \<Rightarrow> (Inr PNone, w)
      | Some (v, expires_at) \<Rightarrow>
          if expires_at < now e
          then (Inr PNone, w\<lparr>cache_items := AList.delete key (cache_items w)\<rparr>)
          else (Inr v, w))"

definition cache_invalidate :: "string \<Rightarrow> ('t, unit) wprog" where
  "cache_invalidate key = modifies (\<lambda>w. w\<lparr>cache_items := AList.delete key (cache_items w)\<rparr>)"

section \<open>utils/document_categories.py\<close>

definition get_category :: "'t env \<Rightarrow> string \<Rightarrow> string \<Rightarrow> ('t, dict option) wprog" where
  "get_category e tenant_id category_name =
     table_get e categories_table (PStr tenant_id) (PStr category_name)"

definition percentage_key :: "string \<Rightarrow> string \<Rightarrow> string" where
  "percentage_key tenant_id category_name =
     ''processing_percentage:'' @ tenant_id @ '':'' @ category_name"

definition get_processing_percentage :: "'t env \<Rightarrow> string \<Rightarrow> string \<Rightarrow> ('t, rat) wprog" where
  "get_processing_percentage e tenant_id category_name =
     bindP (cache_get e (percentage_key tenant_id category_name)) (\<lambda>cached.
       if cached \<noteq> PNone then lift_result (float_of cached)
       else bindP (get_category e tenant_id category_name) (\<lambda>r.
         bindP (if present r
                then lift_result (float_of
                       (dget_default (opt_default [] r) ''processingPercentage'' (PNum 1)))
                else ret 1) (\<lambda>v.
         thenP (cache_add e (percentage_key tenant_id category_name) (PNum v) 5) (ret v))))"

definition list_categories :: "'t env \<Rightarrow> string \<Rightarrow> bool \<Rightarrow> ('t, dict list) wprog" where
  "list_categories e tenant_id active_only = table_list_by_pk e categories_table tenant_id active_only"

definition list_all_categories :: "'t env \<Rightarrow> bool \<Rightarrow> ('t, dict list) wprog" where
  "list_all_categories e active_only = table_list_all e categories_table active_only"

definition auto_register_category :: "'t env \<Rightarrow> string \<Rightarrow> string \<Rightarrow> ('t, unit) wprog" where
  "auto_register_category e tenant_id category_name =
     bindP (reads registered_categories) (\<lambda>known.
       if (tenant_id, category_name) \<in> set known then ret ()
       else
         thenP (whenP (10000 \<le> length known)
                  (modifies (\<lambda>w. w\<lparr>registered_categories := drop 1 (registered_categories w)\<rparr>)))
         (bindP (lift_result (get_table_name e categories_table)) (\<lambda>T.
          thenP (update_item e T
                   [(''tenantId'', PStr tenant_id), (''categoryName'', PStr category_name)]
                   [USetIfNotExists ''isAutoRegistered'' (PBool True),
                    USetIfNotExists ''isActive'' (PBool True),
                    USetIfNotExists ''displayName'' (PStr category_name),
                    USetIfNotExists ''processingPercentage'' (PNum 1),
                    USetIfNotExists ''createdAt'' (PTime (now e)),
                    USet ''updatedAt'' (PTime (now e))] CTrue)
            (modifies (\<lambda>w. w\<lparr>registered_categories :=
               registered_categories w @ [(tenant_id, category_name)]\<rparr>)))))"

definition create_category ::
  "'t env \<Rightarrow> string \<Rightarrow> string \<Rightarrow> string \<Rightarrow> string option \<Rightarrow> rat \<Rightarrow> ('t, dict) wprog" where
  "create_category e tenant_id category_name display_name description percentage =
     table_create e categories_table
       [(''tenantId'', PStr tenant_id), (''categoryName'', PStr category_name),
        (''displayName'', PStr display_name), (''description'', PStr (opt_default [] description)),
        (''isAutoRegistered'', PBool False), (''processingPercentage'', PNum percentage)] True"

definition update_category ::
  "'t env \<Rightarrow> string \<Rightarrow> string \<Rightarrow> string option \<Rightarrow> string option \<Rightarrow> bool option \<Rightarrow> rat option \<Rightarrow>
   ('t, dict) wprog"
where
  "update_category e tenant_id category_name display_name description active percentage =
     (let flds = filter (\<lambda>(k, v). v \<noteq> PNone)
        [(''displayName'', of_opt_str display_name), (''description'', of_opt_str description),
         (''isActive'', of_opt_bool active), (''processingPercentage'', of_opt_num percentage)]
      in if flds = [] then raise (ValueErr ''No fields to update'')
         else bindP (table_update e categories_table (PStr tenant_id) (PStr category_name) [] flds)
           (\<lambda>result. thenP (whenP (percentage \<noteq> None)
                               (cache_invalidate (percentage_key tenant_id category_name)))
                       (ret result)))"

definition delete_category :: "'t env \<Rightarrow> string \<Rightarrow> string \<Rightarrow> ('t, bool) wprog" where
  "delete_category e tenant_id category_name =
     table_deactivate e categories_table (PStr tenant_id) (PStr category_name)"

end
