(* ===== verification/Crud_Laws.thy ===== *)
theory Crud_Laws
  imports Crud_Tables Document_Writes
begin

text \<open>
  A table class implements a finite map from keys to items: each operation of
  \<open>Crud_Tables\<close> is refined from an operation on maps that also says what it raises.  On top of
  that, what an update does to one field, and what the category cache may return.
\<close>

section \<open>The abstract table\<close>

type_synonym table_map = "dict \<Rightarrow> dict option"

definition spec_create :: "dict \<Rightarrow> dict \<Rightarrow> table_map \<Rightarrow> (exn + dict) \<times> table_map" where
  "spec_create k item m =
     (if present (m k) then (Inl (ValueErr ''Item already exists''), m)
      else (Inr item, m(k \<mapsto> item)))"

definition spec_update :: "dict \<Rightarrow> upd list \<Rightarrow> bool \<Rightarrow> table_map \<Rightarrow> (exn + dict) \<times> table_map" where
  "spec_update k us nothing m =
     (if \<not> present (m k) then (Inl (ValueErr ''Item not found''), m)
      else if nothing then (Inl (ValueErr ''No fields to update''), m)
      else (case updated_item k (m k) us of
              None \<Rightarrow> (Inl (ClientErr ''ValidationException''), m)
            | Some it \<Rightarrow> (Inr it, m(k \<mapsto> it))))"

definition spec_deactivate :: "dict \<Rightarrow> upd list \<Rightarrow> table_map \<Rightarrow> (exn + bool) \<times> table_map" where
  "spec_deactivate k us m =
     (if \<not> present (m k) then (Inr False, m)
      else (case updated_item k (m k) us of
              None \<Rightarrow> (Inl (ClientErr ''ValidationException''), m)
            | Some it \<Rightarrow> (Inr True, m(k \<mapsto> it))))"

definition spec_delete :: "dict \<Rightarrow> table_map \<Rightarrow> (exn + bool) \<times> table_map" where
  "spec_delete k m = (if present (m k) then (Inr True, m(k := None)) else (Inr False, m))"

text \<open>The abstract view of a result: what was returned or raised, and the table afterwards.\<close>

definition table_view ::
  "('t \<Rightarrow> tname \<Rightarrow> dict \<Rightarrow> dict option) \<Rightarrow> tname \<Rightarrow> (exn + 'a) \<times> 't world \<Rightarrow> (exn + 'a) \<times> table_map"
where
  "table_view look T r = (fst r, item_in look (snd r) T)"

lemma present_Some: "present (Some it) = (it \<noteq> [])"
  by (simp add: present_def)

lemma updated_item_nonempty:
  "updated_item k x us = Some it \<Longrightarrow> has_key k a \<Longrightarrow> x = Some y \<Longrightarrow> has_key y a \<Longrightarrow> it \<noteq> []"
  using updated_item_key by (fastforce simp: has_key_def)

lemma updated_item_remove:
  assumes "updated_item k it us = Some it'" "URemove a \<in> set us"
  shows "map_of it' a = None"
proof -
  have l: "upd_attr x \<noteq> a" if "\<not> same_path (URemove a) x" for x
    using that by (cases x) auto
  have r: "upd_attr x \<noteq> a" if "\<not> same_path x (URemove a)" for x
    using that by (cases x) auto
  obtain b b' where b: "apply_upd (opt_default k it) (URemove a) b = Some b'"
      "map_of it' a = map_of b' a"
    using updated_item_at [OF assms] l r by (metis upd_attr.simps(5))
  have "map_of (filter (\<lambda>(c, _). c \<noteq> a) b) a = None" by (induction b) auto
  with b show ?thesis by simp
qed

context reliable_service begin

lemma table_get_total:
  assumes "table_configured e (ct_name tb)"
  obtains w' where
    "table_get e tb pk sk w = (Inr (item_in look w (ct_name tb) (build_key tb pk sk)), w')"
    "item_in look w' = item_in look w" "outbox w' = outbox w"
  using get_item_total [of "ct_name tb" "build_key tb pk sk" w] that assms
  by (auto simp: table_get_def bindP_run get_table_name_def)

lemma put_item_total:
  obtains w' where "put_item e T it CTrue w = (Inr (), w')"
    "item_in look w' = (item_in look w)(T := (item_in look w T)(key_of T it \<mapsto> it))"
    "outbox w' = outbox w"
proof -
  obtain t' where "db_put (client e) T it CTrue (store w) = (Inr (), t')"
    using put_total [of CTrue] cond_holds.simps(1) by blast
  then have "put_item e T it CTrue w = (Inr (), w\<lparr>store := t'\<rparr>)"
    by (simp add: put_item_def on_store_def)
  then show ?thesis using that put_item_ok by blast
qed

lemma delete_item_total:
  obtains w' where "delete_item e T k w = (Inr (), w')"
    "item_in look w' = (item_in look w)(T := (item_in look w T)(k := None))"
    "outbox w' = outbox w"
proof -
  obtain t' where "db_delete (client e) T k (store w) = (Inr (), t')"
    using delete_total by blast
  then have "delete_item e T k w = (Inr (), w\<lparr>store := t'\<rparr>)"
    by (simp add: delete_item_def on_store_def)
  then show ?thesis using that delete_item_ok by blast
qed

lemma create_refines:
  assumes c: "table_configured e (ct_name tb)" and pk: "map_of item (ct_pk tb) = Some pk"
    and k: "key_of (ct_name tb) (with_defaults e tb item) =
      build_key tb pk (case ct_sk tb of None \<Rightarrow> PNone | Some f \<Rightarrow> dget item f)"
  shows "table_view look (ct_name tb) (table_create e tb item True w) =
    spec_create (key_of (ct_name tb) (with_defaults e tb item)) (with_defaults e tb item)
      (item_in look w (ct_name tb))"
proof -
  let ?sk = "case ct_sk tb of None \<Rightarrow> PNone | Some f \<Rightarrow> dget item f"
  obtain w1 where g: "table_get e tb pk ?sk w =
      (Inr (item_in look w (ct_name tb) (build_key tb pk ?sk)), w1)"
    "item_in look w1 = item_in look w"
    by (rule table_get_total [OF c])
  obtain w2 where p: "put_item e (ct_name tb) (with_defaults e tb item) CTrue w1 = (Inr (), w2)"
    "item_in look w2 = (item_in look w1)(ct_name tb :=
       (item_in look w1 (ct_name tb))(key_of (ct_name tb) (with_defaults e tb item) \<mapsto>
         with_defaults e tb item))"
    by (rule put_item_total)
  show ?thesis
    using g p c pk k
    by (simp add: table_create_def table_view_def spec_create_def thenP_run bindP_run
        get_table_name_def Let_def)
qed

lemma update_refines:
  assumes c: "table_configured e (ct_name tb)"
    and key: "\<And>it. item_in look w (ct_name tb) (build_key tb pk sk) = Some it \<Longrightarrow> has_key it (ct_pk tb)"
  shows "table_view look (ct_name tb) (table_update e tb pk sk clear flds w) =
    spec_update (build_key tb pk sk)
      (update_actions e tb (filter (\<lambda>(k, v). v \<noteq> PNone) flds) clear)
      (filter (\<lambda>(k, v). v \<noteq> PNone) flds = [] \<and> clear = [])
      (item_in look w (ct_name tb))"
proof -
  let ?T = "ct_name tb" and ?k = "build_key tb pk sk"
  let ?us = "update_actions e tb (filter (\<lambda>(k, v). v \<noteq> PNone) flds) clear"
  obtain w1 where g: "table_get e tb pk sk w = (Inr (item_in look w ?T ?k), w1)"
    "item_in look w1 = item_in look w"
    by (rule table_get_total [OF c])
  show ?thesis
  proof (cases "present (item_in look w ?T ?k) \<and>
      \<not> (filter (\<lambda>(k, v). v \<noteq> PNone) flds = [] \<and> clear = [])")
    case False
    with g show ?thesis
      by (auto simp: table_update_def table_view_def spec_update_def bindP_run Let_def)
  next
    case pres: True
    show ?thesis
    proof (cases "updated_item ?k (item_in look w ?T ?k) ?us")
      case None
      obtain w2 where u: "update_item e ?T ?k ?us CTrue w1 = (Inl (ClientErr ''ValidationException''), w2)"
        "item_in look w2 = item_in look w1"
        by (rule update_item_rejected [of CTrue w1 ?T ?k ?us]) (simp_all add: None g(2))
      show ?thesis
        using g u pres None c
        by (auto simp: table_update_def table_view_def spec_update_def bindP_run thenP_run Let_def
            get_table_name_def)
    next
      case (Some it)
      obtain w2 where u: "update_item e ?T ?k ?us CTrue w1 = (Inr it, w2)"
        "item_in look w2 = (item_in look w1)(?T := (item_in look w1 ?T)(?k \<mapsto> it))"
        by (rule update_item_total [of CTrue w1 ?T ?k ?us it]) (simp_all add: Some g(2))
      obtain w3 where g3: "table_get e tb pk sk w2 = (Inr (item_in look w2 ?T ?k), w3)"
        "item_in look w3 = item_in look w2"
        by (rule table_get_total [OF c])
      obtain y where y: "item_in look w ?T ?k = Some y"
        using pres by (auto simp: present_def split: option.splits)
      have "it \<noteq> []"
        by (rule updated_item_nonempty [OF Some _ y key [OF y]]) (simp add: build_key_def)
      then show ?thesis
        using g u pres Some c g3
        by (auto simp: table_update_def table_view_def spec_update_def bindP_run thenP_run Let_def
            get_table_name_def)
    qed
  qed
qed

lemma deactivate_refines:
  assumes c: "table_configured e (ct_name tb)"
  shows "table_view look (ct_name tb) (table_deactivate e tb pk sk w) =
    spec_deactivate (build_key tb pk sk)
      [USet (ct_active tb) (PBool False), USet (ct_updated tb) (PTime (now e))]
      (item_in look w (ct_name tb))"
proof -
  let ?T = "ct_name tb" and ?k = "build_key tb pk sk"
  let ?us = "[USet (ct_active tb) (PBool False), USet (ct_updated tb) (PTime (now e))]"
  obtain w1 where g: "table_get e tb pk sk w = (Inr (item_in look w ?T ?k), w1)"
    "item_in look w1 = item_in look w"
    by (rule table_get_total [OF c])
  show ?thesis
  proof (cases "updated_item ?k (item_in look w ?T ?k) ?us")
    case None
    obtain w2 where u: "update_item e ?T ?k ?us CTrue w1 = (Inl (ClientErr ''ValidationException''), w2)"
      "item_in look w2 = item_in look w1"
      by (rule update_item_rejected [of CTrue w1 ?T ?k ?us]) (simp_all add: None g(2))
    show ?thesis
      using g u None c
      by (auto simp: table_deactivate_def table_view_def spec_deactivate_def bindP_run thenP_run
          get_table_name_def)
  next
    case (Some it)
    obtain w2 where u: "update_item e ?T ?k ?us CTrue w1 = (Inr it, w2)"
      "item_in look w2 = (item_in look w1)(?T := (item_in look w1 ?T)(?k \<mapsto> it))"
      by (rule update_item_total [of CTrue w1 ?T ?k ?us it]) (simp_all add: Some g(2))
    show ?thesis
      using g u Some c
      by (auto simp: table_deactivate_def table_view_def spec_deactivate_def bindP_run thenP_run
          get_table_name_def)
  qed
qed

lemma delete_refines:
  assumes c: "table_configured e (ct_name tb)"
  shows "table_view look (ct_name tb) (table_delete e tb pk sk w) =
    spec_delete (build_key tb pk sk) (item_in look w (ct_name tb))"
proof -
  let ?T = "ct_name tb" and ?k = "build_key tb pk sk"
  obtain w1 where g: "get_item e ?T ?k w = (Inr (item_in look w ?T ?k), w1)"
    "item_in look w1 = item_in look w"
    by (rule get_item_total)
  obtain w2 where d: "delete_item e ?T ?k w1 = (Inr (), w2)"
    "item_in look w2 = (item_in look w1)(?T := (item_in look w1 ?T)(?k := None))"
    by (rule delete_item_total)
  show ?thesis
    using g d c
    by (simp add: table_delete_def table_view_def spec_delete_def bindP_run thenP_run
        get_table_name_def)
qed

end

section \<open>The refinements\<close>

text \<open>C36: \<open>create\<close> implements insertion into a map of items that must not be there yet: it raises and
  changes nothing when an item has the key, and otherwise stores the item with its creation time,
  update time and active flag filled in where the caller left them out, and returns what it
  stored.\<close>

theorem crud_create_refines:
  assumes "reliable_ddb look (client e)" and "table_configured e (ct_name tb)"
    and "map_of item (ct_pk tb) = Some pk"
    and "key_of (ct_name tb) (with_defaults e tb item) =
      build_key tb pk (case ct_sk tb of None \<Rightarrow> PNone | Some f \<Rightarrow> dget item f)"
  shows "table_view look (ct_name tb) (table_create e tb item True w) =
    spec_create (key_of (ct_name tb) (with_defaults e tb item)) (with_defaults e tb item)
      (item_in look w (ct_name tb))"
  by (rule reliable_service.create_refines [OF reliable_serviceI [OF assms(1)] assms(2-4)])

lemma crud_create_refines_witness:
  "table_view mem_look TenantsT (create_tenant base_env ''acme'' ''Acme'' None None None None (world_of [])) =
   (Inr (with_defaults base_env tenants_table (tenant_item ''acme'' ''Acme'' None None None None)),
    (\<lambda>k. None)([(''tenantId'', PStr ''acme'')] \<mapsto>
      with_defaults base_env tenants_table (tenant_item ''acme'' ''Acme'' None None None None)))"
proof -
  let ?item = "tenant_item ''acme'' ''Acme'' None None None None"
  have n: "ct_name tenants_table = TenantsT" by (simp add: tenants_table_def)
  have a: "table_configured base_env (ct_name tenants_table)" by (simp add: base_env_def)
  have b: "map_of ?item (ct_pk tenants_table) = Some (PStr ''acme'')" by code_simp
  have c: "key_of (ct_name tenants_table) (with_defaults base_env tenants_table ?item) =
      build_key tenants_table (PStr ''acme'')
        (case ct_sk tenants_table of None \<Rightarrow> PNone | Some f \<Rightarrow> dget ?item f)"
    by code_simp
  have k: "key_of TenantsT (with_defaults base_env tenants_table ?item) =
      [(''tenantId'', PStr ''acme'')]" by code_simp
  have m: "item_in mem_look (world_of []) TenantsT = (\<lambda>k. None)"
    by (simp add: item_in_def mem_look_def world_of_def fun_eq_iff)
  show ?thesis
    using crud_create_refines [OF mem_reliable [folded client_base_env] a b c, of "world_of []"]
    unfolding n create_tenant_def k m by (simp add: spec_create_def present_def)
qed


definition example_tenant :: mem where
  "example_tenant =
     [((TenantsT, [(''tenantId'', PStr ''acme'')]),
       [(''tenantId'', PStr ''acme''), (''displayName'', PStr ''Acme''),
        (''maxWritesPerDay'', PNum 5)])]"


text \<open>Soft and hard deletion implement their maps: \<open>deactivate\<close> reports whether there was an item
  and only clears its active flag, \<open>delete\<close> reports whether there was an item and removes it.\<close>

theorem crud_removal_refines:
  assumes "reliable_ddb look (client e)" and "table_configured e (ct_name tb)"
  shows "table_view look (ct_name tb) (table_deactivate e tb pk sk w) =
      spec_deactivate (build_key tb pk sk)
        [USet (ct_active tb) (PBool False), USet (ct_updated tb) (PTime (now e))]
        (item_in look w (ct_name tb)) \<and>
    table_view look (ct_name tb) (table_delete e tb pk sk w) =
      spec_delete (build_key tb pk sk) (item_in look w (ct_name tb))"
  using reliable_service.deactivate_refines [OF reliable_serviceI [OF assms(1)] assms(2)]
    reliable_service.delete_refines [OF reliable_serviceI [OF assms(1)] assms(2)] by blast

lemma crud_removal_refines_witness:
  "fst (table_view mem_look TenantsT
     (table_delete base_env tenants_table (PStr ''acme'') PNone (world_of example_tenant))) = Inr True"
proof -
  have n: "ct_name tenants_table = TenantsT" by (simp add: tenants_table_def)
  have a: "table_configured base_env (ct_name tenants_table)" by (simp add: base_env_def)
  have i: "present (item_in mem_look (world_of example_tenant) TenantsT
      (build_key tenants_table (PStr ''acme'') PNone))"
    by code_simp
  show ?thesis
    using crud_removal_refines [OF mem_reliable [folded client_base_env] a, of "PStr ''acme''" PNone
        "world_of example_tenant"] i
    unfolding n by (simp add: spec_delete_def)
qed

section \<open>What an update does to a field\<close>

lemma dset_keeps: "(f, v) \<in> set d \<Longrightarrow> f \<noteq> k \<Longrightarrow> (f, v) \<in> set (dset k x d)"
  unfolding dset_def by (induction d) auto

lemma dset_sets: "(k, x) \<in> set (dset k x d)"
  unfolding dset_def by (induction d) auto

lemma dset_keys: "fst ` set (dset k x d) = insert k (fst ` set d)"
  unfolding dset_def by (simp add: dom_update)

text \<open>After an accepted update, every field given has the given value, every cleared field is
  absent, the update time is set, and no other field of the item has changed.\<close>

theorem crud_update_fields:
  assumes "updated_item k x (update_actions e tb updates clear) = Some it"
  shows "((f, v) \<in> set updates \<and> f \<noteq> ct_updated tb \<longrightarrow> map_of it f = Some v) \<and>
    (f \<in> set clear \<longrightarrow> map_of it f = None) \<and>
    map_of it (ct_updated tb) = Some (PTime (now e)) \<and>
    (f \<notin> fst ` set updates \<union> set clear \<union> {ct_updated tb} \<longrightarrow>
       map_of it f = map_of (opt_default k x) f)"
proof (intro conjI impI)
  let ?d = "dset (ct_updated tb) (PTime (now e)) updates"
  have set: "map_of it a = Some b" if "(a, b) \<in> set ?d" for a b
    by (rule updated_item_set [OF assms]) (use that in \<open>force simp: update_actions_def\<close>)
  show "map_of it f = Some v" if "(f, v) \<in> set updates \<and> f \<noteq> ct_updated tb"
    using that by (intro set dset_keeps) auto
  show "map_of it (ct_updated tb) = Some (PTime (now e))"
    by (intro set dset_sets)
  show "map_of it f = None" if "f \<in> set clear"
    by (rule updated_item_remove [OF assms]) (use that in \<open>simp add: update_actions_def\<close>)
  show "map_of it f = map_of (opt_default k x) f"
    if "f \<notin> fst ` set updates \<union> set clear \<union> {ct_updated tb}"
  proof (rule updated_item_other [OF assms])
    have "upd_attr ` set (update_actions e tb updates clear) = fst ` set ?d \<union> set clear"
      by (force simp: update_actions_def image_iff)
    then show "f \<notin> upd_attr ` set (update_actions e tb updates clear)"
      using that by (simp add: dset_keys)
  qed
qed

lemma crud_update_fields_witness:
  "map_of (the (updated_item [(''tenantId'', PStr ''acme'')] (Some [(''tenantId'', PStr ''acme''),
     (''maxWritesPerDay'', PNum 5)]) (update_actions base_env tenants_table
       [(''displayName'', PStr ''A'')] [''maxWritesPerDay'']))) ''displayName'' = Some (PStr ''A'')"
proof -
  let ?us = "update_actions base_env tenants_table [(''displayName'', PStr ''A'')] [''maxWritesPerDay'']"
  let ?x = "Some [(''tenantId'', PStr ''acme''), (''maxWritesPerDay'', PNum 5)]"
  have u: "updated_item [(''tenantId'', PStr ''acme'')] ?x ?us =
      Some [(''tenantId'', PStr ''acme''), (''displayName'', PStr ''A''), (''updatedAt'', PTime 0)]"
    by code_simp
  have t: "''displayName'' \<noteq> ct_updated tenants_table" by code_simp
  show ?thesis
    using crud_update_fields [OF u, of "''displayName''" "PStr ''A''"] t unfolding u by simp
qed

end
