(* ===== verification/Readers.thy ===== *)
theory Readers
  imports Document_Record
begin

text \<open>
  The readers of stored extraction results: \<open>readers/bda.py\<close>, \<open>readers/textract.py\<close>,
  \<open>readers/ocr_mapping.py\<close>, their dispatch in \<open>readers/extraction.py\<close>, and the S3 access of
  \<open>utils/bda.py\<close> with its guard on the bucket.  A result is a JSON value of any shape, so what the
  code takes for granted about it is an exception where it does not hold.
\<close>

type_synonym conf_maps = "(string \<times> pyval) list list"

record reader_result =
  field_confidence_map_list :: conf_maps
  field_values :: dict
  field_geometry :: dict
  empty_fields :: "string list"
  fields_missing_geometry :: "string list"
  confidence_scores :: "pyval list"

definition empty_reader_result :: reader_result where
  "empty_reader_result =
     \<lparr>field_confidence_map_list = [], field_values = [], field_geometry = [], empty_fields = [],
      fields_missing_geometry = [], confidence_scores = []\<rparr>"

section \<open>readers/bda.py\<close>

definition get_missing_geometry_threshold :: "'t env \<Rightarrow> rat" where
  "get_missing_geometry_threshold e =
     (if \<not> is_missing_geo_included_with_missing_fields e then 0 else 25 / 100)"

record bda_field_result =
  bf_confidence :: pyval
  bf_is_empty :: bool
  bf_has_geometry :: bool

definition process_single_field :: "dict \<Rightarrow> bda_field_result" where
  "process_single_field field_data =
     \<lparr>bf_confidence = dget_default field_data ''confidence'' (PNum 0),
      bf_is_empty = (dget_default field_data ''value'' (PStr []) = PStr []),
      bf_has_geometry = has_key field_data ''geometry''\<rparr>"

definition full_field_name :: "string \<Rightarrow> string \<Rightarrow> string" where
  "full_field_name parent_key field_name =
     (if parent_key \<noteq> [] then parent_key @ ''.'' @ field_name else field_name)"

definition is_leaf :: "dict \<Rightarrow> bool" where
  "is_leaf field_data = (has_key field_data ''confidence'' \<or> has_key field_data ''value'')"

definition add_field ::
  "rat \<Rightarrow> bool \<Rightarrow> string \<Rightarrow> dict \<Rightarrow> reader_result \<Rightarrow> exn + reader_result" where
  "add_field threshold geometry name field_data acc =
     (let r = process_single_field field_data;
          listed = acc\<lparr>field_confidence_map_list :=
                         field_confidence_map_list acc @ [[(name, bf_confidence r)]]\<rparr>;
          classified =
            (if bf_is_empty r
             then Inr (listed\<lparr>empty_fields := empty_fields listed @ [name]\<rparr>)
             else if bf_has_geometry r
             then Inr (listed\<lparr>confidence_scores := confidence_scores listed @ [bf_confidence r]\<rparr>)
             else (case py_less (bf_confidence r) threshold of Inl x \<Rightarrow> Inl x
                   | Inr True \<Rightarrow> Inr (listed\<lparr>fields_missing_geometry :=
                                       fields_missing_geometry listed @ [name]\<rparr>)
                   | Inr False \<Rightarrow> Inr (listed\<lparr>confidence_scores :=
                                       confidence_scores listed @ [bf_confidence r]\<rparr>)))
      in (case classified of Inl x \<Rightarrow> Inl x
          | Inr a \<Rightarrow>
              Inr (a\<lparr>field_values := dset name (dget field_data ''value'') (field_values a),
                     field_geometry :=
                       (if geometry \<and> has_key field_data ''geometry''
                        then dset name (PDict [(''type'', dget field_data ''type''),
                                               (''geometry'', dget field_data ''geometry'')])
                               (field_geometry a)
                        else field_geometry a)\<rparr>)))"

function extract_fields_recursive ::
  "rat \<Rightarrow> bool \<Rightarrow> string \<Rightarrow> dict \<Rightarrow> reader_result \<Rightarrow> exn + reader_result" where
  "extract_fields_recursive threshold geometry parent_key [] acc = Inr acc"
| "extract_fields_recursive threshold geometry parent_key ((field_name, v) # rest) acc =
     (case (case v of
              PDict field_data \<Rightarrow>
                if is_leaf field_data
                then add_field threshold geometry (full_field_name parent_key field_name)
                       field_data acc
                else extract_fields_recursive threshold geometry
                       (full_field_name parent_key field_name) field_data acc
            | _ \<Rightarrow> Inr acc) of
        Inl x \<Rightarrow> Inl x
      | Inr acc' \<Rightarrow> extract_fields_recursive threshold geometry parent_key rest acc')"
  by pat_completeness auto

termination
  by (relation "measure (\<lambda>(t, g, p, d, acc). size (PDict d))") auto

fun extract_items :: "rat \<Rightarrow> bool \<Rightarrow> pyval list \<Rightarrow> reader_result \<Rightarrow> exn + reader_result" where
  "extract_items threshold geometry [] acc = Inr acc"
| "extract_items threshold geometry (PDict item # rest) acc =
     (case extract_fields_recursive threshold geometry [] item acc of
        Inl x \<Rightarrow> Inl x | Inr acc' \<Rightarrow> extract_items threshold geometry rest acc')"
| "extract_items threshold geometry (_ # rest) acc = extract_items threshold geometry rest acc"

text \<open>\<open>for item in v\<close>: a list gives its elements, a dictionary its keys, which are no dictionaries.\<close>

fun iterate :: "pyval \<Rightarrow> exn + pyval list" where
  "iterate (PList vs) = Inr vs"
| "iterate (PDict d) = Inr (map (PStr \<circ> fst) d)"
| "iterate (PStr s) = Inr (map (\<lambda>c. PStr [c]) s)"
| "iterate (PJson v) = Inr []"
| "iterate (PTime t) = Inr []"
| "iterate _ = Inl (TypeErr ''object is not iterable'')"

definition read_bda_output :: "'t env \<Rightarrow> dict \<Rightarrow> bool \<Rightarrow> exn + reader_result" where
  "read_bda_output e result_json include_geometry =
     (case map_of result_json ''explainability_info'' of
        None \<Rightarrow> Inr empty_reader_result
      | Some info \<Rightarrow>
          (case iterate info of Inl x \<Rightarrow> Inl x
           | Inr items \<Rightarrow>
               extract_items (get_missing_geometry_threshold e) include_geometry items
                 empty_reader_result))"

section \<open>readers/textract.py and readers/ocr\_mapping.py\<close>

fun read_method_fields :: "bool \<Rightarrow> dict \<Rightarrow> reader_result \<Rightarrow> exn + reader_result" where
  "read_method_fields geometry [] acc = Inr acc"
| "read_method_fields geometry ((name, v) # rest) acc =
     (case v of
        PDict data \<Rightarrow>
          (case map_of data ''confidence'' of
             None \<Rightarrow> Inl (KeyErr ''confidence'')
           | Some conf \<Rightarrow>
               (let val = dget_default data ''value'' (PStr []) in
                read_method_fields geometry rest
                  (acc\<lparr>field_confidence_map_list := field_confidence_map_list acc @ [[(name, conf)]],
                       empty_fields := empty_fields acc @ (if truthy val then [] else [name]),
                       field_values := dset name val (field_values acc),
                       field_geometry :=
                         (if has_key data ''geometry'' \<and> geometry
                          then dset name (PDict [(''geometry'', dget data ''geometry''),
                                 (''type'', dget_default data ''fieldType'' (PStr ''string''))])
                                 (field_geometry acc)
                          else field_geometry acc)\<rparr>)))
      | _ \<Rightarrow> Inl (TypeErr ''field data is not an object''))"

definition read_textract_output :: "dict \<Rightarrow> bool \<Rightarrow> exn + reader_result" where
  "read_textract_output result_json include_geometry =
     (case dget_default result_json ''fields'' (PDict []) of
        PDict fs \<Rightarrow> read_method_fields include_geometry fs empty_reader_result
      | _ \<Rightarrow> Inl (OtherExc ''AttributeError''))"

definition read_ocr_mapping_output :: "dict \<Rightarrow> bool \<Rightarrow> exn + reader_result" where
  "read_ocr_mapping_output result_json include_geometry =
     (case dget_default result_json ''fields'' (PDict []) of
        PDict fs \<Rightarrow> read_method_fields include_geometry fs empty_reader_result
      | _ \<Rightarrow> Inl (OtherExc ''AttributeError''))"

section \<open>Fetching a result\<close>

text \<open>\<open>uri.replace("s3://", "").split("/", 1)\<close>.\<close>

fun remove_scheme :: "nat \<Rightarrow> string \<Rightarrow> string" where
  "remove_scheme 0 s = s"
| "remove_scheme (Suc n) [] = []"
| "remove_scheme (Suc n) (c # cs) =
     (if starts_with ''s3://'' (c # cs) then remove_scheme n (drop 5 (c # cs))
      else c # remove_scheme n cs)"

definition parse_json_object :: "pyval \<Rightarrow> dict option" where
  "parse_json_object raw =
     (case json_loads raw of Inr (PDict d) \<Rightarrow> Some d | _ \<Rightarrow> None)"

definition get_bda_result_json :: "'t env \<Rightarrow> string \<Rightarrow> dict option" where
  "get_bda_result_json e uri =
     (if uri = [] then None
      else
        (let s = remove_scheme (length uri) uri; bucket = takeWhile (\<lambda>c. c \<noteq> CHR ''/'') s;
             key = drop 1 (dropWhile (\<lambda>c. c \<noteq> CHR ''/'') s)
         in if CHR ''/'' \<notin> set s then None
            else
              (case (if truthy_str (output_location e)
                     then (case parse_s3_uri (opt_default [] (output_location e)) of
                             Inl x \<Rightarrow> None | Inr (expected, _) \<Rightarrow> Some (bucket = expected))
                     else Some True) of
                 Some True \<Rightarrow>
                   (case s3_object e bucket key of Inl x \<Rightarrow> None | Inr raw \<Rightarrow> parse_json_object raw)
               | _ \<Rightarrow> None)))"

section \<open>readers/extraction.py\<close>

fun conf_maps_of :: "pyval list \<Rightarrow> exn + conf_maps" where
  "conf_maps_of [] = Inr []"
| "conf_maps_of (PDict d # rest) =
     (case conf_maps_of rest of Inl x \<Rightarrow> Inl x | Inr ms \<Rightarrow> Inr (d # ms))"
| "conf_maps_of (_ # rest) = Inl (OtherExc ''AttributeError'')"

definition stored_confidences :: "dict \<Rightarrow> exn + conf_maps" where
  "stored_confidences r =
     (case json_loads (dget_default r ''fieldConfidenceScores'' (PJson (PList []))) of
        Inl x \<Rightarrow> Inl x
      | Inr v \<Rightarrow> (case iterate v of Inl x \<Rightarrow> Inl x | Inr vs \<Rightarrow> conf_maps_of vs))"

definition run_reader :: "'t env \<Rightarrow> pyval \<Rightarrow> dict \<Rightarrow> bool \<Rightarrow> exn + reader_result" where
  "run_reader e m raw include_bounding_box =
     (if m = PStr (em_value EM_TEXTRACT) then read_textract_output raw include_bounding_box
      else if m = PStr (em_value EM_OCR_MAPPING) then read_ocr_mapping_output raw include_bounding_box
      else read_bda_output e raw include_bounding_box)"

definition read_output ::
  "'t env \<Rightarrow> dict \<Rightarrow> bool \<Rightarrow> bool \<Rightarrow> string option \<Rightarrow> extract_method option \<Rightarrow> exn + reader_result"
where
  "read_output e r include_extracted_data include_bounding_box output_uri em =
     (if \<not> include_extracted_data then
        (case stored_confidences r of Inl x \<Rightarrow> Inl x
         | Inr ms \<Rightarrow> Inr (empty_reader_result\<lparr>field_confidence_map_list := ms\<rparr>))
      else
        (let s3_uri = (if truthy_str output_uri then PStr (opt_default [] output_uri)
                       else dget r ''bdaOutputS3Uri'')
         in if \<not> truthy s3_uri then Inr empty_reader_result
            else
              (case get_bda_result_json e (opt_default [] (to_opt_str s3_uri)) of
                 None \<Rightarrow> Inr empty_reader_result
               | Some raw \<Rightarrow>
                   if raw = [] then Inr empty_reader_result
                   else run_reader e
                          (case em of Some m \<Rightarrow> PStr (em_value m)
                           | None \<Rightarrow> dget_default r ''extractionMethod'' (PStr (em_value EM_BDA)))
                          raw include_bounding_box)))"

section \<open>Every field is accounted for\<close>

text \<open>The names that a reader has listed, and what holds of an accumulated result.\<close>

definition listed_names :: "reader_result \<Rightarrow> string list" where
  "listed_names r = concat (map (map fst) (field_confidence_map_list r))"

definition reader_inv :: "bool \<Rightarrow> reader_result \<Rightarrow> bool" where
  "reader_inv geometry r =
     (list_all (\<lambda>m. length m = 1) (field_confidence_map_list r) \<and>
      length (empty_fields r) + length (fields_missing_geometry r) + length (confidence_scores r) =
        length (field_confidence_map_list r) \<and>
      fst ` set (field_values r) = set (listed_names r) \<and>
      set (empty_fields r) \<union> set (fields_missing_geometry r) \<subseteq> set (listed_names r) \<and>
      fst ` set (field_geometry r) \<subseteq> set (listed_names r) \<and>
      (\<not> geometry \<longrightarrow> field_geometry r = []))"

lemma dset_dom: "fst ` set (dset k x d) = insert k (fst ` set d)"
  unfolding dset_def by (simp add: dom_update)

lemma reader_inv_empty: "reader_inv g empty_reader_result"
  by (simp add: reader_inv_def empty_reader_result_def listed_names_def)

lemma add_field_inv:
  assumes "add_field t g n d acc = Inr r" "reader_inv g acc"
  shows "reader_inv g r"
proof -
  let ?c = "bf_confidence (process_single_field d)"
  have maps: "field_confidence_map_list r = field_confidence_map_list acc @ [[(n, ?c)]]"
    and vals: "field_values r = dset n (dget d ''value'') (field_values acc)"
    and geo: "field_geometry r = (if g \<and> has_key d ''geometry''
        then dset n (PDict [(''type'', dget d ''type''), (''geometry'', dget d ''geometry'')])
               (field_geometry acc) else field_geometry acc)"
    and parts: "empty_fields r = empty_fields acc @ [n] \<and>
        fields_missing_geometry r = fields_missing_geometry acc \<and>
        confidence_scores r = confidence_scores acc \<or>
      empty_fields r = empty_fields acc \<and>
        fields_missing_geometry r = fields_missing_geometry acc @ [n] \<and>
        confidence_scores r = confidence_scores acc \<or>
      empty_fields r = empty_fields acc \<and>
        fields_missing_geometry r = fields_missing_geometry acc \<and>
        confidence_scores r = confidence_scores acc @ [?c]"
    using assms(1) by (auto simp: add_field_def Let_def split: if_splits sum.splits bool.splits)
  have names: "set (listed_names r) = insert n (set (listed_names acc))"
    by (simp add: listed_names_def maps)
  show ?thesis
    using assms(2) parts unfolding reader_inv_def names
    by (auto simp: maps vals geo dset_dom)
qed

lemma extract_fields_inv:
  "extract_fields_recursive t g p d acc = Inr r \<Longrightarrow> reader_inv g acc \<Longrightarrow> reader_inv g r"
proof (induction t g p d acc arbitrary: r rule: extract_fields_recursive.induct)
  case (2 t g p n v rest acc)
  then show ?case
    by (auto split: sum.splits pyval.splits if_splits dest: add_field_inv)
qed simp

lemma extract_items_inv:
  "extract_items t g items acc = Inr r \<Longrightarrow> reader_inv g acc \<Longrightarrow> reader_inv g r"
  by (induction t g items acc rule: extract_items.induct)
    (auto split: sum.splits dest: extract_fields_inv)


definition example_bda_result :: dict where
  "example_bda_result =
     [(''explainability_info'', PList [PDict
        [(''name'', PDict [(''first'', PDict [(''value'', PStr ''Ann''), (''confidence'', PNum (9/10)),
                                        (''geometry'', PList [])]),
                         (''last'', PDict [(''value'', PStr []), (''confidence'', PNum 0)])]),
         (''total'', PDict [(''value'', PNum 3), (''confidence'', PNum (1/10))])]])]"


text \<open>The bucket guard: when an output location is configured, the result that is read comes from
  an object of that bucket, whatever location the URI of the record names.\<close>

theorem bda_result_bucket_guard:
  assumes "get_bda_result_json e uri = Some d" and "output_location e = Some loc" and "loc \<noteq> []"
  shows "\<exists>bucket prefix key raw. parse_s3_uri loc = Inr (bucket, prefix) \<and>
    s3_object e bucket key = Inr raw \<and> json_loads raw = Inr (PDict d)"
  using assms
  by (auto simp: get_bda_result_json_def Let_def truthy_str_def parse_json_object_def
      split: if_splits option.splits sum.splits prod.splits bool.splits pyval.splits)

lemma bda_result_bucket_guard_witness:
  "get_bda_result_json (base_env\<lparr>output_location := Some ''s3://out/p'',
       s3_object := \<lambda>b k. Inr (PJson (PDict []))\<rparr>) ''s3://out/x.json'' = Some [] \<and>
   get_bda_result_json (base_env\<lparr>output_location := Some ''s3://out/p'',
       s3_object := \<lambda>b k. Inr (PJson (PDict []))\<rparr>) ''s3://evil/x.json'' = None \<and>
   (\<exists>bucket prefix. parse_s3_uri ''s3://out/p'' = Inr (bucket, prefix))"
proof -
  let ?e = "base_env\<lparr>output_location := Some ''s3://out/p'', s3_object := \<lambda>b k. Inr (PJson (PDict []))\<rparr>"
  have a: "get_bda_result_json ?e ''s3://out/x.json'' = Some []" by code_simp
  have b: "get_bda_result_json ?e ''s3://evil/x.json'' = None" by code_simp
  have c: "output_location ?e = Some ''s3://out/p''" by simp
  show ?thesis using a b bda_result_bucket_guard [OF a c] by blast
qed

end
