(* ===== verification/Extraction_Rules.thy ===== *)
theory Extraction_Rules
  imports Crud_Tables
begin

text \<open>
  \<open>utils/extraction_rules.py\<close>: which fields of a document type a tenant requires and allows, the
  filtering of a response by them, and the required fields found missing when a document is
  processed.  A Python set of names that is then sorted is the sorted list without duplicates.
\<close>

record rule_result =
  rr_fields :: dict
  rr_missing :: "string list"
  rr_required :: "string list"

fun str_items :: "pyval list \<Rightarrow> exn + string list" where
  "str_items [] = Inr []"
| "str_items (PStr s # vs) = (case str_items vs of Inl x \<Rightarrow> Inl x | Inr ss \<Rightarrow> Inr (s # ss))"
| "str_items (_ # vs) = Inl (OtherExc ''AttributeError'')"

fun strs_of :: "pyval \<Rightarrow> exn + string list" where
  "strs_of (PList vs) = str_items vs"
| "strs_of _ = Inl (TypeErr ''object is not iterable'')"

definition rule_strs :: "dict \<Rightarrow> string \<Rightarrow> exn + string list" where
  "rule_strs rule a = strs_of (dget_default rule a (PList []))"

definition sorted_set :: "string list \<Rightarrow> string list" where
  "sorted_set ss = sort (remdups ss)"

definition lowers :: "string list \<Rightarrow> string set" where
  "lowers ss = set (map str_lower ss)"

section \<open>Rules of a tenant\<close>

definition get_rules :: "'t env \<Rightarrow> string \<Rightarrow> string option \<Rightarrow> ('t, dict list) wprog" where
  "get_rules e tenant_id document_type =
     (if truthy_str document_type then
        bindP (table_get e rules_table (PStr tenant_id) (PStr (opt_default [] document_type)))
          (\<lambda>item. ret (if present item then [opt_default [] item] else []))
      else table_list_by_pk e rules_table tenant_id False)"

definition upsert_rule ::
  "'t env \<Rightarrow> string \<Rightarrow> string \<Rightarrow> string list \<Rightarrow> string list \<Rightarrow> string option \<Rightarrow> ('t, dict) wprog"
where
  "upsert_rule e tenant_id document_type required optional blueprint_arn =
     table_upsert e rules_table (PStr tenant_id) (PStr document_type)
       ([(''requiredFields'', of_strs required), (''optionalFields'', of_strs optional)] @
        (if truthy_str blueprint_arn
         then [(''blueprintArn'', PStr (opt_default [] blueprint_arn))] else []))"

definition delete_rule :: "'t env \<Rightarrow> string \<Rightarrow> string \<Rightarrow> ('t, bool) wprog" where
  "delete_rule e tenant_id document_type =
     table_delete e rules_table (PStr tenant_id) (PStr document_type)"

section \<open>Applying a rule\<close>

definition apply_rule :: "dict \<Rightarrow> dict \<Rightarrow> string list \<Rightarrow> exn + rule_result" where
  "apply_rule rule flds missing_fields =
     (case rule_strs rule ''requiredFields'' of Inl x \<Rightarrow> Inl x
      | Inr required \<Rightarrow>
          (case rule_strs rule ''optionalFields'' of Inl x \<Rightarrow> Inl x
           | Inr optional \<Rightarrow>
               (let allowed_lower = lowers (required @ optional);
                    absent_lower = lowers missing_fields \<inter> lowers required;
                    filtered = filter (\<lambda>(k, v). str_lower k \<in> allowed_lower \<and>
                                                str_lower k \<notin> absent_lower) flds;
                    present_lower = lowers (map fst filtered)
                in Inr \<lparr>rr_fields = filtered,
                        rr_missing = sorted_set (filter (\<lambda>f. str_lower f \<notin> present_lower) required),
                        rr_required = sorted_set required\<rparr>)))"

definition apply_extraction_rules ::
  "'t env \<Rightarrow> string \<Rightarrow> string \<Rightarrow> dict \<Rightarrow> string list \<Rightarrow> ('t, rule_result) wprog" where
  "apply_extraction_rules e tenant_id document_type flds missing_fields =
     bindP (get_rules e tenant_id (Some document_type)) (\<lambda>rules.
       case rules of
         [] \<Rightarrow> ret \<lparr>rr_fields = flds, rr_missing = [], rr_required = []\<rparr>
       | rule # _ \<Rightarrow> lift_result (apply_rule rule flds missing_fields))"

definition rule_missing_required ::
  "dict \<Rightarrow> string list \<Rightarrow> string list \<Rightarrow> exn + string list \<times> string list" where
  "rule_missing_required rule empty_flds missing_geometry =
     (case rule_strs rule ''requiredFields'' of Inl x \<Rightarrow> Inl x
      | Inr required \<Rightarrow>
          (let empty_lower = lowers (empty_flds @ missing_geometry)
           in Inr (sorted_set (filter (\<lambda>f. str_lower f \<in> empty_lower) required),
                   sorted_set required)))"

definition get_missing_required_fields ::
  "'t env \<Rightarrow> string option \<Rightarrow> string option \<Rightarrow> string list \<Rightarrow> string list \<Rightarrow>
   ('t, (string list \<times> string list) option) wprog"
where
  "get_missing_required_fields e tenant_id document_type empty_flds missing_geometry =
     (if \<not> truthy_str tenant_id \<or> \<not> truthy_str document_type then ret None
      else bindP (get_rules e (opt_default [] tenant_id) document_type) (\<lambda>rules.
        case rules of
          [] \<Rightarrow> ret None
        | rule # _ \<Rightarrow>
            bindP (lift_result (rule_missing_required rule empty_flds missing_geometry))
              (\<lambda>r. ret (Some r))))"

section \<open>What a rule promises\<close>

lemma set_sorted_set [simp]: "set (sorted_set ss) = set ss"
  by (simp add: sorted_set_def)

lemma sorted_sorted_set: "sorted (sorted_set ss)" "distinct (sorted_set ss)"
  by (simp_all add: sorted_set_def)

lemma lowers_iff: "x \<in> lowers ss \<longleftrightarrow> (\<exists>s \<in> set ss. x = str_lower s)"
  by (auto simp: lowers_def)

text \<open>Applying an extraction rule to the fields of a document: only fields of the document that the
  rule requires or allows survive (names compared without case); a required field is reported
  missing exactly when no surviving field has its name; what was declared missing never survives;
  and both reported lists are sorted and without duplicates.\<close>

theorem extraction_rule_result:
  assumes "apply_rule rule flds missing_fields = Inr r"
    and "rule_strs rule ''requiredFields'' = Inr required"
    and "rule_strs rule ''optionalFields'' = Inr optional"
  shows "set (rr_fields r) \<subseteq> set flds \<and>
    (\<forall>k \<in> fst ` set (rr_fields r). str_lower k \<in> lowers (required @ optional)) \<and>
    (\<forall>f \<in> set required. f \<in> set (rr_missing r) \<longleftrightarrow> str_lower f \<notin> lowers (map fst (rr_fields r))) \<and>
    set (rr_missing r) \<subseteq> set required \<and> set (rr_required r) = set required \<and>
    (\<forall>m \<in> set missing_fields. str_lower m \<in> lowers required \<longrightarrow>
       str_lower m \<notin> lowers (map fst (rr_fields r))) \<and>
    sorted (rr_missing r) \<and> distinct (rr_missing r) \<and>
    sorted (rr_required r) \<and> distinct (rr_required r)"
proof -
  have r: "r = \<lparr>rr_fields = filter (\<lambda>(k, v). str_lower k \<in> lowers (required @ optional) \<and>
                str_lower k \<notin> lowers missing_fields \<inter> lowers required) flds,
      rr_missing = sorted_set (filter (\<lambda>f. str_lower f \<notin> lowers (map fst
        (filter (\<lambda>(k, v). str_lower k \<in> lowers (required @ optional) \<and>
                str_lower k \<notin> lowers missing_fields \<inter> lowers required) flds))) required),
      rr_required = sorted_set required\<rparr>"
    using assms by (simp add: apply_rule_def Let_def)
  show ?thesis
    unfolding r by (auto simp: sorted_sorted_set lowers_iff) metis+
qed

definition example_rule :: dict where
  "example_rule = [(''requiredFields'', of_strs [''Name'', ''dob'']), (''optionalFields'', of_strs [''zip''])]"

lemma extraction_rule_result_witness:
  "\<exists>r. apply_rule example_rule [(''name'', PStr ''A''), (''Zip'', PStr ''1''), (''x'', PNone)] [''DOB''] = Inr r \<and>
     rr_missing r = [''dob''] \<and> map fst (rr_fields r) = [''name'', ''Zip''] \<and> sorted (rr_required r)"
proof -
  let ?r = "\<lparr>rr_fields = [(''name'', PStr ''A''), (''Zip'', PStr ''1'')], rr_missing = [''dob''],
     rr_required = [''Name'', ''dob'']\<rparr>"
  have a: "apply_rule example_rule [(''name'', PStr ''A''), (''Zip'', PStr ''1''), (''x'', PNone)] [''DOB''] = Inr ?r"
    by code_simp
  have b: "rule_strs example_rule ''requiredFields'' = Inr [''Name'', ''dob'']" by code_simp
  have c: "rule_strs example_rule ''optionalFields'' = Inr [''zip'']" by code_simp
  from extraction_rule_result [OF a b c] have "sorted (rr_required ?r)" by blast
  with a show ?thesis by auto
qed

text \<open>C39: The two evaluations of a rule agree: a required field that is recorded as missing when the
  document is processed (because it came out empty or without geometry) is also reported missing
  in a response built with those two lists, whatever fields the response starts from.\<close>

theorem missing_at_processing_is_missing_in_response:
  assumes "rule_missing_required rule empty_flds missing_geometry = Inr (missing, required)"
    and "apply_rule rule flds (missing_geometry @ empty_flds) = Inr r"
  shows "set missing \<subseteq> set (rr_missing r) \<and> required = rr_required r"
proof -
  obtain req where req: "rule_strs rule ''requiredFields'' = Inr req"
    and m: "missing = sorted_set (filter (\<lambda>f. str_lower f \<in> lowers (empty_flds @ missing_geometry)) req)"
    and q: "required = sorted_set req"
    using assms(1) by (auto simp: rule_missing_required_def Let_def split: sum.splits)
  obtain opt where "rule_strs rule ''optionalFields'' = Inr opt"
    using assms(2) by (auto simp: apply_rule_def split: sum.splits)
  with assms(2) req have
    rm: "rr_missing r = sorted_set (filter (\<lambda>f. str_lower f \<notin> lowers (map fst
        (filter (\<lambda>(k, v). str_lower k \<in> lowers (req @ opt) \<and>
           str_lower k \<notin> lowers (missing_geometry @ empty_flds) \<inter> lowers req) flds))) req)"
    and rq: "rr_required r = sorted_set req"
    by (auto simp: apply_rule_def Let_def)
  have "set missing \<subseteq> set (rr_missing r)"
  proof
    fix f assume "f \<in> set missing"
    then have f: "f \<in> set req" "str_lower f \<in> lowers (missing_geometry @ empty_flds)"
      by (auto simp: m lowers_def)
    then have "str_lower f \<in> lowers req" by (auto simp: lowers_iff)
    with f show "f \<in> set (rr_missing r)" by (auto simp: rm lowers_iff) metis+
  qed
  then show ?thesis by (simp add: q rq)
qed

lemma missing_at_processing_is_missing_in_response_witness:
  "set [''dob''] \<subseteq> set (rr_missing (projr (apply_rule example_rule [(''dob'', PStr []), (''name'', PStr ''A'')]
     ([] @ [''DOB'']))))"
proof -
  let ?r = "\<lparr>rr_fields = [(''name'', PStr ''A'')], rr_missing = [''dob''],
     rr_required = [''Name'', ''dob'']\<rparr>"
  have a: "rule_missing_required example_rule [''DOB''] [] = Inr ([''dob''], [''Name'', ''dob''])" by code_simp
  have b: "apply_rule example_rule [(''dob'', PStr []), (''name'', PStr ''A'')] ([] @ [''DOB'']) = Inr ?r"
    by code_simp
  show ?thesis using missing_at_processing_is_missing_in_response [OF a b] unfolding b by simp
qed

end
