(* ===== verification/Api_Response.thy ===== *)
theory Api_Response
  imports Readers Extraction_Rules
begin

text \<open>
  \<open>classifiers/api_response.py\<close>: the v1 response that is stored with a document and returned to a
  client, from the record, the stored extraction result and the extraction rules of the tenant.
\<close>

section \<open>The responses of terminal statuses\<close>

definition code_fields :: "string \<Rightarrow> dict" where
  "code_fields code =
     [(''responseCode'', PStr code), (''responseMessage'', PStr (get_message code))]"

definition terminal_status_responses :: "(string \<times> dict) list" where
  "terminal_status_responses =
     [(ps_value PS_NO_CUSTOM_BLUEPRINT_MATCHED,
         [(''jobStatus'', PStr ''completed''), (''message'', PStr ''No matching blueprint found''),
          (''fields'', PDict [])] @ code_fields RC_NO_BLUEPRINT_MATCHED),
      (ps_value PS_FAILED,
         [(''jobStatus'', PStr ''failed''), (''message'', PStr ''Processing failed''),
          (''error'', PStr ''Processing failed'')] @ code_fields RC_INTERNAL_PROCESSING_ERROR),
      (ps_value PS_NO_DOCUMENT_DETECTED,
         [(''jobStatus'', PStr ''completed''),
          (''message'', PStr ''Unable to extract meaningful document content'')] @
         code_fields RC_NO_DOCUMENT_DETECTED),
      (ps_value PS_BLURRY_DOCUMENT_DETECTED,
         [(''jobStatus'', PStr ''completed''), (''message'', PStr ''Document is blurry'')] @
         code_fields RC_BLURRY_DOCUMENT_DETECTED),
      (ps_value PS_AI_CONSENT_DECLINED,
         [(''jobStatus'', PStr ''ai_consent_declined''),
          (''message'', PStr ''Document not processed - AI consent not provided'')] @
         code_fields RC_AI_CONSENT_DECLINED),
      (ps_value PS_DELETED,
         [(''jobStatus'', PStr ''deleted''), (''message'', PStr ''Document has been deleted'')]),
      (ps_value PS_CONVERSION_FAILED,
         [(''jobStatus'', PStr ''conversion_failed''),
          (''message'', PStr ''Image format conversion failed'')] @
         code_fields RC_INTERNAL_PROCESSING_ERROR),
      (ps_value PS_PASSWORD_PROTECTED,
         [(''jobStatus'', PStr ''completed''), (''message'', PStr ''Document type not supported'')] @
         code_fields RC_PASSWORD_PROTECTED),
      (ps_value PS_MULTIPLE_DOCUMENTS_ON_SINGLE_PAGE,
         [(''jobStatus'', PStr ''completed''), (''message'', PStr ''Document type not supported'')] @
         code_fields RC_MULTIPLE_DOCUMENTS_ON_SINGLE_PAGE),
      (ps_value PS_MULTIPLE_DOCUMENTS_IN_MULTIPAGE,
         [(''jobStatus'', PStr ''completed''), (''message'', PStr ''Document type not supported'')] @
         code_fields RC_MULTIPLE_DOCUMENTS_IN_MULTIPAGE),
      (ps_value PS_PROCESSING_EXCLUDED,
         [(''jobStatus'', PStr ''completed''),
          (''message'', PStr ''Document not chosen for extraction'')] @
         code_fields RC_PROCESSING_EXCLUDED)]"

section \<open>Fields\<close>

fun round_conf :: "pyval \<Rightarrow> exn + pyval" where
  "round_conf (PNum x) = Inr (PNum (py_round2 x))"
| "round_conf (PBool b) = Inr (PNum (if b then 1 else 0))"
| "round_conf _ = Inl (TypeErr ''round() of a non-number'')"

definition field_entry ::
  "'t env \<Rightarrow> dict \<Rightarrow> dict \<Rightarrow> bool \<Rightarrow> bool \<Rightarrow> pyval \<Rightarrow> string \<Rightarrow> pyval \<Rightarrow> dict" where
  "field_entry e vals geometry include_data include_box document_type name rounded =
     [(''confidence'', rounded),
      (''value'', if include_data then dget vals name else PStr ''<redacted>''),
      (''displayName'', PStr (field_label e document_type name))] @
     (if include_box \<and> has_key geometry name
      then [(''geometry'', dget (as_dict (dget geometry name)) ''geometry'')] @
           (if truthy (dget (as_dict (dget geometry name)) ''type'')
            then [(''fieldType'', dget (as_dict (dget geometry name)) ''type'')] else [])
      else [])"

fun build_field_map ::
  "(string \<Rightarrow> pyval \<Rightarrow> dict) \<Rightarrow> (string \<times> pyval) list \<Rightarrow> dict \<Rightarrow> exn + dict" where
  "build_field_map entry [] acc = Inr acc"
| "build_field_map entry ((name, conf) # rest) acc =
     (case round_conf conf of Inl x \<Rightarrow> Inl x
      | Inr rounded \<Rightarrow> build_field_map entry rest (dset name (PDict (entry name rounded)) acc))"

definition extract_field_values ::
  "'t env \<Rightarrow> dict \<Rightarrow> bool \<Rightarrow> bool \<Rightarrow> pyval \<Rightarrow> exn + dict" where
  "extract_field_values e r include_data include_box document_type =
     (if r = [] then Inr []
      else (case read_output e r include_data include_box None None of Inl x \<Rightarrow> Inl x
            | Inr rr \<Rightarrow>
                build_field_map
                  (field_entry e (field_values rr) (field_geometry rr) include_data include_box
                     document_type)
                  (concat (field_confidence_map_list rr)) []))"

definition declared_missing :: "dict \<Rightarrow> string \<Rightarrow> exn + pyval list" where
  "declared_missing r a =
     (let raw = dget r a in
      if \<not> truthy raw then Inr []
      else (case raw of
              PStr s \<Rightarrow> Inl (ValueErr ''JSONDecodeError'')
            | PJson v \<Rightarrow> iterate v
            | PTime t \<Rightarrow> Inl (ValueErr ''JSONDecodeError'')
            | v \<Rightarrow> iterate v))"

definition response_missing_fields :: "'t env \<Rightarrow> dict \<Rightarrow> exn + string list" where
  "response_missing_fields e r =
     (if is_missing_geo_included_with_missing_fields e then
        (case declared_missing r ''matchedBlueprintFieldMissingGeometryList'' of Inl x \<Rightarrow> Inl x
         | Inr geo \<Rightarrow>
             (case declared_missing r ''matchedBlueprintFieldEmptyList'' of Inl x \<Rightarrow> Inl x
              | Inr empt \<Rightarrow> str_items (geo @ empt)))
      else Inr [])"

definition apply_rules_to_record ::
  "'t env \<Rightarrow> dict \<Rightarrow> dict \<Rightarrow> ('t, dict \<times> string list) wprog" where
  "apply_rules_to_record e r flds =
     (let tenant_id = to_opt_str (dget r ''tenantId'');
          document_type = to_opt_str (dget r ''bdaMatchedDocumentClass'')
      in if \<not> truthy_str tenant_id \<or> \<not> truthy_str document_type \<or> flds = [] then ret (flds, [])
         else catchP
           (bindP (lift_result (response_missing_fields e r)) (\<lambda>missing_fields.
            bindP (apply_extraction_rules e (opt_default [] tenant_id) (opt_default [] document_type)
                     flds missing_fields)
              (\<lambda>rr. ret (rr_fields rr, rr_missing rr))))
           (\<lambda>x. ret (flds, [])))"

section \<open>The response code\<close>

definition resolve_response_code ::
  "string \<Rightarrow> dict \<Rightarrow> string list \<Rightarrow> string option \<times> bool" where
  "resolve_response_code job_status r missing_required =
     (let mismatch = (dget r ''preclassificationCategoryMatch'' = PBool False) in
      if job_status = ps_value PS_SUCCESS then
        (let below_floor = truthy (dget r ''belowExtractionConfidenceFloor'') in
         if missing_required \<noteq> [] then (Some RC_MISSING_FIELDS, below_floor)
         else if mismatch then (Some RC_MISCATEGORIZED, below_floor)
         else if below_floor then (Some RC_LOW_EXTRACTION_CONFIDENCE, below_floor)
         else (Some RC_SUCCESS, below_floor))
      else if job_status = ps_value PS_NO_CUSTOM_BLUEPRINT_MATCHED \<and> mismatch
      then (Some RC_MISCATEGORIZED, False)
      else (case map_of terminal_status_responses job_status of
              Some terminal \<Rightarrow> (to_opt_str (dget terminal ''responseCode''), False)
            | None \<Rightarrow> (None, False)))"

section \<open>The v1 response\<close>

definition base_response :: "dict \<Rightarrow> string \<Rightarrow> exn + dict" where
  "base_response r job_status =
     (let completed_at = py_or (dget r ''extractionCompletedAt'') (dget r ''bdaCompletedAt'');
          total_time = dget r ''totalProcessingTimeSeconds'';
          opt = (\<lambda>a v. if truthy v then [(a, v)] else [])
      in (case (if truthy total_time then float_of total_time else Inr 0) of Inl x \<Rightarrow> Inl x
          | Inr secs \<Rightarrow>
              Inr ([(''jobId'', dget r ''jobId''), (''jobStatus'', PStr job_status),
                    (''createdAt'', dget r ''createdAt'')] @
                   opt ''completedAt'' completed_at @
                   (if truthy total_time then [(''totalProcessingTimeSeconds'', PNum secs)] else []) @
                   opt ''matchedDocumentClass'' (dget r ''bdaMatchedDocumentClass'') @
                   opt ''userProvidedDocumentCategory'' (dget r ''userProvidedDocumentCategory''))))"

definition success_response ::
  "dict \<Rightarrow> dict \<Rightarrow> dict \<Rightarrow> string list \<Rightarrow> exn + dict" where
  "success_response r base flds missing =
     (case resolve_response_code (ps_value PS_SUCCESS) r missing of
        (None, _) \<Rightarrow> Inl (ValueErr ''_resolve_response_code returned no code for a SUCCESS job_status'')
      | (Some code, below_floor) \<Rightarrow>
          Inr (dupdate base
            ([(''fields'', PDict flds)] @
             (if missing \<noteq> [] then [(''missingRequiredFieldList'', of_strs missing)] else []) @
             [(''jobStatus'', PStr ''completed''),
              (''message'', PStr ''Document processed successfully''),
              (''responseCode'', PStr code), (''responseMessage'', PStr (get_message code)),
              (''inferredDocumentType'', dget r ''preclassificationCategory'')] @
             (if below_floor then [(''belowExtractionConfidenceFloor'', PBool True)] else []))))"

definition terminal_response ::
  "dict \<Rightarrow> string \<Rightarrow> dict \<Rightarrow> dict \<Rightarrow> classification_data option \<Rightarrow> string option \<Rightarrow> dict" where
  "terminal_response r job_status base terminal data error_message =
     dupdate base
       (terminal @
        (case fst (resolve_response_code job_status r []) of
           Some code \<Rightarrow> if code \<noteq> [] then code_fields code else []
         | None \<Rightarrow> []) @
        (case data of None \<Rightarrow> []
         | Some d \<Rightarrow> if truthy_str (cd_additional_info d)
                    then [(''additionalInfo'', of_opt_str (cd_additional_info d))] else []) @
        (if job_status = ps_value PS_FAILED \<and> truthy_str error_message
         then [(''error'', of_opt_str error_message)] else []))"

definition drop_none :: "dict \<Rightarrow> dict" where
  "drop_none d = filter (\<lambda>(k, v). v \<noteq> PNone) d"

definition response_of_record ::
  "'t env \<Rightarrow> dict \<Rightarrow> string \<Rightarrow> classification_data option \<Rightarrow> string option \<Rightarrow> bool \<Rightarrow> bool \<Rightarrow>
   ('t, dict) wprog"
where
  "response_of_record e r job_status data error_message include_data include_box =
     bindP (lift_result (base_response r job_status)) (\<lambda>base.
       if job_status = ps_value PS_SUCCESS then
         bindP (lift_result (extract_field_values e r include_data include_box
                  (dget r ''bdaMatchedDocumentClass''))) (\<lambda>flds0.
         bindP (apply_rules_to_record e r flds0) (\<lambda>(flds, missing).
         bindP (lift_result (success_response r base flds missing)) (\<lambda>resp.
         ret (drop_none resp))))
       else
         (case map_of terminal_status_responses job_status of
            Some terminal \<Rightarrow>
              ret (drop_none (terminal_response r job_status base terminal data error_message))
          | None \<Rightarrow>
              ret (drop_none (dupdate base
                [(''jobStatus'', PStr ''processing''),
                 (''message'', PStr ''Document processing in progress'')]))))"

definition build_v1_api_response ::
  "'t env \<Rightarrow> string \<Rightarrow> string \<Rightarrow> classification_data option \<Rightarrow> string option \<Rightarrow> bool \<Rightarrow> bool \<Rightarrow>
   ('t, dict) wprog"
where
  "build_v1_api_response e object_key job_status data error_message include_data include_box =
     bindP (get_ddb_record e object_key) (\<lambda>rec. case rec of
       None \<Rightarrow> raise (ValueErr (''DDB record not found for file: '' @ object_key))
     | Some r \<Rightarrow> response_of_record e r job_status data error_message include_data include_box)"

section \<open>Storing the response\<close>

definition finalize_v1_response ::
  "'t env \<Rightarrow> string \<Rightarrow> process_status \<Rightarrow> classification_data option \<Rightarrow> string option \<Rightarrow>
   ('t, unit) wprog"
where
  "finalize_v1_response e object_key st data error_message =
     bindP (build_v1_api_response e object_key (ps_value st) data error_message False False) (\<lambda>resp.
       execute_ddb_update e object_key
         ([USet ''v1ApiResponseJson'' (PJson (PDict resp))] @
          (if has_key resp ''responseCode'' then [USet ''responseCode'' (dget resp ''responseCode'')]
           else [])) CTrue)"

definition method_entry :: "dict \<Rightarrow> dict \<Rightarrow> string \<Rightarrow> pyval \<Rightarrow> dict" where
  "method_entry vals geometry name rounded =
     [(''confidence'', rounded), (''value'', dget vals name)] @
     (if has_key geometry name
      then [(''geometry'', dget (as_dict (dget geometry name)) ''geometry'')] else [])"

definition duration_entry :: "extraction_result \<Rightarrow> rat \<Rightarrow> dict" where
  "duration_entry result secs =
     [(''extractionDurationSeconds'', PNum secs)] @
     (case er_processing_started_at result of None \<Rightarrow> []
      | Some t \<Rightarrow> [(''processingStartedAt'', PTime t)]) @
     (case er_processing_completed_at result of None \<Rightarrow> []
      | Some t \<Rightarrow> [(''processingCompletedAt'', PTime t)])"

definition method_fields ::
  "'t env \<Rightarrow> string \<Rightarrow> process_status \<Rightarrow> extract_method \<Rightarrow> extraction_result option \<Rightarrow>
   classification_data option \<Rightarrow> ('t, dict) wprog"
where
  "method_fields e object_key st em result data =
     (if st = PS_SUCCESS \<and> result \<noteq> None then
        bindP (get_ddb_record e object_key) (\<lambda>rec.
        bindP (lift_result (read_output e (opt_default [] rec) True True
                 (case data of None \<Rightarrow> None | Some d \<Rightarrow> cd_bda_output_s3_uri d) (Some em))) (\<lambda>rr.
          lift_result (build_field_map (method_entry (field_values rr) (field_geometry rr))
            (concat (field_confidence_map_list rr)) [])))
      else ret [])"

definition write_extract_method_response ::
  "'t env \<Rightarrow> string \<Rightarrow> process_status \<Rightarrow> extract_method \<Rightarrow> extraction_result option \<Rightarrow>
   classification_data option \<Rightarrow> string option \<Rightarrow> ('t, unit) wprog"
where
  "write_extract_method_response e object_key st em result data error_message =
     bindP (build_v1_api_response e object_key (ps_value st) data error_message False False) (\<lambda>resp.
     bindP (method_fields e object_key st em result data) (\<lambda>flds.
     thenP (execute_ddb_update e object_key
              [USetPath ''apiResponsesByMethod'' (em_value em)
                 (PJson (PDict (dset ''fields'' (PDict flds) resp)))] CTrue)
       (case result of None \<Rightarrow> ret ()
        | Some r \<Rightarrow>
            (case er_processing_duration_seconds r of None \<Rightarrow> ret ()
             | Some secs \<Rightarrow>
                 execute_ddb_update e object_key
                   [USetPath ''durationsByMethod'' (em_value em) (PDict (duration_entry r secs))]
                   CTrue))))"

end
