(* ===== verification/Api_Laws.thy ===== *)
theory Api_Laws
  imports Api_Response Document_Writes
begin

text \<open>
  What a v1 response says: its job status and code for every document status, the agreement of its
  code with the fields it lists, and that the stored response carries no extracted value.
\<close>

section \<open>Dictionaries built in steps\<close>

lemma map_of_dupdate: "map_of (dupdate d e) = map_of d ++ map_of (rev e)"
proof (induction e arbitrary: d)
  case (Cons p e)
  obtain k v where "p = (k, v)" by (cases p)
  then show ?case using Cons by (simp add: map_add_upd_left fun_upd_def map_add_def fun_eq_iff split: option.splits)
qed simp

lemma distinct_dset: "distinct (map fst d) \<Longrightarrow> distinct (map fst (dset k v d))"
  by (simp add: dset_def distinct_update)

lemma distinct_dupdate: "distinct (map fst d) \<Longrightarrow> distinct (map fst (dupdate d e))"
  by (induction e arbitrary: d) (auto simp: distinct_dset)

lemma dget_drop_none: "distinct (map fst d) \<Longrightarrow> dget (drop_none d) k = dget d k"
proof (induction d)
  case (Cons p d)
  obtain a v where p: "p = (a, v)" by (cases p)
  have "dget (drop_none d) k = dget d k" using Cons by simp
  moreover have "a \<notin> fst ` set d" using Cons.prems p by simp
  then have "dget d a = PNone" by (simp add: dget_def map_of_eq_None_iff [THEN iffD2])
  ultimately show ?case using p by (auto simp: drop_none_def)
qed (simp add: drop_none_def)

lemma drop_none_no_none: "PNone \<notin> snd ` set (drop_none d)"
  by (auto simp: drop_none_def)

lemma base_response_distinct:
  assumes "base_response r js = Inr base"
  shows "distinct (map fst base)" "map_of base ''fields'' = None"
    "map_of base ''missingRequiredFieldList'' = None" "map_of base ''responseCode'' = None"
    "map_of base ''jobStatus'' = Some (PStr js)"
  using assms
  by (auto simp: base_response_def Let_def split: sum.splits if_splits)

section \<open>The job status of a response\<close>

definition unlisted_statuses :: "process_status list" where
  "unlisted_statuses =
     [PS_BLUEPRINT_DISABLED, PS_EXCLUDED_PER_PRECLASSIFICATION, PS_NOT_IMPLEMENTED, PS_TIMED_OUT]"

fun job_status_of :: "process_status \<Rightarrow> string" where
  "job_status_of PS_SUCCESS = ''completed''"
| "job_status_of PS_NO_CUSTOM_BLUEPRINT_MATCHED = ''completed''"
| "job_status_of PS_NO_DOCUMENT_DETECTED = ''completed''"
| "job_status_of PS_BLURRY_DOCUMENT_DETECTED = ''completed''"
| "job_status_of PS_PASSWORD_PROTECTED = ''completed''"
| "job_status_of PS_MULTIPLE_DOCUMENTS_ON_SINGLE_PAGE = ''completed''"
| "job_status_of PS_MULTIPLE_DOCUMENTS_IN_MULTIPAGE = ''completed''"
| "job_status_of PS_PROCESSING_EXCLUDED = ''completed''"
| "job_status_of PS_FAILED = ''failed''"
| "job_status_of PS_AI_CONSENT_DECLINED = ''ai_consent_declined''"
| "job_status_of PS_DELETED = ''deleted''"
| "job_status_of PS_CONVERSION_FAILED = ''conversion_failed''"
| "job_status_of _ = ''processing''"

definition listed_statuses :: "process_status list" where
  "listed_statuses = filter (\<lambda>st. map_of terminal_status_responses (ps_value st) \<noteq> None)
     all_process_status"

lemma listed_statuses_eq:
  "listed_statuses = [PS_AI_CONSENT_DECLINED, PS_BLURRY_DOCUMENT_DETECTED, PS_CONVERSION_FAILED,
     PS_DELETED, PS_FAILED, PS_MULTIPLE_DOCUMENTS_IN_MULTIPAGE,
     PS_MULTIPLE_DOCUMENTS_ON_SINGLE_PAGE, PS_NO_CUSTOM_BLUEPRINT_MATCHED,
     PS_NO_DOCUMENT_DETECTED, PS_PASSWORD_PROTECTED, PS_PROCESSING_EXCLUDED]"
  by code_simp

lemma listed_iff: "map_of terminal_status_responses (ps_value st) \<noteq> None \<longleftrightarrow> st \<in> set listed_statuses"
  by (simp add: listed_statuses_def all_process_status_complete)

text \<open>Each entry of the table, with its job status and its code.\<close>

definition entry_ok :: "process_status \<Rightarrow> bool" where
  "entry_ok st =
     (case map_of terminal_status_responses (ps_value st) of
        None \<Rightarrow> True
      | Some t \<Rightarrow> dget t ''jobStatus'' = PStr (job_status_of st) \<and>
          distinct (map fst t) \<and> map_of t ''missingRequiredFieldList'' = None \<and> dget t ''fields'' \<in> set [PNone, PDict []] \<and>
          (case dget t ''responseCode'' of
             PStr c \<Rightarrow> dget t ''responseMessage'' = PStr (get_message c) \<and> get_message c \<noteq> []
           | v \<Rightarrow> st = PS_DELETED \<and> v = PNone))"

lemma entries_ok: "entry_ok st"
proof -
  have "list_all entry_ok all_process_status" by code_simp
  then show ?thesis using all_process_status_complete by (auto simp: list_all_iff)
qed

lemma map_of_rev_distinct: "distinct (map fst d) \<Longrightarrow> map_of (rev d) = map_of d"
proof (induction d)
  case (Cons p d)
  obtain k v where p: "p = (k, v)" by (cases p)
  have "map_of d k = None" using Cons.prems p by (simp add: map_of_eq_None_iff)
  then show ?case using Cons p by (auto simp: map_add_def fun_eq_iff split: option.splits)
qed simp

section \<open>The branches of a response\<close>

lemma rules_filter_fields:
  assumes "apply_rules_to_record e r flds0 w = (Inr (flds, missing), w')"
  shows "set flds \<subseteq> set flds0"
  using assms
  by (auto simp: apply_rules_to_record_def apply_extraction_rules_def apply_rule_def Let_def
      bindP_run catchP_run split: if_splits prod.splits sum.splits list.splits)

definition response_shape ::
  "'t env \<Rightarrow> dict \<Rightarrow> process_status \<Rightarrow> classification_data option \<Rightarrow> string option \<Rightarrow> bool \<Rightarrow> bool \<Rightarrow>
   dict \<Rightarrow> bool"
where
  "response_shape e r st data msg incl box resp =
     (\<exists>base. base_response r (ps_value st) = Inr base \<and>
        (if st = PS_SUCCESS
         then (\<exists>flds0 flds missing sr.
                 extract_field_values e r incl box (dget r ''bdaMatchedDocumentClass'') = Inr flds0 \<and>
                 set flds \<subseteq> set flds0 \<and> success_response r base flds missing = Inr sr \<and>
                 resp = drop_none sr)
         else (case map_of terminal_status_responses (ps_value st) of
                 Some t \<Rightarrow> resp = drop_none (terminal_response r (ps_value st) base t data msg)
               | None \<Rightarrow> resp = drop_none (dupdate base
                   [(''jobStatus'', PStr ''processing''),
                    (''message'', PStr ''Document processing in progress'')]))))"

lemma response_of_record_shape:
  assumes "response_of_record e r (ps_value st) data msg incl box w = (Inr resp, w')"
  shows "response_shape e r st data msg incl box resp"
proof -
  obtain base where base: "base_response r (ps_value st) = Inr base"
    using assms by (auto simp: response_of_record_def bindP_run split: sum.splits)
  show ?thesis
  proof (cases "st = PS_SUCCESS")
    case True
    then obtain flds0 flds missing sr w1 where
      "extract_field_values e r incl box (dget r ''bdaMatchedDocumentClass'') = Inr flds0"
      and rules: "apply_rules_to_record e r flds0 w = (Inr (flds, missing), w1)"
      and "success_response r base flds missing = Inr sr" "resp = drop_none sr"
      using assms base
      by (auto simp: response_of_record_def bindP_run split: prod.splits sum.splits)
    then show ?thesis
      using True base rules_filter_fields [OF rules] unfolding response_shape_def by auto
  next
    case False
    then show ?thesis
      using assms base
      by (auto simp: response_of_record_def response_shape_def bindP_run split: option.splits)
  qed
qed

lemma build_v1_shape:
  assumes "build_v1_api_response e k (ps_value st) data msg incl box w = (Inr resp, w')"
  obtains r where "response_shape e r st data msg incl box resp"
  using assms
  by (auto simp: build_v1_api_response_def bindP_run split: prod.splits sum.splits option.splits
      intro: response_of_record_shape)

lemma success_response_keys:
  assumes "success_response r base flds missing = Inr sr" "base_response r js = Inr base"
  obtains c where "dget sr ''responseCode'' = PStr c" "dget sr ''responseMessage'' = PStr (get_message c)"
    "dget sr ''fields'' = PDict flds" "dget sr ''jobStatus'' = PStr ''completed''"
    "dget sr ''missingRequiredFieldList'' = (if missing \<noteq> [] then of_strs missing else PNone)"
    "(c = RC_MISSING_FIELDS) = (missing \<noteq> [])" "is_document_type_identified c"
    "distinct (map fst sr)"
proof -
  obtain c below where c: "resolve_response_code (ps_value PS_SUCCESS) r missing = (Some c, below)"
    and sr: "sr = dupdate base
            ([(''fields'', PDict flds)] @
             (if missing \<noteq> [] then [(''missingRequiredFieldList'', of_strs missing)] else []) @
             [(''jobStatus'', PStr ''completed''),
              (''message'', PStr ''Document processed successfully''),
              (''responseCode'', PStr c), (''responseMessage'', PStr (get_message c)),
              (''inferredDocumentType'', dget r ''preclassificationCategory'')] @
             (if below then [(''belowExtractionConfidenceFloor'', PBool True)] else []))"
    using assms(1) by (auto simp: success_response_def split: prod.splits option.splits)
  have "(c = RC_MISSING_FIELDS) = (missing \<noteq> []) \<and> is_document_type_identified c"
    using c by (auto simp: resolve_response_code_def Let_def is_document_type_identified_def
        split: if_splits)
  moreover have "distinct (map fst sr)"
    unfolding sr using base_response_distinct(1) [OF assms(2)] by (rule distinct_dupdate)
  ultimately show ?thesis
    using base_response_distinct [OF assms(2)]
    by (intro that [of c]) (simp_all add: sr dget_def map_of_dupdate map_add_def)
qed

lemma terminal_code:
  assumes "map_of terminal_status_responses (ps_value st) = Some t" "st \<noteq> PS_SUCCESS"
  obtains (code) c where "fst (resolve_response_code (ps_value st) r []) = Some c" "get_message c \<noteq> []"
  | (none) "fst (resolve_response_code (ps_value st) r []) = None" "dget t ''responseCode'' = PNone"
proof -
  have ok: "case dget t ''responseCode'' of
      PStr c \<Rightarrow> get_message c \<noteq> [] | v \<Rightarrow> v = PNone"
    using entries_ok [of st] assms(1) by (auto simp: entry_ok_def split: pyval.splits)
  have "get_message RC_MISCATEGORIZED \<noteq> []" by code_simp
  moreover have "fst (resolve_response_code (ps_value st) r []) =
      (if st = PS_NO_CUSTOM_BLUEPRINT_MATCHED \<and> dget r ''preclassificationCategoryMatch'' = PBool False
       then Some RC_MISCATEGORIZED else to_opt_str (dget t ''responseCode''))"
    using assms by (simp add: resolve_response_code_def Let_def)
  ultimately show ?thesis
    using ok that by (cases "dget t ''responseCode''") (auto split: if_splits)
qed

lemma map_of_dupdate_append:
  "distinct (map fst t) \<Longrightarrow>
   map_of (dupdate base (t @ x)) = map_of base ++ map_of t ++ map_of (rev x)"
  by (simp add: map_of_dupdate map_of_rev_distinct)

lemma terminal_response_keys:
  fixes data :: "classification_data option" and msg :: "string option"
  assumes "map_of terminal_status_responses (ps_value st) = Some t" "st \<noteq> PS_SUCCESS"
    and "base_response r (ps_value st) = Inr base"
  defines "resp \<equiv> terminal_response r (ps_value st) base t data msg"
  shows "dget resp ''jobStatus'' = PStr (job_status_of st)"
    and "dget resp ''fields'' \<in> {PNone, PDict []}"
    and "distinct (map fst resp)"
    and "dget resp ''missingRequiredFieldList'' = PNone"
    and "dget resp ''responseCode'' = PStr c \<Longrightarrow>
      dget resp ''responseMessage'' = PStr (get_message c) \<and> get_message c \<noteq> []"
proof -
  have ok: "dget t ''jobStatus'' = PStr (job_status_of st)" "distinct (map fst t)"
      "dget t ''fields'' \<in> {PNone, PDict []}" "map_of t ''missingRequiredFieldList'' = None"
    using entries_ok [of st] assms(1) by (auto simp: entry_ok_def)
  note base = base_response_distinct [OF assms(3)]
  define x where "x = (case fst (resolve_response_code (ps_value st) r []) of
           Some code \<Rightarrow> if code \<noteq> [] then code_fields code else [] | None \<Rightarrow> []) @
         (case data of None \<Rightarrow> []
          | Some d \<Rightarrow> if truthy_str (cd_additional_info d)
                     then [(''additionalInfo'', of_opt_str (cd_additional_info d))] else []) @
         (if ps_value st = ps_value PS_FAILED \<and> truthy_str msg
          then [(''error'', of_opt_str msg)] else [])"
  have resp: "map_of resp = map_of base ++ map_of t ++ map_of (rev x)"
    unfolding resp_def terminal_response_def x_def using ok(2) by (rule map_of_dupdate_append)
  have x: "map_of (rev x) a = None"
    if "a \<in> {''jobStatus'', ''fields'', ''missingRequiredFieldList''}" for a
    using that unfolding x_def by (auto simp: code_fields_def map_of_eq_None_iff split: option.splits)
  have keep: "dget resp a = (if has_key t a then dget t a else dget base a)"
    if "a \<in> {''jobStatus'', ''fields'', ''missingRequiredFieldList''}" for a
    using x [OF that] by (auto simp: dget_def resp map_add_def has_key_def split: option.splits)
  show "dget resp ''jobStatus'' = PStr (job_status_of st)"
    using keep [of "''jobStatus''"] ok(1) by (auto dest: dget_not_has_key)
  show "dget resp ''fields'' \<in> {PNone, PDict []}"
    using keep [of "''fields''"] ok(3) base(2) by (auto simp: dget_def)
  show "distinct (map fst resp)"
    unfolding resp_def terminal_response_def by (rule distinct_dupdate [OF base(1)])
  show "dget resp ''missingRequiredFieldList'' = PNone"
    using keep [of "''missingRequiredFieldList''"] ok(4) base(3) by (auto simp: dget_def has_key_def)
  show "dget resp ''responseMessage'' = PStr (get_message c) \<and> get_message c \<noteq> []"
    if c: "dget resp ''responseCode'' = PStr c"
    using assms(1,2)
  proof (cases rule: terminal_code [where r = r])
    case (code d)
    then have "d \<noteq> []" by (auto simp: get_message_def response_messages_def)
    with code have rx: "map_of (rev x) ''responseCode'' = Some (PStr d)"
      "map_of (rev x) ''responseMessage'' = Some (PStr (get_message d))"
      by (auto simp: x_def code_fields_def map_add_def map_of_eq_None_iff split: option.splits)
    with c have "d = c" by (simp add: dget_def resp map_add_def)
    with rx code show ?thesis by (simp add: dget_def resp map_add_def)
  next
    case none
    then have "map_of (rev x) ''responseCode'' = None"
      by (auto simp: x_def map_of_eq_None_iff split: option.splits)
    with c none base(4) show ?thesis
      by (auto simp: dget_def resp map_add_def split: option.splits)
  qed
qed

lemma processing_response_keys:
  assumes "base_response r js = Inr base"
  defines "resp \<equiv> dupdate base [(''jobStatus'', PStr ''processing''),
    (''message'', PStr ''Document processing in progress'')]"
  shows "dget resp ''jobStatus'' = PStr ''processing''" "dget resp ''fields'' = PNone"
    "dget resp ''missingRequiredFieldList'' = PNone" "dget resp ''responseCode'' = PNone"
    "distinct (map fst resp)"
  using base_response_distinct [OF assms(1)] unfolding resp_def
  by (simp_all add: dget_def map_of_dupdate distinct_dset)

text \<open>The three branches of a response, with what each makes of the keys that matter.\<close>

lemma response_keys:
  assumes "response_shape e r st data msg incl box resp"
  shows "dget resp ''jobStatus'' = PStr (job_status_of st)"
    and "dget resp ''responseCode'' = PStr c \<Longrightarrow>
      dget resp ''responseMessage'' = PStr (get_message c) \<and> get_message c \<noteq> [] \<and>
      (dget resp ''missingRequiredFieldList'' \<noteq> PNone \<longrightarrow> st = PS_SUCCESS \<and> c = RC_MISSING_FIELDS) \<and>
      (st = PS_SUCCESS \<longrightarrow> is_document_type_identified c \<and>
         (c = RC_MISSING_FIELDS \<longrightarrow> dget resp ''missingRequiredFieldList'' \<noteq> PNone))"
    and "dget resp ''fields'' \<in> {PNone, PDict []} \<or>
      (\<exists>flds0 flds. dget resp ''fields'' = PDict flds \<and> set flds \<subseteq> set flds0 \<and>
         extract_field_values e r incl box (dget r ''bdaMatchedDocumentClass'') = Inr flds0)"
proof -
  obtain base where base: "base_response r (ps_value st) = Inr base"
    using assms by (auto simp: response_shape_def)
  have "dget resp ''jobStatus'' = PStr (job_status_of st) \<and>
    (dget resp ''responseCode'' = PStr c \<longrightarrow>
      dget resp ''responseMessage'' = PStr (get_message c) \<and> get_message c \<noteq> [] \<and>
      (dget resp ''missingRequiredFieldList'' \<noteq> PNone \<longrightarrow> st = PS_SUCCESS \<and> c = RC_MISSING_FIELDS) \<and>
      (st = PS_SUCCESS \<longrightarrow> is_document_type_identified c \<and>
         (c = RC_MISSING_FIELDS \<longrightarrow> dget resp ''missingRequiredFieldList'' \<noteq> PNone))) \<and>
    (dget resp ''fields'' \<in> {PNone, PDict []} \<or>
      (\<exists>flds0 flds. dget resp ''fields'' = PDict flds \<and> set flds \<subseteq> set flds0 \<and>
         extract_field_values e r incl box (dget r ''bdaMatchedDocumentClass'') = Inr flds0))"
  proof (cases "st = PS_SUCCESS")
    case True
    then obtain flds0 flds missing sr where
      ext: "extract_field_values e r incl box (dget r ''bdaMatchedDocumentClass'') = Inr flds0"
      and sub: "set flds \<subseteq> set flds0" and sr: "success_response r base flds missing = Inr sr"
      and resp: "resp = drop_none sr"
      using assms base by (auto simp: response_shape_def)
    from sr base obtain d where d: "dget sr ''responseCode'' = PStr d"
      "dget sr ''responseMessage'' = PStr (get_message d)" "dget sr ''fields'' = PDict flds"
      "dget sr ''jobStatus'' = PStr ''completed''"
      "dget sr ''missingRequiredFieldList'' = (if missing \<noteq> [] then of_strs missing else PNone)"
      "(d = RC_MISSING_FIELDS) = (missing \<noteq> [])" "is_document_type_identified d"
      "distinct (map fst sr)"
      by (rule success_response_keys)
    have "get_message x \<noteq> []" if "is_document_type_identified x" for x
      using that by (auto simp: is_document_type_identified_def get_message_def response_messages_def)
    then show ?thesis
      unfolding resp dget_drop_none [OF d(8)]
      using True d ext sub by (auto simp: of_strs_def split: if_splits)
  next
    case False
    show ?thesis
    proof (cases "map_of terminal_status_responses (ps_value st)")
      case None
      have "resp = drop_none (dupdate base [(''jobStatus'', PStr ''processing''),
          (''message'', PStr ''Document processing in progress'')])"
        using assms base False None by (auto simp: response_shape_def)
      moreover have "job_status_of st = ''processing''"
        using None False listed_iff [of st] by (cases st) (simp_all add: listed_statuses_eq)
      ultimately show ?thesis
        using processing_response_keys [OF base] by (simp add: dget_drop_none del: dupdate_Cons)
    next
      case (Some t)
      have resp: "resp = drop_none (terminal_response r (ps_value st) base t data msg)"
        using assms base False Some by (auto simp: response_shape_def)
      note k = terminal_response_keys [OF Some False base, of data msg]
      show ?thesis unfolding resp dget_drop_none [OF k(3)] using k False by auto
    qed
  qed
  then show "dget resp ''jobStatus'' = PStr (job_status_of st)"
    and "dget resp ''responseCode'' = PStr c \<Longrightarrow>
      dget resp ''responseMessage'' = PStr (get_message c) \<and> get_message c \<noteq> [] \<and>
      (dget resp ''missingRequiredFieldList'' \<noteq> PNone \<longrightarrow> st = PS_SUCCESS \<and> c = RC_MISSING_FIELDS) \<and>
      (st = PS_SUCCESS \<longrightarrow> is_document_type_identified c \<and>
         (c = RC_MISSING_FIELDS \<longrightarrow> dget resp ''missingRequiredFieldList'' \<noteq> PNone))"
    and "dget resp ''fields'' \<in> {PNone, PDict []} \<or>
      (\<exists>flds0 flds. dget resp ''fields'' = PDict flds \<and> set flds \<subseteq> set flds0 \<and>
         extract_field_values e r incl box (dget r ''bdaMatchedDocumentClass'') = Inr flds0)"
    by blast+
qed

text \<open>The job status of a response is the one assigned to the document's status, and it is
  \<open>processing\<close> exactly for the statuses that are not final and for four final ones
  (blueprint disabled, excluded per preclassification, not implemented, timed out), which have no
  entry in the response table.\<close>

theorem v1_job_status:
  assumes "build_v1_api_response e k (ps_value st) data msg incl box w = (Inr resp, w')"
  shows "dget resp ''jobStatus'' = PStr (job_status_of st) \<and>
    (job_status_of st = ''processing'' \<longleftrightarrow> st \<in> set non_terminal \<union> set unlisted_statuses) \<and>
    (st \<in> set unlisted_statuses \<longrightarrow> is_classified (ps_value st))"
proof -
  obtain r where "response_shape e r st data msg incl box resp"
    using assms by (rule build_v1_shape)
  then have "dget resp ''jobStatus'' = PStr (job_status_of st)" by (rule response_keys(1))
  moreover have "(job_status_of st = ''processing'') =
      (st \<in> set non_terminal \<union> set unlisted_statuses)"
    by (cases st) (simp_all add: non_terminal_def unlisted_statuses_def)
  moreover have "st \<in> set unlisted_statuses \<longrightarrow> is_classified (ps_value st)"
    by (cases st) (simp_all add: unlisted_statuses_def is_classified_def)
  ultimately show ?thesis by blast
qed

definition example_doc :: "process_status \<Rightarrow> mem" where
  "example_doc st = [((DocumentMetadataT, doc_key ''f''),
     [(''fileName'', PStr ''f''), (''jobId'', PStr ''j''), (''createdAt'', PTime 0),
      (''processStatus'', PStr (ps_value st)),
      (''fieldConfidenceScores'', PJson (PList [PDict [(''name'', PNum (1/2))]])),
      (''tokensByModel'', PDict [])])]"

lemma v1_job_status_witness:
  "dget (projr (fst (build_v1_api_response base_env ''f'' (ps_value PS_TIMED_OUT) None None False False
     (world_of (example_doc PS_TIMED_OUT))))) ''jobStatus'' = PStr ''processing''"
proof -
  let ?w = "world_of (example_doc PS_TIMED_OUT)"
  have a: "build_v1_api_response base_env ''f'' (ps_value PS_TIMED_OUT) None None False False ?w =
      (Inr [(''jobId'', PStr ''j''), (''jobStatus'', PStr ''processing''), (''createdAt'', PTime 0),
        (''message'', PStr ''Document processing in progress'')], ?w)"
    by code_simp
  from v1_job_status [OF a] show ?thesis unfolding a by simp
qed

text \<open>The response code is explained and agrees with the fields: its message is the one of the code
  table and is not empty; a list of missing required fields accompanies exactly the code 101, and
  only for a successful document, whose code always says that the type was identified.\<close>

theorem v1_code_agrees_with_fields:
  assumes "build_v1_api_response e k (ps_value st) data msg incl box w = (Inr resp, w')"
    and "dget resp ''responseCode'' = PStr c"
  shows "dget resp ''responseMessage'' = PStr (get_message c) \<and> get_message c \<noteq> [] \<and>
    (dget resp ''missingRequiredFieldList'' \<noteq> PNone \<longrightarrow> st = PS_SUCCESS \<and> c = RC_MISSING_FIELDS) \<and>
    (st = PS_SUCCESS \<longrightarrow> is_document_type_identified c \<and>
       (c = RC_MISSING_FIELDS \<longrightarrow> dget resp ''missingRequiredFieldList'' \<noteq> PNone))"
proof -
  obtain r where "response_shape e r st data msg incl box resp"
    using assms(1) by (rule build_v1_shape)
  then show ?thesis using assms(2) by (rule response_keys(2))
qed

lemma v1_code_agrees_with_fields_witness:
  "dget (projr (fst (build_v1_api_response base_env ''f'' (ps_value PS_SUCCESS) None None False False
     (world_of (example_doc PS_SUCCESS))))) ''responseMessage'' = PStr (get_message RC_SUCCESS)"
proof -
  let ?w = "world_of (example_doc PS_SUCCESS)"
  let ?resp = "[(''jobId'', PStr ''j''), (''jobStatus'', PStr ''completed''), (''createdAt'', PTime 0),
    (''fields'', PDict [(''name'', PDict [(''confidence'', PNum (1/2)),
       (''value'', PStr ''<redacted>''), (''displayName'', PStr ''name'')])]),
    (''message'', PStr ''Document processed successfully''), (''responseCode'', PStr ''000''),
    (''responseMessage'', PStr ''Document validation passed'')]"
  have a: "build_v1_api_response base_env ''f'' (ps_value PS_SUCCESS) None None False False ?w =
      (Inr ?resp, ?w)"
    by code_simp
  have b: "dget ?resp ''responseCode'' = PStr RC_SUCCESS" by simp
  from v1_code_agrees_with_fields [OF a b] show ?thesis unfolding a by simp
qed

section \<open>Redaction\<close>

definition redacted :: "pyval \<Rightarrow> bool" where
  "redacted v = (\<exists>entry. v = PDict entry \<and> dget entry ''value'' = PStr ''<redacted>'')"

lemma build_field_map_redacted:
  assumes "build_field_map entry fs acc = Inr flds"
    and "\<And>n c. dget (entry n c) ''value'' = PStr ''<redacted>''"
    and "\<forall>v \<in> snd ` set acc. redacted v"
  shows "\<forall>v \<in> snd ` set flds. redacted v"
  using assms
proof (induction entry fs acc rule: build_field_map.induct)
  case (2 entry n c rest acc)
  then obtain c' where c': "round_conf c = Inr c'"
    "build_field_map entry rest (dset n (PDict (entry n c')) acc) = Inr flds"
    by (auto split: sum.splits)
  have "snd ` set (dset k x d) \<subseteq> insert x (snd ` set d)" for k x and d :: dict
    unfolding dset_def by (induction d) auto
  then have "\<forall>v \<in> snd ` set (dset n (PDict (entry n c')) acc). redacted v"
    using 2(3,4) by (fastforce simp: redacted_def)
  then show ?case using 2(1) [OF c'] 2(3) by blast
qed simp

lemma extract_field_values_redacted:
  assumes "extract_field_values e r False box dt = Inr flds"
  shows "\<forall>v \<in> snd ` set flds. redacted v"
proof (cases "r = []")
  case True
  then show ?thesis using assms by (simp add: extract_field_values_def)
next
  case False
  with assms obtain rr :: reader_result where "build_field_map
      (field_entry e (field_values rr) (field_geometry rr) False box dt)
      (concat (field_confidence_map_list rr)) [] = Inr flds"
    by (auto simp: extract_field_values_def split: sum.splits)
  then show ?thesis
    by (rule build_field_map_redacted) (simp_all add: field_entry_def)
qed

text \<open>C35: A response built without extracted data, which is the one that is stored with the record,
  carries no extracted value: every field it lists has the value \<open><redacted>\<close>, after the
  extraction rules have been applied too.\<close>

theorem stored_response_is_redacted:
  assumes "build_v1_api_response e k (ps_value st) data msg False box w = (Inr resp, w')"
  shows "\<forall>v \<in> snd ` set (as_dict (dget resp ''fields'')). redacted v"
proof -
  obtain r where "response_shape e r st data msg False box resp"
    using assms by (rule build_v1_shape)
  then consider "dget resp ''fields'' \<in> {PNone, PDict []}"
    | flds0 flds where "dget resp ''fields'' = PDict flds" "set flds \<subseteq> set flds0"
      "extract_field_values e r False box (dget r ''bdaMatchedDocumentClass'') = Inr flds0"
    using response_keys(3) by blast
  then show ?thesis
  proof cases
    case 1
    then show ?thesis by auto
  next
    case 2
    then show ?thesis using extract_field_values_redacted [OF 2(3)] by auto
  qed
qed

lemma stored_response_is_redacted_witness:
  "list_all redacted (map snd (as_dict (dget (projr (fst (build_v1_api_response base_env ''f''
     (ps_value PS_SUCCESS) None None False True (world_of (example_doc PS_SUCCESS))))) ''fields'')))"
proof -
  obtain resp w' where a: "build_v1_api_response base_env ''f'' (ps_value PS_SUCCESS) None None False True
      (world_of (example_doc PS_SUCCESS)) = (Inr resp, w')"
  proof -
    have "\<not> isl (fst (build_v1_api_response base_env ''f'' (ps_value PS_SUCCESS) None None False True
        (world_of (example_doc PS_SUCCESS))))" by code_simp
    then show ?thesis using that by (metis prod.collapse sum.collapse(2))
  qed
  from stored_response_is_redacted [OF a] show ?thesis unfolding a by (simp add: list_all_iff)
qed

end
