(* ===== verification/Classification.thy ===== *)
theory Classification
  imports Api_Response Batches
begin

text \<open>
  \<open>classifiers/document_classification.py\<close>: the terminal transitions of a document.  Each of them
  builds an update and goes through \<open>write_terminal_status\<close>, which writes only where the record is
  not final yet, and stores the response and counts the batch only when that write has landed.
\<close>

section \<open>The guarded write\<close>

definition build_ddb_non_terminal_condition :: cond where
  "build_ddb_non_terminal_condition =
     COr (CNotExists ''processStatus'') (CIn ''processStatus'' (map (PStr \<circ> ps_value) non_terminal))"

definition write_terminal_status ::
  "'t env \<Rightarrow> update_ddb_record \<Rightarrow> string option \<Rightarrow> extraction_result option \<Rightarrow>
   extract_method option \<Rightarrow> ('t, unit) wprog"
where
  "write_terminal_status e d batch_id result em =
     (let write_method =
        (case em of None \<Rightarrow> ret ()
         | Some m \<Rightarrow> write_extract_method_response e (ud_object_key d) (ud_status d) m result
                       (ud_data d) (ud_error_message d))
      in if em \<noteq> Some EM_OCR_MAPPING then
           bindP (catchP (thenP (update_ddb e d build_ddb_non_terminal_condition) (ret True))
                    (\<lambda>x. if x = ConditionalCheckFailed then ret False else raise x)) (\<lambda>landed.
             if landed then
               thenP (finalize_v1_response e (ud_object_key d) (ud_status d) (ud_data d)
                        (ud_error_message d))
               (thenP (whenP (truthy_str batch_id)
                         (increment_resolved_count e (opt_default [] batch_id)))
                  write_method)
             else ret ())
         else write_method)"

section \<open>The transitions\<close>

definition classify_with ::
  "'t env \<Rightarrow> string \<Rightarrow> string \<Rightarrow> string option \<Rightarrow>
   (internal_api_response \<Rightarrow> update_ddb_record) \<Rightarrow> string option \<Rightarrow> extraction_result option \<Rightarrow>
   extract_method option \<Rightarrow> ('t, dict) wprog"
where
  "classify_with e object_key code matched mk batch_id result em =
     bindP (get_internal_api_response e object_key code matched None) (\<lambda>resp.
     thenP (write_terminal_status e (mk resp) batch_id result em)
       (ret (internal_response_dict resp)))"

record success_args =
  sa_below_floor :: bool
  sa_rules_configured :: "bool option"
  sa_missing :: "string list option"
  sa_required :: "string list option"
  sa_applied_floor :: "rat option"
  sa_used_default_floor :: "bool option"

definition classify_as_success ::
  "'t env \<Rightarrow> string \<Rightarrow> string \<Rightarrow> classification_data \<Rightarrow> extract_method \<Rightarrow> success_args \<Rightarrow>
   pyval option \<Rightarrow> string option \<Rightarrow> extraction_result option \<Rightarrow> ('t, dict) wprog"
where
  "classify_as_success e object_key code data em args started_at batch_id result =
     classify_with e object_key code (cd_matched_document_class data)
       (\<lambda>resp. (update_record object_key PS_SUCCESS)
          \<lparr>ud_internal_api_response := Some resp, ud_data := Some data, ud_extraction_method := em,
           ud_below_extraction_confidence_floor := sa_below_floor args,
           ud_extraction_rules_configured := sa_rules_configured args,
           ud_missing_required_field_list := sa_missing args,
           ud_required_field_list := sa_required args,
           ud_applied_extraction_confidence_floor := sa_applied_floor args,
           ud_used_default_confidence_floor := sa_used_default_floor args,
           ud_result_processor_started_at := started_at\<rparr>)
       batch_id result (Some em)"

definition classify_as_failed ::
  "'t env \<Rightarrow> string \<Rightarrow> string \<Rightarrow> classification_data \<Rightarrow> pyval option \<Rightarrow> string option \<Rightarrow>
   ('t, dict) wprog"
where
  "classify_as_failed e object_key error_message data started_at batch_id =
     classify_with e object_key RC_INTERNAL_PROCESSING_ERROR None
       (\<lambda>resp. (update_record object_key PS_FAILED)
          \<lparr>ud_internal_api_response := Some resp, ud_error_message := Some error_message,
           ud_data := Some data, ud_result_processor_started_at := started_at\<rparr>)
       batch_id None None"

definition classify_as_not_implemented ::
  "'t env \<Rightarrow> string \<Rightarrow> classification_data \<Rightarrow> string option \<Rightarrow> ('t, dict) wprog" where
  "classify_as_not_implemented e object_key data batch_id =
     classify_with e object_key RC_NO_BLUEPRINT_MATCHED None
       (\<lambda>resp. (update_record object_key PS_SUCCESS)
          \<lparr>ud_internal_api_response := Some resp, ud_data := Some data\<rparr>)
       batch_id None None"

definition classify_as_no_document_detected ::
  "'t env \<Rightarrow> string \<Rightarrow> classification_data \<Rightarrow> pyval option \<Rightarrow> string option \<Rightarrow> extract_method \<Rightarrow>
   ('t, dict) wprog"
where
  "classify_as_no_document_detected e object_key data started_at batch_id em =
     classify_with e object_key RC_NO_DOCUMENT_DETECTED None
       (\<lambda>resp. (update_record object_key PS_NO_DOCUMENT_DETECTED)
          \<lparr>ud_internal_api_response := Some resp, ud_data := Some data,
           ud_result_processor_started_at := started_at\<rparr>)
       batch_id None (Some em)"

definition classify_as_ai_consent_declined ::
  "'t env \<Rightarrow> string \<Rightarrow> string option \<Rightarrow> ('t, dict) wprog" where
  "classify_as_ai_consent_declined e object_key batch_id =
     classify_with e object_key RC_AI_CONSENT_DECLINED None
       (\<lambda>resp. (update_record object_key PS_AI_CONSENT_DECLINED)
          \<lparr>ud_internal_api_response := Some resp\<rparr>)
       batch_id None None"

definition classify_as_conversion_failed ::
  "'t env \<Rightarrow> string \<Rightarrow> string \<Rightarrow> string option \<Rightarrow> ('t, dict) wprog" where
  "classify_as_conversion_failed e object_key error_message batch_id =
     classify_with e object_key RC_INTERNAL_PROCESSING_ERROR None
       (\<lambda>resp. (update_record object_key PS_CONVERSION_FAILED)
          \<lparr>ud_internal_api_response := Some resp, ud_error_message := Some error_message\<rparr>)
       batch_id None None"

definition classify_as_no_custom_blueprint_matched ::
  "'t env \<Rightarrow> string \<Rightarrow> classification_data \<Rightarrow> pyval option \<Rightarrow> string option \<Rightarrow> extract_method \<Rightarrow>
   ('t, dict) wprog"
where
  "classify_as_no_custom_blueprint_matched e object_key data started_at batch_id em =
     classify_with e object_key RC_NO_BLUEPRINT_MATCHED None
       (\<lambda>resp. (update_record object_key PS_NO_CUSTOM_BLUEPRINT_MATCHED)
          \<lparr>ud_internal_api_response := Some resp, ud_data := Some data,
           ud_result_processor_started_at := started_at\<rparr>)
       batch_id None (Some em)"

definition classify_as_extraction_not_configured ::
  "'t env \<Rightarrow> string \<Rightarrow> classification_data \<Rightarrow> string option \<Rightarrow> ('t, dict) wprog" where
  "classify_as_extraction_not_configured e object_key data batch_id =
     classify_with e object_key RC_SKIPPED_PER_PRECLASSIFICATION None
       (\<lambda>resp. (update_record object_key PS_EXCLUDED_PER_PRECLASSIFICATION)
          \<lparr>ud_internal_api_response := Some resp, ud_data := Some data\<rparr>)
       batch_id None None"

definition classify_as_multiple_documents_on_page ::
  "'t env \<Rightarrow> string \<Rightarrow> classification_data \<Rightarrow> string option \<Rightarrow> ('t, dict) wprog" where
  "classify_as_multiple_documents_on_page e object_key data batch_id =
     classify_with e object_key RC_MULTIPLE_DOCUMENTS_ON_SINGLE_PAGE None
       (\<lambda>resp. (update_record object_key PS_MULTIPLE_DOCUMENTS_ON_SINGLE_PAGE)
          \<lparr>ud_internal_api_response := Some resp, ud_data := Some data\<rparr>)
       batch_id None None"

definition classify_as_multiple_documents_in_multipage ::
  "'t env \<Rightarrow> string \<Rightarrow> classification_data \<Rightarrow> string option \<Rightarrow> ('t, dict) wprog" where
  "classify_as_multiple_documents_in_multipage e object_key data batch_id =
     classify_with e object_key RC_MULTIPLE_DOCUMENTS_IN_MULTIPAGE None
       (\<lambda>resp. (update_record object_key PS_MULTIPLE_DOCUMENTS_IN_MULTIPAGE)
          \<lparr>ud_internal_api_response := Some resp, ud_data := Some data\<rparr>)
       batch_id None None"

definition success_args_of ::
  "scores \<Rightarrow> string list \<Rightarrow> string list \<Rightarrow> rat \<Rightarrow> bool \<Rightarrow> (string list \<times> string list) option \<Rightarrow>
   success_args"
where
  "success_args_of conf_scores empt geo confidence_floor used_default rule_fields =
     \<lparr>sa_below_floor = (case calculate_average_non_empty_confidence conf_scores empt geo of
        None \<Rightarrow> False | Some avg \<Rightarrow> avg < confidence_floor),
      sa_rules_configured = Some (rule_fields \<noteq> None),
      sa_missing = map_option fst rule_fields, sa_required = map_option snd rule_fields,
      sa_applied_floor = Some confidence_floor, sa_used_default_floor = Some used_default\<rparr>"

definition classify_extraction_result ::
  "'t env \<Rightarrow> string \<Rightarrow> extraction_result \<Rightarrow> string option \<Rightarrow> string option \<Rightarrow> string option \<Rightarrow>
   pyval option \<Rightarrow> extract_method \<Rightarrow> ('t, dict) wprog"
where
  "classify_extraction_result e ddb_key result output_uri tenant_id batch_id started_at em =
     (case output_uri of
        None \<Rightarrow> raise (ValueErr ''output_uri missing on success path'')
      | Some uri \<Rightarrow>
          (let data = from_extraction_result result (Some uri) None in
           bindP (get_extraction_confidence_floor e tenant_id) (\<lambda>confidence_floor.
           bindP (tenant_has_confidence_floor e tenant_id) (\<lambda>has_floor.
           bindP (get_missing_required_fields e tenant_id (cd_matched_document_class data)
                    (er_field_empty_list result) (er_field_missing_geometry_list result))
             (\<lambda>rule_fields.
           classify_as_success e ddb_key RC_SUCCESS data em
             (success_args_of (er_field_confidence_scores result) (er_field_empty_list result)
                (er_field_missing_geometry_list result) confidence_floor (\<not> has_floor) rule_fields)
             started_at batch_id (Some result))))))"

end
