(* ===== verification/Classification_Laws.thy ===== *)
theory Classification_Laws
  imports Classification Document_Writes
begin

text \<open>
  The guarantees of the terminal transitions: the first terminal status of a document stays, and
  whatever fails and however often a transition is repeated, the document is enqueued for the
  metrics at most once and counted for its batch at most once.
\<close>

section \<open>Programs that only read the tables\<close>

locale reader_order = state_order R
  for R :: "'t world \<Rightarrow> 't world \<Rightarrow> bool" +
  fixes e :: "'t env"
  assumes r_get: "guarantees R (on_store (db_get (client e) T k))"
    and r_query: "guarantees R (on_store (db_query (client e) T ks))"
    and r_scan: "guarantees R (on_store (db_scan (client e) T))"
begin

lemma r_get_item: "guarantees R (get_item e T k)"
  unfolding get_item_def by (rule r_get)

lemma r_get_ddb_record: "guarantees R (get_ddb_record e k)"
  unfolding get_ddb_record_def by (intro g_rules r_get_item)

lemma r_table_get: "guarantees R (table_get e tb pk sk)"
  unfolding table_get_def by (intro g_rules r_get_item)

lemma r_get_rules: "guarantees R (get_rules e t dt)"
  unfolding get_rules_def table_list_by_pk_def query_by_pk_def
  by (intro g_rules r_table_get r_query)

lemma r_apply_extraction_rules: "guarantees R (apply_extraction_rules e t dt flds m)"
  unfolding apply_extraction_rules_def
  by (intro g_bind r_get_rules) (auto split: list.split intro: g_ret g_lift)

lemma r_missing_required: "guarantees R (get_missing_required_fields e t dt empt geo)"
  unfolding get_missing_required_fields_def
  by (intro g_if g_bind r_get_rules g_ret) (auto split: list.split intro: g_ret g_bind g_lift)

lemma r_apply_rules_to_record: "guarantees R (apply_rules_to_record e r flds)"
  unfolding apply_rules_to_record_def by (intro g_rules r_apply_extraction_rules)

lemma r_build_v1: "guarantees R (build_v1_api_response e k js data msg incl box)"
  unfolding build_v1_api_response_def response_of_record_def
  by (intro g_rules r_get_ddb_record r_apply_rules_to_record)

lemma r_method_fields: "guarantees R (method_fields e k st em result data)"
  unfolding method_fields_def by (intro g_rules r_get_ddb_record)

lemma r_internal_response: "guarantees R (get_internal_api_response e k code matched cat)"
  unfolding get_internal_api_response_def get_user_provided_document_category_def
  by (intro g_rules r_get_ddb_record)

lemma r_timing_updates: "guarantees R (build_timing_updates e k st uri)"
  unfolding build_timing_updates_def build_completion_timing_def calculate_wait_time_for_def
    calculate_bda_processing_times_def
  by (intro g_rules r_get_ddb_record)

lemma r_confidence_floor: "guarantees R (get_extraction_confidence_floor e t)"
  unfolding get_extraction_confidence_floor_def get_tenant_def
  by (intro g_rules r_table_get)

lemma r_has_confidence_floor: "guarantees R (tenant_has_confidence_floor e t)"
  unfolding tenant_has_confidence_floor_def get_tenant_def
  by (intro g_rules r_table_get)

end

sublocale item_order \<subseteq> reader: reader_order "items_rel look P" e
proof unfold_locales
  show "guarantees (items_rel look P) (on_store (db_get (client e) T k))" for T k
    using g_get_item unfolding get_item_def .
qed (fact g_query, fact g_scan)

text \<open>No message is sent, whatever is read or written in the tables.\<close>

lemma on_store_silent: "guarantees (\<lambda>w w'. outbox w' = outbox w) (on_store m)"
  by (rule guaranteesI) (auto simp: on_store_def split: prod.splits)

interpretation silent: reader_order "\<lambda>w w'. outbox w' = outbox (w :: 't world)" e for e :: "'t env"
  by unfold_locales (auto simp: on_store_silent)

lemma silent_update: "guarantees (\<lambda>w w'. outbox w' = outbox w) (execute_ddb_update e k us c)"
  unfolding execute_ddb_update_def update_item_def by (intro silent.g_rules on_store_silent)

section \<open>Final documents stay as they are\<close>

definition is_final :: "dict \<Rightarrow> bool" where
  "is_final it = (case dget it ''processStatus'' of PStr s \<Rightarrow> is_classified s | _ \<Rightarrow> False)"

definition final_at :: "('t \<Rightarrow> tname \<Rightarrow> dict \<Rightarrow> dict option) \<Rightarrow> string \<Rightarrow> 't world \<Rightarrow> bool" where
  "final_at look k w =
     (case item_in look w DocumentMetadataT (doc_key k) of None \<Rightarrow> False | Some it \<Rightarrow> is_final it)"

text \<open>What a quiet program may do to an item: nothing to a batch, and to a document anything but
  remove it or touch its status.\<close>

fun quiet_step :: "tname \<Rightarrow> dict \<Rightarrow> dict option \<Rightarrow> dict option \<Rightarrow> bool" where
  "quiet_step DocumentMetadataT k (Some it) y =
     (case y of None \<Rightarrow> False | Some it' \<Rightarrow> dget it' ''processStatus'' = dget it ''processStatus'')"
| "quiet_step DocumentMetadataT k None y = (case y of None \<Rightarrow> True | Some it' \<Rightarrow> \<not> is_final it')"
| "quiet_step T k x y = (x = y)"

fun final_step :: "tname \<Rightarrow> dict \<Rightarrow> dict option \<Rightarrow> dict option \<Rightarrow> bool" where
  "final_step DocumentMetadataT k (Some it) y =
     (is_final it \<longrightarrow>
        (case y of None \<Rightarrow> False | Some it' \<Rightarrow> dget it' ''processStatus'' = dget it ''processStatus''))"
| "final_step T k x y = True"

lemma quiet_step_refl: "quiet_step T k x x"
  by (cases T; cases x) auto

lemma quiet_step_trans: "quiet_step T k x y \<Longrightarrow> quiet_step T k y z \<Longrightarrow> quiet_step T k x z"
  by (cases T; cases x; cases y; cases z) (auto simp: is_final_def)

lemma final_step_refl: "final_step T k x x"
  by (cases T; cases x) auto

lemma final_step_trans: "final_step T k x y \<Longrightarrow> final_step T k y z \<Longrightarrow> final_step T k x z"
  by (cases T; cases x; cases y; cases z) (auto simp: is_final_def)

lemma quiet_final_step: "quiet_step T k x y \<Longrightarrow> final_step T k x y"
  by (cases T; cases x; cases y) auto

sublocale service \<subseteq> quiet: item_order look e quiet_step
  by unfold_locales (fact quiet_step_refl, fact quiet_step_trans)

sublocale service \<subseteq> final: item_order look e final_step
  by unfold_locales (fact final_step_refl, fact final_step_trans)

lemma guard_not_final:
  assumes "cond_holds build_ddb_non_terminal_condition (opt_default [] x)" "x = Some it"
  shows "\<not> is_final it"
proof -
  have "map_of it ''processStatus'' = None \<or>
      (\<exists>st \<in> set non_terminal. map_of it ''processStatus'' = Some (PStr (ps_value st)))"
    using assms by (auto simp: build_ddb_non_terminal_condition_def has_key_def)
  then show ?thesis
    using non_terminal_not_classified by (auto simp: is_final_def dget_def)
qed

lemma items_rel_final: "items_rel look final_step w w' \<Longrightarrow> final_at look k w \<Longrightarrow> final_at look k w'"
proof -
  assume a: "items_rel look final_step w w'" "final_at look k w"
  then obtain it where it: "item_in look w DocumentMetadataT (doc_key k) = Some it" "is_final it"
    by (auto simp: final_at_def split: option.splits)
  have "final_step DocumentMetadataT (doc_key k) (Some it) (item_in look w' DocumentMetadataT (doc_key k))"
    using a(1) it(1) unfolding items_rel_def by metis
  then show "final_at look k w'"
    using it(2) by (auto simp: final_at_def is_final_def split: option.splits)
qed

context service begin

lemma quiet_update:
  assumes "''processStatus'' \<notin> upd_attr ` set us"
  shows "guarantees (items_rel look quiet_step) (execute_ddb_update e k us c)"
  unfolding execute_ddb_update_def
proof (intro quiet.order.g_rules quiet.g_update_item)
  fix it it'
  assume u: "updated_item (doc_key k) it us = Some it'"
  have "dget it' ''processStatus'' = dget (opt_default (doc_key k) it) ''processStatus''"
    using u assms by (rule updated_item_dget_other)
  then show "quiet_step DocumentMetadataT (doc_key k) it (Some it')"
    by (cases it) (auto simp: is_final_def doc_key_def)
qed

lemma quiet_finalize: "guarantees (items_rel look quiet_step) (finalize_v1_response e k st data msg)"
  unfolding finalize_v1_response_def
  by (intro quiet.order.g_rules quiet.reader.r_build_v1 quiet_update) auto

lemma silent_finalize:
  "guarantees (\<lambda>w w'. outbox w' = outbox w) (finalize_v1_response e k st data msg)"
  unfolding finalize_v1_response_def
  by (intro silent.g_rules silent.r_build_v1 silent_update)

lemma quiet_method_response:
  "guarantees (items_rel look quiet_step) (write_extract_method_response e k st em result data msg)"
  unfolding write_extract_method_response_def
  by (intro quiet.order.g_rules quiet.reader.r_build_v1 quiet.reader.r_method_fields quiet_update) auto

lemma silent_method_response:
  "guarantees (\<lambda>w w'. outbox w' = outbox w) (write_extract_method_response e k st em result data msg)"
  unfolding write_extract_method_response_def
  by (intro silent.g_rules silent.r_build_v1 silent.r_method_fields silent_update)

end

section \<open>The counter of a batch\<close>

definition resolved_of :: "dict option \<Rightarrow> int" where
  "resolved_of x = (case x of None \<Rightarrow> 0 | Some it \<Rightarrow> count_field it ''resolvedCount'')"

fun same_counts :: "tname \<Rightarrow> dict \<Rightarrow> dict option \<Rightarrow> dict option \<Rightarrow> bool" where
  "same_counts DocumentBatchesT k x y = (resolved_of y = resolved_of x)"
| "same_counts T k x y = (x = y)"

sublocale service \<subseteq> counts: item_order look e same_counts
proof unfold_locales
  show "same_counts T k x x" for T k x by (cases T) auto
  show "same_counts T k x y \<Longrightarrow> same_counts T k y z \<Longrightarrow> same_counts T k x z" for T k x y z
    by (cases T) auto
qed

lemma int_of_add_one: "int_of (PNum (m + 1)) \<le> int_of (PNum m) + 1"
proof (cases "0 \<le> m")
  case False
  have "\<lfloor>m + 1\<rfloor> = \<lfloor>m\<rfloor> + 1" "\<lceil>m + 1\<rceil> = \<lceil>m\<rceil> + 1" by simp_all
  moreover have "\<lfloor>m\<rfloor> \<le> \<lceil>m\<rceil>" by linarith
  ultimately show ?thesis using False by auto
qed simp

lemma resolved_add_one:
  assumes "updated_item k x us = Some it'" "UAdd ''resolvedCount'' 1 \<in> set us"
    "\<not> has_key k ''resolvedCount''"
  shows "resolved_of (Some it') \<le> resolved_of x + 1"
proof -
  from updated_item_add [OF assms(1,2)] consider
      "map_of (opt_default k x) ''resolvedCount'' = None" "map_of it' ''resolvedCount'' = Some (PNum 1)"
    | m where "map_of (opt_default k x) ''resolvedCount'' = Some (PNum m)"
        "map_of it' ''resolvedCount'' = Some (PNum (m + 1))"
    by auto
  then show ?thesis
  proof cases
    case 1
    have "count_field it' ''resolvedCount'' = 1" using count_field_of [OF 1(2)] by simp
    then show ?thesis using 1(1) by (cases x) (simp_all add: resolved_of_def count_field_none)
  next
    case (2 m)
    then obtain it where it: "x = Some it" using assms(3) by (cases x) (auto simp: has_key_def)
    have "count_field it ''resolvedCount'' = int_of (PNum m)"
      "count_field it' ''resolvedCount'' = int_of (PNum (m + 1))"
      using 2 it by (auto intro!: count_field_of simp del: int_of.simps)
    then show ?thesis using it int_of_add_one [of m] by (simp add: resolved_of_def del: int_of.simps)
  qed
qed

context service begin

lemma increment_counts_one:
  "resolved_of (item_in look (snd (increment_resolved_count e b w)) DocumentBatchesT k) \<le>
   resolved_of (item_in look w DocumentBatchesT k) + 1"
proof -
  let ?rest = "\<lambda>updated. if count_field updated ''resolvedCount'' < count_field updated ''totalFiles''
    then ret () else finalise_batch e b (count_field updated ''totalFiles'')"
  have rest: "guarantees (items_rel look same_counts) (?rest updated)" for updated
    unfolding finalise_batch_def query_jobs_by_batch_id_def update_batch_status_def
  proof (intro counts.order.g_rules counts.g_store counts.g_update_item)
    fix jobs it it'
    assume u: "updated_item (batch_key b) it
       ([USet ''batchStatus'' (PStr (bs_value (terminal_batch_status (failed_jobs jobs)
            (count_field updated ''totalFiles'')))), USet ''updatedAt'' (PTime (now e))] @
        set_if_str ''errorMessage'' None) = Some it'"
    have "dget it' ''resolvedCount'' = dget (opt_default (batch_key b) it) ''resolvedCount''"
      using u by (rule updated_item_dget_other) (simp add: set_if_str_def truthy_str_def)
    then show "same_counts DocumentBatchesT (batch_key b) it (Some it')"
      by (cases it) (simp_all add: resolved_of_def count_field_def batch_key_def py_or_def)
  qed
  obtain r w1 where c: "count_resolved e b w = (r, w1)" by (cases "count_resolved e b w")
  show ?thesis
  proof (cases r)
    case (Inl x)
    then have "item_in look w1 = item_in look w"
      using c update_item_err unfolding count_resolved_def by blast
    then show ?thesis using c Inl by (simp add: increment_resolved_count_def catchP_run bindP_run)
  next
    case (Inr it)
    have u: "updated_item (batch_key b) (item_in look w DocumentBatchesT (batch_key b))
        [UAdd ''resolvedCount'' 1, USet ''updatedAt'' (PTime (now e))] = Some it"
      and i1: "item_in look w1 = (item_in look w)(DocumentBatchesT :=
        (item_in look w DocumentBatchesT)(batch_key b \<mapsto> it))"
      using update_item_ok [OF c [unfolded count_resolved_def Inr]] by blast+
    have one: "resolved_of (item_in look w1 DocumentBatchesT k) \<le>
        resolved_of (item_in look w DocumentBatchesT k) + 1"
      using resolved_add_one [OF u] i1 by (simp add: batch_key_def)
    have "snd (increment_resolved_count e b w) = snd (?rest it w1)"
      using c Inr by (simp add: increment_resolved_count_def catchP_run bindP_run split: prod.splits sum.splits)
    moreover have "resolved_of (item_in look (snd (?rest it w1)) DocumentBatchesT k) =
        resolved_of (item_in look w1 DocumentBatchesT k)"
      using rest [of it] unfolding guarantees_def items_rel_def by (metis same_counts.simps(1))
    ultimately show ?thesis using one by simp
  qed
qed

end

section \<open>Counting and enqueueing at most once\<close>

text \<open>\<open>counted n\<close>: no message, final documents kept, and no batch counts more than \<open>n\<close> jobs.
  \<open>once k\<close>: a message or a counted job is paid for by the document under \<open>k\<close> becoming final.\<close>

definition counted :: "('t \<Rightarrow> tname \<Rightarrow> dict \<Rightarrow> dict option) \<Rightarrow> nat \<Rightarrow> 't world \<Rightarrow> 't world \<Rightarrow> bool" where
  "counted look n w w' =
     (items_rel look final_step w w' \<and> outbox w' = outbox w \<and>
      (\<forall>b. resolved_of (item_in look w' DocumentBatchesT b) \<le>
           resolved_of (item_in look w DocumentBatchesT b) + int n))"

definition once :: "('t \<Rightarrow> tname \<Rightarrow> dict \<Rightarrow> dict option) \<Rightarrow> string \<Rightarrow> 't world \<Rightarrow> 't world \<Rightarrow> bool" where
  "once look k w w' =
     (items_rel look final_step w w' \<and>
      length (outbox w') + of_bool (final_at look k w) \<le> length (outbox w) + of_bool (final_at look k w') \<and>
      (\<forall>b. resolved_of (item_in look w' DocumentBatchesT b) + of_bool (final_at look k w) \<le>
           resolved_of (item_in look w DocumentBatchesT b) + of_bool (final_at look k w')))"

lemma of_bool_mono: "(P \<Longrightarrow> Q) \<Longrightarrow> (of_bool P :: 'a :: linordered_semidom) \<le> of_bool Q"
  by auto

lemma counted_zero_once:
  assumes "counted look 0 w w'"
  shows "once look k w w'"
proof -
  have f: "items_rel look final_step w w'" using assms by (simp add: counted_def)
  have mono: "final_at look k w \<longrightarrow> final_at look k w'"
    using items_rel_final [OF f] by blast
  have "resolved_of (item_in look w' DocumentBatchesT b) + of_bool (final_at look k w) \<le>
      resolved_of (item_in look w DocumentBatchesT b) + of_bool (final_at look k w')" for b
  proof -
    have "resolved_of (item_in look w' DocumentBatchesT b) \<le> resolved_of (item_in look w DocumentBatchesT b)"
      using assms by (simp add: counted_def)
    then show ?thesis using mono by auto
  qed
  moreover have "length (outbox w') + of_bool (final_at look k w) \<le>
      length (outbox w) + of_bool (final_at look k w')"
    using assms mono by (auto simp: counted_def)
  ultimately show ?thesis using f by (simp add: once_def)
qed

lemma counted_weaken:
  assumes "counted look a w w'"
  shows "counted look (a + b) w w'"
proof -
  have "resolved_of (item_in look w' DocumentBatchesT c) \<le>
      resolved_of (item_in look w DocumentBatchesT c) + int (a + b)" for c
  proof -
    have "resolved_of (item_in look w' DocumentBatchesT c) \<le>
        resolved_of (item_in look w DocumentBatchesT c) + int a"
      using assms by (simp add: counted_def)
    then show ?thesis by simp
  qed
  then show ?thesis using assms by (simp add: counted_def)
qed

context service begin

lemma once_refl: "once look k w w"
  using final.order.R_refl by (simp add: once_def)

lemma once_trans:
  assumes "once look k w t" "once look k t u"
  shows "once look k w u"
proof -
  have "resolved_of (item_in look u DocumentBatchesT b) + of_bool (final_at look k w) \<le>
      resolved_of (item_in look w DocumentBatchesT b) + of_bool (final_at look k u)" for b
  proof -
    have "resolved_of (item_in look t DocumentBatchesT b) + of_bool (final_at look k w) \<le>
        resolved_of (item_in look w DocumentBatchesT b) + of_bool (final_at look k t)"
      using assms(1) by (simp add: once_def)
    moreover have "resolved_of (item_in look u DocumentBatchesT b) + of_bool (final_at look k t) \<le>
        resolved_of (item_in look t DocumentBatchesT b) + of_bool (final_at look k u)"
      using assms(2) by (simp add: once_def)
    ultimately show ?thesis by linarith
  qed
  moreover have "length (outbox u) + of_bool (final_at look k w) \<le>
      length (outbox w) + of_bool (final_at look k u)"
  proof -
    have "length (outbox t) + of_bool (final_at look k w) \<le> length (outbox w) + of_bool (final_at look k t)"
      using assms(1) by (simp add: once_def)
    moreover have "length (outbox u) + of_bool (final_at look k t) \<le>
        length (outbox t) + of_bool (final_at look k u)"
      using assms(2) by (simp add: once_def)
    ultimately show ?thesis by linarith
  qed
  moreover have "items_rel look final_step w u"
    using assms by (auto simp: once_def intro: final.order.R_trans)
  ultimately show ?thesis by (simp add: once_def)
qed

end

sublocale service \<subseteq> once: state_order "once look k" for k
  by unfold_locales (fact once_refl, fact once_trans)

context service begin

lemma counted_then:
  assumes "guarantees (counted look a) m" "guarantees (counted look b) n"
  shows "guarantees (counted look (a + b)) (thenP m n)"
proof (rule guaranteesI)
  fix w
  obtain r w1 where m: "m w = (r, w1)" by (cases "m w")
  have 1: "counted look a w w1" using assms(1) m by (rule guaranteesD)
  show "counted look (a + b) w (snd (thenP m n w))"
  proof (cases r)
    case (Inl x)
    then show ?thesis using m counted_weaken [OF 1] by (simp add: thenP_run)
  next
    case (Inr x)
    have 2: "counted look b w1 (snd (n w1))" using assms(2) by (simp add: guarantees_def)
    have "resolved_of (item_in look (snd (n w1)) DocumentBatchesT c) \<le>
        resolved_of (item_in look w DocumentBatchesT c) + int (a + b)" for c
    proof -
      have "resolved_of (item_in look (snd (n w1)) DocumentBatchesT c) \<le>
          resolved_of (item_in look w1 DocumentBatchesT c) + int b"
        using 2 by (simp add: counted_def)
      moreover have "resolved_of (item_in look w1 DocumentBatchesT c) \<le>
          resolved_of (item_in look w DocumentBatchesT c) + int a"
        using 1 by (simp add: counted_def)
      ultimately show ?thesis by simp
    qed
    then show ?thesis
      using 1 2 final.order.R_trans m Inr unfolding counted_def by (auto simp: thenP_run)
  qed
qed

lemma quiet_counted:
  assumes "guarantees (items_rel look quiet_step) m" "guarantees (\<lambda>w w'. outbox w' = outbox w) m"
  shows "guarantees (counted look 0) m"
proof (rule guaranteesI)
  fix w
  have q: "quiet_step T k (item_in look w T k) (item_in look (snd (m w)) T k)" for T k
    using assms(1) by (simp add: guarantees_def items_rel_def)
  have "item_in look (snd (m w)) DocumentBatchesT b = item_in look w DocumentBatchesT b" for b
    using q [of DocumentBatchesT b] by simp
  then show "counted look 0 w (snd (m w))"
    using assms(2) q by (auto simp: counted_def guarantees_def items_rel_def intro: quiet_final_step)
qed

lemma increment_counted: "guarantees (counted look 1) (increment_resolved_count e b)"
proof (rule guaranteesI)
  fix w
  have "guarantees (\<lambda>w w'. outbox w' = outbox w) (increment_resolved_count e b)"
    unfolding increment_resolved_count_def count_resolved_def finalise_batch_def
      query_jobs_by_batch_id_def update_batch_status_def update_item_def query_by_key_def
    by (intro silent.g_rules on_store_silent)
  then have "outbox (snd (increment_resolved_count e b w)) = outbox w"
    by (simp add: guarantees_def)
  moreover have "items_rel look final_step w (snd (increment_resolved_count e b w))"
    unfolding items_rel_def
  proof (intro allI)
    fix T k
    have "batch_step T k (item_in look w T k) (item_in look (snd (increment_resolved_count e b w)) T k)"
      using g_increment_resolved_count by (simp add: guarantees_def items_rel_def)
    then show "final_step T k (item_in look w T k) (item_in look (snd (increment_resolved_count e b w)) T k)"
      by (cases T) (auto intro: final_step_refl)
  qed
  ultimately show "counted look 1 w (snd (increment_resolved_count e b w))"
    using increment_counts_one by (simp add: counted_def)
qed

lemma counted_when:
  "guarantees (counted look a) m \<Longrightarrow> guarantees (counted look a) (whenP b m)"
  using final.order.R_refl by (auto simp: guarantees_def counted_def whenP_run)

lemma counted_ret: "guarantees (counted look 0) (ret x)"
  using final.order.R_refl by (auto simp: guarantees_def counted_def)

text \<open>What follows a terminal write that has landed counts at most one job.\<close>

lemma after_terminal_write:
  "guarantees (counted look 1)
     (thenP (finalize_v1_response e k st data msg)
       (thenP (whenP b (increment_resolved_count e batch))
         (case em of None \<Rightarrow> ret () | Some m \<Rightarrow> write_extract_method_response e k st m result data msg)))"
proof -
  have f: "guarantees (counted look 0) (finalize_v1_response e k st data msg)"
    by (intro quiet_counted quiet_finalize silent_finalize)
  have g: "guarantees (counted look 0)
      (case em of None \<Rightarrow> ret () | Some m \<Rightarrow> write_extract_method_response e k st m result data msg)"
    by (cases em) (auto intro: counted_ret quiet_counted quiet_method_response silent_method_response)
  show ?thesis
    using counted_then [OF f counted_then [OF counted_when [OF increment_counted] g]] by simp
qed

end

section \<open>The guarded write\<close>

sublocale service \<subseteq> same: item_order look e "\<lambda>T k x y. x = y"
  by unfold_locales auto

context service begin

lemma timing_updates_frame:
  assumes "build_timing_updates e k st uri w = (r, w')"
  shows "item_in look w' = item_in look w" "outbox w' = outbox w"
proof -
  have "items_rel look (\<lambda>T k x y. x = y) w w'"
    using same.reader.r_timing_updates assms by (rule guaranteesD)
  then show "item_in look w' = item_in look w" by (simp add: items_rel_def fun_eq_iff)
  show "outbox w' = outbox w"
    using silent.r_timing_updates assms by (rule guaranteesD [where R = "\<lambda>w w'. outbox w' = outbox w"])
qed

lemma send_record_frame:
  assumes "send_record_to_metrics_queue e k w = (r, w')"
  shows "item_in look w' = item_in look w" "length (outbox w') \<le> length (outbox w) + 1"
proof -
  have "item_in look w' = item_in look w \<and> length (outbox w') \<le> length (outbox w) + 1"
  proof (cases "truthy_str (metrics_queue_url e)")
    case False
    with assms show ?thesis by (simp add: send_record_to_metrics_queue_def catchP_run)
  next
    case True
    obtain g w1 where g: "get_item e DocumentMetadataT (doc_key k) w = (g, w1)"
      by (cases "get_item e DocumentMetadataT (doc_key k) w")
    note f = get_item_frame [OF g]
    show ?thesis
      using assms True g f
      by (auto simp: send_record_to_metrics_queue_def catchP_run bindP_run send_message_def item_in_def
          split: sum.splits option.splits if_splits)
  qed
  then show "item_in look w' = item_in look w" "length (outbox w') \<le> length (outbox w) + 1"
    by simp_all
qed

lemma update_ddb_guarded:
  assumes run: "update_ddb e d build_ddb_non_terminal_condition w = (r, w')"
    and st: "is_classified (ps_value (ud_status d))"
  shows "(\<exists>x. r = Inl x \<and> item_in look w' = item_in look w \<and> outbox w' = outbox w) \<or>
    (r = Inr () \<and> \<not> final_at look (ud_object_key d) w \<and> final_at look (ud_object_key d) w' \<and>
     (\<exists>it. item_in look w' DocumentMetadataT (doc_key (ud_object_key d)) = Some it \<and>
           dget it ''processStatus'' = PStr (ps_value (ud_status d))) \<and>
     items_rel look final_step w w' \<and> length (outbox w') \<le> length (outbox w) + 1 \<and>
     item_in look w' DocumentBatchesT = item_in look w DocumentBatchesT)"
proof (cases "build_update_expression e d")
  case (Inl x)
  then have "r = Inl x \<and> w' = w" using run by (simp add: update_ddb_def bindP_run)
  then show ?thesis by blast
next
  case (Inr us)
  let ?k = "ud_object_key d"
  let ?uri = "case ud_data d of None \<Rightarrow> None | Some data \<Rightarrow> cd_bda_output_s3_uri data"
  obtain rt w1 where t: "build_timing_updates e ?k (ud_status d) ?uri w = (rt, w1)"
    by (cases "build_timing_updates e ?k (ud_status d) ?uri w")
  note f1 = timing_updates_frame [OF t]
  show ?thesis
  proof (cases rt)
    case (Inl x)
    then show ?thesis using run Inr t f1 by (auto simp: update_ddb_def bindP_run)
  next
    case rt: (Inr tm)
    let ?us = "us @ extra_updates d @ tm"
    obtain ru w2 where u: "update_item e DocumentMetadataT (doc_key ?k) ?us
        build_ddb_non_terminal_condition w1 = (ru, w2)"
      by (cases "update_item e DocumentMetadataT (doc_key ?k) ?us build_ddb_non_terminal_condition w1")
    show ?thesis
    proof (cases ru)
      case (Inl x)
      then show ?thesis
        using run Inr t rt u f1 update_item_err [OF u [unfolded Inl]]
        by (auto simp: update_ddb_def bindP_run thenP_run execute_ddb_update_def)
    next
      case ru: (Inr it)
      note ok = update_item_ok [OF u [unfolded ru]]
      obtain r3 w3 where s: "send_record_to_metrics_queue e ?k w2 = (r3, w3)"
        by (cases "send_record_to_metrics_queue e ?k w2")
      have r3: "r3 = Inr ()" using send_record_total [of e ?k w2] s by simp
      have run': "r = Inr () \<and> w' = w3"
        using run Inr t rt u ru s r3 st
        by (simp add: update_ddb_def bindP_run thenP_run execute_ddb_update_def whenP_run)
      note f3 = send_record_frame [OF s]
      have i3: "item_in look w3 = (item_in look w)(DocumentMetadataT :=
          (item_in look w DocumentMetadataT)(doc_key ?k \<mapsto> it))"
        using ok f1 f3 by simp
      have nf: "\<not> is_final x" if "item_in look w DocumentMetadataT (doc_key ?k) = Some x" for x
        using guard_not_final ok f1(1) that by metis
      have "USet ''processStatus'' (PStr (ps_value (ud_status d))) \<in> set ?us"
        using build_update_expression_form(3) [OF Inr] by auto
      then have ps: "dget it ''processStatus'' = PStr (ps_value (ud_status d))"
        using updated_item_set ok by (fastforce simp: dget_def)
      have "items_rel look final_step w w3"
        unfolding items_rel_def
      proof (intro allI)
        fix T k
        show "final_step T k (item_in look w T k) (item_in look w3 T k)"
        proof (cases "T = DocumentMetadataT \<and> k = doc_key ?k")
          case True
          then show ?thesis using nf by (cases "item_in look w T k") auto
        next
          case False
          then show ?thesis unfolding i3 by (auto intro: final_step_refl)
        qed
      qed
      moreover have "\<not> final_at look ?k w" using nf by (auto simp: final_at_def split: option.splits)
      moreover have "final_at look ?k w3" using ps st by (simp add: final_at_def i3 is_final_def)
      moreover have "length (outbox w3) \<le> length (outbox w) + 1" using f3 f1 ok by simp
      ultimately show ?thesis using run' ps by (simp add: i3)
    qed
  qed
qed

lemma write_terminal_once:
  assumes st: "is_classified (ps_value (ud_status d))"
  shows "guarantees (once look (ud_object_key d)) (write_terminal_status e d batch_id result em)"
proof (rule guaranteesI)
  fix w
  let ?k = "ud_object_key d"
  let ?m = "case em of None \<Rightarrow> ret () | Some m \<Rightarrow>
    write_extract_method_response e ?k (ud_status d) m result (ud_data d) (ud_error_message d)"
  let ?after = "thenP (finalize_v1_response e ?k (ud_status d) (ud_data d) (ud_error_message d))
    (thenP (whenP (truthy_str batch_id) (increment_resolved_count e (opt_default [] batch_id))) ?m)"
  show "once look ?k w (snd (write_terminal_status e d batch_id result em w))"
  proof (cases "em = Some EM_OCR_MAPPING")
    case True
    then show ?thesis
      using quiet_counted [OF quiet_method_response silent_method_response]
      by (auto simp: write_terminal_status_def guarantees_def intro: counted_zero_once)
  next
    case False
    obtain r w1 where u: "update_ddb e d build_ddb_non_terminal_condition w = (r, w1)"
      by (cases "update_ddb e d build_ddb_non_terminal_condition w")
    from update_ddb_guarded [OF u st] consider
        x where "r = Inl x" "item_in look w1 = item_in look w" "outbox w1 = outbox w"
      | "r = Inr ()" "\<not> final_at look ?k w" "final_at look ?k w1" "items_rel look final_step w w1"
        "length (outbox w1) \<le> length (outbox w) + 1"
        "item_in look w1 DocumentBatchesT = item_in look w DocumentBatchesT"
      by blast
    then show ?thesis
    proof cases
      case 1
      have "snd (write_terminal_status e d batch_id result em w) = w1"
        using False u 1 by (simp add: write_terminal_status_def bindP_run catchP_run thenP_run)
      then show ?thesis
        using 1 once_refl [of ?k w] by (simp add: once_def items_rel_def final_at_def)
    next
      case 2
      have "snd (write_terminal_status e d batch_id result em w) = snd (?after w1)"
        using False u 2 by (simp add: write_terminal_status_def bindP_run catchP_run thenP_run)
      moreover have c: "counted look 1 w1 (snd (?after w1))"
        using after_terminal_write by (simp add: guarantees_def)
      moreover have "items_rel look final_step w (snd (?after w1))"
        using c 2(4) by (auto simp: counted_def intro: final.order.R_trans)
      moreover have "final_at look ?k (snd (?after w1))"
        using c 2(3) by (auto simp: counted_def intro: items_rel_final)
      ultimately show ?thesis
        using 2 by (auto simp: once_def counted_def)
    qed
  qed
qed

lemma classify_with_once:
  assumes "\<And>resp. ud_object_key (mk resp) = k" "\<And>resp. is_classified (ps_value (ud_status (mk resp)))"
  shows "guarantees (once look k) (classify_with e k code matched mk batch_id result em)"
  unfolding classify_with_def
proof (intro once.g_rules)
  show "guarantees (once look k) (get_internal_api_response e k code matched None)"
  proof (rule guaranteesI)
    fix w
    have "items_rel look (\<lambda>T k x y. x = y) w (snd (get_internal_api_response e k code matched None w))"
      using same.reader.r_internal_response by (simp add: guarantees_def)
    moreover have "outbox (snd (get_internal_api_response e k code matched None w)) = outbox w"
      using silent.r_internal_response [of e k code matched None] by (simp add: guarantees_def)
    ultimately have "counted look 0 w (snd (get_internal_api_response e k code matched None w))"
      by (auto simp: counted_def items_rel_def intro: final_step_refl)
    then show "once look k w (snd (get_internal_api_response e k code matched None w))"
      by (rule counted_zero_once)
  qed
  show "guarantees (once look k) (write_terminal_status e (mk resp) batch_id result em)" for resp
    using write_terminal_once [OF assms(2)] assms(1) by metis
qed

end

context service begin

lemma same_silent_once:
  assumes "guarantees (items_rel look (\<lambda>T k x y. x = y)) m" "guarantees (\<lambda>w w'. outbox w' = outbox w) m"
  shows "guarantees (once look k) m"
proof (rule guaranteesI)
  fix w
  have "counted look 0 w (snd (m w))"
    using assms by (auto simp: counted_def items_rel_def guarantees_def intro: final_step_refl)
  then show "once look k w (snd (m w))" by (rule counted_zero_once)
qed

end

sublocale service \<subseteq> once: reader_order "once look k" e for k
proof unfold_locales
  show "guarantees (once look k) (on_store (db_get (client e) T key))" for T key
    by (intro same_silent_once on_store_silent same.reader.r_get)
  show "guarantees (once look k) (on_store (db_query (client e) T ks))" for T ks
    by (intro same_silent_once on_store_silent same.reader.r_query)
  show "guarantees (once look k) (on_store (db_scan (client e) T))" for T
    by (intro same_silent_once on_store_silent same.reader.r_scan)
qed

section \<open>Any sequence of terminal transitions\<close>

text \<open>The calls of the transitions on one document, with the arguments of each.\<close>

datatype terminal_call =
    CallSuccess string classification_data extract_method success_args "pyval option"
      "extraction_result option"
  | CallFailed string classification_data "pyval option"
  | CallNotImplemented classification_data
  | CallNoDocument classification_data "pyval option" extract_method
  | CallConsentDeclined
  | CallConversionFailed string
  | CallNoBlueprint classification_data "pyval option" extract_method
  | CallNotConfigured classification_data
  | CallMultipleOnPage classification_data
  | CallMultipleInMultipage classification_data
  | CallExtraction extraction_result "string option" "string option" "pyval option" extract_method

fun run_call :: "'t env \<Rightarrow> string \<Rightarrow> string option \<Rightarrow> terminal_call \<Rightarrow> ('t, dict) wprog" where
  "run_call e k b (CallSuccess code data em args started result) =
     classify_as_success e k code data em args started b result"
| "run_call e k b (CallFailed msg data started) = classify_as_failed e k msg data started b"
| "run_call e k b (CallNotImplemented data) = classify_as_not_implemented e k data b"
| "run_call e k b (CallNoDocument data started em) =
     classify_as_no_document_detected e k data started b em"
| "run_call e k b CallConsentDeclined = classify_as_ai_consent_declined e k b"
| "run_call e k b (CallConversionFailed msg) = classify_as_conversion_failed e k msg b"
| "run_call e k b (CallNoBlueprint data started em) =
     classify_as_no_custom_blueprint_matched e k data started b em"
| "run_call e k b (CallNotConfigured data) = classify_as_extraction_not_configured e k data b"
| "run_call e k b (CallMultipleOnPage data) = classify_as_multiple_documents_on_page e k data b"
| "run_call e k b (CallMultipleInMultipage data) =
     classify_as_multiple_documents_in_multipage e k data b"
| "run_call e k b (CallExtraction result uri tenant started em) =
     classify_extraction_result e k result uri tenant b started em"

context service begin

lemmas classify_defs = classify_as_success_def classify_as_failed_def classify_as_not_implemented_def
  classify_as_no_document_detected_def classify_as_ai_consent_declined_def
  classify_as_conversion_failed_def classify_as_no_custom_blueprint_matched_def
  classify_as_extraction_not_configured_def classify_as_multiple_documents_on_page_def
  classify_as_multiple_documents_in_multipage_def

lemma success_once: "guarantees (once look k) (classify_as_success e k code data em args started b result)"
  unfolding classify_as_success_def
  by (rule classify_with_once) (simp_all add: update_record_def is_classified_def)

lemma run_call_once: "guarantees (once look k) (run_call e k b call)"
proof (cases call)
  case (CallExtraction result uri tenant started em)
  show ?thesis
    unfolding CallExtraction run_call.simps classify_extraction_result_def
    by (intro once.g_rules once.r_confidence_floor once.r_has_confidence_floor once.r_missing_required
        success_once)
qed (simp_all only: run_call.simps classify_defs,
     (rule classify_with_once; simp add: update_record_def is_classified_def)+)

end

lemma run_calls_once:
  assumes "\<And>e c. (e, c) \<in> set calls \<Longrightarrow> ddb_laws look (client e)"
    and "service look e0"
  shows "once look k w (snd (run_each (map (\<lambda>(e, c). run_call e k b c) calls) w))"
proof (rule state_order.g_run_each [where R = "once look k"])
  show "state_order (once look k)"
    by (rule state_order.intro)
      (rule service.once_refl [OF assms(2)], rule service.once_trans [OF assms(2)])
  show "guarantees (once look k) m" if "m \<in> set (map (\<lambda>(e, c). run_call e k b c) calls)" for m
  proof -
    from that obtain e c where m: "(e, c) \<in> set calls" "m = run_call e k b c" by auto
    show ?thesis
      unfolding m(2) by (rule service.run_call_once [OF serviceI [OF assms(1) [OF m(1)]]])
  qed
qed

text \<open>C1: Terminal transitions take effect once.  Let any number of terminal transitions of one
  document run one after the other, with any arguments, at any times, and with any failures of
  the table service and of SQS.  Then a final status is never changed, and together they hand at
  most one message to the metrics queue and count at most one job of any batch, and none of
  either when the document was final before.\<close>

theorem terminal_transitions_take_effect_once:
  assumes "\<forall>(e, c) \<in> set calls. ddb_laws look (client e)"
    and "calls \<noteq> []"
    and "w' = snd (run_each (map (\<lambda>(e, c). run_call e k b c) calls) w)"
  shows "items_rel look final_step w w' \<and>
    length (outbox w') \<le> length (outbox w) + of_bool (\<not> final_at look k w) \<and>
    resolved_of (item_in look w' DocumentBatchesT bk) \<le>
      resolved_of (item_in look w DocumentBatchesT bk) + of_bool (\<not> final_at look k w)"
proof -
  obtain e c where "(e, c) \<in> set calls" using assms(2) by (cases calls) auto
  then have "service look e" using assms(1) serviceI by blast
  then have o: "once look k w w'"
    unfolding assms(3) using assms(1) by (intro run_calls_once) auto
  have l: "length (outbox w') + of_bool (final_at look k w) \<le>
      length (outbox w) + of_bool (final_at look k w')"
    using o by (simp add: once_def)
  have r: "resolved_of (item_in look w' DocumentBatchesT bk) + of_bool (final_at look k w) \<le>
      resolved_of (item_in look w DocumentBatchesT bk) + of_bool (final_at look k w')"
    using o by (simp add: once_def)
  have "length (outbox w') \<le> length (outbox w) + of_bool (\<not> final_at look k w)"
    using l by (cases "final_at look k w"; cases "final_at look k w'") simp_all
  moreover have "resolved_of (item_in look w' DocumentBatchesT bk) \<le>
      resolved_of (item_in look w DocumentBatchesT bk) + of_bool (\<not> final_at look k w)"
    using r by (cases "final_at look k w"; cases "final_at look k w'") simp_all
  moreover have "items_rel look final_step w w'" using o by (simp add: once_def)
  ultimately show ?thesis by blast
qed

definition example_calls :: "(mem env \<times> terminal_call) list" where
  "example_calls = [(base_env, CallConsentDeclined), (base_env, CallConversionFailed ''bad''),
     (base_env, CallConsentDeclined)]"

definition example_started :: mem where
  "example_started = [((DocumentMetadataT, doc_key ''f''),
     [(''fileName'', PStr ''f''), (''processStatus'', PStr (ps_value PS_STARTED)),
      (''createdAt'', PTime 0), (''tokensByModel'', PDict [])])]"

lemma terminal_transitions_take_effect_once_witness:
  "length (outbox (snd (run_each (map (\<lambda>(e, c). run_call e ''f'' (Some ''b'') c) example_calls)
     (world_of example_started)))) \<le> 1"
proof -
  have a: "\<forall>(e, c) \<in> set example_calls. ddb_laws mem_look (client e)"
    using mem_laws by (auto simp: example_calls_def)
  have b: "example_calls \<noteq> []" by (simp add: example_calls_def)
  have z: "length (outbox (world_of example_started)) = 0" by (simp add: world_of_def)
  note t = terminal_transitions_take_effect_once [where calls = example_calls and look = mem_look and
      k = "''f''" and b = "Some ''b''" and w = "world_of example_started", OF a b refl,
      THEN conjunct2, THEN conjunct1]
  have "of_bool (\<not> final_at mem_look ''f'' (world_of example_started)) \<le> (1::nat)" by simp
  with t show ?thesis unfolding z by linarith
qed

end
