(* ===== verification/Write_Limits.thy ===== *)
theory Write_Limits
  imports Crud_Tables
begin

text \<open>
  \<open>utils/write_limit.py\<close>: the write quota of a tenant, one counter item per tenant and day.  A call
  increments the counter of the day first and takes the increment back when a limit is exceeded.
\<close>

section \<open>The counters\<close>

definition request_counts_table :: crud_table where
  "request_counts_table =
     \<lparr>ct_name = TenantRequestCountsT, ct_pk = ''tenantId'', ct_sk = None, ct_active = '''',
      ct_created = '''', ct_updated = '''', ct_clearable = []\<rparr>"

definition get_tenant_update_key :: "string \<Rightarrow> string \<Rightarrow> dict" where
  "get_tenant_update_key tenant_id date = [(''tenantId'', PStr tenant_id), (''date'', PStr date)]"

definition get_today_iso :: "'t env \<Rightarrow> string" where
  "get_today_iso e = date_str (now e)"

definition increment_actions :: "'t env \<Rightarrow> upd list" where
  "increment_actions e =
     [UAdd ''count'' 1,
      USetIfNotExists ''ttl'' (PNum (of_int (get_ttl_epoch_in_days e (365 * 5))))]"

definition rollback :: "'t env \<Rightarrow> tname \<Rightarrow> string \<Rightarrow> string \<Rightarrow> ('t, unit) wprog" where
  "rollback e T tenant_id today =
     catchP
       (thenP (update_item e T (get_tenant_update_key tenant_id today) [UAdd ''count'' (- 1)]
                 (CGt ''count'' 0))
          (ret ()))
       (\<lambda>x. if x = ConditionalCheckFailed then ret () else raise x)"

definition decrement :: "'t env \<Rightarrow> string \<Rightarrow> string \<Rightarrow> ('t, unit) wprog" where
  "decrement e tenant_id date =
     bindP (lift_result (get_table_name e request_counts_table))
       (\<lambda>T. rollback e T tenant_id date)"

text \<open>The query asks for the two attributes only and reads one page.\<close>

definition query_month_items ::
  "'t env \<Rightarrow> tname \<Rightarrow> string \<Rightarrow> string \<Rightarrow> ('t, dict list) wprog" where
  "query_month_items e T tenant_id month_prefix =
     bindP (on_store (db_query (client e) T
              [KEq ''tenantId'' (PStr tenant_id), KBegins ''date'' month_prefix]))
       (\<lambda>pages. ret (map (filter (\<lambda>(a, v). a \<in> {''date'', ''count''})) (first_page pages)))"

definition get_write_counts :: "'t env \<Rightarrow> string \<Rightarrow> string \<Rightarrow> ('t, dict list) wprog" where
  "get_write_counts e tenant_id month =
     bindP (lift_result (get_table_name e request_counts_table))
       (\<lambda>T. query_month_items e T tenant_id month)"

fun py_int :: "pyval \<Rightarrow> exn + int" where
  "py_int (PNum x) = Inr (int_of (PNum x))"
| "py_int (PBool b) = Inr (if b then 1 else 0)"
| "py_int (PStr s) = Inl (ValueErr ''invalid literal for int()'')"
| "py_int _ = Inl (TypeErr ''int() argument'')"

fun sum_counts :: "string \<Rightarrow> int \<Rightarrow> dict list \<Rightarrow> exn + int" where
  "sum_counts today today_count [] = Inr 0"
| "sum_counts today today_count (item # rest) =
     (case map_of item ''date'' of
        None \<Rightarrow> Inl (KeyErr ''date'')
      | Some d \<Rightarrow>
          (case (if d = PStr today then Inr today_count
                 else py_int (dget_default item ''count'' (PNum 0))) of
             Inl x \<Rightarrow> Inl x
           | Inr n \<Rightarrow> (case sum_counts today today_count rest of Inl x \<Rightarrow> Inl x | Inr s \<Rightarrow> Inr (n + s))))"

definition get_monthly_total ::
  "'t env \<Rightarrow> tname \<Rightarrow> string \<Rightarrow> string \<Rightarrow> int \<Rightarrow> ('t, int) wprog" where
  "get_monthly_total e T tenant_id today today_count =
     bindP (query_month_items e T tenant_id (get_month_prefix today))
       (\<lambda>items. lift_result (sum_counts today today_count items))"

section \<open>The check\<close>

definition over_limit :: "pyval \<Rightarrow> int \<Rightarrow> exn + bool" where
  "over_limit limit n = (if limit = PNone then Inr False else py_less limit (of_int n))"

definition limit_exceeded :: "string \<Rightarrow> pyval \<Rightarrow> exn" where
  "limit_exceeded period limit =
     HTTPExc 429 (period @ '' write limit of '' @ nat_str (nat (int_of limit)) @ '' requests exceeded'')"

definition check_monthly ::
  "'t env \<Rightarrow> tname \<Rightarrow> string \<Rightarrow> string \<Rightarrow> pyval \<Rightarrow> int \<Rightarrow> ('t, bool) wprog" where
  "check_monthly e T tenant_id today max_per_month new_count =
     (if max_per_month = PNone then ret False
      else bindP (get_monthly_total e T tenant_id today new_count)
        (\<lambda>n. lift_result (over_limit max_per_month n)))"

definition count_and_check ::
  "'t env \<Rightarrow> string \<Rightarrow> tname \<Rightarrow> string \<Rightarrow> pyval \<Rightarrow> pyval \<Rightarrow> ('t, unit) wprog" where
  "count_and_check e tenant_id T today max_per_day max_per_month =
     bindP (update_item e T (get_tenant_update_key tenant_id today) (increment_actions e) CTrue)
       (\<lambda>item.
     let new_count = int_of (dget item ''count'') in
     bindP (lift_result (over_limit max_per_day new_count)) (\<lambda>over_day.
     if over_day then thenP (rollback e T tenant_id today) (raise (limit_exceeded ''Daily'' max_per_day))
     else
       bindP (check_monthly e T tenant_id today max_per_month new_count) (\<lambda>over_month.
       if over_month
       then thenP (rollback e T tenant_id today) (raise (limit_exceeded ''Monthly'' max_per_month))
       else ret ())))"

definition increment_and_check :: "'t env \<Rightarrow> string \<Rightarrow> ('t, unit) wprog" where
  "increment_and_check e tenant_id =
     bindP (get_tenant e tenant_id) (\<lambda>r.
       if \<not> present r then ret ()
       else
         (let max_per_day = dget (opt_default [] r) ''maxWritesPerDay'';
              max_per_month = dget (opt_default [] r) ''maxWritesPerMonth''
          in if max_per_day = PNone \<and> max_per_month = PNone then ret ()
             else bindP (lift_result (get_table_name e request_counts_table))
                    (\<lambda>T. count_and_check e tenant_id T (get_today_iso e) max_per_day max_per_month)))"

end
