(* ===== verification/Write_Limit_Laws.thy ===== *)
theory Write_Limit_Laws
  imports Write_Limits Crud_Laws
begin

text \<open>
  The write quota: the counters stay natural numbers under any failure, and on a reliable table
  service a sequence of calls counts exactly the accepted ones and accepts no more than the limit.
\<close>

section \<open>Counters are natural numbers\<close>

definition tallied :: "dict option \<Rightarrow> nat \<Rightarrow> bool" where
  "tallied x n =
     (case x of None \<Rightarrow> n = 0
      | Some it \<Rightarrow> map_of it ''count'' = Some (PNum (of_nat n)) \<or> (n = 0 \<and> map_of it ''count'' = None))"

definition count_of :: "dict option \<Rightarrow> nat" where
  "count_of x = nat (int_of (dget (opt_default [] x) ''count''))"

lemma tallied_count_of: "tallied x n \<Longrightarrow> count_of x = n"
  by (auto simp: tallied_def count_of_def dget_def split: option.splits)

definition count_step :: "tname \<Rightarrow> dict \<Rightarrow> dict option \<Rightarrow> dict option \<Rightarrow> bool" where
  "count_step T k x y =
     (T = TenantRequestCountsT \<longrightarrow> (\<exists>n. tallied x n) \<longrightarrow> (\<exists>n. tallied y n))"

lemma key_no_count: "\<not> has_key (get_tenant_update_key t d) ''count''"
  by (simp add: get_tenant_update_key_def has_key_def)

lemma tallied_base:
  "tallied x n \<Longrightarrow> tallied (Some (opt_default (get_tenant_update_key t d) x)) n"
  by (cases x) (simp_all add: tallied_def get_tenant_update_key_def)

lemma tallied_add:
  assumes "updated_item (get_tenant_update_key t d) x us = Some it" "UAdd ''count'' z \<in> set us"
    and "tallied x n" "of_int j = (of_nat n + z :: rat)" "0 \<le> j"
  shows "tallied (Some it) (nat j)"
proof -
  have b: "tallied (Some (opt_default (get_tenant_update_key t d) x)) n"
    using assms(3) by (rule tallied_base)
  have "map_of it ''count'' = Some (PNum (of_int j))"
    using updated_item_add [OF assms(1,2)] b assms(4) by (auto simp: tallied_def)
  then show ?thesis using assms(5) by (simp add: tallied_def)
qed

lemma increment_tallied:
  assumes "updated_item (get_tenant_update_key t d) x (increment_actions e) = Some it" "tallied x n"
  shows "tallied (Some it) (Suc n)"
  using tallied_add [OF assms(1) _ assms(2), of 1 "int n + 1"]
  by (simp add: increment_actions_def nat_add_distrib)

lemma rollback_tallied:
  assumes "updated_item (get_tenant_update_key t d) x [UAdd ''count'' (- 1)] = Some it"
    and "tallied x n" "cond_holds (CGt ''count'' 0) (opt_default [] x)"
  shows "tallied (Some it) (n - 1) \<and> 0 < n"
proof -
  have n: "0 < n" using assms(2,3) by (auto simp: tallied_def split: option.splits)
  then have "tallied (Some it) (nat (int n - 1))"
    using tallied_add [OF assms(1) _ assms(2), of "- 1" "int n - 1"] by simp
  moreover have "nat (int n - 1) = n - 1" by linarith
  ultimately show ?thesis using n by simp
qed

sublocale service \<subseteq> tallies: item_order look e count_step
  by unfold_locales (auto simp: count_step_def)

context service begin

lemma g_rollback_counts: "guarantees (items_rel look count_step) (rollback e T t d)"
  unfolding rollback_def
proof (intro tallies.order.g_rules tallies.g_update_item)
  fix it it'
  assume c: "cond_holds (CGt ''count'' 0) (opt_default [] it)"
    and u: "updated_item (get_tenant_update_key t d) it [UAdd ''count'' (- 1)] = Some it'"
  show "count_step T (get_tenant_update_key t d) it (Some it')"
    using rollback_tallied [OF u _ c] by (auto simp: count_step_def)
qed

lemma g_increment_counts:
  "guarantees (items_rel look count_step)
     (update_item e T (get_tenant_update_key t d) (increment_actions e) CTrue)"
  by (intro tallies.g_update_item) (auto simp: count_step_def dest!: increment_tallied)

lemma g_table_get_counts: "guarantees (items_rel look count_step) (table_get e tb pk sk)"
  unfolding table_get_def by (intro tallies.order.g_rules tallies.g_store)

lemma g_check_monthly_counts: "guarantees (items_rel look count_step) (check_monthly e T t d v n)"
  unfolding check_monthly_def get_monthly_total_def query_month_items_def
  by (intro tallies.order.g_rules tallies.g_store)

lemma g_increment_and_check_counts: "guarantees (items_rel look count_step) (increment_and_check e t)"
  unfolding increment_and_check_def count_and_check_def get_tenant_def
  by (intro tallies.order.g_rules g_increment_counts g_rollback_counts g_check_monthly_counts
      g_table_get_counts)

lemma g_decrement_counts: "guarantees (items_rel look count_step) (decrement e t d)"
  unfolding decrement_def by (intro tallies.order.g_rules g_rollback_counts)

end

text \<open>The calls a tenant's quota sees, each in the environment of its own invocation.\<close>

datatype quota_call = Upload string | Refund string string

fun run_quota_call :: "'t env \<Rightarrow> quota_call \<Rightarrow> ('t, unit) wprog" where
  "run_quota_call e (Upload t) = increment_and_check e t"
| "run_quota_call e (Refund t d) = decrement e t d"

text \<open>However uploads and refunds follow one another, and however the table service fails
  between their operations, every write counter stays a natural number: none becomes negative,
  also when more is refunded than was tallied.\<close>

theorem write_counts_stay_natural:
  assumes "\<forall>(e, c) \<in> set calls. ddb_laws look (client e)"
    and "calls \<noteq> []"
    and "\<forall>k. \<exists>n. tallied (item_in look w TenantRequestCountsT k) n"
  shows "\<exists>n. tallied (item_in look (snd (run_each (map (\<lambda>(e, c). run_quota_call e c) calls) w))
    TenantRequestCountsT k) n"
proof -
  obtain e c where "(e, c) \<in> set calls" using assms(2) by (cases calls) auto
  then have s: "service look e" using assms(1) serviceI by blast
  have "items_rel look count_step w (snd (run_each (map (\<lambda>(e, c). run_quota_call e c) calls) w))"
  proof (rule state_order.g_run_each [where R = "items_rel look count_step"])
    show "state_order (items_rel look count_step)"
      by (unfold_locales) (auto simp: items_rel_def count_step_def)
    fix m
    assume "m \<in> set (map (\<lambda>(e, c). run_quota_call e c) calls)"
    then obtain e c where m: "(e, c) \<in> set calls" "m = run_quota_call e c" by auto
    have l: "ddb_laws look (client e)" using assms(1) m(1) by blast
    show "guarantees (items_rel look count_step) m"
      unfolding m(2)
      using service.g_increment_and_check_counts [OF serviceI [OF l]]
        service.g_decrement_counts [OF serviceI [OF l]]
      by (cases c) simp_all
  qed
  then show ?thesis using assms(3) unfolding items_rel_def count_step_def by blast
qed

section \<open>One call on a reliable table service\<close>

definition counts_ok :: "('t \<Rightarrow> tname \<Rightarrow> dict \<Rightarrow> dict option) \<Rightarrow> 't world \<Rightarrow> bool" where
  "counts_ok look w =
     (\<forall>k it. item_in look w TenantRequestCountsT k = Some it \<longrightarrow>
        has_key it ''date'' \<and> (\<exists>n. tallied (Some it) n))"

lemma counts_okD: "counts_ok look w \<Longrightarrow> \<exists>n. tallied (item_in look w TenantRequestCountsT k) n"
  by (cases "item_in look w TenantRequestCountsT k") (auto simp: counts_ok_def tallied_def)

definition numeric_limit :: "pyval \<Rightarrow> bool" where
  "numeric_limit v = (\<exists>m. v \<in> {PNone, PNum m})"

lemma over_limit_numeric: "numeric_limit v \<Longrightarrow> \<exists>b. over_limit v n = Inr b"
  by (auto simp: numeric_limit_def over_limit_def)

lemma updated_item_date:
  "updated_item (get_tenant_update_key t d) x us = Some it \<Longrightarrow>
   (\<And>y. x = Some y \<Longrightarrow> has_key y ''date'') \<Longrightarrow> has_key it ''date''"
  using updated_item_key [of "get_tenant_update_key t d" x us it "''date''"]
  by (cases x) (auto simp: has_key_def get_tenant_update_key_def)

lemma sum_counts_total:
  "(\<And>it. it \<in> set items \<Longrightarrow> has_key it ''date'' \<and> (\<exists>n. tallied (Some it) n)) \<Longrightarrow>
   \<exists>s. sum_counts today c items = Inr s"
proof (induction items)
  case (Cons it items)
  then obtain s where s: "sum_counts today c items = Inr s" by auto
  have "has_key it ''date''" "\<exists>n. tallied (Some it) n" using Cons.prems by auto
  then obtain n d where "map_of it ''date'' = Some d"
    "map_of it ''count'' = Some (PNum (of_nat n)) \<or> map_of it ''count'' = None"
    by (auto simp: has_key_def tallied_def)
  then show ?case using s by (auto simp: dget_default_def)
qed simp


definition tenant_of :: "('t \<Rightarrow> tname \<Rightarrow> dict \<Rightarrow> dict option) \<Rightarrow> 't world \<Rightarrow> string \<Rightarrow> dict option" where
  "tenant_of look w t = item_in look w TenantsT (build_key tenants_table (PStr t) PNone)"

definition writes_of :: "('t \<Rightarrow> tname \<Rightarrow> dict \<Rightarrow> dict option) \<Rightarrow> 't world \<Rightarrow> string \<Rightarrow> string \<Rightarrow> nat" where
  "writes_of look w t d = count_of (item_in look w TenantRequestCountsT (get_tenant_update_key t d))"

text \<open>What one call may do: the counters stay well formed, the tenants and the counters of other
  days and tenants are the same, and the counter of the day has the value given.\<close>

definition only_counter ::
  "('t \<Rightarrow> tname \<Rightarrow> dict \<Rightarrow> dict option) \<Rightarrow> string \<Rightarrow> string \<Rightarrow> nat \<Rightarrow> 't world \<Rightarrow> 't world \<Rightarrow> bool" where
  "only_counter look t d n w w' =
     (counts_ok look w' \<and> writes_of look w' t d = n \<and>
      (\<forall>T k. (T, k) \<noteq> (TenantRequestCountsT, get_tenant_update_key t d) \<longrightarrow>
         item_in look w' T k = item_in look w T k))"

lemma only_counter_refl: "counts_ok look w \<Longrightarrow> only_counter look t d (writes_of look w t d) w w"
  by (simp add: only_counter_def)

lemma only_counter_same:
  "only_counter look t d n w w' \<Longrightarrow> item_in look w'' = item_in look w' \<Longrightarrow> only_counter look t d n w w''"
  by (simp add: only_counter_def counts_ok_def writes_of_def)

lemma only_counter_trans:
  "only_counter look t d n w w' \<Longrightarrow> only_counter look t d m w' w'' \<Longrightarrow> only_counter look t d m w w''"
  by (simp add: only_counter_def)

lemma only_counter_tenant: "only_counter look t d n w w' \<Longrightarrow> tenant_of look w' u = tenant_of look w u"
  by (simp add: only_counter_def tenant_of_def)

lemma counter_written:
  assumes "counts_ok look w"
    and "updated_item (get_tenant_update_key t d)
           (item_in look w TenantRequestCountsT (get_tenant_update_key t d)) us = Some it"
    and "tallied (Some it) n"
    and "item_in look w' = (item_in look w)(TenantRequestCountsT :=
           (item_in look w TenantRequestCountsT)(get_tenant_update_key t d \<mapsto> it))"
  shows "only_counter look t d n w w'"
proof -
  have "has_key it ''date''"
    using assms(1) by (intro updated_item_date [OF assms(2)]) (simp add: counts_ok_def)
  then have "counts_ok look w'"
    using assms(1,3,4) by (auto simp: counts_ok_def split: if_splits)
  moreover have "writes_of look w' t d = n"
    using tallied_count_of [OF assms(3)] by (simp add: writes_of_def assms(4))
  ultimately show ?thesis by (simp add: only_counter_def assms(4))
qed

definition refused :: "exn + unit \<Rightarrow> bool" where
  "refused r = (\<exists>p v. r = Inl (limit_exceeded p v))"

context reliable_service begin

lemma quota_increment_total:
  assumes "counts_ok look w"
  obtains it w' where
    "update_item e TenantRequestCountsT (get_tenant_update_key t d) (increment_actions e) CTrue w =
       (Inr it, w')"
    "int_of (dget it ''count'') = int (Suc (writes_of look w t d))"
    "only_counter look t d (Suc (writes_of look w t d)) w w'"
proof -
  let ?k = "get_tenant_update_key t d" and ?x = "item_in look w TenantRequestCountsT (get_tenant_update_key t d)"
  obtain n where n: "tallied ?x n" using counts_okD [OF assms] by blast
  have nn: "writes_of look w t d = n" using tallied_count_of [OF n] by (simp add: writes_of_def)
  have "tallied (Some (opt_default ?k ?x)) n" using n by (rule tallied_base)
  then obtain it where it: "updated_item ?k ?x (increment_actions e) = Some it"
    by (auto simp: updated_item_def increment_actions_def tallied_def get_tenant_update_key_def
        Let_def has_key_def)
  have c: "tallied (Some it) (Suc n)" using increment_tallied [OF it n] .
  obtain w' where w': "update_item e TenantRequestCountsT ?k (increment_actions e) CTrue w = (Inr it, w')"
    "item_in look w' = (item_in look w)(TenantRequestCountsT :=
       (item_in look w TenantRequestCountsT)(?k \<mapsto> it))"
    using update_item_total [OF _ it, of CTrue] by (metis cond_holds.simps(1))
  have "int_of (dget it ''count'') = int (Suc n)"
    using c by (simp add: tallied_def dget_def)
  moreover have "only_counter look t d (Suc n) w w'"
    by (rule counter_written [OF assms it c w'(2)])
  ultimately show ?thesis using that w'(1) nn by blast
qed

lemma rollback_total:
  assumes "counts_ok look w"
  obtains w' where "rollback e TenantRequestCountsT t d w = (Inr (), w')"
    "only_counter look t d (writes_of look w t d - 1) w w'"
proof -
  let ?k = "get_tenant_update_key t d" and ?x = "item_in look w TenantRequestCountsT (get_tenant_update_key t d)"
  obtain n where n: "tallied ?x n" using counts_okD [OF assms] by blast
  have nn: "writes_of look w t d = n" using tallied_count_of [OF n] by (simp add: writes_of_def)
  show ?thesis
  proof (cases "cond_holds (CGt ''count'' 0) (opt_default [] ?x)")
    case False
    then obtain w' where w': "update_item e TenantRequestCountsT ?k [UAdd ''count'' (- 1)] (CGt ''count'' 0) w =
        (Inl ConditionalCheckFailed, w')" "item_in look w' = item_in look w"
      by (rule update_item_refused)
    have "n = 0" using False n by (auto simp: tallied_def split: option.splits)
    then have "only_counter look t d (writes_of look w t d - 1) w w'"
      using only_counter_same [OF only_counter_refl [OF assms, of t d] w'(2)] nn by simp
    moreover have "rollback e TenantRequestCountsT t d w = (Inr (), w')"
      by (simp add: rollback_def catchP_run thenP_run w'(1))
    ultimately show ?thesis using that by blast
  next
    case True
    have "tallied (Some (opt_default ?k ?x)) n" using n by (rule tallied_base)
    then obtain it where it: "updated_item ?k ?x [UAdd ''count'' (- 1)] = Some it"
      by (auto simp: updated_item_def tallied_def get_tenant_update_key_def Let_def has_key_def)
    have c: "tallied (Some it) (n - 1)" using rollback_tallied [OF it n True] by simp
    obtain w' where w': "update_item e TenantRequestCountsT ?k [UAdd ''count'' (- 1)] (CGt ''count'' 0) w = (Inr it, w')"
      "item_in look w' = (item_in look w)(TenantRequestCountsT :=
         (item_in look w TenantRequestCountsT)(?k \<mapsto> it))"
      using update_item_total [OF True it] by metis
    have "rollback e TenantRequestCountsT t d w = (Inr (), w')"
      by (simp add: rollback_def catchP_run thenP_run w'(1))
    then show ?thesis using that counter_written [OF assms it c w'(2)] nn by blast
  qed
qed

lemma check_monthly_total:
  assumes "counts_ok look w" "numeric_limit v"
  obtains b w' where "check_monthly e TenantRequestCountsT t d v n w = (Inr b, w')"
    "item_in look w' = item_in look w"
proof (cases "v = PNone")
  case True
  then have "check_monthly e TenantRequestCountsT t d v n w = (Inr False, w)"
    by (simp add: check_monthly_def)
  then show ?thesis using that by blast
next
  case False
  let ?ks = "[KEq ''tenantId'' (PStr t), KBegins ''date'' (get_month_prefix d)]"
  obtain pages t' where q: "db_query (client e) TenantRequestCountsT ?ks (store w) = (Inr pages, t')"
    and pages: "set (concat pages) = {it. (\<exists>k. look (store w) TenantRequestCountsT k = Some it) \<and>
      (\<forall>kc \<in> set ?ks. keycond_holds it kc)}"
    using query_total by blast
  define w' where "w' = w\<lparr>store := t'\<rparr>"
  have run: "on_store (db_query (client e) TenantRequestCountsT ?ks) w = (Inr pages, w')"
    by (simp add: on_store_def q w'_def)
  define items where "items = map (filter (\<lambda>(a, v). a \<in> {''date'', ''count''})) (first_page pages)"
  have keep: "map_of (filter (\<lambda>(a, v). a \<in> {''date'', ''count''}) it) a = map_of it a"
    if "a \<in> {''date'', ''count''}" for it :: dict and a
    using that by (induction it) auto
  have "has_key it ''date'' \<and> (\<exists>n. tallied (Some it) n)" if it: "it \<in> set items" for it
  proof -
    obtain y where y: "y \<in> set (first_page pages)" "it = filter (\<lambda>(a, v). a \<in> {''date'', ''count''}) y"
      using it by (auto simp: items_def)
    then have "y \<in> set (concat pages)" by (cases pages) auto
    then obtain k where "item_in look w TenantRequestCountsT k = Some y"
      using pages by (auto simp: item_in_def)
    then have "has_key y ''date'' \<and> (\<exists>n. tallied (Some y) n)" using assms(1) by (simp add: counts_ok_def)
    then show ?thesis using y(2) keep [of "''date''" y] keep [of "''count''" y]
      by (simp add: has_key_def tallied_def)
  qed
  then obtain s where s: "sum_counts d n items = Inr s" using sum_counts_total by blast
  obtain b where b: "over_limit v s = Inr b" using over_limit_numeric [OF assms(2)] by blast
  have "check_monthly e TenantRequestCountsT t d v n w = (Inr b, w')"
    using False s b by (simp add: check_monthly_def get_monthly_total_def query_month_items_def
        bindP_run run items_def)
  then show ?thesis using that query_store_frame [OF run] by blast
qed

lemma back_to_start:
  assumes "counts_ok look w" "only_counter look t d (Suc (writes_of look w t d)) w w'"
    and "item_in look w2 = item_in look w'"
  obtains w'' where "rollback e TenantRequestCountsT t d w2 = (Inr (), w'')"
    "only_counter look t d (writes_of look w t d) w w''"
proof -
  have o: "only_counter look t d (Suc (writes_of look w t d)) w w2"
    using only_counter_same [OF assms(2,3)] .
  then have "counts_ok look w2" "writes_of look w2 t d = Suc (writes_of look w t d)"
    by (simp_all add: only_counter_def)
  then obtain w'' where "rollback e TenantRequestCountsT t d w2 = (Inr (), w'')"
    "only_counter look t d (writes_of look w t d) w2 w''"
    using rollback_total [of w2 t d] by auto
  then show ?thesis using that only_counter_trans [OF o] by blast
qed

lemma count_and_check_outcome:
  assumes "counts_ok look w" "numeric_limit day" "numeric_limit month"
  obtains r w' where "count_and_check e t TenantRequestCountsT d day month w = (r, w')"
    "(r = Inr () \<and> over_limit day (int (Suc (writes_of look w t d))) = Inr False \<and>
        only_counter look t d (Suc (writes_of look w t d)) w w') \<or>
     (refused r \<and> (month = PNone \<longrightarrow> over_limit day (int (Suc (writes_of look w t d))) = Inr True) \<and>
        only_counter look t d (writes_of look w t d) w w')"
proof -
  let ?n = "writes_of look w t d"
  obtain it w1 where u: "update_item e TenantRequestCountsT (get_tenant_update_key t d)
      (increment_actions e) CTrue w = (Inr it, w1)"
    "int_of (dget it ''count'') = int (Suc ?n)" "only_counter look t d (Suc ?n) w w1"
    using quota_increment_total [OF assms(1)] by blast
  have ok1: "counts_ok look w1" using u(3) by (simp add: only_counter_def)
  obtain b where b: "over_limit day (int (Suc ?n)) = Inr b"
    using over_limit_numeric [OF assms(2)] by blast
  show ?thesis
  proof (cases b)
    case True
    obtain w2 where w2: "rollback e TenantRequestCountsT t d w1 = (Inr (), w2)"
      "only_counter look t d ?n w w2"
      using back_to_start [OF assms(1) u(3) refl] by blast
    have "count_and_check e t TenantRequestCountsT d day month w =
        (Inl (limit_exceeded ''Daily'' day), w2)"
      using True by (simp add: count_and_check_def bindP_run thenP_run u(1) u(2) b w2(1) Let_def
          del: of_nat_Suc)
    moreover have "refused (Inl (limit_exceeded ''Daily'' day))" by (auto simp: refused_def)
    ultimately show ?thesis using that [of "Inl (limit_exceeded ''Daily'' day)" w2] w2(2) b True by simp
  next
    case False
    obtain b' w2 where m: "check_monthly e TenantRequestCountsT t d month (int (Suc ?n)) w1 = (Inr b', w2)"
      "item_in look w2 = item_in look w1"
      using check_monthly_total [OF ok1 assms(3)] by blast
    show ?thesis
    proof (cases b')
      case True
      obtain w3 where w3: "rollback e TenantRequestCountsT t d w2 = (Inr (), w3)"
        "only_counter look t d ?n w w3"
        using back_to_start [OF assms(1) u(3) m(2)] by blast
      have r: "count_and_check e t TenantRequestCountsT d day month w =
          (Inl (limit_exceeded ''Monthly'' month), w3)"
        using True False by (simp add: count_and_check_def bindP_run thenP_run u(1) u(2) b m(1) w3(1)
            Let_def del: of_nat_Suc)
      have "month \<noteq> PNone" using m(1) True by (auto simp: check_monthly_def)
      moreover have "refused (Inl (limit_exceeded ''Monthly'' month))" by (auto simp: refused_def)
      ultimately show ?thesis using that [OF r] w3(2) by simp
    next
      case f': False
      have r: "count_and_check e t TenantRequestCountsT d day month w = (Inr (), w2)"
        using False f' by (simp add: count_and_check_def bindP_run thenP_run u(1) u(2) b m(1)
            Let_def del: of_nat_Suc)
      have "only_counter look t d (Suc ?n) w w2" using only_counter_same [OF u(3) m(2)] .
      then show ?thesis using that [OF r] b False by simp
    qed
  qed
qed

lemma increment_and_check_run:
  assumes "table_configured e TenantsT" "table_configured e TenantRequestCountsT"
    and "tenant_of look w t = Some it" "map_of it ''maxWritesPerDay'' = Some (PNum m)"
  obtains w' where "item_in look w' = item_in look w"
    "increment_and_check e t w = count_and_check e t TenantRequestCountsT (get_today_iso e)
       (PNum m) (dget it ''maxWritesPerMonth'') w'"
proof -
  have "table_configured e (ct_name tenants_table)" using assms(1) by (simp add: tenants_table_def)
  then obtain w' where g: "table_get e tenants_table (PStr t) PNone w =
      (Inr (item_in look w (ct_name tenants_table) (build_key tenants_table (PStr t) PNone)), w')"
    "item_in look w' = item_in look w"
    using table_get_total by blast
  have n: "ct_name tenants_table = TenantsT" by (simp add: tenants_table_def)
  have "get_tenant e t w = (Inr (Some it), w')"
    using g(1) assms(3) by (simp add: get_tenant_def tenant_of_def n)
  moreover have "it \<noteq> []" using assms(4) by auto
  moreover have "dget it ''maxWritesPerDay'' = PNum m" using assms(4) by (simp add: dget_def)
  ultimately have "increment_and_check e t w = count_and_check e t TenantRequestCountsT (get_today_iso e)
       (PNum m) (dget it ''maxWritesPerMonth'') w'"
    using assms(2) by (simp add: increment_and_check_def bindP_run present_def get_table_name_def
        request_counts_table_def)
  then show ?thesis using that g(2) by blast
qed

end

section \<open>A day of calls\<close>

lemma date_str_epoch: "date_str 0 = ''1970-01-01''"
  by code_simp

text \<open>C33: The daily quota is exact.  Let a tenant with a daily limit upload any number of times on one
  day, on a table service that does not fail for reasons of its own.  Each call is accepted or
  refused with status 429; the day's counter grows by exactly the number of accepted calls and
  never beyond the limit; a refused call leaves no trace in it; no other item is touched; and
  without a monthly limit no call is refused while the limit is not reached.\<close>

theorem daily_quota_exact:
  assumes "\<forall>e \<in> set es. reliable_ddb look (client e) \<and> get_today_iso e = d \<and>
      table_configured e TenantsT \<and> table_configured e TenantRequestCountsT"
    and "counts_ok look w" "tenant_of look w t = Some it"
    and "map_of it ''maxWritesPerDay'' = Some (PNum (of_nat m))"
    and "numeric_limit (dget it ''maxWritesPerMonth'')"
    and "run_each (map (\<lambda>e. increment_and_check e t) es) w = (rs, w')"
  shows "writes_of look w' t d = writes_of look w t d + length (filter (\<lambda>r. r = Inr ()) rs) \<and>
    writes_of look w' t d \<le> max (writes_of look w t d) m \<and>
    (\<forall>r \<in> set rs. r = Inr () \<or> refused r) \<and>
    only_counter look t d (writes_of look w' t d) w w' \<and>
    (dget it ''maxWritesPerMonth'' = PNone \<longrightarrow>
       writes_of look w' t d = max (writes_of look w t d) (min m (writes_of look w t d + length es)))"
  using assms
proof (induction es arbitrary: w rs)
  case Nil
  then show ?case using only_counter_refl [of look w t d] by auto
next
  case (Cons e es)
  let ?n = "writes_of look w t d" and ?mo = "dget it ''maxWritesPerMonth''"
  have e: "reliable_ddb look (client e)" "get_today_iso e = d" "table_configured e TenantsT"
    "table_configured e TenantRequestCountsT" using Cons.prems(1) by auto
  note S = reliable_serviceI [OF e(1)]
  obtain w0 where w0: "item_in look w0 = item_in look w"
    "increment_and_check e t w = count_and_check e t TenantRequestCountsT d (PNum (of_nat m)) ?mo w0"
    using reliable_service.increment_and_check_run [OF S e(3,4) Cons.prems(3,4)] e(2) by metis
  have ok0: "counts_ok look w0" "writes_of look w0 t d = ?n"
    using Cons.prems(2) w0(1) by (simp_all add: counts_ok_def writes_of_def)
  have day: "numeric_limit (PNum (of_nat m))" by (auto simp: numeric_limit_def)
  have lim: "over_limit (PNum (of_nat m)) (int (Suc ?n)) = Inr (m < Suc ?n)"
    by (simp add: over_limit_def flip: of_nat_Suc)
  obtain r w1 where c: "increment_and_check e t w = (r, w1)"
    "(r = Inr () \<and> over_limit (PNum (of_nat m)) (int (Suc ?n)) = Inr False \<and>
        only_counter look t d (Suc ?n) w0 w1) \<or>
     (refused r \<and> (?mo = PNone \<longrightarrow> over_limit (PNum (of_nat m)) (int (Suc ?n)) = Inr True) \<and>
        only_counter look t d ?n w0 w1)"
    using reliable_service.count_and_check_outcome [OF S ok0(1) day Cons.prems(5), of t d] ok0(2) w0(2)
    by metis
  define k where "k = (if r = Inr () then Suc ?n else ?n)"
  have notboth: "\<not> refused (Inr ())" by (simp add: refused_def)
  have k: "only_counter look t d k w0 w1" "r = Inr () \<or> refused r" "r = Inr () \<longrightarrow> Suc ?n \<le> m"
    "?mo = PNone \<longrightarrow> (r = Inr () \<longleftrightarrow> Suc ?n \<le> m)"
    using c(2) notboth unfolding k_def lim by auto
  have o1: "only_counter look t d k w w1"
    using k(1) w0(1) by (simp add: only_counter_def)
  obtain rs' where rest: "run_each (map (\<lambda>e. increment_and_check e t) es) w1 = (rs', w')" "rs = r # rs'"
    using Cons.prems(6) c(1) by (auto split: prod.splits)
  have wk: "writes_of look w1 t d = k" and ok1: "counts_ok look w1"
    using o1 by (simp_all add: only_counter_def)
  have t1: "tenant_of look w1 t = Some it" using only_counter_tenant [OF o1] Cons.prems(3) by simp
  have es: "\<forall>e \<in> set es. reliable_ddb look (client e) \<and> get_today_iso e = d \<and>
      table_configured e TenantsT \<and> table_configured e TenantRequestCountsT"
    using Cons.prems(1) by simp
  note ih = Cons.IH [OF es ok1 t1 Cons.prems(4,5) rest(1), unfolded wk]
  have IH: "writes_of look w' t d = k + length (filter (\<lambda>r. r = Inr ()) rs')"
    "writes_of look w' t d \<le> max k m" "\<forall>r \<in> set rs'. r = Inr () \<or> refused r"
    "only_counter look t d (writes_of look w' t d) w1 w'"
    "?mo = PNone \<longrightarrow> writes_of look w' t d = max k (min m (k + length es))"
    using ih by blast+
  have "writes_of look w' t d = ?n + length (filter (\<lambda>r. r = Inr ()) rs)"
    using IH(1) by (simp add: rest(2) k_def)
  moreover have "writes_of look w' t d \<le> max ?n m"
    using IH(2) k(3) unfolding k_def by (cases "r = Inr ()") auto
  moreover have "\<forall>r \<in> set rs. r = Inr () \<or> refused r" using IH(3) k(2) rest(2) by auto
  moreover have "only_counter look t d (writes_of look w' t d) w w'"
    using only_counter_trans [OF o1 IH(4)] .
  moreover have "?mo = PNone \<longrightarrow>
      writes_of look w' t d = max ?n (min m (?n + length (e # es)))"
    using IH(5) k(4) unfolding k_def by (cases "r = Inr ()") auto
  ultimately show ?case by blast
qed

definition quota_tables :: mem where
  "quota_tables = [((TenantsT, [(''tenantId'', PStr ''acme'')]),
     [(''tenantId'', PStr ''acme''), (''maxWritesPerDay'', PNum 2)])]"

lemma daily_quota_exact_witness:
  "writes_of mem_look (snd (run_each (map (\<lambda>e. increment_and_check e ''acme'') (replicate 3 base_env))
     (world_of quota_tables))) ''acme'' ''1970-01-01'' = 2"
proof -
  let ?it = "[(''tenantId'', PStr ''acme''), (''maxWritesPerDay'', PNum (of_nat 2))]"
  have a: "\<forall>e \<in> set (replicate 3 base_env). reliable_ddb mem_look (client e) \<and>
      get_today_iso e = ''1970-01-01'' \<and> table_configured e TenantsT \<and>
      table_configured e TenantRequestCountsT"
    using mem_reliable by (simp add: get_today_iso_def base_env_def date_str_epoch)
  have look: "item_in mem_look (world_of quota_tables) = (\<lambda>T k. map_of quota_tables (T, k))"
    by (simp add: fun_eq_iff item_in_def mem_look_def world_of_def)
  have ok: "counts_ok mem_look (world_of quota_tables)"
    by (simp add: counts_ok_def look) (simp add: quota_tables_def)
  have t: "tenant_of mem_look (world_of quota_tables) ''acme'' = Some ?it"
    by (simp add: tenant_of_def look) (simp add: quota_tables_def build_key_def tenants_table_def)
  have z: "writes_of mem_look (world_of quota_tables) ''acme'' ''1970-01-01'' = 0"
    by (simp add: writes_of_def look) (simp add: quota_tables_def count_of_def dget_def)
  have n: "numeric_limit (dget ?it ''maxWritesPerMonth'')" "dget ?it ''maxWritesPerMonth'' = PNone"
    by (simp_all add: numeric_limit_def dget_def)
  have m: "map_of ?it ''maxWritesPerDay'' = Some (PNum (of_nat 2))" by simp
  note q = daily_quota_exact [OF a ok t m n(1) prod.collapse [symmetric]]
  have "length (replicate 3 base_env) = 3" by simp
  then show ?thesis
    using q [THEN conjunct2, THEN conjunct2, THEN conjunct2, THEN conjunct2] n(2) z by simp
qed

definition refund_calls :: "(mem env \<times> quota_call) list" where
  "refund_calls = [(base_env, Upload ''acme''), (base_env, Refund ''acme'' ''1970-01-01''),
     (base_env, Refund ''acme'' ''1970-01-01'')]"

lemma write_counts_stay_natural_witness:
  "\<exists>n. tallied (item_in mem_look (snd (run_each (map (\<lambda>(e, c). run_quota_call e c) refund_calls)
     (world_of quota_tables))) TenantRequestCountsT (get_tenant_update_key ''acme'' ''1970-01-01'')) n"
proof (rule write_counts_stay_natural)
  show "\<forall>(e, c) \<in> set refund_calls. ddb_laws mem_look (client e)"
    using mem_laws by (auto simp: refund_calls_def)
  show "refund_calls \<noteq> []" by (simp add: refund_calls_def)
  show "\<forall>k. \<exists>n. tallied (item_in mem_look (world_of quota_tables) TenantRequestCountsT k) n"
    by (simp add: tallied_def item_in_def mem_look_def world_of_def quota_tables_def)
qed

end
