(* ===== verification/Document_Claims.thy ===== *)
theory Document_Claims
  imports Classification Write_Limits
begin

text \<open>
  The first half of \<open>pipeline/document_lifecycle.py\<close>: sampling, the status setters, the claim of
  a document by a processor, and the record an upload leaves (\<open>models/document_record.py\<close>).
\<close>

section \<open>Sampling\<close>

text \<open>The result is the selection, the percentage and the random value that was drawn, if any.\<close>

definition is_selected_for_processing ::
  "'t env \<Rightarrow> rat \<Rightarrow> string option \<Rightarrow> string option \<Rightarrow> ('t, bool \<times> rat option \<times> rat option) wprog"
where
  "is_selected_for_processing e random_value tenant_id category_name =
     (if \<not> truthy_str tenant_id \<or> \<not> truthy_str category_name then ret (True, None, None)
      else bindP (get_processing_percentage e (opt_default [] tenant_id) (opt_default [] category_name))
        (\<lambda>percentage.
          if 1 \<le> percentage then ret (True, Some percentage, None)
          else ret (random_value < percentage, Some percentage, Some random_value)))"

section \<open>Status setters\<close>

record bda_start =
  bs_invocation_arn :: string
  bs_project_arn :: "string option"
  bs_used_category_specific :: bool
  bs_pages_sent :: "nat option"
  bs_duration :: "rat option"
  bs_retry_count :: "nat option"

definition set_bda_processing_status_started :: "'t env \<Rightarrow> string \<Rightarrow> bda_start \<Rightarrow> ('t, unit) wprog" where
  "set_bda_processing_status_started e object_key b =
     update_ddb e ((update_record object_key PS_STARTED)
       \<lparr>ud_bda_invocation_arn := Some (bs_invocation_arn b),
        ud_bda_project_arn_used := bs_project_arn b,
        ud_used_category_specific_project := bs_used_category_specific b,
        ud_pages_sent_to_bda := bs_pages_sent b,
        ud_bda_invoke_duration_seconds := bs_duration b,
        ud_bda_invoke_retry_count := bs_retry_count b\<rparr>) CTrue"

definition set_bda_processing_status_not_started :: "'t env \<Rightarrow> string \<Rightarrow> ('t, unit) wprog" where
  "set_bda_processing_status_not_started e object_key =
     update_ddb e (update_record object_key PS_NOT_STARTED) CTrue"

definition set_processing_status_started :: "'t env \<Rightarrow> string \<Rightarrow> string \<Rightarrow> ('t, bool) wprog" where
  "set_processing_status_started e object_key expected_status =
     catchP
       (thenP (update_item e DocumentMetadataT [(''fileName'', PStr object_key)]
                 [USet ''processStatus'' (PStr (ps_value PS_STARTED))]
                 (CEq ''processStatus'' (PStr expected_status)))
          (ret True))
       (\<lambda>x. if x = ConditionalCheckFailed then ret False else raise x)"

section \<open>The record of an upload\<close>

record document_record =
  dr_ddb_key :: string
  dr_original_file_name :: string
  dr_job_id :: string
  dr_system_document_id :: string
  dr_upload_method :: string
  dr_upload_source :: "string option"
  dr_tenant_id :: string
  dr_api_key_name :: string
  dr_process_status :: process_status
  dr_category :: "string option"
  dr_trace_id :: "string option"
  dr_batch_id :: "string option"
  dr_content_type :: "string option"
  dr_file_size_bytes :: "nat option"
  dr_external_document_id :: "string option"
  dr_external_system_id :: "string option"
  dr_ai_consent_flag :: "bool option"
  dr_is_demo :: bool
  dr_is_test_run :: bool
  dr_is_compare :: bool
  dr_ttl_days :: "int option"

definition new_document :: "string \<Rightarrow> string \<Rightarrow> string \<Rightarrow> string \<Rightarrow> string \<Rightarrow> string \<Rightarrow> document_record" where
  "new_document ddb_key original_file_name job_id upload_method tenant_id api_key_name =
     \<lparr>dr_ddb_key = ddb_key, dr_original_file_name = original_file_name, dr_job_id = job_id,
      dr_system_document_id = job_id, dr_upload_method = upload_method, dr_upload_source = None,
      dr_tenant_id = tenant_id, dr_api_key_name = api_key_name, dr_process_status = PS_NOT_STARTED,
      dr_category = None, dr_trace_id = None, dr_batch_id = None, dr_content_type = None,
      dr_file_size_bytes = None, dr_external_document_id = None, dr_external_system_id = None,
      dr_ai_consent_flag = None, dr_is_demo = False, dr_is_test_run = False,
      dr_is_compare = False, dr_ttl_days = None\<rparr>"

definition initial_of_document :: "document_record \<Rightarrow> initial_ddb_record" where
  "initial_of_document d =
     (initial_record (dr_ddb_key d) (dr_original_file_name d))
       \<lparr>in_user_provided_document_category := dr_category d,
        in_process_status := dr_process_status d,
        in_file_size_bytes := dr_file_size_bytes d,
        in_content_type := dr_content_type d,
        in_job_id := Some (dr_job_id d),
        in_system_document_id := Some (dr_system_document_id d),
        in_trace_id := dr_trace_id d,
        in_batch_id := dr_batch_id d,
        in_external_document_id := dr_external_document_id d,
        in_external_system_id := dr_external_system_id d,
        in_ai_consent_flag := opt_default True (dr_ai_consent_flag d),
        in_upload_method := Some (dr_upload_method d),
        in_upload_source := dr_upload_source d,
        in_tenant_id := Some (dr_tenant_id d),
        in_api_key_name := Some (dr_api_key_name d),
        in_is_demo := Some (dr_is_demo d),
        in_is_test_run := Some (dr_is_test_run d),
        in_is_compare := Some (dr_is_compare d),
        in_ttl_days := dr_ttl_days d\<rparr>"

definition insert_minimal_ddb_record :: "'t env \<Rightarrow> document_record \<Rightarrow> ('t, unit) wprog" where
  "insert_minimal_ddb_record e d = upsert_ddb e (initial_of_document d)"

end
