(* ===== verification/Uploads.thy ===== *)
theory Uploads
  imports Document_Claims
begin

text \<open>
  \<open>utils/uploads.py\<close> and \<open>pipeline/uploads.py\<close>: how the bytes of an upload reach S3, with the
  writes of \<open>services/s3.py\<close> and the dispatch of \<open>utils/file_conversion.py\<close>.  The libraries that
  look into the bytes (\<open>filetype\<close>, \<open>zipfile\<close>, Pillow, pypdf) are the record \<open>codecs\<close>.
\<close>

section \<open>S3 and the codecs\<close>

definition s3_write :: "'t env \<Rightarrow> s3_op \<Rightarrow> ('t, unit) wprog" where
  "s3_write e op =
     (case s3_error e op of
        Some x \<Rightarrow> raise x
      | None \<Rightarrow> modifies (\<lambda>w. w\<lparr>s3_writes := s3_writes w @ [op]\<rparr>))"

definition upload_file ::
  "'t env \<Rightarrow> string \<Rightarrow> string \<Rightarrow> pyval \<Rightarrow> string option \<Rightarrow> dict \<Rightarrow> ('t, unit) wprog" where
  "upload_file e bucket key body content_type metadata =
     s3_write e (S3Put bucket key body (if truthy_str content_type then content_type else None) metadata)"

definition put_object ::
  "'t env \<Rightarrow> string \<Rightarrow> string \<Rightarrow> pyval \<Rightarrow> string option \<Rightarrow> ('t, unit) wprog" where
  "put_object e bucket key body content_type =
     s3_write e (S3Put bucket key body (if truthy_str content_type then content_type else None) [])"

definition delete_object :: "'t env \<Rightarrow> string \<Rightarrow> string \<Rightarrow> ('t, unit) wprog" where
  "delete_object e bucket key = s3_write e (S3Delete bucket key)"

definition delete_prefix :: "'t env \<Rightarrow> string \<Rightarrow> string \<Rightarrow> ('t, unit) wprog" where
  "delete_prefix e bucket prefix = s3_write e (S3DeletePrefix bucket prefix)"

text \<open>An object of the model holds a text of bytes or a JSON document.\<close>

definition get_file_bytes :: "'t env \<Rightarrow> string \<Rightarrow> string \<Rightarrow> exn + string" where
  "get_file_bytes e bucket key =
     (case s3_object e bucket key of
        Inl x \<Rightarrow> Inl x
      | Inr v \<Rightarrow> (case v of PStr s \<Rightarrow> Inr s | _ \<Rightarrow> Inl (OtherExc ''not a text of bytes'')))"

record codecs =
  guess_mime :: "string \<Rightarrow> string option"
  zip_members :: "string \<Rightarrow> string list option"
  to_png :: "string \<Rightarrow> string \<Rightarrow> exn + string"
  merge_pdf :: "(bool \<times> string) list \<Rightarrow> exn + string"

section \<open>constants/file_validation.py\<close>

definition docx_mime :: string where
  "docx_mime = ''application/vnd.openxmlformats-officedocument.wordprocessingml.document''"

definition ooxml_member_mime :: "(string \<times> string) list" where
  "ooxml_member_mime =
     [(''word/'', docx_mime),
      (''xl/'', ''application/vnd.openxmlformats-officedocument.spreadsheetml.sheet''),
      (''ppt/'', ''application/vnd.openxmlformats-officedocument.presentationml.presentation'')]"

definition zip_magic :: string where
  "zip_magic = map char_of [80, 75, 3, 4 :: nat]"

definition ole2_magic :: string where
  "ole2_magic = map char_of [208, 207, 17, 224, 161, 177, 26, 225 :: nat]"

definition utf16_le :: "string \<Rightarrow> string" where
  "utf16_le s = concat (map (\<lambda>c. [c, char_of (0 :: nat)]) s)"

definition is_office_container_magic :: "string \<Rightarrow> bool" where
  "is_office_container_magic data = (starts_with zip_magic data \<or> starts_with ole2_magic data)"

definition detect_ooxml_mime :: "string list \<Rightarrow> string option" where
  "detect_ooxml_mime names =
     map_option snd (find (\<lambda>(p, m). list_ex (starts_with p) names) ooxml_member_mime)"

definition has_ooxml_encryption_markers :: "string \<Rightarrow> bool" where
  "has_ooxml_encryption_markers data =
     (contains_sub (utf16_le ''EncryptionInfo'') data \<and> contains_sub (utf16_le ''EncryptedPackage'') data)"

definition no_conversion_needed :: "string list" where
  "no_conversion_needed =
     [''application/pdf'', ''application/msword'', docx_mime, ''image/jpeg'', ''image/png'']"

definition requires_conversion :: "string list" where
  "requires_conversion =
     [''image/bmp'', ''image/heic'', ''image/heif'', ''image/webp'', ''image/gif'', ''image/tiff'']"

definition is_supported :: "string \<Rightarrow> bool" where
  "is_supported ct = (ct \<in> set (no_conversion_needed @ requires_conversion))"

definition needs_conversion :: "string \<Rightarrow> bool" where
  "needs_conversion ct = (ct \<in> set requires_conversion)"

definition is_odt :: "string \<Rightarrow> bool" where
  "is_odt ct = (ct = ''application/vnd.oasis.opendocument.text'')"

definition is_pdf :: "string \<Rightarrow> bool" where
  "is_pdf data = (take 4 data = ''%PDF'')"

definition is_image :: "codecs \<Rightarrow> string \<Rightarrow> bool" where
  "is_image cd data =
     (case guess_mime cd data of None \<Rightarrow> False | Some m \<Rightarrow> is_supported m \<and> starts_with ''image/'' m)"

definition content_type_to_ext :: "(string \<times> string) list" where
  "content_type_to_ext =
     [(''application/pdf'', ''pdf''), (''application/msword'', ''doc''), (docx_mime, ''docx''),
      (''image/jpeg'', ''jpg''), (''image/jpg'', ''jpg''), (''image/png'', ''png''),
      (''image/tiff'', ''tiff''), (''image/bmp'', ''bmp''), (''image/heic'', ''heic''),
      (''image/heif'', ''heif''), (''image/webp'', ''webp''), (''image/gif'', ''gif'')]"

definition get_extension :: "string \<Rightarrow> string \<Rightarrow> string" where
  "get_extension content_type unknown =
     opt_default unknown
       (map_of content_type_to_ext (str_strip (hd (split_on CHR '';'' (str_lower content_type)))))"

section \<open>Type detection\<close>

definition detect_mime :: "codecs \<Rightarrow> string \<Rightarrow> string" where
  "detect_mime cd data =
     (let guess = (case guess_mime cd data of
          Some m \<Rightarrow> if m = [] then ''application/octet-stream'' else m
        | None \<Rightarrow> ''application/octet-stream'')
      in if starts_with zip_magic data then
           (case (case zip_members cd data of None \<Rightarrow> None | Some names \<Rightarrow> detect_ooxml_mime names) of
              Some m \<Rightarrow> m | None \<Rightarrow> guess)
         else if starts_with ole2_magic data \<and> has_ooxml_encryption_markers data then docx_mime
         else guess)"

definition header_probe_bytes :: nat where
  "header_probe_bytes = 4096"

definition max_detect_bytes :: nat where
  "max_detect_bytes = 500 * 1024 * 1024 + 1"

definition probe :: "string \<Rightarrow> string" where
  "probe body =
     (if is_office_container_magic (take header_probe_bytes body) then take max_detect_bytes body
      else take header_probe_bytes body)"

definition validate_file_type :: "codecs \<Rightarrow> string \<Rightarrow> exn + string" where
  "validate_file_type cd body =
     (let t = detect_mime cd (probe body) in
      if is_odt t then Inl (HTTPExc 400 ''OpenDocument Text (.odt) files aren't currently supported.'')
      else if \<not> is_supported t then Inl (HTTPExc 400 ''Invalid file type detected'')
      else Inr t)"

definition validate_s3_object_is_bda_native :: "'t env \<Rightarrow> codecs \<Rightarrow> string \<Rightarrow> string \<Rightarrow> exn + string" where
  "validate_s3_object_is_bda_native e cd bucket object_key =
     (case get_file_bytes e bucket object_key of
        Inl x \<Rightarrow> Inl x
      | Inr body \<Rightarrow>
          (let header = take header_probe_bytes body;
               data = (if is_office_container_magic header then body else header);
               detected = detect_mime cd data
           in if detected \<notin> set no_conversion_needed
              then Inl (ValueErr ''Uploaded content is not a supported document type'')
              else Inr detected))"

text \<open>An upload as the framework hands it over: its size is known when a length was declared.\<close>

record upload =
  up_filename :: "string option"
  up_size :: "nat option"
  up_content_type :: "string option"
  up_bytes :: string

definition max_upload_size_bytes :: nat where
  "max_upload_size_bytes = 500 * 1024 * 1024"

definition validate_upload :: "codecs \<Rightarrow> upload \<Rightarrow> exn + string" where
  "validate_upload cd f =
     (if \<not> truthy_str (up_filename f) then Inl (HTTPExc 400 ''Filename is required'')
      else if (case up_size f of Some n \<Rightarrow> max_upload_size_bytes < n
               | None \<Rightarrow> max_upload_size_bytes < length (take (max_upload_size_bytes + 1) (up_bytes f)))
      then Inl (HTTPExc 400 ''File too large'')
      else validate_file_type cd (up_bytes f))"

definition convert_file :: "codecs \<Rightarrow> string \<Rightarrow> string \<Rightarrow> exn + (string \<times> string)" where
  "convert_file cd file_bytes content_type =
     (if content_type \<in> set requires_conversion
      then (case to_png cd file_bytes content_type of
              Inl x \<Rightarrow> Inl (ValueErr (''Image conversion failed for '' @ content_type))
            | Inr png \<Rightarrow> Inr (png, ''image/png''))
      else Inl (ValueErr (''No conversion available for '' @ content_type)))"

section \<open>Writing the upload\<close>

definition save_original_to_preprocessing ::
  "'t env \<Rightarrow> string \<Rightarrow> string \<Rightarrow> string \<Rightarrow> string \<Rightarrow> ('t, unit) wprog" where
  "save_original_to_preprocessing e file_bytes object_key content_type tenant_id =
     (if \<not> truthy_str (preprocessing_location e)
      then raise (RuntimeErr ''DOCUMENTAI_PREPROCESSING_LOCATION is not set'')
      else bindP (lift_result (get_bucket_and_key (opt_default [] (preprocessing_location e))
                    (Some tenant_id) object_key))
        (\<lambda>(bucket, key). upload_file e bucket key (PStr file_bytes) (Some content_type) []))"

definition parse_preprocessing_location :: "'t env \<Rightarrow> exn + (string \<times> string) option" where
  "parse_preprocessing_location e =
     (if \<not> truthy_str (preprocessing_location e) then Inr None
      else (case parse_s3_uri (opt_default [] (preprocessing_location e)) of
              Inl x \<Rightarrow> Inl x | Inr bp \<Rightarrow> Inr (Some bp)))"

definition dest_is_preprocessing :: "(string \<times> string) option \<Rightarrow> string \<Rightarrow> string \<Rightarrow> bool" where
  "dest_is_preprocessing pre bucket key =
     (case pre of None \<Rightarrow> False
      | Some (b, p) \<Rightarrow> bucket = b \<and> (key = p \<or> starts_with (p @ ''/'') key))"

record upload_request =
  ur_dest_path :: string
  ur_original_file_name :: string
  ur_content_type :: string
  ur_tenant_id :: string
  ur_category :: "string option"
  ur_job_id :: "string option"
  ur_trace_id :: "string option"
  ur_batch_id :: "string option"
  ur_build_id :: "string option"

definition upload_metadata :: "upload_request \<Rightarrow> dict" where
  "upload_metadata r =
     (let opt = (\<lambda>k v. if truthy_str v then [(k, PStr (opt_default [] v))] else [])
      in opt ''user-provided-document-category'' (ur_category r) @
         [(''original-file-name'', PStr (ur_original_file_name r))] @
         opt ''job-id'' (ur_job_id r) @ opt ''trace-id'' (ur_trace_id r) @
         opt ''batch-id'' (ur_batch_id r) @ opt ''build-id'' (ur_build_id r))"

definition converted :: "codecs \<Rightarrow> string \<Rightarrow> string \<Rightarrow> exn + (string \<times> string)" where
  "converted cd file_bytes content_type =
     (if needs_conversion content_type
      then (case convert_file cd file_bytes content_type of
              Inl (ValueErr m) \<Rightarrow> Inl (ImageConversionErr m) | Inl x \<Rightarrow> Inl x | Inr r \<Rightarrow> Inr r)
      else Inr (file_bytes, content_type))"

definition upload_document_for_processing ::
  "'t env \<Rightarrow> codecs \<Rightarrow> string \<Rightarrow> upload_request \<Rightarrow> ('t, unit) wprog" where
  "upload_document_for_processing e cd file_bytes r =
     bindP (lift_result (parse_s3_uri (ur_dest_path r))) (\<lambda>(bucket, key).
     bindP (lift_result (parse_preprocessing_location e)) (\<lambda>pre.
     thenP (whenP (\<not> dest_is_preprocessing pre bucket key)
              (save_original_to_preprocessing e file_bytes (basename key) (ur_content_type r)
                 (ur_tenant_id r)))
     (thenP (whenP (truthy_str (ur_category r) \<and> ur_tenant_id r \<noteq> [])
               (catchP (auto_register_category e (ur_tenant_id r) (opt_default [] (ur_category r)))
                  (\<lambda>x. ret ())))
     (bindP (lift_result (converted cd file_bytes (ur_content_type r))) (\<lambda>(body, content_type).
        catchP (upload_file e bucket key (PStr body) (Some content_type) (upload_metadata r))
          (\<lambda>x. raise (HTTPExc 500 ''Document upload failed'')))))))"

section \<open>Hard delete\<close>

text \<open>Each location has a label, a place, the key it deletes and whether it is a tree.\<close>

definition purge_locations :: "'t env \<Rightarrow> string \<Rightarrow> (string \<times> string option \<times> string \<times> bool) list" where
  "purge_locations e object_key =
     [(''input'', input_location e, object_key, False),
      (''input_truncated'', input_location e, get_truncated_object_key object_key, False),
      (''preprocessing'', preprocessing_location e, object_key, False),
      (''output'', output_location e, object_key, True)]"

definition purge_one ::
  "'t env \<Rightarrow> string \<Rightarrow> string \<Rightarrow> string \<Rightarrow> bool \<Rightarrow> ('t, unit) wprog" where
  "purge_one e location tenant_id key tree =
     bindP (lift_result (get_bucket_and_key location (Some tenant_id) key)) (\<lambda>(bucket, k).
       if tree then delete_prefix e bucket (k @ ''/'') else delete_object e bucket k)"

fun purge_each ::
  "'t env \<Rightarrow> string \<Rightarrow> (string \<times> string option \<times> string \<times> bool) list \<Rightarrow> ('t, string list) wprog" where
  "purge_each e tenant_id [] = ret []"
| "purge_each e tenant_id ((label, location, key, tree) # rest) =
     (if \<not> truthy_str location then purge_each e tenant_id rest
      else
        bindP (catchP (thenP (purge_one e (opt_default [] location) tenant_id key tree) (ret []))
                 (\<lambda>x. ret [label])) (\<lambda>failed.
        bindP (purge_each e tenant_id rest) (\<lambda>failures. ret (failed @ failures))))"

definition purge_document_s3_artifacts :: "'t env \<Rightarrow> string \<Rightarrow> string \<Rightarrow> ('t, string list) wprog" where
  "purge_document_s3_artifacts e object_key tenant_id =
     purge_each e tenant_id (purge_locations e object_key)"

section \<open>pipeline/uploads.py\<close>

text \<open>The text of an exception, as \<open>str(e)\<close> and \<open>e.detail\<close> give it.\<close>

fun exn_text :: "exn \<Rightarrow> string" where
  "exn_text ConditionalCheckFailed = ''ConditionalCheckFailedException''"
| "exn_text (ClientErr m) = m"
| "exn_text (ValueErr m) = m"
| "exn_text (RuntimeErr m) = m"
| "exn_text (KeyErr m) = m"
| "exn_text (TypeErr m) = m"
| "exn_text (HTTPExc n m) = m"
| "exn_text (RetryErr m) = m"
| "exn_text (ImageConversionErr m) = m"
| "exn_text (OtherExc m) = m"

definition info_data :: "string \<Rightarrow> classification_data" where
  "info_data m =
     \<lparr>cd_bda_output_s3_uri = None, cd_matched_document_class = None, cd_matched_blueprint_name = None,
      cd_matched_blueprint_confidence = None, cd_field_confidence_scores = None,
      cd_field_below_threshold_list = None, cd_field_empty_list = None,
      cd_field_missing_geometry_list = None, cd_additional_info = Some m\<rparr>"

definition dispatch_failed :: "'t env \<Rightarrow> string \<Rightarrow> exn \<Rightarrow> ('t, unit) wprog" where
  "dispatch_failed e ddb_key x =
     (case x of
        ImageConversionErr m \<Rightarrow>
          thenP (classify_as_conversion_failed e ddb_key m None) (raise x)
      | HTTPExc n detail \<Rightarrow>
          thenP (classify_as_failed e ddb_key detail (info_data detail) None None) (raise x)
      | _ \<Rightarrow>
          thenP (classify_as_failed e ddb_key (exn_text x) (info_data (''Unexpected error: '' @ exn_text x))
                   None None)
            (raise (HTTPExc 500 ''Upload failed'')))"

definition dispatch_upload ::
  "'t env \<Rightarrow> codecs \<Rightarrow> string \<Rightarrow> upload_request \<Rightarrow> string \<Rightarrow> ('t, unit) wprog" where
  "dispatch_upload e cd file_bytes r ddb_key =
     catchP (upload_document_for_processing e cd file_bytes r) (dispatch_failed e ddb_key)"

end
