(* ===== verification/Upload_Laws.thy ===== *)
theory Upload_Laws
  imports Uploads Crud_Laws
begin

text \<open>
  What an upload leaves in S3, and what a purge reports.
\<close>

section \<open>Programs that do not write to S3\<close>

interpretation s3_quiet: state_order "(\<lambda>w w'. s3_writes w' = s3_writes w) :: 't world \<Rightarrow> 't world \<Rightarrow> bool"
  by unfold_locales auto

lemma s3_quiet_store: "guarantees (\<lambda>w w'. s3_writes w' = s3_writes w) (on_store m)"
  by (rule guaranteesI) (simp add: on_store_run split: prod.splits)

lemma s3_quiet_register:
  "guarantees (\<lambda>w w'. s3_writes w' = s3_writes w) (auto_register_category e t c)"
  unfolding auto_register_category_def update_item_def
  by (intro s3_quiet.g_rules s3_quiet_store) (auto simp: guarantees_def)

lemma s3_quiet_register_caught:
  "s3_writes (snd (whenP b (catchP (auto_register_category e t c) (\<lambda>x. ret ())) w)) = s3_writes w"
proof -
  have "guarantees (\<lambda>w w'. s3_writes w' = s3_writes w)
      (whenP b (catchP (auto_register_category e t c) (\<lambda>x. ret ())))"
    by (intro s3_quiet.g_rules s3_quiet_register)
  then show ?thesis by (simp add: guarantees_def)
qed

lemma register_caught_returns:
  "\<exists>w'. whenP b (catchP (auto_register_category e t c) (\<lambda>x. ret ())) w = (Inr (), w')"
  by (auto simp: whenP_run catchP_run split: prod.splits sum.splits)

lemma s3_write_run:
  "s3_write e op w =
     (case s3_error e op of Some x \<Rightarrow> (Inl x, w)
      | None \<Rightarrow> (Inr (), w\<lparr>s3_writes := s3_writes w @ [op]\<rparr>))"
  by (simp add: s3_write_def split: option.splits)

lemma truthy_str_Some: "truthy_str (Some s) = (s \<noteq> [])"
  by (simp add: truthy_str_def)

section \<open>The upload\<close>

definition backup_op :: "'t env \<Rightarrow> string \<Rightarrow> upload_request \<Rightarrow> string \<Rightarrow> string \<Rightarrow> s3_op option" where
  "backup_op e file_bytes r bucket key =
     (if \<not> truthy_str (preprocessing_location e) then None
      else case get_bucket_and_key (opt_default [] (preprocessing_location e)) (Some (ur_tenant_id r))
                  (basename key) of
             Inl x \<Rightarrow> None
           | Inr (pb, pk) \<Rightarrow>
               Some (S3Put pb pk (PStr file_bytes)
                       (if ur_content_type r \<noteq> [] then Some (ur_content_type r) else None) []))"

definition main_op :: "codecs \<Rightarrow> string \<Rightarrow> upload_request \<Rightarrow> string \<Rightarrow> string \<Rightarrow> s3_op option" where
  "main_op cd file_bytes r bucket key =
     (case converted cd file_bytes (ur_content_type r) of
        Inl x \<Rightarrow> None
      | Inr (body, ct) \<Rightarrow>
          Some (S3Put bucket key (PStr body) (if ct \<noteq> [] then Some ct else None) (upload_metadata r)))"

lemma save_original_run:
  "save_original_to_preprocessing e file_bytes (basename key) (ur_content_type r) (ur_tenant_id r) w =
     (res, w') \<Longrightarrow>
   (res = Inr () \<and> (\<exists>op. backup_op e file_bytes r bucket key = Some op \<and>
      w' = w\<lparr>s3_writes := s3_writes w @ [op]\<rparr>)) \<or> (res \<noteq> Inr () \<and> w' = w)"
  by (auto simp: save_original_to_preprocessing_def backup_op_def upload_file_def bindP_run
      s3_write_run truthy_str_Some split: sum.splits prod.splits option.splits if_splits)

text \<open>C32: No document reaches the input location without its backup.  An upload to a place outside
  the preprocessing location writes nothing, or the original under the tenant's prefix of the
  preprocessing location, or that backup and after it the document itself, converted where its
  type needs it and carrying its metadata; and it returns exactly when it has written both.\<close>

theorem upload_keeps_backup:
  assumes "parse_s3_uri (ur_dest_path r) = Inr (bucket, key)"
    and "parse_preprocessing_location e = Inr pre" "\<not> dest_is_preprocessing pre bucket key"
    and "upload_document_for_processing e cd file_bytes r w = (res, w')"
  shows "\<exists>ops. s3_writes w' = s3_writes w @ ops \<and>
    (ops = [] \<or> (\<exists>b. backup_op e file_bytes r bucket key = Some b \<and> ops = [b]) \<or>
     (\<exists>b m. backup_op e file_bytes r bucket key = Some b \<and>
        main_op cd file_bytes r bucket key = Some m \<and> ops = [b, m])) \<and>
    (res = Inr () \<longleftrightarrow> length ops = 2)"
proof -
  let ?reg = "whenP (truthy_str (ur_category r) \<and> ur_tenant_id r \<noteq> [])
    (catchP (auto_register_category e (ur_tenant_id r) (opt_default [] (ur_category r))) (\<lambda>x. ret ()))"
  obtain r1 w1 where s: "save_original_to_preprocessing e file_bytes (basename key) (ur_content_type r)
      (ur_tenant_id r) w = (r1, w1)"
    by (metis surj_pair)
  show ?thesis
  proof (cases r1)
    case (Inl x)
    then have "w1 = w" using save_original_run [OF s] by auto
    moreover have "(res, w') = (Inl x, w1)"
      using assms s Inl by (simp add: upload_document_for_processing_def bindP_run thenP_run whenP_run)
    ultimately show ?thesis by (intro exI [of _ "[]"]) auto
  next
    case (Inr u)
    obtain b where b: "backup_op e file_bytes r bucket key = Some b"
      "w1 = w\<lparr>s3_writes := s3_writes w @ [b]\<rparr>"
      using save_original_run [OF s, of bucket] Inr by auto
    obtain w2 where w2: "?reg w1 = (Inr (), w2)" using register_caught_returns by blast
    have q: "s3_writes w2 = s3_writes w @ [b]"
      using s3_quiet_register_caught [of "truthy_str (ur_category r) \<and> ur_tenant_id r \<noteq> []" e
          "ur_tenant_id r" "opt_default [] (ur_category r)" w1] w2 b(2) by simp
    have run: "(res, w') =
        bindP (lift_result (converted cd file_bytes (ur_content_type r))) (\<lambda>(body, content_type).
          catchP (upload_file e bucket key (PStr body) (Some content_type) (upload_metadata r))
            (\<lambda>x. raise (HTTPExc 500 ''Document upload failed''))) w2"
      using assms s Inr w2 by (simp add: upload_document_for_processing_def bindP_run thenP_run whenP_run)
    show ?thesis
    proof (cases "converted cd file_bytes (ur_content_type r)")
      case (Inl x)
      then show ?thesis using run q b(1) by (intro exI [of _ "[b]"]) (simp add: bindP_run)
    next
      case (Inr bc)
      obtain body ct where bc: "bc = (body, ct)" by (cases bc)
      let ?op = "S3Put bucket key (PStr body) (if ct \<noteq> [] then Some ct else None) (upload_metadata r)"
      have m: "main_op cd file_bytes r bucket key = Some ?op" by (simp add: main_op_def Inr bc)
      have up: "upload_file e bucket key (PStr body) (Some ct) (upload_metadata r) w2 =
          (case s3_error e ?op of Some x \<Rightarrow> (Inl x, w2)
           | None \<Rightarrow> (Inr (), w2\<lparr>s3_writes := s3_writes w2 @ [?op]\<rparr>))"
        by (simp add: upload_file_def s3_write_run truthy_str_Some)
      show ?thesis
      proof (cases "s3_error e ?op")
        case None
        then have "(res, w') = (Inr (), w2\<lparr>s3_writes := s3_writes w2 @ [?op]\<rparr>)"
          using run up by (simp add: bindP_run catchP_run Inr bc)
        then show ?thesis using q b(1) m by (intro exI [of _ "[b, ?op]"]) simp
      next
        case (Some x)
        then have "(res, w') = (Inl (HTTPExc 500 ''Document upload failed''), w2)"
          using run up by (simp add: bindP_run catchP_run Inr bc)
        then show ?thesis using q b(1) by (intro exI [of _ "[b]"]) simp
      qed
    qed
  qed
qed

definition plain_codecs :: codecs where
  "plain_codecs = \<lparr>guess_mime = (\<lambda>s. if is_pdf s then Some ''application/pdf'' else None),
     zip_members = (\<lambda>_. None), to_png = (\<lambda>s t. Inr (''png:'' @ s)),
     merge_pdf = (\<lambda>ps. Inr (concat (map snd ps)))\<rparr>"

definition example_upload :: upload_request where
  "example_upload = \<lparr>ur_dest_path = ''s3://in/acme/a.gif'', ur_original_file_name = ''a.gif'',
     ur_content_type = ''image/gif'', ur_tenant_id = ''acme'', ur_category = None,
     ur_job_id = Some ''j'', ur_trace_id = None, ur_batch_id = None, ur_build_id = None\<rparr>"

lemma upload_keeps_backup_witness:
  "length (s3_writes (snd (upload_document_for_processing base_env plain_codecs ''GIF'' example_upload
     (world_of [])))) = 2"
proof -
  let ?run = "upload_document_for_processing base_env plain_codecs ''GIF'' example_upload (world_of [])"
  have a: "parse_s3_uri (ur_dest_path example_upload) = Inr (''in'', ''acme/a.gif'')" by code_simp
  have b: "parse_preprocessing_location base_env = Inr (Some (''pre'', ''''))" by code_simp
  have c: "\<not> dest_is_preprocessing (Some (''pre'', '''')) ''in'' ''acme/a.gif''" by code_simp
  have d: "fst ?run = Inr ()" by code_simp
  have e: "s3_writes (world_of []) = []" by (simp add: world_of_def)
  obtain ops where o: "s3_writes (snd ?run) = s3_writes (world_of []) @ ops"
    "fst ?run = Inr () \<longleftrightarrow> length ops = 2"
    using upload_keeps_backup [OF a b c prod.collapse [of ?run, symmetric]] by blast
  then show ?thesis using d e by simp
qed

section \<open>The purge\<close>

definition purge_op :: "string \<Rightarrow> string \<times> string option \<times> string \<times> bool \<Rightarrow> s3_op option" where
  "purge_op tenant_id = (\<lambda>(label, location, key, tree).
     case get_bucket_and_key (opt_default [] location) (Some tenant_id) key of
       Inl x \<Rightarrow> None
     | Inr (b, k) \<Rightarrow> Some (if tree then S3DeletePrefix b (k @ ''/'') else S3Delete b k))"

definition purge_fails :: "'t env \<Rightarrow> string \<Rightarrow> string \<times> string option \<times> string \<times> bool \<Rightarrow> bool" where
  "purge_fails e tenant_id l =
     (case purge_op tenant_id l of None \<Rightarrow> True | Some op \<Rightarrow> s3_error e op \<noteq> None)"

definition configured :: "string \<times> string option \<times> string \<times> bool \<Rightarrow> bool" where
  "configured l = truthy_str (fst (snd l))"

lemma purge_one_run:
  "purge_one e (opt_default [] location) t key tree w =
     (if purge_fails e t (label, location, key, tree)
      then (Inl (case get_bucket_and_key (opt_default [] location) (Some t) key of
              Inl x \<Rightarrow> x | Inr bk \<Rightarrow> the (s3_error e (the (purge_op t (label, location, key, tree))))), w)
      else (Inr (), w\<lparr>s3_writes := s3_writes w @ [the (purge_op t (label, location, key, tree))]\<rparr>))"
  by (auto simp: purge_one_def purge_fails_def purge_op_def bindP_run delete_prefix_def delete_object_def
      s3_write_run split: sum.splits option.splits)

lemma purge_each_run:
  "purge_each e t ls w =
     (Inr (map fst (filter (\<lambda>l. configured l \<and> purge_fails e t l) ls)),
      w\<lparr>s3_writes := s3_writes w @
         map (\<lambda>l. the (purge_op t l)) (filter (\<lambda>l. configured l \<and> \<not> purge_fails e t l) ls)\<rparr>)"
proof (induction ls arbitrary: w)
  case (Cons l ls)
  obtain label location key tree where l: "l = (label, location, key, tree)" by (cases l) auto
  show ?case
    unfolding l using purge_one_run [of e location t key tree w label]
    by (simp add: Cons.IH configured_def bindP_run catchP_run thenP_run)
qed simp


end
