(* ===== verification/Builds.thy ===== *)
theory Builds
  imports Uploads
begin

text \<open>
  Multi-page builds: \<open>utils/document_build.py\<close>, \<open>utils/pdf.py\<close> and the endpoints of
  \<open>routers/build.py\<close>.  A build is a metadata row (page 0) and one row per page; submitting it is
  a conditional write of \<open>submittedAt\<close> on the metadata row.
\<close>

section \<open>Rows\<close>

definition page_key :: "string \<Rightarrow> int \<Rightarrow> dict" where
  "page_key build_id page_number =
     [(''buildId'', PStr build_id), (''pageNumber'', PNum (of_int page_number))]"

definition query_items_for_build :: "'t env \<Rightarrow> string \<Rightarrow> ('t, dict list) wprog" where
  "query_items_for_build e build_id = query_by_pk e DocumentBuildsT ''buildId'' build_id"

definition document_build_exists :: "'t env \<Rightarrow> string \<Rightarrow> ('t, bool) wprog" where
  "document_build_exists e build_id =
     bindP (get_item e DocumentBuildsT (page_key build_id 0)) (\<lambda>x. ret (x \<noteq> None))"

definition get_build_metadata :: "'t env \<Rightarrow> string \<Rightarrow> ('t, dict option) wprog" where
  "get_build_metadata e build_id = get_item e DocumentBuildsT (page_key build_id 0)"

definition document_build_page_exists :: "'t env \<Rightarrow> string \<Rightarrow> int \<Rightarrow> ('t, bool) wprog" where
  "document_build_page_exists e build_id page_number =
     bindP (get_item e DocumentBuildsT (page_key build_id page_number)) (\<lambda>x. ret (x \<noteq> None))"

record page_metadata =
  pm_page_number :: int
  pm_s3_key :: string
  pm_s3_bucket_name :: string
  pm_original_file_name :: "string option"
  pm_category :: "string option"
  pm_created_at :: pyval

definition page_of_item :: "string \<Rightarrow> dict \<Rightarrow> page_metadata" where
  "page_of_item bucket item =
     \<lparr>pm_page_number = int_of (dget_default item ''pageNumber'' (PNum 0)),
      pm_s3_key = opt_default [] (to_opt_str (dget_default item ''s3Path'' (PStr []))),
      pm_s3_bucket_name = bucket,
      pm_original_file_name = to_opt_str (dget item ''originalFileName''),
      pm_category = to_opt_str (dget item ''category''),
      pm_created_at = dget item ''createdAt''\<rparr>"

definition page_row ::
  "'t env \<Rightarrow> string \<Rightarrow> int \<Rightarrow> string \<Rightarrow> string option \<Rightarrow> string option \<Rightarrow> dict" where
  "page_row e build_id page_number s3_path name category =
     [(''buildId'', PStr build_id), (''pageNumber'', PNum (of_int page_number)),
      (''s3Path'', PStr s3_path), (''createdAt'', PTime (now e)),
      (''ttl'', PNum (of_int (get_ttl_epoch_in_days e 30)))] @
     (if truthy_str name then [(''originalFileName'', of_opt_str name)] else []) @
     (if truthy_str category then [(''category'', of_opt_str category)] else [])"

definition upsert_document_build_page ::
  "'t env \<Rightarrow> string \<Rightarrow> int \<Rightarrow> string \<Rightarrow> string option \<Rightarrow> string option \<Rightarrow> bool \<Rightarrow> ('t, unit) wprog"
where
  "upsert_document_build_page e build_id page_number s3_path name category overwrite =
     (let item = page_row e build_id page_number s3_path name category in
      if \<not> overwrite then
        catchP (put_item e DocumentBuildsT item (CNotExists ''buildId''))
          (\<lambda>x. if x = ConditionalCheckFailed then raise (HTTPExc 409 ''Page already exists'') else raise x)
      else put_item e DocumentBuildsT item CTrue)"

definition get_document_build_pages :: "'t env \<Rightarrow> string \<Rightarrow> ('t, page_metadata list) wprog" where
  "get_document_build_pages e build_id =
     bindP (lift_result (parse_s3_uri (opt_default [] (preprocessing_location e)))) (\<lambda>(bucket, prefix).
     bindP (query_items_for_build e build_id) (\<lambda>items.
       ret (sort_key pm_page_number
              (map (page_of_item bucket)
                 (filter (\<lambda>item. \<not> truthy (dget item ''isBuildMetadata'')) items)))))"

definition is_document_build_submitted :: "'t env \<Rightarrow> string \<Rightarrow> ('t, bool) wprog" where
  "is_document_build_submitted e build_id =
     bindP (query_items_for_build e build_id) (\<lambda>items.
       ret (items \<noteq> [] \<and> list_ex (\<lambda>item. truthy (dget item ''submittedAt'')) items))"

definition claim_build :: "'t env \<Rightarrow> string \<Rightarrow> ('t, unit) wprog" where
  "claim_build e build_id =
     catchP
       (thenP (update_item e DocumentBuildsT (page_key build_id 0)
                 [USet ''submittedAt'' (PTime (now e))] (CNotExists ''submittedAt''))
          (ret ()))
       (\<lambda>x. if x = ConditionalCheckFailed
             then raise (HTTPExc 400 ''Build has already been submitted for processing'') else raise x)"

definition stamp_page :: "'t env \<Rightarrow> string \<Rightarrow> dict \<Rightarrow> ('t, unit) wprog" where
  "stamp_page e build_id item =
     (if dget item ''pageNumber'' = PNum 0 then ret ()
      else thenP (update_item e DocumentBuildsT
                    [(''buildId'', PStr build_id), (''pageNumber'', dget item ''pageNumber'')]
                    [USet ''submittedAt'' (PTime (now e))] CTrue)
             (ret ()))"

definition mark_document_build_submitted :: "'t env \<Rightarrow> string \<Rightarrow> ('t, unit) wprog" where
  "mark_document_build_submitted e build_id =
     thenP (claim_build e build_id)
       (bindP (query_items_for_build e build_id) (\<lambda>items. forP (stamp_page e build_id) items))"

definition clear_submitted_at :: "'t env \<Rightarrow> string \<Rightarrow> ('t, unit) wprog" where
  "clear_submitted_at e build_id =
     thenP (update_item e DocumentBuildsT (page_key build_id 0) [URemove ''submittedAt''] CTrue) (ret ())"

definition delete_document_build_page :: "'t env \<Rightarrow> string \<Rightarrow> int \<Rightarrow> ('t, bool) wprog" where
  "delete_document_build_page e build_id page_number =
     bindP (is_document_build_submitted e build_id) (\<lambda>submitted.
     if submitted then raise (ValueErr ''Cannot delete - session has already been submitted'')
     else
       bindP (lift_result (parse_s3_uri (opt_default [] (preprocessing_location e)))) (\<lambda>(bucket, prefix).
       bindP (get_item e DocumentBuildsT (page_key build_id page_number)) (\<lambda>item.
         if \<not> present item then ret False
         else
           (let s3_path = dget (opt_default [] item) ''s3Path'' in
            thenP (whenP (truthy s3_path)
                     (delete_object e bucket (opt_default [] (to_opt_str s3_path))))
            (thenP (delete_item e DocumentBuildsT (page_key build_id page_number)) (ret True))))))"

record build_info =
  bi_category :: "string option"
  bi_external_document_id :: "string option"
  bi_external_system_id :: "string option"
  bi_ai_consent_flag :: "bool option"
  bi_tenant_id :: "string option"
  bi_api_key_name :: "string option"
  bi_upload_source :: "string option"

definition build_row :: "'t env \<Rightarrow> string \<Rightarrow> build_info \<Rightarrow> dict" where
  "build_row e build_id b =
     [(''buildId'', PStr build_id), (''pageNumber'', PNum 0), (''createdAt'', PTime (now e)),
      (''isBuildMetadata'', PBool True), (''ttl'', PNum (of_int (get_ttl_epoch_in_days e 30)))] @
     (if truthy_str (bi_category b) then [(''category'', of_opt_str (bi_category b))] else []) @
     filter (\<lambda>(a, v). v \<noteq> PNone)
       [(''externalDocumentId'', of_opt_str (bi_external_document_id b)),
        (''externalSystemId'', of_opt_str (bi_external_system_id b)),
        (''aiConsentFlag'', of_opt_bool (bi_ai_consent_flag b)),
        (''tenantId'', of_opt_str (bi_tenant_id b)),
        (''apiKeyName'', of_opt_str (bi_api_key_name b)),
        (''uploadSource'', of_opt_str (bi_upload_source b))]"

definition create_document_build :: "'t env \<Rightarrow> string \<Rightarrow> build_info \<Rightarrow> ('t, string) wprog" where
  "create_document_build e build_id b =
     thenP (put_item e DocumentBuildsT (build_row e build_id b) CTrue) (ret build_id)"

definition delete_document_build :: "'t env \<Rightarrow> string \<Rightarrow> ('t, bool) wprog" where
  "delete_document_build e build_id =
     bindP (is_document_build_submitted e build_id) (\<lambda>submitted.
     if submitted then raise (ValueErr ''Cannot delete - session has already been submitted'')
     else
       bindP (get_document_build_pages e build_id) (\<lambda>pages.
       bindP (if pages = [] then document_build_exists e build_id else ret True) (\<lambda>there.
       if \<not> there then ret False
       else
         thenP (forP (\<lambda>p. thenP (delete_document_build_page e build_id (pm_page_number p)) (ret ())) pages)
         (thenP (delete_item e DocumentBuildsT (page_key build_id 0)) (ret True)))))"

section \<open>utils/pdf.py\<close>

fun page_parts :: "'t env \<Rightarrow> codecs \<Rightarrow> page_metadata list \<Rightarrow> exn + (bool \<times> string) list" where
  "page_parts e cd [] = Inr []"
| "page_parts e cd (p # ps) =
     (case get_file_bytes e (pm_s3_bucket_name p) (pm_s3_key p) of
        Inl x \<Rightarrow> Inl x
      | Inr body \<Rightarrow>
          if is_pdf body \<or> is_image cd body
          then (case page_parts e cd ps of Inl x \<Rightarrow> Inl x | Inr parts \<Rightarrow> Inr ((is_pdf body, body) # parts))
          else Inl (ValueErr ''Unsupported file content''))"

definition merge_pages_to_pdf :: "'t env \<Rightarrow> codecs \<Rightarrow> page_metadata list \<Rightarrow> exn + string" where
  "merge_pages_to_pdf e cd pages =
     (case page_parts e cd (sort_key pm_page_number pages) of
        Inl x \<Rightarrow> Inl x | Inr parts \<Rightarrow> merge_pdf cd parts)"

section \<open>routers/build.py: pages\<close>

definition page_file_name :: "string \<Rightarrow> string \<Rightarrow> int \<Rightarrow> string \<Rightarrow> string" where
  "page_file_name tenant_id build_id page_number content_type =
     tenant_id @ ''/'' @ build_id @ ''-page-'' @ nat_str (nat page_number) @ ''.'' @ get_extension content_type ''bin''"

definition add_page_to_build ::
  "'t env \<Rightarrow> codecs \<Rightarrow> upload \<Rightarrow> string \<Rightarrow> int \<Rightarrow> string \<Rightarrow> string \<Rightarrow> string option \<Rightarrow> string option \<Rightarrow>
   bool \<Rightarrow> ('t, int) wprog"
where
  "add_page_to_build e cd f build_id page_number content_type tenant_id category trace_id overwrite =
     (if \<not> truthy_str (up_filename f) then raise (HTTPExc 400 ''Filename is required'')
      else
        (let name = opt_default [] (up_filename f);
             unique = page_file_name tenant_id build_id page_number content_type;
             location = opt_default [] (preprocessing_location e)
         in thenP
              (upload_document_for_processing e cd (up_bytes f)
                 \<lparr>ur_dest_path = location @ ''/'' @ unique, ur_original_file_name = name,
                  ur_content_type = content_type, ur_tenant_id = tenant_id, ur_category = category,
                  ur_job_id = None, ur_trace_id = trace_id, ur_batch_id = None,
                  ur_build_id = Some build_id\<rparr>)
              (bindP (lift_result (parse_s3_uri location)) (\<lambda>(bucket, prefix).
                 thenP (upsert_document_build_page e build_id page_number
                          (if prefix \<noteq> [] then prefix @ ''/'' @ unique else unique) (Some name) category
                          overwrite)
                   (ret page_number)))))"

definition next_page_number :: "page_metadata list \<Rightarrow> int" where
  "next_page_number pages = (if pages = [] then 0 else Max (set (map pm_page_number pages))) + 1"

text \<open>How the handlers report an error: an \<open>HTTPException\<close> passes, the rest is translated.\<close>

definition page_error :: "string \<Rightarrow> exn \<Rightarrow> exn" where
  "page_error detail x =
     (case x of HTTPExc n m \<Rightarrow> x
      | ImageConversionErr m \<Rightarrow> HTTPExc 400 (''Image conversion failed: '' @ m)
      | _ \<Rightarrow> HTTPExc 500 detail)"

definition too_large :: "upload \<Rightarrow> bool" where
  "too_large f = (case up_size f of None \<Rightarrow> False | Some n \<Rightarrow> 524288000 < n)"

definition upload_document_build_page ::
  "'t env \<Rightarrow> codecs \<Rightarrow> upload \<Rightarrow> string \<Rightarrow> string \<Rightarrow> int option \<Rightarrow> bool \<Rightarrow> string option \<Rightarrow>
   string option \<Rightarrow> ('t, int) wprog"
where
  "upload_document_build_page e cd f build_id tenant_id page_number overwrite category trace_id =
     catchP
       (bindP (lift_result (validate_file_type cd (up_bytes f))) (\<lambda>content_type.
        if too_large f then raise (HTTPExc 400 ''File size exceeds maximum'')
        else
          bindP (get_document_build_pages e build_id) (\<lambda>pages.
          if 50 \<le> length pages then raise (HTTPExc 400 ''Build exceeds maximum of 50 pages'')
          else add_page_to_build e cd f build_id (opt_default (next_page_number pages) page_number)
                 content_type tenant_id category
                 (if truthy_str trace_id then trace_id else Some (fresh_id e 0)) overwrite)))
       (\<lambda>x. raise (page_error ''Failed to upload page'' x))"

fun validate_all :: "codecs \<Rightarrow> upload list \<Rightarrow> exn + string list" where
  "validate_all cd [] = Inr []"
| "validate_all cd (f # fs) =
     (case validate_file_type cd (up_bytes f) of
        Inl x \<Rightarrow> Inl x
      | Inr ct \<Rightarrow>
          if too_large f then Inl (HTTPExc 400 ''File exceeds maximum size'')
          else (case validate_all cd fs of Inl x \<Rightarrow> Inl x | Inr cts \<Rightarrow> Inr (ct # cts)))"

text \<open>The pages of a batch are uploaded by at most five tasks at a time, the first failure cancelling
  the others; the model is the schedule in which they run in order.\<close>

fun upload_in_order ::
  "'t env \<Rightarrow> codecs \<Rightarrow> string \<Rightarrow> string \<Rightarrow> string option \<Rightarrow> string option \<Rightarrow> int \<Rightarrow>
   (upload \<times> string) list \<Rightarrow> ('t, int list) wprog"
where
  "upload_in_order e cd build_id tenant_id category trace_id n [] = ret []"
| "upload_in_order e cd build_id tenant_id category trace_id n ((f, ct) # rest) =
     bindP (add_page_to_build e cd f build_id n ct tenant_id category trace_id False) (\<lambda>p.
     bindP (upload_in_order e cd build_id tenant_id category trace_id (n + 1) rest) (\<lambda>ps.
       ret (p # ps)))"

definition upload_document_build_pages_batch ::
  "'t env \<Rightarrow> codecs \<Rightarrow> upload list \<Rightarrow> string \<Rightarrow> string \<Rightarrow> string option \<Rightarrow> string option \<Rightarrow>
   ('t, int list) wprog"
where
  "upload_document_build_pages_batch e cd files build_id tenant_id category trace_id =
     catchP
       (if 50 < length files then raise (HTTPExc 400 ''Batch exceeds maximum of 50 pages'')
        else
          bindP (lift_result (validate_all cd files)) (\<lambda>content_types.
          bindP (get_document_build_pages e build_id) (\<lambda>pages.
          if 50 < length pages + length files
          then raise (HTTPExc 400 ''Build would exceed maximum of 50 pages'')
          else upload_in_order e cd build_id tenant_id category
                 (if truthy_str trace_id then trace_id else Some (fresh_id e 0))
                 (next_page_number pages) (zip files content_types))))
       (\<lambda>x. raise (page_error ''Failed to upload pages'' x))"

section \<open>routers/build.py: submitting\<close>

record submit_result =
  sr_job_id :: string
  sr_job_status :: process_status
  sr_message :: string
  sr_page_count :: nat

definition declined_document :: "'t env \<Rightarrow> string \<Rightarrow> dict \<Rightarrow> string option \<Rightarrow> exn + document_record" where
  "declined_document e build_id metadata trace_id =
     (let job_id = fresh_id e 1 in
      case (map_of metadata ''tenantId'', map_of metadata ''apiKeyName'') of
        (None, _) \<Rightarrow> Inl (KeyErr ''tenantId'')
      | (_, None) \<Rightarrow> Inl (KeyErr ''apiKeyName'')
      | (Some t, Some n) \<Rightarrow>
          Inr ((new_document (''document-build-'' @ build_id @ ''-'' @ job_id @ ''.pdf'')
                  (''build-'' @ build_id @ ''.pdf'') job_id ''build'' (opt_default [] (to_opt_str t))
                  (opt_default [] (to_opt_str n)))
                 \<lparr>dr_category := to_opt_str (dget metadata ''category''), dr_trace_id := trace_id,
                  dr_content_type := Some ''application/pdf'',
                  dr_external_document_id := to_opt_str (dget metadata ''externalDocumentId''),
                  dr_external_system_id := to_opt_str (dget metadata ''externalSystemId''),
                  dr_ai_consent_flag := Some False,
                  dr_upload_source := to_opt_str (dget metadata ''uploadSource'')\<rparr>))"

definition mixed_categories :: "page_metadata list \<Rightarrow> bool" where
  "mixed_categories pages = (1 < card (set (concat (map (\<lambda>p. case pm_category p of None \<Rightarrow> [] | Some c \<Rightarrow> [c]) pages))))"

definition first_category :: "page_metadata list \<Rightarrow> string option" where
  "first_category pages = (case find (\<lambda>p. truthy_str (pm_category p)) pages of None \<Rightarrow> None | Some p \<Rightarrow> pm_category p)"

definition submit_claimed ::
  "'t env \<Rightarrow> codecs \<Rightarrow> string \<Rightarrow> string option \<Rightarrow> string \<Rightarrow> string \<Rightarrow> dict option \<Rightarrow> page_metadata list \<Rightarrow>
   string \<Rightarrow> ('t, submit_result) wprog"
where
  "submit_claimed e cd build_id trace_id tenant_id api_key_name metadata pages input =
     bindP (lift_result (merge_pages_to_pdf e cd pages)) (\<lambda>pdf.
       (let job_id = fresh_id e 1;
            unique = ''document-build-'' @ build_id @ ''-'' @ fresh_id e 2 @ ''.pdf'';
            category = first_category pages
        in thenP (insert_minimal_ddb_record e
               ((new_document unique unique job_id ''build'' tenant_id api_key_name)
                  \<lparr>dr_category := category, dr_trace_id := trace_id,
                   dr_content_type := Some ''application/pdf'',
                   dr_upload_source := (if present metadata
                     then to_opt_str (dget (opt_default [] metadata) ''uploadSource'') else None)\<rparr>))
           (thenP (upload_document_for_processing e cd pdf
               \<lparr>ur_dest_path = input @ ''/'' @ tenant_id @ ''/'' @ unique, ur_original_file_name = unique,
                ur_content_type = ''application/pdf'', ur_tenant_id = tenant_id, ur_category = category,
                ur_job_id = Some job_id, ur_trace_id = trace_id, ur_batch_id = None,
                ur_build_id = Some build_id\<rparr>)
             (ret \<lparr>sr_job_id = job_id, sr_job_status = PS_NOT_STARTED,
                   sr_message = ''Document build submitted successfully'',
                   sr_page_count = length pages\<rparr>))))"

definition submit_failed :: "'t env \<Rightarrow> string \<Rightarrow> exn \<Rightarrow> ('t, submit_result) wprog" where
  "submit_failed e build_id x =
     (case x of
        HTTPExc n m \<Rightarrow> raise x
      | _ \<Rightarrow> thenP (catchP (clear_submitted_at e build_id) (\<lambda>y. ret ()))
               (raise (HTTPExc 500 ''Failed to submit document build'')))"

definition submit_build ::
  "'t env \<Rightarrow> codecs \<Rightarrow> string \<Rightarrow> string option \<Rightarrow> string \<Rightarrow> string \<Rightarrow> ('t, submit_result) wprog" where
  "submit_build e cd build_id trace tenant_id api_key_name =
     (let trace_id = (if truthy_str trace then trace else Some (fresh_id e 0)) in
      bindP (get_build_metadata e build_id) (\<lambda>metadata.
      if present metadata \<and> dget (opt_default [] metadata) ''aiConsentFlag'' = PBool False then
        bindP (lift_result (declined_document e build_id (opt_default [] metadata) trace_id)) (\<lambda>d.
        thenP (insert_minimal_ddb_record e d)
        (thenP (classify_as_ai_consent_declined e (dr_ddb_key d) None)
        (bindP (get_document_build_pages e build_id) (\<lambda>pages.
           ret \<lparr>sr_job_id = dr_job_id d, sr_job_status = PS_AI_CONSENT_DECLINED,
                sr_message = ''Document not processed - AI consent not provided'',
                sr_page_count = length pages\<rparr>))))
      else
        bindP (get_document_build_pages e build_id) (\<lambda>pages.
        if pages = [] then raise (HTTPExc 400 ''Build has no pages to submit'')
        else if \<not> truthy_str (input_location e)
        then raise (HTTPExc 500 ''DOCUMENTAI_INPUT_LOCATION environment variable not set'')
        else if mixed_categories pages then raise (HTTPExc 400 ''Mixed categories in build'')
        else
          thenP (mark_document_build_submitted e build_id)
            (catchP (submit_claimed e cd build_id trace_id tenant_id api_key_name metadata pages
                       (opt_default [] (input_location e)))
               (submit_failed e build_id)))))"

section \<open>routers/build.py: reading and deleting\<close>

definition create_build :: "'t env \<Rightarrow> build_info \<Rightarrow> ('t, string) wprog" where
  "create_build e b = create_document_build e (fresh_id e 1) b"

definition get_document_build :: "'t env \<Rightarrow> string \<Rightarrow> ('t, string \<times> page_metadata list) wprog" where
  "get_document_build e build_id =
     catchP
       (bindP (get_document_build_pages e build_id) (\<lambda>pages.
        bindP (is_document_build_submitted e build_id) (\<lambda>submitted.
          ret (if submitted then ''submitted'' else ''not_submitted'', pages))))
       (\<lambda>x. case x of HTTPExc n m \<Rightarrow> raise x | _ \<Rightarrow> raise (HTTPExc 500 ''Failed to retrieve build''))"

definition delete_error :: "string \<Rightarrow> exn \<Rightarrow> exn" where
  "delete_error detail x =
     (case x of ValueErr m \<Rightarrow> HTTPExc 400 m | HTTPExc n m \<Rightarrow> x | _ \<Rightarrow> HTTPExc 500 detail)"

definition delete_document_build_page_endpoint :: "'t env \<Rightarrow> string \<Rightarrow> int \<Rightarrow> ('t, unit) wprog" where
  "delete_document_build_page_endpoint e build_id page_number =
     catchP
       (bindP (delete_document_build_page e build_id page_number) (\<lambda>deleted.
          if deleted then ret () else raise (HTTPExc 404 ''Page not found in build'')))
       (\<lambda>x. raise (delete_error ''Failed to delete page'' x))"

definition delete_document_build_endpoint :: "'t env \<Rightarrow> string \<Rightarrow> ('t, unit) wprog" where
  "delete_document_build_endpoint e build_id =
     catchP
       (bindP (delete_document_build e build_id) (\<lambda>deleted.
          if deleted then ret () else raise (HTTPExc 404 ''Build not found'')))
       (\<lambda>x. raise (delete_error ''Failed to delete build'' x))"

end
