(* ===== verification/Footprints.thy ===== *)
theory Footprints
  imports Classification_Laws Uploads
begin

text \<open>
  Which tables the programs of the lower layers write.  A guarantee on the items that says nothing
  about a table holds of every program that writes only there; the components state theirs about
  their own table and get the rest from here.
\<close>

definition free :: "(tname \<Rightarrow> dict \<Rightarrow> dict option \<Rightarrow> dict option \<Rightarrow> bool) \<Rightarrow> tname \<Rightarrow> bool" where
  "free P T = (\<forall>k x y. P T k x y)"

context item_order begin

lemma f_update_item: "free P T \<Longrightarrow> guarantees (items_rel look P) (update_item e T k us c)"
  by (rule g_update_item) (simp add: free_def)

lemma f_put_item: "free P T \<Longrightarrow> guarantees (items_rel look P) (put_item e T it c)"
  by (rule g_put_item) (simp add: free_def)

lemma f_execute: "free P DocumentMetadataT \<Longrightarrow> guarantees (items_rel look P) (execute_ddb_update e k us c)"
  unfolding execute_ddb_update_def by (intro order.g_rules f_update_item)

lemma f_send_message: "guarantees (items_rel look P) (send_message e q m)"
  unfolding send_message_def by (intro order.g_rules g_modifies) simp

lemma f_metrics: "guarantees (items_rel look P) (send_record_to_metrics_queue e k)"
  unfolding send_record_to_metrics_queue_def by (intro order.g_rules g_get_item f_send_message)

lemma f_write_tokens:
  "free P DocumentMetadataT \<Longrightarrow> guarantees (items_rel look P) (write_tokens_by_model e k m r i t)"
  unfolding write_tokens_by_model_def by (rule f_execute)

lemma f_update_ddb: "free P DocumentMetadataT \<Longrightarrow> guarantees (items_rel look P) (update_ddb e d c)"
  unfolding update_ddb_def by (intro order.g_rules reader.r_timing_updates f_execute f_metrics)

lemma f_preclassification_tokens:
  "free P DocumentMetadataT \<Longrightarrow> guarantees (items_rel look P) (write_preclassification_tokens e k p)"
  unfolding write_preclassification_tokens_def by (intro order.g_rules f_write_tokens)

lemma f_upsert_ddb: "free P DocumentMetadataT \<Longrightarrow> guarantees (items_rel look P) (upsert_ddb e d)"
  unfolding upsert_ddb_def
  by (intro order.g_rules f_execute f_preclassification_tokens f_metrics)

lemma f_insert_minimal:
  "free P DocumentMetadataT \<Longrightarrow> guarantees (items_rel look P) (insert_minimal_ddb_record e d)"
  unfolding insert_minimal_ddb_record_def by (rule f_upsert_ddb)

lemma f_finalize: "free P DocumentMetadataT \<Longrightarrow> guarantees (items_rel look P) (finalize_v1_response e k st data m)"
  unfolding finalize_v1_response_def by (intro order.g_rules reader.r_build_v1 f_execute)

lemma f_method_response:
  "free P DocumentMetadataT \<Longrightarrow>
   guarantees (items_rel look P) (write_extract_method_response e k st em result data m)"
  unfolding write_extract_method_response_def
  by (intro order.g_rules reader.r_build_v1 reader.r_method_fields f_execute)

lemma f_increment:
  "free P DocumentBatchesT \<Longrightarrow> guarantees (items_rel look P) (increment_resolved_count e b)"
  unfolding increment_resolved_count_def count_resolved_def finalise_batch_def update_batch_status_def
    query_jobs_by_batch_id_def
  by (intro order.g_rules f_update_item g_query_by_key)

lemma f_write_terminal:
  "free P DocumentMetadataT \<Longrightarrow> free P DocumentBatchesT \<Longrightarrow>
   guarantees (items_rel look P) (write_terminal_status e d b result em)"
  unfolding write_terminal_status_def Let_def
  by (intro order.g_rules f_update_ddb f_finalize f_increment f_method_response)

lemma f_classify_with:
  "free P DocumentMetadataT \<Longrightarrow> free P DocumentBatchesT \<Longrightarrow>
   guarantees (items_rel look P) (classify_with e k code matched mk b result em)"
  unfolding classify_with_def
  by (intro order.g_rules reader.r_internal_response f_write_terminal)

lemma f_classify:
  assumes "free P DocumentMetadataT" "free P DocumentBatchesT"
  shows "guarantees (items_rel look P) (classify_as_failed e k m data started b)"
    and "guarantees (items_rel look P) (classify_as_conversion_failed e k m b)"
    and "guarantees (items_rel look P) (classify_as_ai_consent_declined e k b)"
    and "guarantees (items_rel look P) (classify_as_not_implemented e k data b)"
    and "guarantees (items_rel look P) (classify_as_extraction_not_configured e k data b)"
    and "guarantees (items_rel look P) (classify_as_no_custom_blueprint_matched e k data started b em)"
    and "guarantees (items_rel look P) (classify_as_no_document_detected e k data started b em)"
    and "guarantees (items_rel look P) (classify_as_success e k code data em args started b result)"
  using assms
  by (simp_all add: classify_as_failed_def classify_as_conversion_failed_def
      classify_as_ai_consent_declined_def classify_as_not_implemented_def
      classify_as_extraction_not_configured_def classify_as_no_custom_blueprint_matched_def
      classify_as_no_document_detected_def classify_as_success_def f_classify_with)

lemma f_table_name:
  "guarantees (items_rel look P) (f (ct_name tb)) \<Longrightarrow>
   guarantees (items_rel look P) (bindP (lift_result (get_table_name e tb)) f)"
  by (auto simp: guarantees_def bindP_run get_table_name_def order.R_refl)

lemma f_register_category:
  assumes "free P DocumentCategoriesT"
  shows "guarantees (items_rel look P) (auto_register_category e t c)"
proof -
  have "ct_name categories_table = DocumentCategoriesT" by (simp add: categories_table_def)
  then have f: "free P (ct_name categories_table)" using assms by simp
  show ?thesis
    unfolding auto_register_category_def
    by (rule order.g_bind [OF order.g_reads], rule order.g_if [OF order.g_ret], rule order.g_then,
        intro order.g_when g_modifies, simp, rule f_table_name,
        intro order.g_then f_update_item f g_modifies, simp)
qed

lemma f_s3_write: "guarantees (items_rel look P) (s3_write e op)"
  unfolding s3_write_def by (intro order.g_rules g_modifies) simp

lemma f_upload:
  "free P DocumentCategoriesT \<Longrightarrow>
   guarantees (items_rel look P) (upload_document_for_processing e cd body r)"
  unfolding upload_document_for_processing_def save_original_to_preprocessing_def upload_file_def
  by (intro order.g_rules f_s3_write f_register_category)

end

end
