(* ===== verification/Build_Laws.thy ===== *)
theory Build_Laws
  imports Builds Footprints
begin

text \<open>
  Builds: a build is submitted at most once, a page is never replaced behind the back of its
  uploader, and what the rollback of a failed submission leaves behind.
\<close>

section \<open>The lock of a build\<close>

definition locked :: "dict option \<Rightarrow> bool" where
  "locked x = (case x of None \<Rightarrow> False | Some it \<Rightarrow> has_key it ''submittedAt'')"

definition declined :: "dict option \<Rightarrow> bool" where
  "declined x = (present x \<and> dget (opt_default [] x) ''aiConsentFlag'' = PBool False)"

definition consent_step :: "string \<Rightarrow> tname \<Rightarrow> dict \<Rightarrow> dict option \<Rightarrow> dict option \<Rightarrow> bool" where
  "consent_step b T k x y =
     (T = DocumentBuildsT \<longrightarrow> k = page_key b 0 \<longrightarrow> \<not> declined x \<longrightarrow> \<not> declined y)"

definition lock_step :: "string \<Rightarrow> tname \<Rightarrow> dict \<Rightarrow> dict option \<Rightarrow> dict option \<Rightarrow> bool" where
  "lock_step b T k x y =
     (T = DocumentBuildsT \<longrightarrow> k = page_key b 0 \<longrightarrow>
        (\<not> declined x \<longrightarrow> \<not> declined y) \<and> (locked x \<longrightarrow> locked y))"

definition metadata_in :: "('t \<Rightarrow> tname \<Rightarrow> dict \<Rightarrow> dict option) \<Rightarrow> 't world \<Rightarrow> string \<Rightarrow> dict option" where
  "metadata_in look w b = item_in look w DocumentBuildsT (page_key b 0)"

lemma free_lock: "free (lock_step b) DocumentMetadataT" "free (lock_step b) DocumentCategoriesT"
  "free (lock_step b) DocumentBatchesT"
  by (simp_all add: free_def lock_step_def)

lemma free_consent: "free (consent_step b) DocumentMetadataT" "free (consent_step b) DocumentCategoriesT"
  "free (consent_step b) DocumentBatchesT"
  by (simp_all add: free_def consent_step_def)

lemma consent_kept:
  assumes "updated_item (page_key b n) x us = Some it" "''aiConsentFlag'' \<notin> upd_attr ` set us"
    and "\<not> declined x"
  shows "\<not> declined (Some it)"
proof (cases x)
  case None
  then have "dget it ''aiConsentFlag'' = dget (page_key b n) ''aiConsentFlag''"
    using updated_item_dget_other [OF assms(1,2)] by simp
  then show ?thesis by (simp add: declined_def page_key_def dget_def)
next
  case (Some it0)
  then have "dget it ''aiConsentFlag'' = dget it0 ''aiConsentFlag''"
    using updated_item_dget_other [OF assms(1,2)] by simp
  moreover have "it0 = [] \<Longrightarrow> dget it0 ''aiConsentFlag'' \<noteq> PBool False" by (simp add: dget_def)
  ultimately show ?thesis using assms(3) Some by (auto simp: declined_def present_def)
qed

lemma claim_locks:
  "updated_item k x [USet ''submittedAt'' v] = Some it \<Longrightarrow> locked (Some it)"
  using updated_item_set [of k x _ it "''submittedAt''" v] by (simp add: locked_def has_key_def)

sublocale service \<subseteq> consent: item_order look e "consent_step b" for b
  by unfold_locales (auto simp: consent_step_def)

sublocale service \<subseteq> lock: item_order look e "lock_step b" for b
  by unfold_locales (auto simp: lock_step_def)

context service begin

lemma g_claim_lock: "guarantees (items_rel look (lock_step b)) (claim_build e b)"
  unfolding claim_build_def
  by (intro lock.order.g_rules lock.g_update_item)
    (auto simp: lock_step_def dest: claim_locks consent_kept)

lemma g_stamp_lock: "guarantees (items_rel look (lock_step b)) (stamp_page e b item)"
proof (cases "dget item ''pageNumber'' = PNum 0")
  case False
  then have "[(''buildId'', PStr b), (''pageNumber'', dget item ''pageNumber'')] \<noteq> page_key b 0"
    by (simp add: page_key_def)
  then show ?thesis
    unfolding stamp_page_def using False
    by (intro lock.order.g_rules lock.g_update_item) (auto simp: lock_step_def)
qed (simp add: stamp_page_def lock.order.g_ret)

lemma g_stamps_lock:
  "guarantees (items_rel look (lock_step b))
     (bindP (query_items_for_build e b) (\<lambda>items. forP (stamp_page e b) items))"
  unfolding query_items_for_build_def by (intro lock.order.g_rules lock.g_query_by_pk g_stamp_lock)

lemma g_pages_lock: "guarantees (items_rel look (lock_step b)) (get_document_build_pages e b)"
  unfolding get_document_build_pages_def query_items_for_build_def
  by (intro lock.order.g_rules lock.g_query_by_pk)

lemma g_claimed_lock:
  "guarantees (items_rel look (lock_step b)) (submit_claimed e cd b tr t n metadata pages input)"
  unfolding submit_claimed_def Let_def
  by (intro lock.order.g_rules lock.f_insert_minimal lock.f_upload free_lock)

lemma lock_to_consent:
  "guarantees (items_rel look (lock_step b)) m \<Longrightarrow> guarantees (items_rel look (consent_step b)) m"
  unfolding guarantees_def items_rel_def lock_step_def consent_step_def by blast

lemma g_failed_consent: "guarantees (items_rel look (consent_step b)) (submit_failed e b x)"
  unfolding submit_failed_def clear_submitted_at_def
  by (cases x; simp; intro consent.order.g_rules consent.g_update_item)
    (auto simp: consent_step_def dest: consent_kept)

lemma claim_success:
  assumes "claim_build e b w = (Inr u, w')"
  shows "locked (metadata_in look w' b) \<and> \<not> locked (metadata_in look w b)"
proof -
  obtain it where u: "update_item e DocumentBuildsT (page_key b 0) [USet ''submittedAt'' (PTime (now e))]
      (CNotExists ''submittedAt'') w = (Inr it, w')"
    using assms by (auto simp: claim_build_def catchP_run thenP_run split: prod.splits sum.splits if_splits)
  have "\<not> locked (item_in look w DocumentBuildsT (page_key b 0))"
    using update_item_ok [OF u] by (auto simp: locked_def split: option.splits)
  moreover have "locked (Some it)" using update_item_ok [OF u] claim_locks by blast
  ultimately show ?thesis using update_item_ok [OF u] by (simp add: metadata_in_def)
qed

lemma mark_success:
  assumes "mark_document_build_submitted e b w = (Inr u, w')"
  shows "locked (metadata_in look w' b) \<and> \<not> locked (metadata_in look w b)"
proof -
  obtain w1 where c: "claim_build e b w = (Inr (), w1)"
    and s: "bindP (query_items_for_build e b) (\<lambda>items. forP (stamp_page e b) items) w1 = (Inr u, w')"
    using assms by (auto simp: mark_document_build_submitted_def thenP_run split: prod.splits sum.splits)
  have "items_rel look (lock_step b) w1 w'" using guaranteesD [OF g_stamps_lock s] .
  then show ?thesis using claim_success [OF c] by (simp add: items_rel_def lock_step_def metadata_in_def)
qed

lemma mark_lock: "guarantees (items_rel look (lock_step b)) (mark_document_build_submitted e b)"
  unfolding mark_document_build_submitted_def by (intro lock.order.g_then g_claim_lock g_stamps_lock)

text \<open>The part of a submission that follows the check of the consent.\<close>

abbreviation submit_rest where
  "submit_rest cd b tr t n metadata \<equiv>
     bindP (get_document_build_pages e b) (\<lambda>pages.
        if pages = [] then raise (HTTPExc 400 ''Build has no pages to submit'')
        else if \<not> truthy_str (input_location e)
        then raise (HTTPExc 500 ''DOCUMENTAI_INPUT_LOCATION environment variable not set'')
        else if mixed_categories pages then raise (HTTPExc 400 ''Mixed categories in build'')
        else
          thenP (mark_document_build_submitted e b)
            (catchP (submit_claimed e cd b tr t n metadata pages (opt_default [] (input_location e)))
               (submit_failed e b)))"

lemma submit_build_open:
  assumes "\<not> declined (metadata_in look w b)" "submit_build e cd b tr t n w = (res, w')"
  obtains x w1 where "get_build_metadata e b w = (Inl x, w1)" "res = Inl x" "w' = w1"
      "item_in look w1 = item_in look w"
    | m tr' w1 where "submit_rest cd b tr' t n m w1 = (res, w')" "item_in look w1 = item_in look w"
proof -
  obtain r w1 where g: "get_build_metadata e b w = (r, w1)" by (metis surj_pair)
  have same: "item_in look w1 = item_in look w"
    using g get_item_frame unfolding get_build_metadata_def by blast
  show ?thesis
  proof (cases r)
    case (Inl x)
    then show ?thesis using that(1) g same assms(2) by (simp add: submit_build_def bindP_run Let_def)
  next
    case (Inr m)
    then have "m = metadata_in look w b"
      using g get_item_ok unfolding get_build_metadata_def metadata_in_def by blast
    then have "\<not> (present m \<and> dget (opt_default [] m) ''aiConsentFlag'' = PBool False)"
      using assms(1) by (simp add: declined_def)
    then have "submit_rest cd b (if truthy_str tr then tr else Some (fresh_id e 0)) t n m w1 = (res, w')"
      using g Inr assms(2)
      by (simp add: submit_build_def bindP_run [of "get_build_metadata e b"] Let_def split: if_splits)
    then show ?thesis using that(2) same by blast
  qed
qed

lemma submit_rest_consent: "guarantees (items_rel look (consent_step b)) (submit_rest cd b tr t n m)"
  by (intro consent.order.g_rules lock_to_consent g_pages_lock mark_lock g_claimed_lock g_failed_consent)

lemma submit_rest_success:
  assumes "submit_rest cd b tr t n m w = (Inr r, w')"
  shows "locked (metadata_in look w' b) \<and> \<not> locked (metadata_in look w b)"
proof -
  obtain pages w1 where p: "get_document_build_pages e b w = (Inr pages, w1)"
    using assms by (auto simp: bindP_run split: prod.splits sum.splits)
  have "thenP (mark_document_build_submitted e b)
      (catchP (submit_claimed e cd b tr t n m pages (opt_default [] (input_location e)))
         (submit_failed e b)) w1 = (Inr r, w')"
    using assms p by (simp add: bindP_run split: if_splits)
  then obtain w2 where mk: "mark_document_build_submitted e b w1 = (Inr (), w2)"
    and c: "catchP (submit_claimed e cd b tr t n m pages (opt_default [] (input_location e)))
         (submit_failed e b) w2 = (Inr r, w')"
    by (auto simp: thenP_run split: prod.splits sum.splits)
  have fail: "isl (fst (submit_failed e b x w))" for x w
    by (auto simp: submit_failed_def thenP_run catchP_run split: exn.splits prod.splits sum.splits)
  have "submit_claimed e cd b tr t n m pages (opt_default [] (input_location e)) w2 = (Inr r, w')"
  proof (cases "submit_claimed e cd b tr t n m pages (opt_default [] (input_location e)) w2")
    case (Pair r3 w3)
    show ?thesis
    proof (cases r3)
      case (Inl x)
      then have "submit_failed e b x w3 = (Inr r, w')" using c Pair by (simp add: catchP_run)
      then show ?thesis using fail [of x w3] by simp
    next
      case (Inr r4)
      then show ?thesis using c Pair by (simp add: catchP_run)
    qed
  qed
  then have "items_rel look (lock_step b) w2 w'" by (rule guaranteesD [OF g_claimed_lock])
  moreover have "items_rel look (lock_step b) w w1" using guaranteesD [OF g_pages_lock p] .
  ultimately show ?thesis
    using mark_success [OF mk] by (auto simp: items_rel_def lock_step_def metadata_in_def)
qed

lemma submit_rest_locked:
  assumes "submit_rest cd b tr t n m w = (res, w')" "locked (metadata_in look w b)"
    and "\<not> declined (metadata_in look w b)"
  shows "locked (metadata_in look w' b)"
proof -
  obtain rp w1 where p: "get_document_build_pages e b w = (rp, w1)" by (metis surj_pair)
  have l1: "items_rel look (lock_step b) w w1" using guaranteesD [OF g_pages_lock p] .
  then have k1: "locked (metadata_in look w1 b)"
    using assms(2,3) by (simp add: items_rel_def lock_step_def metadata_in_def)
  obtain rm w2 where mk: "mark_document_build_submitted e b w1 = (rm, w2)" by (metis surj_pair)
  have "items_rel look (lock_step b) w1 w2" using guaranteesD [OF mark_lock mk] .
  then have k2: "locked (metadata_in look w2 b)"
    using k1 by (simp add: items_rel_def lock_step_def metadata_in_def)
  have rm: "isl rm" using mark_success mk k1 by (cases rm) auto
  have "w' = w1 \<or> w' = w2"
    using assms(1) p mk rm by (cases rp; cases rm) (auto simp: bindP_run thenP_run split: if_splits)
  then show ?thesis using k1 k2 by blast
qed

text \<open>One submission: what it may do to the lock, and when it may succeed.\<close>

lemma submit_once:
  assumes "\<not> declined (metadata_in look w b)" "submit_build e cd b tr t n w = (res, w')"
  shows "\<not> declined (metadata_in look w' b) \<and>
    (\<not> isl res \<longrightarrow> locked (metadata_in look w' b) \<and> \<not> locked (metadata_in look w b)) \<and>
    (locked (metadata_in look w b) \<longrightarrow> locked (metadata_in look w' b))"
  using assms
proof (rule submit_build_open)
  fix x w1
  assume "res = Inl x" "w' = w1" "item_in look w1 = item_in look w"
  then show ?thesis using assms(1) by (simp add: metadata_in_def)
next
  fix m tr' w1
  assume r: "submit_rest cd b tr' t n m w1 = (res, w')" and s: "item_in look w1 = item_in look w"
  have m: "metadata_in look w1 b = metadata_in look w b" using s by (simp add: metadata_in_def)
  have "items_rel look (consent_step b) w1 w'" using guaranteesD [OF submit_rest_consent r] .
  then have "\<not> declined (metadata_in look w' b)"
    using assms(1) m by (simp add: items_rel_def consent_step_def metadata_in_def)
  moreover have "\<not> isl res \<longrightarrow> locked (metadata_in look w' b) \<and> \<not> locked (metadata_in look w b)"
  proof (cases res)
    case (Inr v)
    then show ?thesis using submit_rest_success [OF r [unfolded Inr]] m by simp
  qed simp
  moreover have "locked (metadata_in look w b) \<longrightarrow> locked (metadata_in look w' b)"
    using submit_rest_locked [OF r] assms(1) m by simp
  ultimately show ?thesis by blast
qed

end



definition ready_build :: mem where
  "ready_build =
     [((DocumentBuildsT, page_key ''b'' 0),
        build_row base_env ''b'' \<lparr>bi_category = None, bi_external_document_id = None,
          bi_external_system_id = None, bi_ai_consent_flag = None, bi_tenant_id = Some ''acme'',
          bi_api_key_name = Some ''k'', bi_upload_source = None\<rparr>),
      ((DocumentBuildsT, page_key ''b'' 1), page_row base_env ''b'' 1 ''pages/acme/b-page-1.pdf'' (Some ''p.pdf'') None)]"

definition page_env :: "mem env" where
  "page_env = base_env\<lparr>preprocessing_location := Some ''s3://pre/pages'', s3_object := (\<lambda>b k. Inr (PStr ''%PDF-1''))\<rparr>"

definition no_input_env :: "mem env" where
  "no_input_env = page_env\<lparr>s3_error := (\<lambda>op. case op of
     S3Put b k body ct m \<Rightarrow> if b = ''in'' then Some (ClientErr ''SlowDown'') else None | _ \<Rightarrow> None)\<rparr>"

definition broken_merge :: codecs where
  "broken_merge = \<lparr>guess_mime = (\<lambda>s. Some ''application/pdf''), zip_members = (\<lambda>_. None),
     to_png = (\<lambda>s t. Inr s), merge_pdf = (\<lambda>ps. Inl (OtherExc ''PdfReadError''))\<rparr>"

definition good_merge :: codecs where
  "good_merge = broken_merge\<lparr>merge_pdf := (\<lambda>ps. Inr (concat (map snd ps)))\<rparr>"


section \<open>What a failed submission leaves\<close>

text \<open>The rollback runs for errors other than an \<open>HTTPException\<close>, but a failed upload is one: the
  build stays locked, and the user cannot retry.  After a rollback the stamps of the pages remain,
  so the build is reported as submitted although it can be submitted again.\<close>

lemma failed_upload_keeps_build_locked:
  "fst (run_each [submit_build no_input_env good_merge ''b'' None ''acme'' ''k'',
      submit_build page_env good_merge ''b'' None ''acme'' ''k''] (world_of ready_build)) =
     [Inl (HTTPExc 500 ''Document upload failed''),
      Inl (HTTPExc 400 ''Build has already been submitted for processing'')]"
  by code_simp

lemma rollback_leaves_page_stamps:
  "(let w = snd (submit_build page_env broken_merge ''b'' None ''acme'' ''k'' (world_of ready_build))
    in (fst (is_document_build_submitted page_env ''b'' w), locked (metadata_in mem_look w ''b''))) =
     (Inr True, False)"
  by code_simp

section \<open>Pages\<close>

definition page_step :: "tname \<Rightarrow> dict \<Rightarrow> dict option \<Rightarrow> dict option \<Rightarrow> bool" where
  "page_step T k x y =
     (T = DocumentBuildsT \<longrightarrow> (\<forall>it. x = Some it \<longrightarrow> has_key it ''buildId'' \<longrightarrow> y = Some it))"

lemma free_page: "free page_step DocumentMetadataT" "free page_step DocumentCategoriesT"
  by (simp_all add: free_def page_step_def)

sublocale service \<subseteq> pages: item_order look e page_step
  by unfold_locales (auto simp: page_step_def)

context service begin

lemma g_upsert_page: "guarantees (items_rel look page_step) (upsert_document_build_page e b n p name cat False)"
  unfolding upsert_document_build_page_def Let_def if_True simp_thms
  by (intro pages.order.g_rules pages.g_put_item) (auto simp: page_step_def)

lemma g_add_page:
  "guarantees (items_rel look page_step) (add_page_to_build e cd f b n ct t cat tr False)"
  unfolding add_page_to_build_def Let_def
  by (intro pages.order.g_rules pages.f_upload free_page g_upsert_page)

lemma g_pages_kept: "guarantees (items_rel look page_step) (get_document_build_pages e b)"
  unfolding get_document_build_pages_def query_items_for_build_def
  by (intro pages.order.g_rules pages.g_query_by_pk)

lemma g_upload_in_order:
  "guarantees (items_rel look page_step) (upload_in_order e cd b t cat tr n fs)"
proof (induction fs arbitrary: n)
  case (Cons f fs)
  then show ?case by (cases f) (auto intro!: pages.order.g_bind g_add_page pages.order.g_ret)
qed (simp add: pages.order.g_ret)

lemma g_page_endpoint:
  "guarantees (items_rel look page_step) (upload_document_build_page e cd f b t n False cat tr)"
  unfolding upload_document_build_page_def by (intro pages.order.g_rules g_pages_kept g_add_page)

lemma g_batch_endpoint:
  "guarantees (items_rel look page_step) (upload_document_build_pages_batch e cd fs b t cat tr)"
  unfolding upload_document_build_pages_batch_def
  by (intro pages.order.g_rules g_pages_kept g_upload_in_order)

end

text \<open>C31: Uploads that do not ask to overwrite never touch a row that is there: whatever fails, and
  with whatever page numbers, one page or a batch, every existing row of every build is the same
  afterwards.\<close>

theorem pages_never_overwritten:
  assumes "ddb_laws look (client e)"
    and "item_in look w DocumentBuildsT k = Some it" "has_key it ''buildId''"
  shows "item_in look (snd (upload_document_build_page e cd f b t n False cat tr w)) DocumentBuildsT k = Some it \<and>
    item_in look (snd (upload_document_build_pages_batch e cd fs b t cat tr w)) DocumentBuildsT k = Some it"
  using service.g_page_endpoint [OF serviceI [OF assms(1)], of cd f b t n cat tr]
    service.g_batch_endpoint [OF serviceI [OF assms(1)], of cd fs b t cat tr] assms(2,3)
  by (auto simp: guarantees_def items_rel_def page_step_def)

lemma pages_never_overwritten_witness:
  "item_in mem_look (snd (upload_document_build_page page_env good_merge
     \<lparr>up_filename = Some ''q.pdf'', up_size = None, up_content_type = None, up_bytes = ''%PDF-2''\<rparr>
     ''b'' ''acme'' (Some 1) False None None (world_of ready_build))) DocumentBuildsT (page_key ''b'' 1) =
   item_in mem_look (world_of ready_build) DocumentBuildsT (page_key ''b'' 1)"
proof -
  let ?row = "page_row base_env ''b'' 1 ''pages/acme/b-page-1.pdf'' (Some ''p.pdf'') None"
  have a: "ddb_laws mem_look (client page_env)" using mem_laws by (simp add: page_env_def)
  have b: "item_in mem_look (world_of ready_build) DocumentBuildsT (page_key ''b'' 1) = Some ?row"
    by (simp add: item_in_def mem_look_def world_of_def ready_build_def page_key_def)
  have c: "has_key ?row ''buildId''" by (simp add: page_row_def has_key_def)
  show ?thesis
    unfolding b by (rule pages_never_overwritten [OF a b c, THEN conjunct1])
qed

text \<open>The bytes of the page are not as lucky: they are uploaded under a name made of the build and the
  page number before the row is written, so a refused upload has replaced the object.\<close>

lemma refused_page_replaces_object:
  "(case upload_document_build_page page_env good_merge
      \<lparr>up_filename = Some ''q.pdf'', up_size = None, up_content_type = None, up_bytes = ''%PDF-2''\<rparr>
      ''b'' ''acme'' (Some 1) False None None (world_of ready_build) of
    (r, w) \<Rightarrow> (r, map (\<lambda>op. case op of S3Put b k body ct m \<Rightarrow> (b, k, body) | _ \<Rightarrow> ([], [], PNone)) (s3_writes w))) =
   (Inl (HTTPExc 409 ''Page already exists''), [(''pre'', ''pages/acme/b-page-1.pdf'', PStr ''%PDF-2'')])"
  by code_simp

end
