(* ===== verification/Lifecycle.thy ===== *)
theory Lifecycle
  imports Uploads
begin

text \<open>
  The second half of \<open>pipeline/document_lifecycle.py\<close>: the checks before extraction (password,
  sampling, blur, preclassification, blueprint match) and the record they leave.  What the
  analysers say of the bytes of a document (pypdf, Textract, Bedrock) is the record \<open>analysers\<close>.
\<close>

section \<open>Analysers\<close>

record blur_result =
  bl_is_blurry :: bool
  bl_is_not_document :: bool
  bl_analysis_failed :: bool
  bl_avg_confidence :: "rat option"
  bl_word_count :: "nat option"
  bl_llm_checked :: bool
  bl_quadrant_stats :: "dict option"
  bl_reason_text :: "string option"
  bl_duration_seconds :: "rat option"

record analysers =
  an_page_count :: "string \<Rightarrow> nat option"
  an_password_protected :: "string \<Rightarrow> bool"
  an_detect_blur :: "string \<Rightarrow> string \<Rightarrow> exn + blur_result"
  an_preclassify :: "string \<Rightarrow> string \<Rightarrow> string option \<Rightarrow> exn + bedrock_result"
  an_find_blueprint :: "string \<Rightarrow> string \<Rightarrow> exn + match_result"
  an_random :: rat
  an_traceparent :: "string option"

section \<open>Blur\<close>

definition blur_detection_disabled :: string where
  "blur_detection_disabled = ''Blur detection is not enabled.''"

definition blur_not_a_document :: string where
  "blur_not_a_document = ''Blur check was skipped - insufficient text detected to evaluate.''"

definition blur_skip_from_status :: "process_status \<Rightarrow> string option" where
  "blur_skip_from_status st =
     (if st = PS_PASSWORD_PROTECTED
      then Some ''Blur check was not performed - document is password protected.''
      else if st = PS_PROCESSING_EXCLUDED
      then Some ''Blur check was not performed - document was excluded from processing.''
      else None)"

definition no_blur :: blur_result where
  "no_blur = \<lparr>bl_is_blurry = False, bl_is_not_document = False, bl_analysis_failed = False,
     bl_avg_confidence = None, bl_word_count = None, bl_llm_checked = False,
     bl_quadrant_stats = None, bl_reason_text = None, bl_duration_seconds = None\<rparr>"

text \<open>The outcome: the blur result, and a final status with its response code when it rejects.\<close>

definition get_blur_outcome ::
  "'t env \<Rightarrow> analysers \<Rightarrow> string \<Rightarrow> string \<Rightarrow> exn + (blur_result \<times> (process_status \<times> string) option)"
where
  "get_blur_outcome e an file_bytes content_type =
     (let enforced = feature_flag e ''enforce-blur-rejection'' in
      if \<not> feature_flag e ''enable-blur-detection''
      then Inr (no_blur\<lparr>bl_reason_text := Some blur_detection_disabled\<rparr>, None)
      else (case an_detect_blur an file_bytes content_type of
              Inl x \<Rightarrow> Inl x
            | Inr b0 \<Rightarrow>
                (let b = (if bl_is_not_document b0
                          then b0\<lparr>bl_reason_text := Some blur_not_a_document\<rparr> else b0)
                 in Inr (b, if bl_is_not_document b \<and> enforced
                            then Some (PS_NO_DOCUMENT_DETECTED, RC_NO_DOCUMENT_DETECTED)
                            else if bl_is_blurry b \<and> enforced
                            then Some (PS_BLURRY_DOCUMENT_DETECTED, RC_BLURRY_DOCUMENT_DETECTED)
                            else None))))"

section \<open>Preclassification\<close>

record preclass_outcome =
  po_process_status :: process_status
  po_response_code :: string
  po_pre_classification :: "preclassification_fields option"
  po_is_identity_document :: bool

definition grayscale_convertible :: "string list" where
  "grayscale_convertible = [''image/jpeg'', ''image/png'']"

definition ready_status :: "string \<Rightarrow> process_status" where
  "ready_status content_type =
     (if content_type \<in> set grayscale_convertible then PS_PENDING_IMAGE_OPTIMIZATION else PS_NOT_STARTED)"

definition no_match :: match_result where
  "no_match = \<lparr>mr_matched_document_type = None, mr_confidence = 0, mr_category = None,
     mr_input_tokens = None, mr_output_tokens = None, mr_duration_seconds = None\<rparr>"

definition blueprint_disabled :: "dict option \<Rightarrow> string \<Rightarrow> bool" where
  "blueprint_disabled tenant t =
     (case (if present tenant then dget (opt_default [] tenant) ''disabledBlueprintList'' else PNone) of
        PList vs \<Rightarrow> PStr t \<in> set vs
      | PStr s \<Rightarrow> s \<noteq> [] \<and> contains_sub t s
      | _ \<Rightarrow> False)"

definition run_preclassification ::
  "'t env \<Rightarrow> analysers \<Rightarrow> string \<Rightarrow> string \<Rightarrow> string option \<Rightarrow> nat option \<Rightarrow> string option \<Rightarrow>
   ('t, preclass_outcome) wprog"
where
  "run_preclassification e an file_bytes content_type category pages tenant_id =
     (case an_preclassify an file_bytes content_type (if truthy_str category then category else None) of
        Inl x \<Rightarrow> ret \<lparr>po_process_status = ready_status content_type, po_response_code = RC_SUCCESS,
                      po_pre_classification = None, po_is_identity_document = False\<rparr>
      | Inr c \<Rightarrow>
          if 1 < br_max_document_count_on_page c then
            ret \<lparr>po_process_status = PS_MULTIPLE_DOCUMENTS_ON_SINGLE_PAGE,
                 po_response_code = RC_MULTIPLE_DOCUMENTS_ON_SINGLE_PAGE,
                 po_pre_classification = Some (from_results c None), po_is_identity_document = False\<rparr>
          else if (case pages of None \<Rightarrow> False | Some n \<Rightarrow> 1 < n) \<and> br_has_multipage_inconsistency c \<and>
                  feature_flag e ''flag-multiple-documents-in-multipage'' then
            ret \<lparr>po_process_status = PS_MULTIPLE_DOCUMENTS_IN_MULTIPAGE,
                 po_response_code = RC_MULTIPLE_DOCUMENTS_IN_MULTIPAGE,
                 po_pre_classification = Some (from_results c None), po_is_identity_document = False\<rparr>
          else
            (let m = (case an_find_blueprint an file_bytes content_type of Inl x \<Rightarrow> no_match | Inr m \<Rightarrow> m);
                 go = \<lparr>po_process_status = ready_status content_type, po_response_code = RC_SUCCESS,
                       po_pre_classification = Some (from_results c (Some m)),
                       po_is_identity_document = br_is_identity_document c\<rparr>
             in if truthy_str (mr_matched_document_type m) \<and> truthy_str tenant_id then
                  bindP (get_tenant e (opt_default [] tenant_id)) (\<lambda>tenant.
                    if blueprint_disabled tenant (opt_default [] (mr_matched_document_type m))
                    then ret \<lparr>po_process_status = PS_BLUEPRINT_DISABLED,
                              po_response_code = RC_BLUEPRINT_DISABLED,
                              po_pre_classification = Some (from_results c (Some m)),
                              po_is_identity_document = False\<rparr>
                    else ret go)
                else ret go))"

section \<open>The record before extraction\<close>

text \<open>The only caller passes the bytes, the type and the size it has fetched.\<close>

record initial_request =
  iq_ddb_key :: string
  iq_original_file_name :: string
  iq_tenant_id :: "string option"
  iq_upload_date :: "string option"
  iq_category :: "string option"
  iq_job_id :: "string option"
  iq_trace_id :: "string option"
  iq_batch_id :: "string option"
  iq_started_at :: pyval
  iq_is_cold_start :: "bool option"
  iq_file_bytes :: string
  iq_content_type :: string
  iq_file_size_bytes :: nat
  iq_fetch_duration :: "rat option"

text \<open>What the checks found.\<close>

record findings =
  fi_status :: process_status
  fi_code :: string
  fi_blur :: "blur_result option"
  fi_pre :: "preclassification_fields option"
  fi_identity :: bool
  fi_percentage :: "rat option"
  fi_assigned :: "rat option"

definition rejected :: "process_status \<Rightarrow> string \<Rightarrow> rat option \<Rightarrow> rat option \<Rightarrow> findings" where
  "rejected st code percentage assigned =
     \<lparr>fi_status = st, fi_code = code, fi_blur = None, fi_pre = None, fi_identity = False,
      fi_percentage = percentage, fi_assigned = assigned\<rparr>"

definition count_for_batch :: "'t env \<Rightarrow> string option \<Rightarrow> ('t, unit) wprog" where
  "count_for_batch e batch_id =
     whenP (truthy_str batch_id) (increment_resolved_count e (opt_default [] batch_id))"

definition analyse ::
  "'t env \<Rightarrow> analysers \<Rightarrow> initial_request \<Rightarrow> rat option \<Rightarrow> rat option \<Rightarrow> ('t, findings) wprog" where
  "analyse e an q percentage assigned =
     bindP (lift_result (get_blur_outcome e an (iq_file_bytes q) (iq_content_type q))) (\<lambda>(b, verdict).
     bindP (run_preclassification e an (iq_file_bytes q) (iq_content_type q) (iq_category q)
              (an_page_count an (iq_file_bytes q)) (iq_tenant_id q)) (\<lambda>p.
       ret (case verdict of
              Some (st, code) \<Rightarrow>
                \<lparr>fi_status = st, fi_code = code, fi_blur = Some b, fi_pre = None, fi_identity = False,
                 fi_percentage = percentage, fi_assigned = assigned\<rparr>
            | None \<Rightarrow>
                \<lparr>fi_status = po_process_status p, fi_code = po_response_code p, fi_blur = Some b,
                 fi_pre = po_pre_classification p, fi_identity = po_is_identity_document p,
                 fi_percentage = percentage, fi_assigned = assigned\<rparr>)))"

definition examine :: "'t env \<Rightarrow> analysers \<Rightarrow> initial_request \<Rightarrow> ('t, findings) wprog" where
  "examine e an q =
     (if an_password_protected an (iq_file_bytes q) then
        thenP (count_for_batch e (iq_batch_id q))
          (ret (rejected PS_PASSWORD_PROTECTED RC_PASSWORD_PROTECTED None None))
      else
        bindP (is_selected_for_processing e (an_random an) (iq_tenant_id q) (iq_category q))
          (\<lambda>(selected, percentage, assigned).
          if \<not> selected then
            thenP (whenP (truthy_str (iq_tenant_id q) \<and> truthy_str (iq_upload_date q))
                     (decrement e (opt_default [] (iq_tenant_id q)) (opt_default [] (iq_upload_date q))))
            (thenP (count_for_batch e (iq_batch_id q))
               (ret (rejected PS_PROCESSING_EXCLUDED RC_PROCESSING_EXCLUDED percentage assigned)))
          else analyse e an q percentage assigned))"

definition continues :: "findings \<Rightarrow> bool" where
  "continues f = (is_pending_extraction (ps_value (fi_status f)) \<or> fi_identity f)"

definition record_of ::
  "analysers \<Rightarrow> initial_request \<Rightarrow> findings \<Rightarrow> internal_api_response option \<Rightarrow> initial_ddb_record" where
  "record_of an q f response =
     (initial_record (iq_ddb_key q) (iq_original_file_name q))
       \<lparr>in_user_provided_document_category := iq_category q,
        in_process_status := fi_status f,
        in_internal_api_response := response,
        in_file_size_bytes := Some (iq_file_size_bytes q),
        in_content_type := Some (iq_content_type q),
        in_pages_detected := an_page_count an (iq_file_bytes q),
        in_job_id := iq_job_id q, in_trace_id := iq_trace_id q, in_batch_id := iq_batch_id q,
        in_is_document_blurry := (case fi_blur f of None \<Rightarrow> False | Some b \<Rightarrow> bl_is_blurry b),
        in_blur_analysis_failed := (case fi_blur f of None \<Rightarrow> False | Some b \<Rightarrow> bl_analysis_failed b),
        in_ocr_avg_word_confidence := Option.bind (fi_blur f) bl_avg_confidence,
        in_document_word_count := Option.bind (fi_blur f) bl_word_count,
        in_blur_llm_checked := (case fi_blur f of None \<Rightarrow> False | Some b \<Rightarrow> bl_llm_checked b),
        in_blur_quadrant_stats := Option.bind (fi_blur f) bl_quadrant_stats,
        in_blur_reason_text := (case fi_blur f of None \<Rightarrow> blur_skip_from_status (fi_status f)
                                | Some b \<Rightarrow> bl_reason_text b),
        in_blur_detection_duration_seconds := Option.bind (fi_blur f) bl_duration_seconds,
        in_is_password_protected := an_password_protected an (iq_file_bytes q),
        in_pre_classification := fi_pre f,
        in_document_processor_started_at := iq_started_at q,
        in_is_document_processor_cold_start := iq_is_cold_start q,
        in_processing_percentage := fi_percentage f,
        in_processing_assigned_value := fi_assigned f,
        in_s3_fetch_duration_seconds := iq_fetch_duration q,
        in_traceparent := an_traceparent an\<rparr>"

text \<open>The result is \<open>None\<close> for a final status, and otherwise whether the bounding box was asked for
  and whether the document is an identity document.\<close>

definition upsert_initial_ddb_record ::
  "'t env \<Rightarrow> analysers \<Rightarrow> initial_request \<Rightarrow> ('t, (bool \<times> bool) option) wprog" where
  "upsert_initial_ddb_record e an q =
     bindP (examine e an q) (\<lambda>f.
     bindP (if continues f then ret None
            else bindP (get_internal_api_response e (iq_ddb_key q) (fi_code f) None (iq_category q))
                   (\<lambda>r. ret (Some r))) (\<lambda>response.
     thenP (upsert_ddb e (record_of an q f response))
       (if continues f
        then ret (Some (is_pending_extraction (ps_value (fi_status f)), fi_identity f))
        else thenP (finalize_v1_response e (iq_ddb_key q) (fi_status f) None None) (ret None))))"

end
