(* ===== verification/Doc_Processor.thy ===== *)
theory Doc_Processor
  imports Lifecycle
begin

text \<open>
  \<open>jobs/document_processor/main.py\<close> with \<open>utils/bda_invoker.py\<close>, \<open>utils/image_optimization.py\<close>,
  \<open>pipeline/textract.py\<close>, \<open>processors/textract.py\<close> and \<open>extractors/textract.py\<close>: from the upload of a
  document to the engine that extracts it.  The engines and the image library are the record
  \<open>engines\<close>; what is asked of them is recorded in \<open>invocations\<close>.
\<close>

section \<open>Engines\<close>

record bbox_result =
  bx_box :: "(rat \<times> rat \<times> rat \<times> rat) option"
  bx_input_tokens :: "nat option"
  bx_output_tokens :: "nat option"
  bx_model_id :: "string option"
  bx_duration :: "rat option"

record s3_document =
  sd_metadata :: dict
  sd_content_type :: string
  sd_size :: nat
  sd_bytes :: string

record engines =
  en_fetch :: "string \<Rightarrow> string \<Rightarrow> exn + s3_document"
  en_bbox :: "string \<Rightarrow> string \<Rightarrow> exn + bbox_result option"
  en_image_size :: "string \<Rightarrow> exn + (int \<times> int)"
  en_crop :: "string \<Rightarrow> int \<times> int \<times> int \<times> int \<Rightarrow> exn + string"
  en_gray_jpeg :: "string \<Rightarrow> exn + string"
  en_gray_pdf :: "string \<Rightarrow> exn + string"
  en_truncate :: "nat \<Rightarrow> string \<Rightarrow> exn + string"
  en_ocr_blocks :: "string \<Rightarrow> exn + pyval"
  en_analyze_id :: "string \<Rightarrow> exn + dict"
  en_identity_fields :: "dict \<Rightarrow> (string \<times> dict) option"
  en_supplement :: "string \<Rightarrow> dict \<Rightarrow> dict"
  en_project_arns :: "(string \<times> string) list"
  en_default_project :: "string option"
  en_profile_arn :: "exn + string"
  en_invoke :: "nat \<Rightarrow> string \<Rightarrow> string \<Rightarrow> string \<Rightarrow> exn + string"
  en_max_attempts :: nat
  en_elapsed :: rat
  en_ocr_queue_url :: "string option"

definition invoked :: "string \<Rightarrow> pyval \<Rightarrow> ('t, unit) wprog" where
  "invoked engine what = modifies (\<lambda>w. w\<lparr>invocations := invocations w @ [(engine, what)]\<rparr>)"

section \<open>Preclassification\<close>

record preclassified =
  pp_record :: dict
  pp_result :: "(bool \<times> bool) option"
  pp_tenant_id :: "string option"

definition needs_preclassification :: "dict option \<Rightarrow> bool" where
  "needs_preclassification existing =
     (case existing of None \<Rightarrow> True
      | Some r \<Rightarrow>
          is_awaiting_processing (opt_default [] (to_opt_str (dget_default r ''processStatus'' (PStr [])))) \<and>
          \<not> has_key r ''preclassificationCategory'')"

definition upload_date_of :: "dict option \<Rightarrow> string option" where
  "upload_date_of existing =
     (case existing of None \<Rightarrow> None
      | Some r \<Rightarrow>
          (case map_of r ''createdAt'' of
             None \<Rightarrow> None
           | Some (PTime t) \<Rightarrow> Some (date_str t)
           | Some v \<Rightarrow> map_option strip_time (to_opt_str v)))"

definition preclassify_document ::
  "'t env \<Rightarrow> analysers \<Rightarrow> dict option \<Rightarrow> initial_request \<Rightarrow> ('t, preclassified) wprog" where
  "preclassify_document e an existing q =
     (let tenant_id = (if present existing then to_opt_str (dget (opt_default [] existing) ''tenantId'') else None)
      in if \<not> needs_preclassification existing
         then ret \<lparr>pp_record = opt_default [] existing, pp_result = None, pp_tenant_id = tenant_id\<rparr>
         else
           bindP (upsert_initial_ddb_record e an
                    (q\<lparr>iq_tenant_id := tenant_id, iq_upload_date := upload_date_of existing\<rparr>)) (\<lambda>result.
           bindP (get_ddb_record e (iq_ddb_key q)) (\<lambda>updated.
             case updated of
               None \<Rightarrow> raise (OtherExc ''Could not retrieve DDB record after upsert'')
             | Some r \<Rightarrow> ret \<lparr>pp_record = r, pp_result = result, pp_tenant_id = tenant_id\<rparr>)))"

section \<open>Image optimisation\<close>

record crop_result =
  cr_bounding_box :: "(rat \<times> rat \<times> rat \<times> rat) option"
  cr_retained_percentage :: "rat option"
  cr_duration_seconds :: "rat option"
  cr_input_tokens :: "nat option"
  cr_output_tokens :: "nat option"
  cr_model_id :: "string option"

record optimization =
  op_crop :: crop_result
  op_grayscale_applied :: bool
  op_too_large :: bool
  op_file_size_bytes :: nat
  op_crop_block_duration :: "rat option"
  op_write_duration :: "rat option"

definition no_crop :: crop_result where
  "no_crop = \<lparr>cr_bounding_box = None, cr_retained_percentage = None, cr_duration_seconds = None,
     cr_input_tokens = None, cr_output_tokens = None, cr_model_id = None\<rparr>"

definition crop_of :: "bbox_result \<Rightarrow> crop_result" where
  "crop_of b = \<lparr>cr_bounding_box = None, cr_retained_percentage = None, cr_duration_seconds = bx_duration b,
     cr_input_tokens = bx_input_tokens b, cr_output_tokens = bx_output_tokens b,
     cr_model_id = bx_model_id b\<rparr>"

definition bda_max_image_size_bytes :: int where
  "bda_max_image_size_bytes = 5 * 1024 * 1024"

definition bda_max_document_file_size_bytes :: int where
  "bda_max_document_file_size_bytes = 524288000"

definition is_file_too_large_for_bda :: "string \<Rightarrow> nat \<Rightarrow> bool" where
  "is_file_too_large_for_bda content_type nbytes =
     (if content_type \<in> {''image/jpeg'', ''image/png''} then bda_max_image_size_bytes < int nbytes
      else if content_type \<in> {''application/pdf'', ''image/tiff''} then bda_max_document_file_size_bytes < int nbytes
      else bda_max_image_size_bytes < int nbytes)"

definition get_bbox_if_enabled :: "'t env \<Rightarrow> engines \<Rightarrow> string \<Rightarrow> string \<Rightarrow> exn + bbox_result option" where
  "get_bbox_if_enabled e en file_bytes content_type =
     (if \<not> feature_flag e ''document-crop'' \<or> \<not> starts_with ''image/'' content_type then Inr None
      else en_bbox en file_bytes content_type)"

definition retained_percentage :: "rat \<times> rat \<times> rat \<times> rat \<Rightarrow> rat" where
  "retained_percentage = (\<lambda>(x1, y1, x2, y2). py_round2 ((x2 - x1) * (y2 - y1) / 1000000 * 100))"

text \<open>\<open>int(x)\<close> of a float drops the fraction; coordinates are exact rationals here.\<close>

definition py_int :: "rat \<Rightarrow> int" where
  "py_int x = (if x < 0 then - \<lfloor>- x\<rfloor> else \<lfloor>x\<rfloor>)"

definition covers_frame :: "rat \<times> rat \<times> rat \<times> rat \<Rightarrow> bool" where
  "covers_frame = (\<lambda>(x1, y1, x2, y2). 3 / 4 \<le> (x2 - x1) * (y2 - y1) / 1000000)"

definition pixel_box :: "int \<Rightarrow> int \<Rightarrow> rat \<times> rat \<times> rat \<times> rat \<Rightarrow> int \<times> int \<times> int \<times> int" where
  "pixel_box width height = (\<lambda>(x1, y1, x2, y2).
     let pad_x = (x2 - x1) * (3 / 100); pad_y = (y2 - y1) * (3 / 100) in
       (max 0 (py_int ((x1 - pad_x) / 1000 * of_int width)),
        max 0 (py_int ((y1 - pad_y) / 1000 * of_int height)),
        min width (py_int ((x2 + pad_x) / 1000 * of_int width)),
        min height (py_int ((y2 + pad_y) / 1000 * of_int height))))"

definition crop_image_to_bbox :: "engines \<Rightarrow> string \<Rightarrow> rat \<times> rat \<times> rat \<times> rat \<Rightarrow> exn + string" where
  "crop_image_to_bbox en image_bytes box =
     (case en_image_size en image_bytes of
        Inl x \<Rightarrow> Inl (ValueErr ''Image crop failed'')
      | Inr (width, height) \<Rightarrow>
          if covers_frame box then Inr image_bytes
          else
            (case pixel_box width height box of (left, upper, right, lower) \<Rightarrow>
               if right \<le> left \<or> lower \<le> upper then Inl (ValueErr ''Image crop failed'')
               else
                 (case en_crop en image_bytes (left, upper, right, lower) of
                    Inl x \<Rightarrow> Inl (ValueErr ''Image crop failed'')
                  | Inr cropped \<Rightarrow> Inr cropped)))"

text \<open>The crop, best effort: the bytes after it, the crop result and whether the bytes changed.\<close>

definition crop_step ::
  "'t env \<Rightarrow> engines \<Rightarrow> string \<Rightarrow> string \<Rightarrow> bbox_result option \<Rightarrow> string \<times> crop_result \<times> bool" where
  "crop_step e en file_bytes content_type precomputed =
     (if \<not> starts_with ''image/'' content_type then (file_bytes, no_crop, False)
      else
        (case (case precomputed of Some b \<Rightarrow> Inr (Some b)
               | None \<Rightarrow> get_bbox_if_enabled e en file_bytes content_type) of
           Inl x \<Rightarrow> (file_bytes, no_crop, False)
         | Inr None \<Rightarrow> (file_bytes, no_crop, False)
         | Inr (Some b) \<Rightarrow>
             (case bx_box b of
                None \<Rightarrow> (file_bytes, crop_of b, False)
              | Some box \<Rightarrow>
                  (case crop_image_to_bbox en file_bytes box of
                     Inl x \<Rightarrow> (file_bytes, crop_of b, False)
                   | Inr cropped \<Rightarrow>
                       (cropped, (crop_of b)\<lparr>cr_bounding_box := Some box,
                          cr_retained_percentage := Some (retained_percentage box)\<rparr>, True)))))"

text \<open>\<open>None\<close> is the identity test of the caller: nothing was converted.\<close>

definition convert_to_grayscale :: "engines \<Rightarrow> string \<Rightarrow> string \<Rightarrow> (string \<times> string) option" where
  "convert_to_grayscale en file_bytes content_type =
     (if content_type \<notin> set grayscale_convertible then None
      else
        (case en_gray_jpeg en file_bytes of
           Inl x \<Rightarrow> None
         | Inr jpeg \<Rightarrow>
             if bda_max_image_size_bytes < int (length jpeg) then
               (case en_gray_pdf en file_bytes of
                  Inl x \<Rightarrow> None
                | Inr pdf \<Rightarrow> Some (pdf, ''application/pdf''))
             else Some (jpeg, ''image/jpeg'')))"

definition grayscale_step :: "engines \<Rightarrow> bool \<Rightarrow> string \<Rightarrow> string \<Rightarrow> string \<times> string \<times> bool" where
  "grayscale_step en apply file_bytes content_type =
     (if apply then
        (case convert_to_grayscale en file_bytes content_type of
           None \<Rightarrow> (file_bytes, content_type, False)
         | Some (g, t) \<Rightarrow> (g, t, True))
      else (file_bytes, content_type, False))"

definition optimize_s3_image ::
  "'t env \<Rightarrow> engines \<Rightarrow> string \<Rightarrow> string \<Rightarrow> bool \<Rightarrow> string \<Rightarrow> string \<Rightarrow> bbox_result option \<Rightarrow>
   ('t, optimization) wprog"
where
  "optimize_s3_image e en bucket key apply file_bytes content_type precomputed =
     (case crop_step e en file_bytes content_type precomputed of (cropped_bytes, crop, cropped) \<Rightarrow>
      case grayscale_step en apply cropped_bytes content_type of (final_bytes, final_type, gray) \<Rightarrow>
        thenP (whenP (cropped \<or> gray) (put_object e bucket key (PStr final_bytes) (Some final_type)))
          (ret \<lparr>op_crop = crop, op_grayscale_applied = gray,
                op_too_large = is_file_too_large_for_bda final_type (length final_bytes),
                op_file_size_bytes = length final_bytes,
                op_crop_block_duration = Some (en_elapsed en),
                op_write_duration = (if cropped \<or> gray then Some (en_elapsed en) else None)\<rparr>))"

definition box_text :: "rat \<times> rat \<times> rat \<times> rat \<Rightarrow> pyval" where
  "box_text = (\<lambda>(x1, y1, x2, y2). PJson (PList [PNum x1, PNum y1, PNum x2, PNum y2]))"

definition optimization_fields ::
  "optimization \<Rightarrow> bool \<Rightarrow> nat option \<Rightarrow> (string \<times> pyval) list" where
  "optimization_fields opt grayscale nbytes =
     filter (\<lambda>(a, v). v \<noteq> PNone)
       [(''cropBoundingBox'', case cr_bounding_box (op_crop opt) of None \<Rightarrow> PNone | Some b \<Rightarrow> box_text b),
        (''cropRetainedPercentage'', of_opt_num (cr_retained_percentage (op_crop opt))),
        (''cropDurationSeconds'', of_opt_num (cr_duration_seconds (op_crop opt))),
        (''cropInputTokens'', of_opt_nat (cr_input_tokens (op_crop opt))),
        (''cropOutputTokens'', of_opt_nat (cr_output_tokens (op_crop opt))),
        (''cropModelId'', of_opt_str (cr_model_id (op_crop opt))),
        (''grayscaleConversion'', PBool grayscale),
        (''processedFileSizeBytes'', of_opt_nat nbytes),
        (''imageOptCropBlockDurationSeconds'', of_opt_num (op_crop_block_duration opt)),
        (''imageOptWriteDurationSeconds'', of_opt_num (op_write_duration opt))]"

definition persist_optimization_metrics ::
  "'t env \<Rightarrow> string \<Rightarrow> optimization \<Rightarrow> bool \<Rightarrow> nat option \<Rightarrow> ('t, unit) wprog" where
  "persist_optimization_metrics e ddb_key opt grayscale nbytes =
     thenP (execute_ddb_update e ddb_key (map (\<lambda>(a, v). USet a v) (optimization_fields opt grayscale nbytes)) CTrue)
       (case (cr_model_id (op_crop opt), cr_input_tokens (op_crop opt), cr_output_tokens (op_crop opt)) of
          (Some m, Some i, Some t) \<Rightarrow>
            if m \<noteq> [] then write_tokens_by_model e ddb_key m LU_CROP_DETECTION i t else ret ()
        | _ \<Rightarrow> ret ())"

section \<open>Invoking BDA\<close>

definition should_invoke_bda :: "'t env \<Rightarrow> string option \<Rightarrow> bool" where
  "should_invoke_bda e category =
     (truthy_str category \<and> category \<noteq> Some ''other_document'' \<or>
      \<not> feature_flag e ''skip-bda-if-unclassified'')"

definition resolve_project_arn :: "engines \<Rightarrow> string option \<Rightarrow> exn + (string option \<times> bool)" where
  "resolve_project_arn en category =
     (if truthy_str category then
        (case map_of (en_project_arns en) (opt_default [] category) of
           None \<Rightarrow> Inl (ValueErr ''No BDA project configured for preclassification category'')
         | Some arn \<Rightarrow> Inr (Some arn, True))
      else Inr (en_default_project en, False))"

definition max_pages_per_document :: nat where
  "max_pages_per_document = 5"

record bda_invocation =
  bv_arn :: string
  bv_project :: string
  bv_pages :: nat
  bv_specific :: bool

definition prepare_source ::
  "'t env \<Rightarrow> analysers \<Rightarrow> engines \<Rightarrow> string \<Rightarrow> string \<Rightarrow> ('t, string \<times> nat) wprog" where
  "prepare_source e an en bucket key =
     bindP (lift_result (get_file_bytes e bucket key)) (\<lambda>body.
       (case an_page_count an body of
          None \<Rightarrow> ret (key, 1)
        | Some n \<Rightarrow>
            if n = 0 then ret (key, 1)
            else if max_pages_per_document < n then
              bindP (lift_result (en_truncate en max_pages_per_document body)) (\<lambda>short.
              thenP (put_object e bucket (get_truncated_object_key key) (PStr short) None)
                (ret (get_truncated_object_key key, max_pages_per_document)))
            else ret (key, n)))"

definition invoke_bedrock_data_automation ::
  "'t env \<Rightarrow> analysers \<Rightarrow> engines \<Rightarrow> nat \<Rightarrow> string \<Rightarrow> string \<Rightarrow> string \<Rightarrow> string \<Rightarrow> string option \<Rightarrow>
   ('t, bda_invocation) wprog"
where
  "invoke_bedrock_data_automation e an en attempt bucket key tenant_id ddb_key category =
     bindP (lift_result (resolve_project_arn en category)) (\<lambda>(project, specific).
       case project of
         None \<Rightarrow> raise (ValueErr ''No default BDA project (BDA_PROJECT_ARN) is configured'')
       | Some arn \<Rightarrow>
           bindP (lift_result (en_profile_arn en)) (\<lambda>profile.
           bindP (lift_result (case output_location e of
                    None \<Rightarrow> Inl (ValueErr ''DOCUMENTAI_OUTPUT_LOCATION is not set'')
                  | Some loc \<Rightarrow> generate_s3_uri loc tenant_id ddb_key (em_value EM_BDA))) (\<lambda>output_uri.
           bindP (prepare_source e an en bucket key) (\<lambda>(source, pages).
           (let source_uri = ''s3://'' @ bucket @ ''/'' @ source in
            bindP (lift_result (en_invoke en attempt arn source_uri output_uri)) (\<lambda>invocation_arn.
            thenP (invoked ''bda'' (PStr source_uri))
              (ret \<lparr>bv_arn = invocation_arn, bv_project = arn, bv_pages = pages, bv_specific = specific\<rparr>)))))))"

definition is_retryable :: "exn \<Rightarrow> bool" where
  "is_retryable x = (case x of
     ClientErr code \<Rightarrow> code \<in> {''ThrottlingException'', ''ServiceUnavailableException''} | _ \<Rightarrow> False)"

definition bda_attempt ::
  "'t env \<Rightarrow> analysers \<Rightarrow> engines \<Rightarrow> nat \<Rightarrow> string \<Rightarrow> string \<Rightarrow> string \<Rightarrow> string \<Rightarrow> string option \<Rightarrow>
   ('t, string) wprog"
where
  "bda_attempt e an en attempt bucket key ddb_key tenant_id category =
     bindP (invoke_bedrock_data_automation e an en attempt bucket key tenant_id ddb_key category) (\<lambda>v.
     thenP (set_bda_processing_status_started e ddb_key
              \<lparr>bs_invocation_arn = bv_arn v, bs_project_arn = Some (bv_project v),
               bs_used_category_specific = bv_specific v, bs_pages_sent = Some (bv_pages v),
               bs_duration = Some (en_elapsed en), bs_retry_count = Some attempt\<rparr>)
       (ret (bv_arn v)))"

text \<open>\<open>Retrying\<close>: an attempt that fails with a retryable error is followed by another one until the
  attempts are used up; every other error passes.\<close>

fun bda_attempts ::
  "'t env \<Rightarrow> analysers \<Rightarrow> engines \<Rightarrow> nat \<Rightarrow> nat \<Rightarrow> string \<Rightarrow> string \<Rightarrow> string \<Rightarrow> string \<Rightarrow> string option \<Rightarrow>
   ('t, string) wprog"
where
  "bda_attempts e an en 0 attempt bucket key ddb_key tenant_id category =
     raise (RetryErr ''BDA invocation attempts exhausted'')"
| "bda_attempts e an en (Suc left) attempt bucket key ddb_key tenant_id category =
     catchP (bda_attempt e an en attempt bucket key ddb_key tenant_id category)
       (\<lambda>x. if is_retryable x
             then bda_attempts e an en left (Suc attempt) bucket key ddb_key tenant_id category
             else raise x)"

definition invoke_bda ::
  "'t env \<Rightarrow> analysers \<Rightarrow> engines \<Rightarrow> string \<Rightarrow> string \<Rightarrow> string \<Rightarrow> string \<Rightarrow> string option \<Rightarrow> string option \<Rightarrow>
   ('t, string) wprog"
where
  "invoke_bda e an en bucket key ddb_key tenant_id category batch_id =
     catchP (bda_attempts e an en (max 1 (en_max_attempts en)) 0 bucket key ddb_key tenant_id category)
       (\<lambda>x. case x of
          RetryErr m \<Rightarrow>
            thenP (classify_as_failed e ddb_key ''BDA invocation failed'' (info_data m) None batch_id)
              (raise x)
        | _ \<Rightarrow> raise x)"


section \<open>Textract\<close>

text \<open>\<open>write_extraction_output\<close> of \<open>utils/s3.py\<close>.\<close>

definition write_extraction_output ::
  "'t env \<Rightarrow> string \<Rightarrow> extract_method \<Rightarrow> string \<Rightarrow> pyval \<Rightarrow> ('t, string) wprog" where
  "write_extraction_output e tenant_id em file_name body =
     (if tenant_id = [] then raise (ValueErr ''tenant_id is required for extraction output'')
      else
        bindP (lift_result (case output_location e of
                 None \<Rightarrow> Inl (ValueErr ''DOCUMENTAI_OUTPUT_LOCATION is not set'')
               | Some loc \<Rightarrow> get_bucket_and_key loc (Some tenant_id)
                     (file_name @ ''/'' @ em_value em @ ''/result.json''))) (\<lambda>(bucket, key).
        thenP (put_object e bucket key body (Some ''application/json''))
          (ret (''s3://'' @ bucket @ ''/'' @ key))))"

definition extraction_body :: "string \<Rightarrow> dict \<Rightarrow> pyval" where
  "extraction_body source flds = PJson (PDict [(''source'', PStr source), (''fields'', PDict flds)])"

definition conf_of :: "pyval \<Rightarrow> rat" where
  "conf_of v = (case dget (as_dict v) ''confidence'' of PNum x \<Rightarrow> x | _ \<Rightarrow> 0)"

definition identity_result :: "string \<Rightarrow> dict \<Rightarrow> rat \<Rightarrow> rat \<Rightarrow> extraction_result" where
  "identity_result document_class flds started completed =
     \<lparr>er_document_type = Some document_class, er_output_uri = None,
      er_field_confidence_scores = map (\<lambda>(name, v). [(name, conf_of v)]) flds,
      er_processing_started_at = Some started, er_processing_completed_at = Some completed,
      er_processing_duration_seconds = Some (get_elapsed_time_seconds started completed),
      er_field_empty_list = map fst (filter (\<lambda>(name, v). \<not> truthy (dget (as_dict v) ''value'')) flds),
      er_field_missing_geometry_list = [], er_matched_blueprint_name = None,
      er_matched_blueprint_confidence = None\<rparr>"

definition started_at_of :: "'t env \<Rightarrow> dict option \<Rightarrow> exn + rat" where
  "started_at_of e r =
     (let v = dget (opt_default [] r) ''extractionStartedAt'' in
      if \<not> truthy v then Inr (now e)
      else (case v of PTime t \<Rightarrow> Inr t | _ \<Rightarrow> Inl (ValueErr ''Invalid isoformat string'')))"

definition analyze_identity ::
  "'t env \<Rightarrow> engines \<Rightarrow> string \<Rightarrow> string \<Rightarrow> ('t, (rat \<times> dict) option) wprog" where
  "analyze_identity e en file_bytes ddb_key =
     catchP
       (bindP (get_ddb_record e ddb_key) (\<lambda>r.
        bindP (lift_result (started_at_of e r)) (\<lambda>started.
        bindP (lift_result (en_analyze_id en file_bytes)) (\<lambda>response.
          thenP (invoked ''textract'' (PStr ddb_key)) (ret (Some (started, response)))))))
       (\<lambda>x. ret None)"

definition extract_textract_identity ::
  "'t env \<Rightarrow> engines \<Rightarrow> string \<Rightarrow> string \<Rightarrow> string \<Rightarrow> ('t, (extraction_result \<times> pyval) option) wprog"
where
  "extract_textract_identity e en content_type file_bytes ddb_key =
     (if \<not> feature_flag e ''textract-identity-enabled'' then ret None
      else if content_type \<notin> {''image/jpeg'', ''image/png'', ''application/pdf''} then ret None
      else
        bindP (analyze_identity e en file_bytes ddb_key) (\<lambda>found.
          case found of
            None \<Rightarrow> ret None
          | Some (started, response) \<Rightarrow>
              (case en_identity_fields en response of
                 None \<Rightarrow> ret None
               | Some (document_class, flds0) \<Rightarrow>
                   if flds0 = [] then ret None
                   else
                     (let flds = en_supplement en document_class flds0 in
                      thenP (set_extract_method e ddb_key EM_TEXTRACT (PTime started))
                        (ret (Some (identity_result document_class flds started (now e),
                                    extraction_body ''textract'' flds)))))))"

definition process_textract_result ::
  "'t env \<Rightarrow> string \<Rightarrow> pyval \<Rightarrow> string option \<Rightarrow> ('t, string \<times> string) wprog" where
  "process_textract_result e ddb_key body tenant_id =
     bindP (if truthy_str tenant_id then ret tenant_id
            else bindP (get_ddb_record e ddb_key) (\<lambda>r.
              ret (to_opt_str (dget (opt_default [] r) ''tenantId'')))) (\<lambda>tenant.
       if \<not> truthy_str tenant then raise (ValueErr ''tenant_id is required for Textract extraction'')
       else bindP (write_extraction_output e (opt_default [] tenant) EM_TEXTRACT ddb_key body) (\<lambda>uri.
         ret (opt_default [] tenant, uri)))"

definition run_textract_pipeline ::
  "'t env \<Rightarrow> engines \<Rightarrow> string \<Rightarrow> string \<Rightarrow> string \<Rightarrow> string option \<Rightarrow> string option \<Rightarrow> ('t, bool) wprog"
where
  "run_textract_pipeline e en ddb_key content_type file_bytes tenant_id batch_id =
     bindP (extract_textract_identity e en content_type file_bytes ddb_key) (\<lambda>found.
       case found of
         None \<Rightarrow> ret False
       | Some (result, body) \<Rightarrow>
           bindP (process_textract_result e ddb_key body tenant_id) (\<lambda>(tenant, uri).
           thenP
             (catchP (classify_extraction_result e ddb_key result (Some uri) (Some tenant) batch_id None
                        EM_TEXTRACT)
                (\<lambda>x. raise (RuntimeErr ''Extraction succeeded but failed to persist result'')))
             (ret True)))"

definition invoke_textract_if_identity_path ::
  "'t env \<Rightarrow> engines \<Rightarrow> (bool \<times> bool) option \<Rightarrow> string \<Rightarrow> string \<Rightarrow> string \<Rightarrow> string \<Rightarrow> string option \<Rightarrow>
   ('t, bool) wprog"
where
  "invoke_textract_if_identity_path e en result ddb_key content_type file_bytes tenant_id batch_id =
     (if (case result of None \<Rightarrow> True | Some (b, identity) \<Rightarrow> \<not> identity) then ret False
      else if content_type = [] \<or> file_bytes = [] then ret False
      else catchP (run_textract_pipeline e en ddb_key content_type file_bytes (Some tenant_id) batch_id)
             (\<lambda>x. ret False))"

section \<open>OCR mapping\<close>

record ocr_mapping_message =
  om_ddb_key :: string
  om_document_type :: string
  om_ocr_blocks_uri :: string
  om_tenant_id :: "string option"
  om_batch_id :: "string option"

definition ocr_message_to_dict :: "ocr_mapping_message \<Rightarrow> dict" where
  "ocr_message_to_dict m =
     [(''ddb_key'', PStr (om_ddb_key m)), (''document_type'', PStr (om_document_type m)),
      (''ocr_blocks_uri'', PStr (om_ocr_blocks_uri m)), (''tenant_id'', of_opt_str (om_tenant_id m)),
      (''batch_id'', of_opt_str (om_batch_id m))]"

definition required_str :: "dict \<Rightarrow> string \<Rightarrow> exn + string" where
  "required_str d a =
     (case map_of d a of None \<Rightarrow> Inl (KeyErr a) | Some v \<Rightarrow> Inr (opt_default [] (to_opt_str v)))"

definition ocr_message_from_dict :: "dict \<Rightarrow> exn + ocr_mapping_message" where
  "ocr_message_from_dict d =
     (case required_str d ''ddb_key'' of Inl x \<Rightarrow> Inl x
      | Inr k \<Rightarrow>
          (case required_str d ''document_type'' of Inl x \<Rightarrow> Inl x
           | Inr t \<Rightarrow>
               (case required_str d ''ocr_blocks_uri'' of Inl x \<Rightarrow> Inl x
                | Inr u \<Rightarrow> Inr \<lparr>om_ddb_key = k, om_document_type = t, om_ocr_blocks_uri = u,
                                om_tenant_id = to_opt_str (dget d ''tenant_id''),
                                om_batch_id = to_opt_str (dget d ''batch_id'')\<rparr>)))"

definition enqueue_ocr_mapping ::
  "'t env \<Rightarrow> engines \<Rightarrow> string \<Rightarrow> string \<Rightarrow> string \<Rightarrow> string \<Rightarrow> string option \<Rightarrow> ('t, unit) wprog"
where
  "enqueue_ocr_mapping e en ddb_key document_type file_bytes tenant_id batch_id =
     (if \<not> truthy_str (output_location e) then ret ()
      else
        bindP (lift_result (parse_s3_uri (opt_default [] (output_location e)))) (\<lambda>(bucket, prefix).
        bindP (lift_result (en_truncate en 1 file_bytes)) (\<lambda>first_page.
        bindP (lift_result (en_ocr_blocks en first_page)) (\<lambda>blocks.
        (let key = prefix @ ''/ocr-mapping/ocr/'' @ ddb_key @ ''.json'' in
         thenP (put_object e bucket key (PJson blocks) (Some ''application/json''))
           (if \<not> truthy_str (en_ocr_queue_url en) then ret ()
            else send_message e (opt_default [] (en_ocr_queue_url en))
              (PJson (PDict (ocr_message_to_dict
                 \<lparr>om_ddb_key = ddb_key, om_document_type = document_type,
                  om_ocr_blocks_uri = ''s3://'' @ bucket @ ''/'' @ key, om_tenant_id = Some tenant_id,
                  om_batch_id = batch_id\<rparr>)))))))))"

definition invoke_ocr_mapping_path ::
  "'t env \<Rightarrow> engines \<Rightarrow> string \<Rightarrow> dict \<Rightarrow> string \<Rightarrow> string \<Rightarrow> string option \<Rightarrow> ('t, unit) wprog"
where
  "invoke_ocr_mapping_path e en ddb_key existing file_bytes tenant_id batch_id =
     (let document_type = dget existing ''preclassificationBlueprintMatchedType'' in
      if \<not> truthy document_type \<or>
         (\<not> feature_flag e ''ocr-mapping-enabled'' \<and>
          \<not> truthy (dget_default existing ''isCompare'' (PBool False)))
      then ret ()
      else catchP (enqueue_ocr_mapping e en ddb_key (opt_default [] (to_opt_str document_type)) file_bytes
                     tenant_id batch_id)
             (\<lambda>x. ret ()))"

section \<open>The BDA path and the dispatch\<close>

record dispatch_request =
  dq_bucket :: string
  dq_key :: string
  dq_ddb_key :: string
  dq_content_type :: string
  dq_bytes :: string
  dq_batch_id :: "string option"

text \<open>The bounding box was asked for while the document was preclassified, if at all.\<close>

definition awaited_bbox ::
  "'t env \<Rightarrow> engines \<Rightarrow> dispatch_request \<Rightarrow> bool \<Rightarrow> exn + bbox_result option" where
  "awaited_bbox e en q asked =
     (if asked then get_bbox_if_enabled e en (dq_bytes q) (dq_content_type q) else Inr None)"

definition invoke_bda_path ::
  "'t env \<Rightarrow> analysers \<Rightarrow> engines \<Rightarrow> dispatch_request \<Rightarrow> dict \<Rightarrow> bool \<Rightarrow> bool \<Rightarrow> string \<Rightarrow> ('t, unit) wprog"
where
  "invoke_bda_path e an en q existing asked apply_grayscale tenant_id =
     (let document_type = to_opt_str (dget existing ''preclassificationCategory'');
          routing_category = to_opt_str (dget existing ''preclassificationBlueprintMatchCategory'');
          k = dq_ddb_key q; batch = dq_batch_id q
      in bindP (lift_result (awaited_bbox e en q asked)) (\<lambda>precomputed.
         bindP (optimize_s3_image e en (dq_bucket q) (dq_key q) apply_grayscale (dq_bytes q)
                  (if dq_content_type q = [] then ''application/octet-stream'' else dq_content_type q)
                  precomputed) (\<lambda>opt.
         if apply_grayscale \<and> op_too_large opt then
           thenP (persist_optimization_metrics e k opt False None)
           (thenP (classify_as_not_implemented e k (info_data ''File too large after conversion'') batch)
              (ret ()))
         else
           thenP (persist_optimization_metrics e k opt (op_grayscale_applied opt)
                    (Some (op_file_size_bytes opt)))
           (if \<not> should_invoke_bda e document_type then
              thenP (classify_as_extraction_not_configured e k
                       (info_data ''Preclassified as other_document; BDA skipped per feature flag'') batch)
                (ret ())
            else
              bindP (lift_result (resolve_project_arn en routing_category)) (\<lambda>(project, specific).
                if project = None then
                  thenP (classify_as_no_custom_blueprint_matched e k
                           (info_data ''No category matched by blueprint matching and no default BDA project configured; BDA skipped'')
                           None batch EM_BDA)
                    (ret ())
                else
                  thenP (invoke_bda e an en (dq_bucket q) (dq_key q) k tenant_id routing_category batch)
                    (ret ()))))))"

definition dispatch_claimed ::
  "'t env \<Rightarrow> analysers \<Rightarrow> engines \<Rightarrow> dispatch_request \<Rightarrow> dict \<Rightarrow> (bool \<times> bool) option \<Rightarrow> bool \<Rightarrow> string \<Rightarrow>
   ('t, unit) wprog"
where
  "dispatch_claimed e an en q existing result apply_grayscale tenant_id =
     thenP (invoke_ocr_mapping_path e en (dq_ddb_key q) existing (dq_bytes q) tenant_id (dq_batch_id q))
       (bindP (invoke_textract_if_identity_path e en result (dq_ddb_key q) (dq_content_type q) (dq_bytes q)
                 tenant_id (dq_batch_id q)) (\<lambda>handled.
          if handled then ret ()
          else invoke_bda_path e an en q existing
                 (case result of None \<Rightarrow> False | Some (asked, identity) \<Rightarrow> asked) apply_grayscale tenant_id))"

definition dispatch_document_processor ::
  "'t env \<Rightarrow> codecs \<Rightarrow> analysers \<Rightarrow> engines \<Rightarrow> dispatch_request \<Rightarrow> string option \<Rightarrow> dict \<Rightarrow>
   (bool \<times> bool) option \<Rightarrow> string option \<Rightarrow> ('t, unit) wprog"
where
  "dispatch_document_processor e cd an en q status existing result tenant_id =
     (let k = dq_ddb_key q; batch = dq_batch_id q in
      if dget existing ''aiConsentFlag'' = PBool False then
        thenP (classify_as_ai_consent_declined e k batch) (ret ())
      else if \<not> (truthy_str status \<and> is_awaiting_processing (opt_default [] status)) then ret ()
      else
        (case validate_s3_object_is_bda_native e cd (dq_bucket q) (dq_key q) of
           Inl (ValueErr m) \<Rightarrow>
             thenP (classify_as_failed e k ''Uploaded file content is not a supported document type''
                      (info_data m) None batch)
               (ret ())
         | Inl x \<Rightarrow> raise x
         | Inr t \<Rightarrow>
             if \<not> truthy_str tenant_id then
               thenP (classify_as_failed e k ''tenant_id is required for document processing''
                        (info_data ''Missing tenant_id'') None batch)
                 (ret ())
             else
               bindP (set_processing_status_started e k (opt_default [] status)) (\<lambda>claimed.
                 if \<not> claimed then ret ()
                 else dispatch_claimed e an en q existing result
                        (status = Some (ps_value PS_PENDING_IMAGE_OPTIMIZATION)) (opt_default [] tenant_id))))"

section \<open>The job\<close>

record processor_request =
  pq_object_key :: string
  pq_bucket_name :: "string option"
  pq_category :: "string option"
  pq_job_id :: "string option"
  pq_trace_id :: "string option"
  pq_batch_id :: "string option"
  pq_is_cold_start :: bool

definition metadata_or :: "string option \<Rightarrow> dict \<Rightarrow> string \<Rightarrow> string option" where
  "metadata_or given metadata a = (if truthy_str given then given else to_opt_str (dget metadata a))"

definition processor_main ::
  "'t env \<Rightarrow> codecs \<Rightarrow> analysers \<Rightarrow> engines \<Rightarrow> processor_request \<Rightarrow> ('t, unit) wprog" where
  "processor_main e cd an en r =
     bindP (lift_result (case pq_bucket_name r of
              Some b \<Rightarrow> Inr b
            | None \<Rightarrow> (case input_location e of
                None \<Rightarrow> Inl (ValueErr ''DOCUMENTAI_INPUT_LOCATION is not set'')
              | Some loc \<Rightarrow> (case parse_s3_uri loc of Inl x \<Rightarrow> Inl x | Inr (b, p) \<Rightarrow> Inr b)))) (\<lambda>bucket.
     bindP (lift_result (en_fetch en bucket (pq_object_key r))) (\<lambda>doc.
     (let m = sd_metadata doc;
          ddb_key = basename (pq_object_key r);
          batch_id = metadata_or (pq_batch_id r) m ''batch-id'';
          q = \<lparr>iq_ddb_key = ddb_key,
               iq_original_file_name = opt_default [] (to_opt_str (dget m ''original-file-name'')),
               iq_tenant_id = None, iq_upload_date = None,
               iq_category = metadata_or (pq_category r) m ''user-provided-document-category'',
               iq_job_id = metadata_or (pq_job_id r) m ''job-id'',
               iq_trace_id = metadata_or (pq_trace_id r) m ''trace-id'',
               iq_batch_id = batch_id, iq_started_at = PTime (now e),
               iq_is_cold_start = Some (pq_is_cold_start r), iq_file_bytes = sd_bytes doc,
               iq_content_type = sd_content_type doc, iq_file_size_bytes = sd_size doc,
               iq_fetch_duration = Some (en_elapsed en)\<rparr>
      in bindP (get_ddb_record e ddb_key) (\<lambda>existing.
         bindP (preclassify_document e an existing q) (\<lambda>p.
           dispatch_document_processor e cd an en
             \<lparr>dq_bucket = bucket, dq_key = pq_object_key r, dq_ddb_key = ddb_key,
              dq_content_type = sd_content_type doc, dq_bytes = sd_bytes doc, dq_batch_id = batch_id\<rparr>
             (to_opt_str (dget (pp_record p) ''processStatus'')) (pp_record p) (pp_result p)
             (pp_tenant_id p))))))"

end
