(* ===== verification/Processor_Laws.thy ===== *)
theory Processor_Laws
  imports Doc_Processor Footprints Upload_Laws
begin

text \<open>
  What the processing of an upload guarantees: a document is claimed by one processor only, an
  engine works only on a document that was claimed, the attempts to start BDA are bounded, and
  the messages and results that pass between the jobs are read back as they were written.
\<close>

section \<open>The claim\<close>

definition status_of :: "dict option \<Rightarrow> pyval" where
  "status_of x = dget (opt_default [] x) ''processStatus''"

definition document_in :: "('t \<Rightarrow> tname \<Rightarrow> dict \<Rightarrow> dict option) \<Rightarrow> 't world \<Rightarrow> string \<Rightarrow> dict option" where
  "document_in look w k = item_in look w DocumentMetadataT (doc_key k)"

definition won :: "(exn + bool) list \<Rightarrow> nat" where
  "won rs = length (filter (\<lambda>r. r = Inr True) rs)"

context service begin

lemma claim_frame:
  assumes "set_processing_status_started e k expected w = (r, w')"
  shows "(r = Inr True \<and> map_of (opt_default [] (document_in look w k)) ''processStatus'' = Some (PStr expected) \<and>
       status_of (document_in look w' k) = PStr (ps_value PS_STARTED)) \<or>
     (r \<noteq> Inr True \<and> item_in look w' = item_in look w)"
proof -
  let ?c = "CEq ''processStatus'' (PStr expected)" and ?us = "[USet ''processStatus'' (PStr (ps_value PS_STARTED))]"
  have k: "[(''fileName'', PStr k)] = doc_key k" by (simp add: doc_key_def)
  obtain u w1 where u: "update_item e DocumentMetadataT (doc_key k) ?us ?c w = (u, w1)"
    by (cases "update_item e DocumentMetadataT (doc_key k) ?us ?c w")
  show ?thesis
  proof (cases u)
    case (Inl x)
    then show ?thesis using assms u update_item_err [of DocumentMetadataT "doc_key k" ?us ?c w x w1]
      by (auto simp: set_processing_status_started_def k catchP_run thenP_run split: if_splits)
  next
    case (Inr it)
    note ok = update_item_ok [OF u [unfolded Inr]]
    have "map_of it ''processStatus'' = Some (PStr (ps_value PS_STARTED))"
      using ok updated_item_set [of "doc_key k" _ ?us it] by auto
    then show ?thesis using assms u Inr ok
      by (auto simp: set_processing_status_started_def k catchP_run thenP_run document_in_def
          status_of_def dget_def)
  qed
qed

end

lemma no_claim_when_started:
  assumes "\<forall>(e, expected) \<in> set calls. ddb_laws look (client e) \<and> expected \<noteq> ps_value PS_STARTED"
    and "status_of (document_in look w k) = PStr (ps_value PS_STARTED)"
  shows "won (fst (run_each (map (\<lambda>(e, s). set_processing_status_started e k s) calls) w)) = 0"
  using assms
proof (induction calls arbitrary: w)
  case (Cons c calls)
  obtain e s where c: "c = (e, s)" by (cases c)
  obtain r w' where r: "set_processing_status_started e k s w = (r, w')"
    by (cases "set_processing_status_started e k s w")
  have S: "service look e" using Cons.prems(1) c by (intro serviceI) auto
  have "map_of (opt_default [] (document_in look w k)) ''processStatus'' \<noteq> Some (PStr s)"
    using Cons.prems c by (auto simp: status_of_def dget_def)
  then have n: "r \<noteq> Inr True" "item_in look w' = item_in look w"
    using service.claim_frame [OF S r] by auto
  have "status_of (document_in look w' k) = PStr (ps_value PS_STARTED)"
    using Cons.prems(2) n(2) by (simp add: document_in_def)
  then show ?case
    using Cons.IH [of w'] Cons.prems(1) n(1) c r by (auto simp: won_def split: prod.splits)
qed (simp add: won_def)

text \<open>C5: Of any sequence of claims of one document, made by processors that each saw some awaited
  status of it, at most one succeeds, whatever fails between them: the claim is a compare-and-set
  on the stored status.\<close>

theorem claim_has_one_winner:
  assumes "\<forall>(e, expected) \<in> set calls. ddb_laws look (client e) \<and> expected \<noteq> ps_value PS_STARTED"
  shows "won (fst (run_each (map (\<lambda>(e, s). set_processing_status_started e k s) calls) w)) \<le> 1"
  using assms
proof (induction calls arbitrary: w)
  case (Cons c calls)
  obtain e s where c: "c = (e, s)" by (cases c)
  obtain r w' where r: "set_processing_status_started e k s w = (r, w')"
    by (cases "set_processing_status_started e k s w")
  have S: "service look e" using Cons.prems(1) c by (intro serviceI) auto
  let ?rest = "won (fst (run_each (map (\<lambda>(e, s). set_processing_status_started e k s) calls) w'))"
  have split: "won (fst (run_each (map (\<lambda>(e, s). set_processing_status_started e k s) (c # calls)) w)) =
      (if r = Inr True then 1 else 0) + ?rest"
    using c r by (simp add: won_def split: prod.splits)
  show ?case
  proof (cases "r = Inr True")
    case True
    then have "status_of (document_in look w' k) = PStr (ps_value PS_STARTED)"
      using service.claim_frame [OF S r] by auto
    then have "?rest = 0" using Cons.prems by (intro no_claim_when_started) auto
    then show ?thesis using split True by simp
  next
    case False
    have "?rest \<le> 1" using Cons by auto
    then show ?thesis using split False by simp
  qed
qed (simp add: won_def)

definition uploaded_document :: mem where
  "uploaded_document = [((DocumentMetadataT, doc_key ''a''),
     [(''fileName'', PStr ''a''), (''tenantId'', PStr ''t''), (''processStatus'', PStr (ps_value PS_NOT_STARTED))])]"

lemma claim_has_one_winner_witness:
  "won (fst (run_each (map (\<lambda>(e, s). set_processing_status_started e ''a'' s)
      [(base_env, ps_value PS_PENDING_IMAGE_OPTIMIZATION), (base_env, ps_value PS_NOT_STARTED),
       (base_env, ps_value PS_NOT_STARTED)]) (world_of uploaded_document))) = 1"
proof -
  have "won (fst (run_each (map (\<lambda>(e, s). set_processing_status_started e ''a'' s)
      [(base_env, ps_value PS_PENDING_IMAGE_OPTIMIZATION), (base_env, ps_value PS_NOT_STARTED),
       (base_env, ps_value PS_NOT_STARTED)]) (world_of uploaded_document))) \<le> 1"
    by (rule claim_has_one_winner [where look = mem_look]) (simp add: mem_laws)
  moreover have "0 < won (fst (run_each (map (\<lambda>(e, s). set_processing_status_started e ''a'' s)
      [(base_env, ps_value PS_PENDING_IMAGE_OPTIMIZATION), (base_env, ps_value PS_NOT_STARTED),
       (base_env, ps_value PS_NOT_STARTED)]) (world_of uploaded_document)))"
    by code_simp
  ultimately show ?thesis by simp
qed

section \<open>Programs that ask no engine\<close>

abbreviation idle :: "'t world \<Rightarrow> 't world \<Rightarrow> bool" where
  "idle w w' \<equiv> invocations w' = invocations w"

lemma idle_store: "guarantees idle (on_store m)"
  by (rule guaranteesI) (auto simp: on_store_def split: prod.splits)

interpretation idle: reader_order "idle :: 't world \<Rightarrow> 't world \<Rightarrow> bool" e for e :: "'t env"
  by unfold_locales (auto simp: idle_store)

lemma idle_modifies: "(\<And>w. invocations (f w) = invocations w) \<Longrightarrow> guarantees idle (modifies f)"
  by (rule guaranteesI) simp

lemma idle_s3: "guarantees idle (s3_write e op)"
  unfolding s3_write_def by (intro idle.g_rules idle_modifies) simp

lemma idle_message: "guarantees idle (send_message e q m)"
  unfolding send_message_def by (intro idle.g_rules idle_modifies) simp

lemma idle_update_item: "guarantees idle (update_item e T k us c)"
  unfolding update_item_def by (rule idle_store)

lemma idle_execute: "guarantees idle (execute_ddb_update e k us c)"
  unfolding execute_ddb_update_def by (intro idle.g_rules idle_update_item)

lemma idle_metrics: "guarantees idle (send_record_to_metrics_queue e k)"
  unfolding send_record_to_metrics_queue_def
  by (intro idle.g_rules idle.r_get_item idle_message)

lemma idle_update_ddb: "guarantees idle (update_ddb e d c)"
  unfolding update_ddb_def by (intro idle.g_rules idle.r_timing_updates idle_execute idle_metrics)

lemma idle_tokens: "guarantees idle (write_tokens_by_model e k m r i t)"
  unfolding write_tokens_by_model_def by (rule idle_execute)

lemma idle_upsert_ddb: "guarantees idle (upsert_ddb e d)"
  unfolding upsert_ddb_def write_preclassification_tokens_def
  by (intro idle.g_rules idle_execute idle_tokens idle_metrics)

lemma idle_finalize: "guarantees idle (finalize_v1_response e k st data m)"
  unfolding finalize_v1_response_def by (intro idle.g_rules idle.r_build_v1 idle_execute)

lemma idle_increment: "guarantees idle (increment_resolved_count e b)"
  unfolding increment_resolved_count_def count_resolved_def finalise_batch_def update_batch_status_def
    query_jobs_by_batch_id_def query_by_key_def
  by (intro idle.g_rules idle_update_item idle.r_query)

lemma idle_write_terminal: "guarantees idle (write_terminal_status e d b result em)"
  unfolding write_terminal_status_def write_extract_method_response_def Let_def
  by (intro idle.g_rules idle_update_ddb idle_finalize idle_increment idle.r_build_v1
      idle.r_method_fields idle_execute)

lemma idle_classify_with: "guarantees idle (classify_with e k code matched mk b result em)"
  unfolding classify_with_def by (intro idle.g_rules idle.r_internal_response idle_write_terminal)

lemma idle_classify:
  "guarantees idle (classify_as_failed e k m data started b)"
  "guarantees idle (classify_as_ai_consent_declined e k b)"
  "guarantees idle (classify_as_not_implemented e k data b)"
  "guarantees idle (classify_as_extraction_not_configured e k data b)"
  "guarantees idle (classify_as_no_custom_blueprint_matched e k data started b em)"
  by (simp_all add: classify_as_failed_def classify_as_ai_consent_declined_def
      classify_as_not_implemented_def classify_as_extraction_not_configured_def
      classify_as_no_custom_blueprint_matched_def idle_classify_with)

lemma idle_claim: "guarantees idle (set_processing_status_started e k s)"
  unfolding set_processing_status_started_def by (intro idle.g_rules idle_update_item)

section \<open>An engine works only on a claimed document\<close>

lemma map_of_dget: "dget d a \<noteq> PNone \<Longrightarrow> map_of d a = Some (dget d a)"
  by (auto simp: dget_def split: option.splits)


definition example_engines :: engines where
  "example_engines = \<lparr>en_fetch = (\<lambda>b k. Inl (ClientErr ''NoSuchKey'')), en_bbox = (\<lambda>_ _. Inr None),
     en_image_size = (\<lambda>_. Inl (OtherExc ''not an image'')), en_crop = (\<lambda>b _. Inr b),
     en_gray_jpeg = (\<lambda>b. Inl (OtherExc ''not an image'')), en_gray_pdf = (\<lambda>b. Inr b),
     en_truncate = (\<lambda>n b. Inr b), en_ocr_blocks = (\<lambda>_. Inr (PList [])), en_analyze_id = (\<lambda>_. Inr []),
     en_identity_fields = (\<lambda>_. None), en_supplement = (\<lambda>_ f. f), en_project_arns = [],
     en_default_project = Some ''project'', en_profile_arn = Inr ''profile'',
     en_invoke = (\<lambda>n a s t. if n = 0 then Inl (ClientErr ''ThrottlingException'') else Inr ''arn''),
     en_max_attempts = 3, en_elapsed = 0, en_ocr_queue_url = None\<rparr>"

definition example_analysers :: analysers where
  "example_analysers = \<lparr>an_page_count = (\<lambda>_. Some 7), an_password_protected = (\<lambda>_. False),
     an_detect_blur = (\<lambda>_ _. Inr no_blur), an_preclassify = (\<lambda>_ _ _. Inl (OtherExc ''model error'')),
     an_find_blueprint = (\<lambda>_ _. Inr no_match), an_random = 0, an_traceparent = None\<rparr>"

definition bda_env :: "mem env" where
  "bda_env = base_env\<lparr>output_location := Some ''s3://out'', s3_object := (\<lambda>b k. Inr (PStr ''%PDF-1''))\<rparr>"

definition example_dispatch :: dispatch_request where
  "example_dispatch = \<lparr>dq_bucket = ''in'', dq_key = ''input/a'', dq_ddb_key = ''a'',
     dq_content_type = ''application/pdf'', dq_bytes = ''%PDF-1'', dq_batch_id = None\<rparr>"

definition example_dispatched :: "(exn + unit) \<times> mem world" where
  "example_dispatched = dispatch_document_processor bda_env plain_codecs example_analysers example_engines
     example_dispatch (Some (ps_value PS_NOT_STARTED)) [] None (Some ''t'') (world_of uploaded_document)"

lemma example_dispatched_run:
  "fst example_dispatched = Inr () \<and>
   invocations (snd example_dispatched) = [(''bda'', PStr ''s3://in/input/a_truncated'')]"
  by code_simp


section \<open>The attempts to start BDA\<close>

text \<open>\<open>asks n m\<close>: the program asks BDA, and no other engine, at most \<open>n\<close> times.\<close>

definition asks :: "nat \<Rightarrow> ('t, 'a) wprog \<Rightarrow> bool" where
  "asks n m = (\<forall>w. \<exists>xs. invocations (snd (m w)) = invocations w @ xs \<and> length xs \<le> n \<and>
     list_all (\<lambda>x. fst x = ''bda'') xs)"

lemma asksI:
  "(\<And>w r w'. m w = (r, w') \<Longrightarrow> \<exists>xs. invocations w' = invocations w @ xs \<and> length xs \<le> n \<and>
     list_all (\<lambda>x. fst x = ''bda'') xs) \<Longrightarrow> asks n m"
  unfolding asks_def by (metis prod.collapse)

lemma asksE:
  assumes "asks n m" "m w = (r, w')"
  obtains xs where "invocations w' = invocations w @ xs" "length xs \<le> n" "list_all (\<lambda>x. fst x = ''bda'') xs"
  using assms unfolding asks_def by (metis snd_conv)

lemma asks_idle: "guarantees idle m \<Longrightarrow> asks n m"
  by (rule asksI) (auto dest: guaranteesD)

lemma asks_bind:
  assumes "asks a m" "\<And>x. asks b (f x)"
  shows "asks (a + b) (bindP m f)"
proof (rule asksI)
  fix w r w'
  assume run: "bindP m f w = (r, w')"
  obtain r1 w1 where m: "m w = (r1, w1)" by (cases "m w")
  obtain xs where xs: "invocations w1 = invocations w @ xs" "length xs \<le> a" "list_all (\<lambda>x. fst x = ''bda'') xs"
    by (rule asksE [OF assms(1) m])
  show "\<exists>xs. invocations w' = invocations w @ xs \<and> length xs \<le> a + b \<and> list_all (\<lambda>x. fst x = ''bda'') xs"
  proof (cases r1)
    case (Inl x)
    then show ?thesis using run m xs by (intro exI [of _ xs]) (simp add: bindP_run)
  next
    case (Inr x)
    then have "f x w1 = (r, w')" using run m by (simp add: bindP_run)
    then obtain ys where "invocations w' = invocations w1 @ ys" "length ys \<le> b" "list_all (\<lambda>x. fst x = ''bda'') ys"
      by (rule asksE [OF assms(2)])
    then show ?thesis using xs by (intro exI [of _ "xs @ ys"]) simp
  qed
qed

lemma asks_catch:
  assumes "asks a m" "\<And>x. asks b (h x)"
  shows "asks (a + b) (catchP m h)"
proof (rule asksI)
  fix w r w'
  assume run: "catchP m h w = (r, w')"
  obtain r1 w1 where m: "m w = (r1, w1)" by (cases "m w")
  obtain xs where xs: "invocations w1 = invocations w @ xs" "length xs \<le> a" "list_all (\<lambda>x. fst x = ''bda'') xs"
    by (rule asksE [OF assms(1) m])
  show "\<exists>xs. invocations w' = invocations w @ xs \<and> length xs \<le> a + b \<and> list_all (\<lambda>x. fst x = ''bda'') xs"
  proof (cases r1)
    case (Inr x)
    then show ?thesis using run m xs by (intro exI [of _ xs]) (simp add: catchP_run)
  next
    case (Inl x)
    then have "h x w1 = (r, w')" using run m by (simp add: catchP_run)
    then obtain ys where "invocations w' = invocations w1 @ ys" "length ys \<le> b" "list_all (\<lambda>x. fst x = ''bda'') ys"
      by (rule asksE [OF assms(2)])
    then show ?thesis using xs by (intro exI [of _ "xs @ ys"]) simp
  qed
qed

lemma asks_then_bda: "asks 1 (thenP (invoked ''bda'' v) (ret x))"
  by (rule asksI) (auto simp: thenP_run invoked_def)

lemma asks_idle_bind: "guarantees idle m \<Longrightarrow> (\<And>x. asks b (f x)) \<Longrightarrow> asks b (bindP m f)"
  using asks_bind [OF asks_idle [where n = 0]] by fastforce

lemma asks_bind_idle: "asks a m \<Longrightarrow> (\<And>x. guarantees idle (f x)) \<Longrightarrow> asks a (bindP m f)"
  using asks_bind [where b = 0, OF _ asks_idle] by fastforce

lemma asks_prod: "(\<And>x y. asks n (f x y)) \<Longrightarrow> asks n (case p of (x, y) \<Rightarrow> f x y)"
  by (cases p) auto

lemma asks_option: "asks n m \<Longrightarrow> (\<And>x. asks n (f x)) \<Longrightarrow> asks n (case xo of None \<Rightarrow> m | Some x \<Rightarrow> f x)"
  by (cases xo) auto

lemma idle_prepare: "guarantees idle (prepare_source e an en bucket key)"
  unfolding prepare_source_def put_object_def by (intro idle.g_rules idle_s3)

lemma asks_invoke_bedrock:
  "asks 1 (invoke_bedrock_data_automation e an en attempt bucket key tenant_id ddb_key category)"
  unfolding invoke_bedrock_data_automation_def Let_def
  by (intro asks_prod asks_option asks_then_bda asks_idle [OF idle.g_raise] idle_prepare idle.g_lift
      asks_idle_bind)

lemma asks_attempt: "asks 1 (bda_attempt e an en attempt bucket key ddb_key tenant_id category)"
  unfolding bda_attempt_def set_bda_processing_status_started_def
  by (intro asks_bind_idle asks_invoke_bedrock idle.g_then idle_update_ddb idle.g_ret)

lemma asks_attempts: "asks n (bda_attempts e an en n attempt bucket key ddb_key tenant_id category)"
proof (induction n arbitrary: attempt)
  case 0
  show ?case unfolding bda_attempts.simps by (intro asks_idle idle.g_raise)
next
  case (Suc n)
  have "asks (1 + n) (bda_attempts e an en (Suc n) attempt bucket key ddb_key tenant_id category)"
    unfolding bda_attempts.simps
    by (intro asks_catch asks_attempt) (simp add: Suc asks_idle idle.g_raise)
  then show ?case by simp
qed

text \<open>C24: Whatever fails, one call of \<open>invoke_bda\<close> returns after starting BDA at most as often as
  attempts are configured (and never more than once when fewer than one is), and asks no other
  engine.\<close>

theorem bda_invocations_bounded:
  "\<exists>xs. invocations (snd (invoke_bda e an en bucket key ddb_key tenant_id category batch_id w)) =
       invocations w @ xs \<and>
     length xs \<le> max 1 (en_max_attempts en) \<and> list_all (\<lambda>x. fst x = ''bda'') xs"
proof -
  let ?n = "max 1 (en_max_attempts en)"
  have "asks (?n + 0) (invoke_bda e an en bucket key ddb_key tenant_id category batch_id)"
    unfolding invoke_bda_def
    by (intro asks_catch asks_attempts)
      (auto split: exn.split intro!: asks_idle idle.g_rules idle_classify)
  then show ?thesis by (simp add: asks_def)
qed

section \<open>A started BDA job is on record\<close>

context service begin

lemma update_ddb_writes:
  assumes run: "update_ddb e d c w = (Inr u, w')"
  obtains us it where "build_update_expression e d = Inr us"
    "document_in look w' (ud_object_key d) = Some it" "\<And>a x. USet a x \<in> set us \<Longrightarrow> map_of it a = Some x"
proof -
  let ?k = "ud_object_key d"
  obtain us where us: "build_update_expression e d = Inr us"
    using run by (auto simp: update_ddb_def bindP_run split: sum.splits)
  let ?uri = "case ud_data d of None \<Rightarrow> None | Some data \<Rightarrow> cd_bda_output_s3_uri data"
  obtain tm w1 where t: "build_timing_updates e ?k (ud_status d) ?uri w = (Inr tm, w1)"
    using run us by (auto simp: update_ddb_def bindP_run split: prod.splits sum.splits)
  let ?us = "us @ extra_updates d @ tm"
  obtain it w2 where u: "update_item e DocumentMetadataT (doc_key ?k) ?us c w1 = (Inr it, w2)"
    using run us t
    by (auto simp: update_ddb_def bindP_run thenP_run execute_ddb_update_def split: prod.splits sum.splits)
  note ok = update_item_ok [OF u]
  have i2: "document_in look w2 ?k = Some it" using ok by (simp add: document_in_def)
  have "item_in look w' = item_in look w2"
  proof (cases "is_classified (ps_value (ud_status d))")
    case True
    obtain r3 w3 where s: "send_record_to_metrics_queue e ?k w2 = (r3, w3)"
      by (cases "send_record_to_metrics_queue e ?k w2")
    have "w' = w3" using run us t u s True
      by (auto simp: update_ddb_def bindP_run thenP_run execute_ddb_update_def whenP_run)
    then show ?thesis using send_record_frame [OF s] by simp
  next
    case False
    then have "w' = w2" using run us t u
      by (simp add: update_ddb_def bindP_run thenP_run execute_ddb_update_def whenP_run)
    then show ?thesis by simp
  qed
  then have "document_in look w' ?k = Some it" using i2 by (simp add: document_in_def)
  moreover have "map_of it a = Some x" if "USet a x \<in> set us" for a x
    using updated_item_set [of "doc_key ?k" _ ?us it a x] ok that by auto
  ultimately show ?thesis using that us by blast
qed

end

context service begin

lemma bda_status_started:
  assumes "set_bda_processing_status_started e k b w = (Inr u, w')" "bs_invocation_arn b \<noteq> []"
  shows "\<exists>it. document_in look w' k = Some it \<and> map_of it ''processStatus'' = Some (PStr (ps_value PS_STARTED)) \<and>
    map_of it ''bdaInvocationArn'' = Some (PStr (bs_invocation_arn b))"
proof -
  let ?d = "(update_record k PS_STARTED)
       \<lparr>ud_bda_invocation_arn := Some (bs_invocation_arn b), ud_bda_project_arn_used := bs_project_arn b,
        ud_used_category_specific_project := bs_used_category_specific b, ud_pages_sent_to_bda := bs_pages_sent b,
        ud_bda_invoke_duration_seconds := bs_duration b, ud_bda_invoke_retry_count := bs_retry_count b\<rparr>"
  have run: "update_ddb e ?d CTrue w = (Inr u, w')"
    using assms(1) unfolding set_bda_processing_status_started_def .
  obtain us it where us: "build_update_expression e ?d = Inr us" "document_in look w' k = Some it"
    "\<And>a x. USet a x \<in> set us \<Longrightarrow> map_of it a = Some x"
    by (rule update_ddb_writes [OF run]) (simp add: update_record_def)
  have "USet ''processStatus'' (PStr (ps_value PS_STARTED)) \<in> set us"
    "USet ''bdaInvocationArn'' (PStr (bs_invocation_arn b)) \<in> set us"
    using us(1) assms(2)
    by (auto simp: build_update_expression_def update_record_def arn_fields_def truthy_str_Some Let_def)
  then show ?thesis using us(2,3) by blast
qed

lemma attempt_recorded:
  assumes "bda_attempt e an en n bucket key k tenant_id category w = (Inr arn, w')" "arn \<noteq> []"
  shows "\<exists>it. document_in look w' k = Some it \<and> map_of it ''processStatus'' = Some (PStr (ps_value PS_STARTED)) \<and>
    map_of it ''bdaInvocationArn'' = Some (PStr arn)"
proof -
  obtain v w1 where v: "invoke_bedrock_data_automation e an en n bucket key tenant_id k category w = (Inr v, w1)"
    using assms(1) by (auto simp: bda_attempt_def bindP_run split: prod.splits sum.splits)
  let ?b = "\<lparr>bs_invocation_arn = bv_arn v, bs_project_arn = Some (bv_project v),
     bs_used_category_specific = bv_specific v, bs_pages_sent = Some (bv_pages v),
     bs_duration = Some (en_elapsed en), bs_retry_count = Some n\<rparr>"
  have run: "set_bda_processing_status_started e k ?b w1 = (Inr (), w')" and arn: "bv_arn v = arn"
    using assms(1) v by (auto simp: bda_attempt_def bindP_run thenP_run split: prod.splits sum.splits)
  show ?thesis using bda_status_started [OF run] assms(2) by (simp add: arn)
qed

lemma attempts_recorded:
  assumes "bda_attempts e an en left n bucket key k tenant_id category w = (Inr arn, w')" "arn \<noteq> []"
  shows "\<exists>it. document_in look w' k = Some it \<and> map_of it ''processStatus'' = Some (PStr (ps_value PS_STARTED)) \<and>
    map_of it ''bdaInvocationArn'' = Some (PStr arn)"
  using assms(1)
proof (induction left arbitrary: n w)
  case (Suc left)
  obtain r w1 where r: "bda_attempt e an en n bucket key k tenant_id category w = (r, w1)"
    by (cases "bda_attempt e an en n bucket key k tenant_id category w")
  show ?case
  proof (cases r)
    case (Inl x)
    then have "bda_attempts e an en left (Suc n) bucket key k tenant_id category w1 = (Inr arn, w')"
      using Suc.prems r by (auto simp: catchP_run split: if_splits)
    then show ?thesis by (rule Suc.IH)
  next
    case (Inr a)
    then show ?thesis using Suc.prems r attempt_recorded assms(2) by (auto simp: catchP_run)
  qed
qed simp

end

text \<open>When \<open>invoke_bda\<close> returns, the stored document is started and carries the invocation that
  was returned, so that the result of the job can be matched to it; whatever attempts failed before.\<close>

theorem bda_start_recorded:
  assumes "ddb_laws look (client e)"
    and "invoke_bda e an en bucket key ddb_key tenant_id category batch_id w = (Inr arn, w')"
    and "arn \<noteq> []"
  shows "\<exists>it. document_in look w' ddb_key = Some it \<and>
    map_of it ''processStatus'' = Some (PStr (ps_value PS_STARTED)) \<and>
    map_of it ''bdaInvocationArn'' = Some (PStr arn)"
proof -
  have S: "service look e" using assms(1) by (rule serviceI)
  have "bda_attempts e an en (max 1 (en_max_attempts en)) 0 bucket key ddb_key tenant_id category w = (Inr arn, w')"
    using assms(2) by (auto simp: invoke_bda_def catchP_run thenP_run split: prod.splits sum.splits exn.splits)
  then show ?thesis using service.attempts_recorded [OF S _ assms(3)] by blast
qed

definition example_invoked :: "(exn + string) \<times> mem world" where
  "example_invoked = invoke_bda bda_env example_analysers example_engines ''in'' ''input/a'' ''a'' ''t'' None None
     (world_of uploaded_document)"

lemma bda_start_recorded_witness:
  "\<exists>it. document_in mem_look (snd example_invoked) ''a'' = Some it \<and>
     map_of it ''processStatus'' = Some (PStr ''started'') \<and> map_of it ''bdaInvocationArn'' = Some (PStr ''arn'')"
proof -
  have l: "ddb_laws mem_look (client bda_env)" using mem_laws by (simp add: bda_env_def)
  have r: "fst example_invoked = Inr ''arn''" by code_simp
  then have run: "example_invoked = (Inr ''arn'', snd example_invoked)" by (metis prod.collapse)
  have "ps_value PS_STARTED = ''started''" by code_simp
  then show ?thesis
    using bda_start_recorded [OF l run [unfolded example_invoked_def]] by (simp add: example_invoked_def)
qed

text \<open>A throttled status write is retried together with the invocation: BDA is started twice.\<close>

definition throttled_once :: "mem client" where
  "throttled_once = mem_client\<lparr>db_update := (\<lambda>T k us c t.
     if USet ''bdaInvokeRetryCount'' (PNum 0) \<in> set us then (Inl (ClientErr ''ThrottlingException''), t)
     else mem_update T k us c t)\<rparr>"

lemma throttled_write_starts_bda_twice:
  "invocations (snd (invoke_bda (bda_env\<lparr>client := throttled_once\<rparr>) example_analysers
     (example_engines\<lparr>en_invoke := (\<lambda>_ _ _ _. Inr ''arn'')\<rparr>) ''in'' ''input/a'' ''a'' ''t'' None None
     (world_of uploaded_document))) =
   [(''bda'', PStr ''s3://in/input/a_truncated''), (''bda'', PStr ''s3://in/input/a_truncated'')]"
  by code_simp

section \<open>A claim and the record it is made on\<close>

text \<open>Two processors that both read the document before either claimed it: the second one writes the
  initial record again, which puts the status back, and claims it too.\<close>

definition example_request :: initial_request where
  "example_request = \<lparr>iq_ddb_key = ''a'', iq_original_file_name = ''a.pdf'', iq_tenant_id = Some ''t'',
     iq_upload_date = None, iq_category = None, iq_job_id = None, iq_trace_id = None, iq_batch_id = None,
     iq_started_at = PTime 0, iq_is_cold_start = None, iq_file_bytes = ''%PDF-1'',
     iq_content_type = ''application/pdf'', iq_file_size_bytes = 6, iq_fetch_duration = None\<rparr>"

definition process_stale :: "(mem, bool) wprog" where
  "process_stale =
     thenP (upsert_initial_ddb_record base_env example_analysers example_request)
       (set_processing_status_started base_env ''a'' (ps_value PS_NOT_STARTED))"

lemma stale_upsert_reopens_claim:
  "fst (run_each [process_stale, process_stale] (world_of uploaded_document)) = [Inr True, Inr True]"
  by code_simp

section \<open>Messages and results are read back as they were written\<close>

text \<open>The message that asks for an OCR mapping is read from the queue as it was sent: decoding the
  JSON text of its fields gives the same document, type, blocks, tenant and batch, an absent tenant
  or batch included.\<close>

theorem ocr_message_round_trip:
  "json_loads (PJson (PDict (ocr_message_to_dict m))) = Inr (PDict (ocr_message_to_dict m)) \<and>
   ocr_message_from_dict (ocr_message_to_dict m) = Inr m"
  by (cases m)
    (simp add: ocr_message_to_dict_def ocr_message_from_dict_def required_str_def of_opt_str_def
      split: option.split)

definition identity_field :: "string \<times> pyval \<Rightarrow> bool" where
  "identity_field f =
     (case snd f of PDict d \<Rightarrow> (case map_of d ''confidence'' of Some (PNum c) \<Rightarrow> True | _ \<Rightarrow> False) | _ \<Rightarrow> False)"

lemma read_identity_fields:
  assumes "list_all identity_field flds"
  shows "\<exists>r. read_method_fields g flds acc = Inr r \<and>
    field_confidence_map_list r = field_confidence_map_list acc @ map (\<lambda>(n, v). [(n, PNum (conf_of v))]) flds \<and>
    empty_fields r = empty_fields acc @
      map fst (filter (\<lambda>(n, v). \<not> truthy (dget (as_dict v) ''value'')) flds)"
  using assms
proof (induction flds arbitrary: acc)
  case (Cons f flds)
  obtain n d c where f: "f = (n, PDict d)" "map_of d ''confidence'' = Some (PNum c)"
    using Cons.prems by (cases f) (auto simp: identity_field_def split: pyval.splits option.splits)
  have t: "truthy (dget_default d ''value'' (PStr [])) = truthy (dget d ''value'')"
    by (simp add: dget_default_def dget_def split: option.split)
  have c: "conf_of (PDict d) = c" using f(2) by (simp add: conf_of_def dget_def)
  show ?case
    using Cons.IH Cons.prems f t c by (fastforce simp: Let_def)
qed simp

text \<open>What Textract extracted from an identity document and what the readers make of the stored
  result agree: every field keeps its name, its order and its confidence, and exactly the fields
  that were reported empty are empty.\<close>

theorem textract_result_round_trip:
  assumes "list_all identity_field flds"
  shows "\<exists>d r. json_loads (extraction_body ''textract'' flds) = Inr (PDict d) \<and>
    read_textract_output d geometry = Inr r \<and>
    field_confidence_map_list r =
      map (map (\<lambda>(a, c). (a, PNum c))) (er_field_confidence_scores (identity_result t flds s c)) \<and>
    empty_fields r = er_field_empty_list (identity_result t flds s c)"
  using read_identity_fields [OF assms, of geometry empty_reader_result]
  by (auto simp: extraction_body_def read_textract_output_def dget_default_def identity_result_def
      empty_reader_result_def case_prod_unfold comp_def)

definition license_fields :: dict where
  "license_fields = [(''name'', PDict [(''value'', PStr ''Ann''), (''confidence'', PNum 99)]),
     (''suffix'', PDict [(''value'', PStr []), (''confidence'', PNum 40)])]"

lemma textract_result_round_trip_witness:
  "\<exists>r. read_textract_output [(''source'', PStr ''textract''), (''fields'', PDict license_fields)] False = Inr r \<and>
     empty_fields r = [''suffix'']"
proof -
  have l: "list_all identity_field license_fields" by code_simp
  have e: "er_field_empty_list (identity_result ''License'' license_fields 0 1) = [''suffix'']" by code_simp
  show ?thesis
    using textract_result_round_trip [OF l, of False "''License''" 0 1] e by (auto simp: extraction_body_def)
qed

section \<open>The crop\<close>

lemma py_int_le: "0 \<le> a \<Longrightarrow> x \<le> a \<Longrightarrow> of_int (max 0 (py_int x)) \<le> (a :: rat)"
proof (cases "x < 0")
  case True
  assume "0 \<le> a" "x \<le> a"
  have "0 \<le> \<lfloor>- x\<rfloor>" using True by simp
  then show ?thesis using True \<open>0 \<le> a\<close> by (simp add: py_int_def)
next
  case False
  assume "0 \<le> a" "x \<le> a"
  have "of_int \<lfloor>x\<rfloor> \<le> a" using of_int_floor_le \<open>x \<le> a\<close> by (rule order_trans)
  then show ?thesis using False \<open>0 \<le> a\<close> by (simp add: py_int_def)
qed

lemma le_py_int:
  assumes "0 \<le> a" "a \<le> x" "a \<le> of_int m"
  shows "\<lfloor>a :: rat\<rfloor> \<le> min m (py_int x)"
  using floor_mono [OF assms(2)] floor_mono [OF assms(3)] assms(1,2) by (simp add: py_int_def)

text \<open>Cutting out the detected document asks the image library only for a non-empty rectangle
  inside the image, and the rectangle contains the detected region up to whole pixels: the padding
  never clips the document.\<close>

theorem crop_inside_image:
  assumes "crop_image_to_bbox en body (x1, y1, x2, y2) = Inr cropped"
    and "en_image_size en body = Inr (width, height)" "0 \<le> width" "0 \<le> height"
    and "0 \<le> x1" "x1 \<le> x2" "x2 \<le> 1000" "0 \<le> y1" "y1 \<le> y2" "y2 \<le> 1000"
  shows "cropped = body \<or>
    (\<exists>l u r b. en_crop en body (l, u, r, b) = Inr cropped \<and> 0 \<le> l \<and> l < r \<and> r \<le> width \<and> 0 \<le> u \<and> u < b \<and>
       b \<le> height \<and> of_int l \<le> x1 / 1000 * of_int width \<and> \<lfloor>x2 / 1000 * of_int width\<rfloor> \<le> r \<and>
       of_int u \<le> y1 / 1000 * of_int height \<and> \<lfloor>y2 / 1000 * of_int height\<rfloor> \<le> b)"
proof -
  let ?px = "(x2 - x1) * (3 / 100)" and ?py = "(y2 - y1) * (3 / 100)"
  let ?l = "max 0 (py_int ((x1 - ?px) / 1000 * of_int width))"
  let ?u = "max 0 (py_int ((y1 - ?py) / 1000 * of_int height))"
  let ?r = "min width (py_int ((x2 + ?px) / 1000 * of_int width))"
  let ?b = "min height (py_int ((y2 + ?py) / 1000 * of_int height))"
  have left: "of_int (max 0 (py_int ((z - p) / 1000 * of_int n))) \<le> z / 1000 * (of_int n :: rat)"
    if "0 \<le> z" "0 \<le> p" "0 \<le> n" for z p :: rat and n :: int
    using that by (intro py_int_le mult_right_mono divide_right_mono) auto
  have right: "\<lfloor>z / 1000 * (of_int n :: rat)\<rfloor> \<le> min n (py_int ((z + p) / 1000 * of_int n))"
    if "0 \<le> z" "z \<le> 1000" "0 \<le> p" "0 \<le> n" for z p :: rat and n :: int
  proof (rule le_py_int)
    show "0 \<le> z / 1000 * of_int n" using that by simp
    show "z / 1000 * of_int n \<le> (z + p) / 1000 * of_int n"
      using that by (intro mult_right_mono divide_right_mono) auto
    have "z / 1000 * of_int n \<le> 1 * of_int n" using that by (intro mult_right_mono) auto
    then show "z / 1000 * of_int n \<le> of_int n" by simp
  qed
  have p: "0 \<le> ?px" "0 \<le> ?py" using assms by simp_all
  show ?thesis
  proof (cases "covers_frame (x1, y1, x2, y2)")
    case True
    then show ?thesis using assms(1,2) by (simp add: crop_image_to_bbox_def)
  next
    case False
    have b: "pixel_box width height (x1, y1, x2, y2) = (?l, ?u, ?r, ?b)"
      by (simp add: pixel_box_def Let_def)
    have "?l < ?r" "?u < ?b" "en_crop en body (?l, ?u, ?r, ?b) = Inr cropped"
      using assms(1,2) False b by (auto simp: crop_image_to_bbox_def split: if_splits sum.splits)
    moreover have "of_int ?l \<le> x1 / 1000 * of_int width" using assms p by (intro left)
    moreover have "of_int ?u \<le> y1 / 1000 * of_int height" using assms p by (intro left)
    moreover have "\<lfloor>x2 / 1000 * of_int width\<rfloor> \<le> ?r" using assms p by (intro right) auto
    moreover have "\<lfloor>y2 / 1000 * of_int height\<rfloor> \<le> ?b" using assms p by (intro right) auto
    moreover have "0 \<le> ?l" "0 \<le> ?u" "?r \<le> width" "?b \<le> height" by simp_all
    ultimately show ?thesis by blast
  qed
qed

definition framed_engines :: engines where
  "framed_engines = example_engines\<lparr>en_image_size := (\<lambda>_. Inr (2000, 1000)),
     en_crop := (\<lambda>s (l, u, r, b). Inr (if (l, u, r, b) = (182, 88, 818, 512) then ''document'' else ''?''))\<rparr>"

lemma crop_inside_image_witness:
  "\<exists>l u r b. en_crop framed_engines ''photo'' (l, u, r, b) = Inr ''document'' \<and> 0 \<le> l \<and> l < r \<and> r \<le> 2000 \<and>
     0 \<le> u \<and> u < b \<and> b \<le> (1000 :: int)"
proof -
  have c: "crop_image_to_bbox framed_engines ''photo'' (100, 100, 400, 500) = Inr ''document''" by code_simp
  have s: "en_image_size framed_engines ''photo'' = Inr (2000, 1000)" by code_simp
  have "''document'' \<noteq> ''photo''" by simp
  then show ?thesis
    using crop_inside_image [OF c s] by auto
qed

end
