(* ===== verification/Bda_Results.thy ===== *)
theory Bda_Results
  imports Classification Uploads
begin

text \<open>
  The result of a BDA job: \<open>utils/bda.py\<close>, \<open>extractors/bda.py\<close>, \<open>processors/bda.py\<close>, \<open>pipeline/bda.py\<close>
  and \<open>jobs/bda_result_processor/main.py\<close>, from the object BDA writes to the transition of the
  document.  What BDA wrote is a JSON value of any shape.
\<close>

section \<open>JSON access\<close>

text \<open>\<open>d.get(a, {})\<close> whose result is used as a dictionary.\<close>

definition sub_dict :: "dict \<Rightarrow> string \<Rightarrow> exn + dict" where
  "sub_dict d a =
     (case map_of d a of None \<Rightarrow> Inr [] | Some (PDict s) \<Rightarrow> Inr s
      | Some v \<Rightarrow> Inl (OtherExc ''AttributeError''))"

text \<open>Letters and digits (of ASCII).\<close>

definition is_alnum :: "char \<Rightarrow> bool" where
  "is_alnum c = (let n = (of_char c :: nat) in
     48 \<le> n \<and> n \<le> 57 \<or> 65 \<le> n \<and> n \<le> 90 \<or> 97 \<le> n \<and> n \<le> 122)"

section \<open>utils/bda.py\<close>

fun word_texts :: "pyval list \<Rightarrow> exn + string list" where
  "word_texts [] = Inr []"
| "word_texts (PDict d # rest) =
     (if truthy (dget d ''text'') then
        (case dget d ''text'' of
           PStr t \<Rightarrow> (case word_texts rest of Inl x \<Rightarrow> Inl x | Inr ts \<Rightarrow> Inr (t # ts))
         | _ \<Rightarrow> Inl (TypeErr ''sequence item: expected str instance''))
      else word_texts rest)"
| "word_texts (_ # rest) = Inl (OtherExc ''AttributeError'')"

definition stripped_text :: "pyval \<Rightarrow> exn + string option" where
  "stripped_text v =
     (if \<not> truthy v then Inr None
      else (case v of PStr t \<Rightarrow> Inr (Some (str_strip t)) | _ \<Rightarrow> Inl (OtherExc ''AttributeError'')))"

definition page_text :: "pyval \<Rightarrow> exn + string option" where
  "page_text pages =
     (case pages of
        PList (PDict page # rest) \<Rightarrow>
          (case sub_dict page ''representation'' of Inl x \<Rightarrow> Inl x
           | Inr r \<Rightarrow> stripped_text (dget_default r ''text'' (PStr [])))
      | PList _ \<Rightarrow> Inl (OtherExc ''AttributeError'')
      | _ \<Rightarrow> Inl (KeyErr ''0''))"

definition image_text :: "pyval \<Rightarrow> exn + string option" where
  "image_text img =
     (case img of
        PDict d \<Rightarrow>
          (case dget_default d ''text_words'' (PList []) of
             PList ws \<Rightarrow> (case word_texts ws of Inl x \<Rightarrow> Inl x
                         | Inr ts \<Rightarrow> stripped_text (PStr (str_join '' '' ts)))
           | _ \<Rightarrow> Inl (TypeErr ''not a list of words''))
      | _ \<Rightarrow> Inl (OtherExc ''AttributeError''))"

definition get_text_from_standard_blueprint :: "dict \<Rightarrow> exn + string option" where
  "get_text_from_standard_blueprint result_json =
     (if result_json = [] then Inr None
      else
        (case sub_dict result_json ''metadata'' of Inl x \<Rightarrow> Inl x
         | Inr m \<Rightarrow>
             (let modality = dget m ''semantic_modality''; pages = dget result_json ''pages'';
                  img = dget result_json ''image''
              in if modality = PStr ''DOCUMENT'' \<and> truthy pages then page_text pages
                 else if modality = PStr ''IMAGE'' \<and> truthy img then image_text img
                 else Inr None)))"

text \<open>\<open>re.findall\<close> of the pattern of an identifier: 32 hexadecimal digits in groups of 8, 4, 4, 4 and 12.\<close>

definition is_hex :: "char \<Rightarrow> bool" where
  "is_hex c = (let n = (of_char c :: nat) in 48 \<le> n \<and> n \<le> 57 \<or> 97 \<le> n \<and> n \<le> 102)"

definition is_uuid :: "string \<Rightarrow> bool" where
  "is_uuid s = (map length (split_on CHR ''-'' s) = [8, 4, 4, 4, 12] \<and>
                list_all (\<lambda>c. is_hex c \<or> c = CHR ''-'') s)"

function find_uuids :: "string \<Rightarrow> string list" where
  "find_uuids s =
     (if s = [] then []
      else if is_uuid (take 36 s) then take 36 s # find_uuids (drop 36 s)
      else find_uuids (tl s))"
  by pat_completeness auto

termination
  by (relation "measure length") auto

declare find_uuids.simps [simp del]

definition get_ddb_record_from_bda_output ::
  "'t env \<Rightarrow> string \<Rightarrow> string \<Rightarrow> ('t, dict option) wprog" where
  "get_ddb_record_from_bda_output e output_bucket_name output_object_key =
     (let ids = find_uuids (''s3://'' @ output_bucket_name @ ''/'' @ output_object_key) in
      if ids = [] then ret None
      else bindP (query_by_key e DocumentMetadataT ''bdaInvocationId'' (last ids) None)
             (\<lambda>items. ret (case items of [] \<Rightarrow> None | i # rest \<Rightarrow> Some i)))"

definition get_ddb_key_from_bda_output ::
  "'t env \<Rightarrow> string \<Rightarrow> string \<Rightarrow> ('t, string option) wprog" where
  "get_ddb_key_from_bda_output e output_bucket_name output_object_key =
     bindP (get_ddb_record_from_bda_output e output_bucket_name output_object_key) (\<lambda>r.
       if \<not> present r then ret None
       else ret (to_opt_str (dget (opt_default [] r) ''fileName'')))"

text \<open>The first output path of the job's metadata.  \<open>TypeError\<close> and \<open>AttributeError\<close> both end the
  search without one; they are \<open>Inl ()\<close> here.\<close>

fun segment_path :: "pyval \<Rightarrow> unit + string option" where
  "segment_path (PDict d) =
     (if has_key d ''custom_output_path'' then
        (case dget d ''custom_output_path'' of PStr s \<Rightarrow> Inr (Some s) | _ \<Rightarrow> Inr (Some ''None''))
      else if has_key d ''standard_output_path'' then
        (case dget d ''standard_output_path'' of PStr s \<Rightarrow> Inr (Some s) | _ \<Rightarrow> Inr (Some ''None''))
      else Inr None)"
| "segment_path (PStr s) =
     (if contains_sub ''custom_output_path'' s \<or> contains_sub ''standard_output_path'' s
      then Inl () else Inr None)"
| "segment_path (PList vs) =
     (if PStr ''custom_output_path'' \<in> set vs \<or> PStr ''standard_output_path'' \<in> set vs
      then Inl () else Inr None)"
| "segment_path _ = Inl ()"

fun first_path :: "pyval list \<Rightarrow> unit + string option" where
  "first_path [] = Inr None"
| "first_path (s # rest) =
     (case segment_path s of Inr None \<Rightarrow> first_path rest | r \<Rightarrow> r)"

fun first_output_path :: "pyval list \<Rightarrow> unit + string option" where
  "first_output_path [] = Inr None"
| "first_output_path (PDict d # rest) =
     (case iterate (dget_default d ''segment_metadata'' (PList [])) of
        Inl x \<Rightarrow> Inl ()
      | Inr segments \<Rightarrow>
          (case first_path segments of Inr None \<Rightarrow> first_output_path rest | r \<Rightarrow> r))"
| "first_output_path (_ # rest) = Inl ()"

definition extract_bda_output_s3_uri :: "'t env \<Rightarrow> string \<Rightarrow> string \<Rightarrow> exn + string option" where
  "extract_bda_output_s3_uri e bucket key =
     (case s3_object e bucket key of
        Inl x \<Rightarrow> Inl x
      | Inr raw \<Rightarrow>
          (case parse_json_object raw of
             None \<Rightarrow> Inr None
           | Some job \<Rightarrow>
               (case iterate (dget_default job ''output_metadata'' (PList [])) of
                  Inl x \<Rightarrow> Inr None
                | Inr outputs \<Rightarrow>
                    (case first_output_path outputs of Inl u \<Rightarrow> Inr None | Inr p \<Rightarrow> Inr p))))"

section \<open>extractors/bda.py\<close>

record matched_blueprint =
  mb_name :: pyval
  mb_confidence :: pyval

definition matched_blueprint_of :: "dict \<Rightarrow> exn + matched_blueprint" where
  "matched_blueprint_of result_json =
     (case sub_dict result_json ''matched_blueprint'' of Inl x \<Rightarrow> Inl x
      | Inr d \<Rightarrow> Inr \<lparr>mb_name = dget d ''name'', mb_confidence = dget d ''confidence''\<rparr>)"

definition document_class_of :: "dict \<Rightarrow> exn + string option" where
  "document_class_of result_json =
     (case sub_dict result_json ''document_class'' of Inl x \<Rightarrow> Inl x
      | Inr d \<Rightarrow> Inr (to_opt_str (dget d ''type'')))"

text \<open>A confidence that is not a number ends in \<open>TypeError\<close>; the code raises it where it first computes
  with it.\<close>

fun num_of :: "pyval \<Rightarrow> exn + rat" where
  "num_of (PNum x) = Inr x"
| "num_of (PBool b) = Inr (if b then 1 else 0)"
| "num_of _ = Inl (TypeErr ''unsupported operand type'')"

fun scores_of_map :: "dict \<Rightarrow> exn + (string \<times> rat) list" where
  "scores_of_map [] = Inr []"
| "scores_of_map ((n, v) # rest) =
     (case num_of v of Inl x \<Rightarrow> Inl x
      | Inr c \<Rightarrow> (case scores_of_map rest of Inl x \<Rightarrow> Inl x | Inr cs \<Rightarrow> Inr ((n, c) # cs)))"

fun scores_of :: "conf_maps \<Rightarrow> exn + scores" where
  "scores_of [] = Inr []"
| "scores_of (m # ms) =
     (case scores_of_map m of Inl x \<Rightarrow> Inl x
      | Inr s \<Rightarrow> (case scores_of ms of Inl x \<Rightarrow> Inl x | Inr ss \<Rightarrow> Inr (s # ss)))"

definition opt_num :: "pyval \<Rightarrow> rat option" where
  "opt_num v = (case num_of v of Inl x \<Rightarrow> None | Inr c \<Rightarrow> Some c)"

definition extract_bda_result ::
  "'t env \<Rightarrow> dict \<Rightarrow> exn + (extraction_result option \<times> matched_blueprint)" where
  "extract_bda_result e result_json =
     (case matched_blueprint_of result_json of Inl x \<Rightarrow> Inl x
      | Inr mb \<Rightarrow>
          if mb_name mb = PNone then Inr (None, mb)
          else
            (case document_class_of result_json of Inl x \<Rightarrow> Inl x
             | Inr document_class \<Rightarrow>
                 (case read_bda_output e result_json False of Inl x \<Rightarrow> Inl x
                  | Inr r \<Rightarrow>
                      (case scores_of (field_confidence_map_list r) of Inl x \<Rightarrow> Inl x
                       | Inr ss \<Rightarrow>
                           Inr (Some \<lparr>er_document_type = document_class, er_output_uri = None,
                                  er_field_confidence_scores = ss, er_processing_started_at = None,
                                  er_processing_completed_at = None, er_processing_duration_seconds = None,
                                  er_field_empty_list = empty_fields r,
                                  er_field_missing_geometry_list = fields_missing_geometry r,
                                  er_matched_blueprint_name = to_opt_str (mb_name mb),
                                  er_matched_blueprint_confidence = opt_num (mb_confidence mb)\<rparr>, mb)))))"

section \<open>processors/bda.py\<close>

record processor_result =
  pr_object_key :: string
  pr_tenant_id :: "string option"
  pr_batch_id :: "string option"
  pr_started_at :: "pyval option"
  pr_extraction_result :: "extraction_result option"
  pr_output_uri :: "string option"
  pr_classification_data :: "classification_data option"
  pr_status :: "process_status option"

definition timed_result :: "'t env \<Rightarrow> dict \<Rightarrow> extraction_result \<Rightarrow> exn + extraction_result" where
  "timed_result e r result =
     (let v = dget r ''extractionStartedAt'' in
      if \<not> truthy v then Inr result
      else (case v of
              PTime t \<Rightarrow>
                Inr (result\<lparr>er_processing_started_at := Some t, er_processing_completed_at := Some (now e),
                             er_processing_duration_seconds := Some (get_elapsed_time_seconds t (now e))\<rparr>)
            | _ \<Rightarrow> Inl (ValueErr ''Invalid isoformat string'')))"

definition no_match_data :: "string \<Rightarrow> string option \<Rightarrow> matched_blueprint \<Rightarrow> string \<Rightarrow> classification_data" where
  "no_match_data uri document_class mb msg =
     \<lparr>cd_bda_output_s3_uri = Some uri, cd_matched_document_class = document_class,
      cd_matched_blueprint_name = to_opt_str (mb_name mb),
      cd_matched_blueprint_confidence = opt_num (mb_confidence mb), cd_field_confidence_scores = None,
      cd_field_below_threshold_list = None, cd_field_empty_list = None, cd_field_missing_geometry_list = None,
      cd_additional_info = Some msg\<rparr>"

definition bda_document_detection_min_char_length :: nat where
  "bda_document_detection_min_char_length = 50"

definition has_content :: "string option \<Rightarrow> bool" where
  "has_content text =
     (truthy_str text \<and>
      bda_document_detection_min_char_length < length (filter is_alnum (opt_default [] text)))"

definition result_of_json ::
  "'t env \<Rightarrow> string \<Rightarrow> dict \<Rightarrow> pyval option \<Rightarrow> string \<Rightarrow> dict \<Rightarrow> exn + processor_result" where
  "result_of_json e uri r started_at file_name result_json =
     (let base = \<lparr>pr_object_key = file_name, pr_tenant_id = to_opt_str (dget r ''tenantId''),
                  pr_batch_id = to_opt_str (dget r ''batchId''), pr_started_at = started_at,
                  pr_extraction_result = None, pr_output_uri = None, pr_classification_data = None,
                  pr_status = None\<rparr>
      in (case extract_bda_result e result_json of Inl x \<Rightarrow> Inl x
          | Inr (found, mb) \<Rightarrow>
              (case document_class_of result_json of Inl x \<Rightarrow> Inl x
               | Inr document_class \<Rightarrow>
                   (case found of
                      Some result \<Rightarrow>
                        (case timed_result e r result of Inl x \<Rightarrow> Inl x
                         | Inr timed \<Rightarrow>
                             Inr (base\<lparr>pr_extraction_result := Some timed, pr_output_uri := Some uri\<rparr>))
                    | None \<Rightarrow>
                        (case get_text_from_standard_blueprint result_json of Inl x \<Rightarrow> Inl x
                         | Inr text \<Rightarrow>
                             if has_content text then
                               Inr (base\<lparr>pr_classification_data := Some (no_match_data uri document_class mb
                                           ''No matching custom blueprint found. Document detected, but not implemented.''),
                                         pr_status := Some PS_NO_CUSTOM_BLUEPRINT_MATCHED\<rparr>)
                             else
                               Inr (base\<lparr>pr_classification_data := Some (no_match_data uri document_class mb
                                           ''No matching custom blueprint found. Unable to extract meaningful document content.''),
                                         pr_status := Some PS_NO_DOCUMENT_DETECTED\<rparr>))))))"

definition process_record ::
  "'t env \<Rightarrow> string \<Rightarrow> dict \<Rightarrow> pyval option \<Rightarrow> exn + processor_result" where
  "process_record e uri r started_at =
     (case map_of r ''fileName'' of
        None \<Rightarrow> Inl (KeyErr ''fileName'')
      | Some v \<Rightarrow>
          (case get_bda_result_json e uri of
             None \<Rightarrow> Inl (ValueErr ''No BDA result JSON found'')
           | Some j \<Rightarrow>
               if j = [] then Inl (ValueErr ''No BDA result JSON found'')
               else result_of_json e uri r started_at (opt_default [] (to_opt_str v)) j))"

definition process_bda_result ::
  "'t env \<Rightarrow> string \<Rightarrow> string \<Rightarrow> pyval option \<Rightarrow> ('t, processor_result) wprog" where
  "process_bda_result e bucket key started_at =
     bindP (lift_result (extract_bda_output_s3_uri e bucket key)) (\<lambda>uri.
       if \<not> truthy_str uri then raise (ValueErr ''No BDA output S3 URI found'')
       else
         bindP (get_ddb_record_from_bda_output e bucket key) (\<lambda>r.
           if \<not> present r then raise (ValueErr ''No DDB record found for BDA output'')
           else lift_result (process_record e (opt_default [] uri) (opt_default [] r) started_at)))"

section \<open>pipeline/bda.py and the job\<close>

definition classify_bda :: "'t env \<Rightarrow> processor_result \<Rightarrow> ('t, dict) wprog" where
  "classify_bda e r =
     (case pr_extraction_result r of
        Some result \<Rightarrow>
          catchP (classify_extraction_result e (pr_object_key r) result (pr_output_uri r) (pr_tenant_id r)
                    (pr_batch_id r) (pr_started_at r) EM_BDA)
            (\<lambda>x. raise (RuntimeErr ''Extraction succeeded but failed to persist result''))
      | None \<Rightarrow>
          (case (pr_status r, pr_classification_data r) of
             (Some st, Some data) \<Rightarrow>
               if st = PS_NO_CUSTOM_BLUEPRINT_MATCHED
               then classify_as_no_custom_blueprint_matched e (pr_object_key r) data (pr_started_at r)
                      (pr_batch_id r) EM_BDA
               else classify_as_no_document_detected e (pr_object_key r) data (pr_started_at r)
                      (pr_batch_id r) EM_BDA
           | _ \<Rightarrow> raise (ValueErr ''ProcessorResult has no extraction_result or status'')))"

definition run_bda_result_pipeline :: "'t env \<Rightarrow> string \<Rightarrow> string \<Rightarrow> pyval option \<Rightarrow> ('t, dict) wprog" where
  "run_bda_result_pipeline e bucket key started_at =
     bindP (process_bda_result e bucket key started_at) (classify_bda e)"

definition bda_result_main :: "'t env \<Rightarrow> string \<Rightarrow> string \<Rightarrow> pyval option \<Rightarrow> ('t, dict) wprog" where
  "bda_result_main e bucket key started_at =
     (if \<not> ends_with ''job_metadata.json'' key then ret []
      else run_bda_result_pipeline e bucket key started_at)"

end
