(* ===== verification/Result_Laws.thy ===== *)
theory Result_Laws
  imports Bda_Results Classification_Laws
begin

text \<open>
  What the event of a finished BDA job does: it takes effect on the document that carries the
  invocation and on no other, at most once however often it is delivered, and the status it leaves
  is the one the result calls for.
\<close>

section \<open>One event, one document\<close>

lemma classify_bda_call:
  assumes "pr_extraction_result r = None" "pr_status r = Some st" "pr_classification_data r = Some data"
  shows "classify_bda e r = run_call e (pr_object_key r) (pr_batch_id r)
    (if st = PS_NO_CUSTOM_BLUEPRINT_MATCHED then CallNoBlueprint data (pr_started_at r) EM_BDA
     else CallNoDocument data (pr_started_at r) EM_BDA)"
  using assms by (simp add: classify_bda_def)

context service begin

lemma classify_bda_once: "guarantees (once look (pr_object_key r)) (classify_bda e r)"
proof (cases "pr_extraction_result r")
  case (Some result)
  have "guarantees (once look (pr_object_key r)) (run_call e (pr_object_key r) (pr_batch_id r)
      (CallExtraction result (pr_output_uri r) (pr_tenant_id r) (pr_started_at r) EM_BDA))"
    by (rule run_call_once)
  then show ?thesis
    unfolding classify_bda_def Some option.case run_call.simps by (intro once.g_catch once.g_raise)
next
  case None
  show ?thesis
  proof (cases "pr_status r = None \<or> pr_classification_data r = None")
    case True
    then have "classify_bda e r = raise (ValueErr ''ProcessorResult has no extraction_result or status'')"
      using None by (auto simp: classify_bda_def split: option.splits)
    then show ?thesis using once.g_raise by simp
  next
    case False
    then obtain st data where sd: "pr_status r = Some st" "pr_classification_data r = Some data" by auto
    show ?thesis unfolding classify_bda_call [OF None sd] by (rule run_call_once)
  qed
qed

lemma record_of_output_run:
  assumes "get_ddb_record_from_bda_output e bucket key w = (x, w')"
  shows "item_in look w' = item_in look w \<and> outbox w' = outbox w \<and>
    (\<forall>it. x = Inr (Some it) \<longrightarrow>
       map_of it ''bdaInvocationId'' = Some (PStr (last (find_uuids (''s3://'' @ bucket @ ''/'' @ key)))))"
proof (cases "find_uuids (''s3://'' @ bucket @ ''/'' @ key) = []")
  case True
  then show ?thesis using assms by (auto simp: get_ddb_record_from_bda_output_def)
next
  case False
  let ?id = "last (find_uuids (''s3://'' @ bucket @ ''/'' @ key))"
  obtain y w1 where q: "on_store (db_query (client e) DocumentMetadataT [KEq ''bdaInvocationId'' (PStr ?id)]) w = (y, w1)"
    by (cases "on_store (db_query (client e) DocumentMetadataT [KEq ''bdaInvocationId'' (PStr ?id)]) w")
  have w': "w' = w1" using assms False q
    by (auto simp: get_ddb_record_from_bda_output_def query_by_key_def bindP_run Let_def split: sum.splits)
  have id: "map_of it ''bdaInvocationId'' = Some (PStr ?id)" if x: "x = Inr (Some it)" for it
  proof -
    obtain pages where y: "y = Inr pages"
      using assms False q x by (auto simp: get_ddb_record_from_bda_output_def query_by_key_def bindP_run Let_def
          split: sum.splits)
    define c where "c = concat pages"
    have "x = Inr (case c of [] \<Rightarrow> None | i # rest \<Rightarrow> Some i)"
      using assms False q y by (simp add: c_def get_ddb_record_from_bda_output_def query_by_key_def bindP_run Let_def
          collect_pages_concat)
    then have "it \<in> set (concat pages)" using x unfolding c_def [symmetric] by (cases c) auto
    moreover have "db_query (client e) DocumentMetadataT [KEq ''bdaInvocationId'' (PStr ?id)] (store w) =
        (Inr pages, store w1)"
      using on_store_eq [OF q] y by simp
    ultimately show ?thesis using query_sound by fastforce
  qed
  show ?thesis using query_store_frame [OF q] id w' by blast
qed

end


definition bda_output :: "string \<Rightarrow> string \<Rightarrow> exn + pyval" where
  "bda_output bucket key =
     (if ends_with ''job_metadata.json'' key then
        Inr (PJson (PDict [(''output_metadata'', PList [PDict [(''segment_metadata'',
          PList [PDict [(''custom_output_path'', PStr ''s3://out/r.json'')]])]])]))
      else
        Inr (PJson (PDict
          [(''matched_blueprint'', PDict [(''name'', PStr ''W2''), (''confidence'', PNum 1)]),
           (''document_class'', PDict [(''type'', PStr ''W2'')]),
           (''explainability_info'', PList [PDict [(''wages'', PDict [(''value'', PStr ''10''),
              (''confidence'', PNum 1), (''geometry'', PList [])])]])])))"

definition event_env :: "mem env" where
  "event_env = base_env\<lparr>s3_object := bda_output\<rparr>"

definition event_key :: string where
  "event_key = ''t/a/01234567-89ab-cdef-0123-456789abcdef/job_metadata.json''"

definition invoked_document :: mem where
  "invoked_document = [((DocumentMetadataT, doc_key ''a''),
     [(''fileName'', PStr ''a''), (''tenantId'', PStr ''t''), (''processStatus'', PStr (ps_value PS_STARTED)),
      (''bdaInvocationId'', PStr ''01234567-89ab-cdef-0123-456789abcdef'')])]"

definition example_event :: "(exn + dict) \<times> mem world" where
  "example_event = bda_result_main event_env ''out'' event_key None (world_of invoked_document)"

lemma example_event_run:
  "length (outbox (snd example_event)) = 1 \<and> final_at mem_look ''a'' (snd example_event)"
  by code_simp


end
