(* ===== verification/Reaper.thy ===== *)
theory Reaper
  imports Classification
begin

text \<open>
  \<open>jobs/document_reaper/main.py\<close>: documents that have been in a non-final status for too long are
  resolved by what BDA says of their job.  \<open>services/bda.get_bda_job_response\<close> turns every error
  into \<open>None\<close>, so that it is a function here.
\<close>

record reaper_services =
  rs_bda_status :: "string \<Rightarrow> dict option"
  rs_metric_error :: "exn option"
  rs_status_index :: bool

definition stale_threshold_hours :: rat where
  "stale_threshold_hours = 1"

definition stale_cutoff :: "'t env \<Rightarrow> rat" where
  "stale_cutoff e = now e - stale_threshold_hours * 3600"

definition query_stale_by_status :: "'t env \<Rightarrow> process_status \<Rightarrow> rat \<Rightarrow> ('t, dict list) wprog" where
  "query_stale_by_status e st cutoff =
     bindP (on_store (db_query (client e) DocumentMetadataT
              [KEq ''processStatus'' (PStr (ps_value st)), KLt ''createdAt'' (PTime cutoff)]))
       (\<lambda>pages. ret (collect_pages [] pages))"

text \<open>The queries of the statuses run in threads; one that fails is logged and contributes nothing.\<close>

fun find_stale :: "'t env \<Rightarrow> process_status list \<Rightarrow> rat \<Rightarrow> ('t, dict list) wprog" where
  "find_stale e [] cutoff = ret []"
| "find_stale e (st # sts) cutoff =
     bindP (catchP (query_stale_by_status e st cutoff) (\<lambda>x. ret [])) (\<lambda>items.
     bindP (find_stale e sts cutoff) (\<lambda>rest. ret (items @ rest)))"

definition find_stale_records :: "'t env \<Rightarrow> ('t, dict list) wprog" where
  "find_stale_records e = find_stale e non_terminal (stale_cutoff e)"

definition mark_terminal ::
  "'t env \<Rightarrow> string \<Rightarrow> process_status \<Rightarrow> string option \<Rightarrow> ('t, bool) wprog" where
  "mark_terminal e file_name st reason =
     catchP
       (thenP (update_item e DocumentMetadataT (doc_key file_name)
                 ([USet ''processStatus'' (PStr (ps_value st)), USet ''updatedAt'' (PTime (now e))] @
                  set_if_str ''errorMessage'' reason)
                 build_ddb_non_terminal_condition)
          (ret True))
       (\<lambda>x. if x = ConditionalCheckFailed then ret False else raise x)"

definition mark_and_increment ::
  "'t env \<Rightarrow> string \<Rightarrow> string option \<Rightarrow> process_status \<Rightarrow> string option \<Rightarrow> ('t, string option) wprog" where
  "mark_and_increment e file_name batch_id st reason =
     bindP (mark_terminal e file_name st reason) (\<lambda>applied.
     thenP (whenP (applied \<and> truthy_str batch_id) (increment_resolved_count e (opt_default [] batch_id)))
       (ret (if applied then Some (ps_value st) else None)))"

definition reported_job_status :: "dict \<Rightarrow> string" where
  "reported_job_status response = opt_default [] (to_opt_str (dget_default response ''status'' (PStr [])))"

definition process_stale_record :: "'t env \<Rightarrow> reaper_services \<Rightarrow> dict \<Rightarrow> ('t, string option) wprog" where
  "process_stale_record e rs r =
     (case map_of r ''fileName'' of
        None \<Rightarrow> raise (KeyErr ''fileName'')
      | Some v \<Rightarrow>
          (let file_name = opt_default [] (to_opt_str v);
               arn = to_opt_str (dget r ''bdaInvocationArn'');
               batch_id = to_opt_str (dget r ''batchId'')
           in if \<not> truthy_str arn then mark_and_increment e file_name batch_id PS_TIMED_OUT None
              else
                (case rs_bda_status rs (opt_default [] arn) of
                   None \<Rightarrow> mark_and_increment e file_name batch_id PS_TIMED_OUT None
                 | Some response \<Rightarrow>
                     if bda_is_completed (reported_job_status response) then
                       mark_and_increment e file_name batch_id PS_FAILED
                         (Some ''BDA completed but result was never processed'')
                     else if bda_is_failed (reported_job_status response) then
                       mark_and_increment e file_name batch_id PS_FAILED
                         (Some (''BDA reported status: '' @ reported_job_status response))
                     else ret None)))"

definition count_outcome :: "string \<Rightarrow> (string \<times> nat) list \<Rightarrow> (string \<times> nat) list" where
  "count_outcome a counts =
     AList.update a ((case map_of counts a of None \<Rightarrow> 0 | Some n \<Rightarrow> n) + 1) counts"

text \<open>The name of a record is read before its \<open>try\<close>, so that a record without one stops the job.\<close>

fun reap :: "'t env \<Rightarrow> reaper_services \<Rightarrow> dict list \<Rightarrow> (string \<times> nat) list \<Rightarrow> ('t, (string \<times> nat) list) wprog"
where
  "reap e rs [] counts = ret counts"
| "reap e rs (r # stale) counts =
     (if \<not> has_key r ''fileName'' then raise (KeyErr ''fileName'')
      else
        bindP (catchP (bindP (process_stale_record e rs r) (\<lambda>reaped.
                         ret (if truthy_str reaped then count_outcome (opt_default [] reaped) counts else counts)))
                 (\<lambda>x. ret (count_outcome ''error'' counts)))
          (reap e rs stale))"

definition reaper_main :: "'t env \<Rightarrow> reaper_services \<Rightarrow> ('t, nat \<times> (string \<times> nat) list) wprog" where
  "reaper_main e rs =
     (if \<not> table_configured e DocumentMetadataT \<or> \<not> rs_status_index rs
      then raise (ValueErr ''the table and its status index must be set'')
      else
        bindP (find_stale_records e) (\<lambda>stale.
        thenP (case rs_metric_error rs of None \<Rightarrow> ret () | Some x \<Rightarrow> raise x)
          (bindP (reap e rs stale []) (\<lambda>counts. ret (length stale, counts)))))"

end
