(* ===== verification/Reaper_Laws.thy ===== *)
theory Reaper_Laws
  imports Reaper Footprints
begin

text \<open>
  The reaper: whatever fails it changes no final document and accounts for no more documents than it
  found; and on a reliable table service every stale document whose job is not running any more is
  final after it.
\<close>

section \<open>What reaping may do to a document\<close>

definition reap_step :: "tname \<Rightarrow> dict \<Rightarrow> dict option \<Rightarrow> dict option \<Rightarrow> bool" where
  "reap_step T k x y = (T = DocumentMetadataT \<longrightarrow> y = x \<or> (\<exists>it. y = Some it \<and> is_final it))"

lemma free_reap: "free reap_step DocumentBatchesT" and free_final: "free final_step DocumentBatchesT"
  by (simp_all add: free_def reap_step_def)

sublocale service \<subseteq> reaps: item_order look e reap_step
  by unfold_locales (auto simp: reap_step_def)

lemma reap_final:
  "items_rel look reap_step w w' \<Longrightarrow> final_at look k w \<Longrightarrow> final_at look k w'"
  by (auto simp: items_rel_def reap_step_def final_at_def split: option.splits) (metis option.inject)+

text \<open>Only the two statuses the reaper gives are written, so a written document is final.\<close>

definition reaped_status :: "process_status \<Rightarrow> bool" where
  "reaped_status st = (st \<in> {PS_TIMED_OUT, PS_FAILED})"

lemma reaped_final:
  assumes "updated_item k x us = Some it" "USet ''processStatus'' (PStr (ps_value st)) \<in> set us"
    "reaped_status st"
  shows "is_final it"
proof -
  have "map_of it ''processStatus'' = Some (PStr (ps_value st))"
    using updated_item_set [OF assms(1,2)] .
  moreover have "is_classified (ps_value st)"
    using assms(3) by (auto simp: reaped_status_def is_classified_def)
  ultimately show ?thesis by (simp add: is_final_def dget_def)
qed

context service begin

lemma reap_mark: "reaped_status st \<Longrightarrow> guarantees (items_rel look reap_step) (mark_terminal e f st reason)"
  unfolding mark_terminal_def
proof (intro reaps.order.g_rules reaps.g_update_item)
  fix it it'
  assume st: "reaped_status st"
    and u: "updated_item (doc_key f) it ([USet ''processStatus'' (PStr (ps_value st)),
      USet ''updatedAt'' (PTime (now e))] @ set_if_str ''errorMessage'' reason) = Some it'"
  have "is_final it'" using reaped_final [OF u _ st] by simp
  then show "reap_step DocumentMetadataT (doc_key f) it (Some it')" by (simp add: reap_step_def)
qed

lemma final_mark: "guarantees (items_rel look final_step) (mark_terminal e f st reason)"
  unfolding mark_terminal_def
proof (intro final.order.g_rules final.g_update_item)
  fix it it'
  assume "cond_holds build_ddb_non_terminal_condition (opt_default [] it)"
  then show "final_step DocumentMetadataT (doc_key f) it (Some it')"
    using guard_not_final [OF _ refl] by (cases it) auto
qed

lemma silent_mark: "guarantees (\<lambda>w w'. outbox w' = outbox w) (mark_terminal e f st reason)"
  unfolding mark_terminal_def update_item_def by (intro silent.g_rules on_store_silent)

lemma silent_increment: "guarantees (\<lambda>w w'. outbox w' = outbox w) (increment_resolved_count e b)"
  unfolding increment_resolved_count_def count_resolved_def finalise_batch_def update_batch_status_def
    query_jobs_by_batch_id_def query_by_key_def update_item_def
  by (intro silent.g_rules on_store_silent)

lemma reap_mark_and_increment:
  "reaped_status st \<Longrightarrow> guarantees (items_rel look reap_step) (mark_and_increment e f b st reason)"
  unfolding mark_and_increment_def
  by (intro reaps.order.g_rules reap_mark reaps.f_increment free_reap)

lemma final_mark_and_increment:
  "guarantees (items_rel look final_step) (mark_and_increment e f b st reason)"
  unfolding mark_and_increment_def
  by (intro final.order.g_rules final_mark final.f_increment free_final)

lemma silent_mark_and_increment:
  "guarantees (\<lambda>w w'. outbox w' = outbox w) (mark_and_increment e f b st reason)"
  unfolding mark_and_increment_def by (intro silent.g_rules silent_mark silent_increment)

lemma reap_process: "guarantees (items_rel look reap_step) (process_stale_record e rs r)"
  unfolding process_stale_record_def Let_def
  by (intro reaps.order.g_rules reap_mark_and_increment) (simp_all add: reaped_status_def)

lemma final_process: "guarantees (items_rel look final_step) (process_stale_record e rs r)"
  unfolding process_stale_record_def Let_def by (intro final.order.g_rules final_mark_and_increment)

lemma silent_process: "guarantees (\<lambda>w w'. outbox w' = outbox w) (process_stale_record e rs r)"
  unfolding process_stale_record_def Let_def by (intro silent.g_rules silent_mark_and_increment)

lemma reap_reap: "guarantees (items_rel look reap_step) (reap e rs stale counts)"
proof (induction stale arbitrary: counts)
  case Nil
  show ?case unfolding reap.simps by (rule reaps.order.g_ret)
next
  case (Cons r stale)
  show ?case unfolding reap.simps by (intro reaps.order.g_rules reap_process Cons)
qed

lemma final_reap: "guarantees (items_rel look final_step) (reap e rs stale counts)"
proof (induction stale arbitrary: counts)
  case Nil
  show ?case unfolding reap.simps by (rule final.order.g_ret)
next
  case (Cons r stale)
  show ?case unfolding reap.simps by (intro final.order.g_rules final_process Cons)
qed

lemma silent_reap: "guarantees (\<lambda>w w'. outbox w' = outbox w) (reap e rs stale counts)"
proof (induction stale arbitrary: counts)
  case Nil
  show ?case unfolding reap.simps by (rule silent.g_ret)
next
  case (Cons r stale)
  show ?case unfolding reap.simps by (intro silent.g_rules silent_process Cons)
qed

lemma same_find: "guarantees (items_rel look (\<lambda>T k x y. x = y)) (find_stale e sts cutoff)"
proof (induction sts)
  case Nil
  show ?case unfolding find_stale.simps by (rule same.order.g_ret)
next
  case (Cons st sts)
  then show ?case
    unfolding find_stale.simps query_stale_by_status_def by (intro same.order.g_rules same.g_query)
qed

lemma silent_find: "guarantees (\<lambda>w w'. outbox w' = outbox w) (find_stale e sts cutoff)"
proof (induction sts)
  case Nil
  show ?case unfolding find_stale.simps by (rule silent.g_ret)
next
  case (Cons st sts)
  then show ?case
    unfolding find_stale.simps query_stale_by_status_def by (intro silent.g_rules silent.r_query)
qed

lemma find_stale_frame:
  assumes "find_stale e sts cutoff w = (r, w')"
  shows "item_in look w' = item_in look w" "outbox w' = outbox w"
  using guaranteesD [OF same_find assms] guaranteesD [OF silent_find assms]
  by (simp_all add: items_rel_def fun_eq_iff)

lemma find_stale_total: "\<exists>items w'. find_stale e sts cutoff w = (Inr items, w')"
proof (induction sts arbitrary: w)
  case (Cons st sts)
  obtain r w1 where q: "query_stale_by_status e st cutoff w = (r, w1)"
    by (cases "query_stale_by_status e st cutoff w")
  obtain rest w2 where "find_stale e sts cutoff w1 = (Inr rest, w2)" using Cons by blast
  then show ?case using q by (cases r) (simp_all add: bindP_run catchP_run)
qed simp

end

section \<open>Outcomes\<close>

lemma sum_count_outcome: "sum_list (map snd (count_outcome a counts)) = Suc (sum_list (map snd counts))"
proof (induction counts)
  case (Cons c counts)
  then show ?case by (cases c) (auto simp: count_outcome_def)
qed (simp add: count_outcome_def)

lemma reap_counts:
  "reap e rs stale counts w = (Inr counts', w') \<Longrightarrow>
   sum_list (map snd counts') \<le> sum_list (map snd counts) + length stale"
proof (induction stale arbitrary: counts w)
  case (Cons r stale)
  then obtain c w1 where c: "reap e rs stale c w1 = (Inr counts', w')"
    "c = counts \<or> (\<exists>a. c = count_outcome a counts)"
    by (auto simp: bindP_run catchP_run split: if_splits prod.splits sum.splits)
  have "sum_list (map snd c) \<le> Suc (sum_list (map snd counts))" using c(2) sum_count_outcome by auto
  then show ?case using Cons.IH [OF c(1)] by simp
qed simp

text \<open>C27: Whatever fails, the reaper leaves every final document as it is, removes none, sends no
  message, and the outcomes it reports are at most as many as the stale documents it found.\<close>

theorem reaper_keeps_final:
  assumes "ddb_laws look (client e)"
    and "reaper_main e rs w = (r, w')"
  shows "items_rel look final_step w w' \<and> outbox w' = outbox w \<and>
    (case r of Inl x \<Rightarrow> True | Inr (n, counts) \<Rightarrow> sum_list (map snd counts) \<le> n)"
proof -
  note S = serviceI [OF assms(1)]
  show ?thesis
  proof (cases "\<not> table_configured e DocumentMetadataT \<or> \<not> rs_status_index rs")
    case True
    then show ?thesis using assms(2) by (auto simp: reaper_main_def items_rel_def final_step_refl)
  next
    case False
    obtain stale w1 where f: "find_stale e non_terminal (stale_cutoff e) w = (Inr stale, w1)"
      using service.find_stale_total [OF S] by blast
    note fr = service.find_stale_frame [OF S f]
    show ?thesis
    proof (cases "rs_metric_error rs")
      case (Some x)
      then show ?thesis
        using assms(2) False f fr by (auto simp: reaper_main_def find_stale_records_def bindP_run thenP_run
            items_rel_def final_step_refl)
    next
      case None
      obtain s w2 where s: "reap e rs stale [] w1 = (s, w2)" by (cases "reap e rs stale [] w1")
      have w': "w' = w2" "case r of Inl x \<Rightarrow> True | Inr (n, counts) \<Rightarrow> n = length stale \<and> s = Inr counts"
        using assms(2) False f None s
        by (auto simp: reaper_main_def find_stale_records_def bindP_run thenP_run split: sum.splits)
      have "items_rel look final_step w1 w2" "outbox w2 = outbox w1"
        using guaranteesD [OF service.final_reap [OF S] s] guaranteesD [OF service.silent_reap [OF S] s]
        by simp_all
      moreover have "case r of Inl x \<Rightarrow> True | Inr (n, counts) \<Rightarrow> sum_list (map snd counts) \<le> n"
        using w'(2) reap_counts [of e rs stale "[]" w1 _ w2] s by (auto split: sum.splits prod.splits)
      ultimately show ?thesis using fr w'(1) by (simp add: items_rel_def)
    qed
  qed
qed

section \<open>Every stale document is resolved\<close>

text \<open>A document is named by its key; it is due when it is not final, was created before the cutoff, and
  its job, if it has one, is unknown to BDA, completed or failed.\<close>

definition named :: "('t \<Rightarrow> tname \<Rightarrow> dict \<Rightarrow> dict option) \<Rightarrow> 't world \<Rightarrow> bool" where
  "named look w = (\<forall>k it. item_in look w DocumentMetadataT k = Some it \<longrightarrow>
     (\<exists>f. k = doc_key f \<and> map_of it ''fileName'' = Some (PStr f)))"

definition waiting :: "dict \<Rightarrow> bool" where
  "waiting it = (\<exists>st \<in> set non_terminal. map_of it ''processStatus'' = Some (PStr (ps_value st)))"

definition job_over :: "reaper_services \<Rightarrow> dict \<Rightarrow> bool" where
  "job_over rs it =
     (let arn = to_opt_str (dget it ''bdaInvocationArn'') in
      \<not> truthy_str arn \<or>
      (case rs_bda_status rs (opt_default [] arn) of None \<Rightarrow> True
       | Some d \<Rightarrow> bda_is_completed (reported_job_status d) \<or> bda_is_failed (reported_job_status d)))"

definition due :: "'t env \<Rightarrow> reaper_services \<Rightarrow> dict \<Rightarrow> bool" where
  "due e rs it = (waiting it \<and> job_over rs it \<and>
     (\<exists>c. map_of it ''createdAt'' = Some (PTime c) \<and> c < stale_cutoff e))"

definition open_or_final :: "('t \<Rightarrow> tname \<Rightarrow> dict \<Rightarrow> dict option) \<Rightarrow> string \<Rightarrow> 't world \<Rightarrow> bool" where
  "open_or_final look f w =
     (final_at look f w \<or> (\<exists>it. item_in look w DocumentMetadataT (doc_key f) = Some it \<and> waiting it))"

lemma reap_open:
  assumes "items_rel look reap_step w w'" "open_or_final look f w"
  shows "open_or_final look f w'"
proof (cases "final_at look f w")
  case True
  then show ?thesis using reap_final [OF assms(1)] by (simp add: open_or_final_def)
next
  case False
  have "reap_step DocumentMetadataT (doc_key f) (item_in look w DocumentMetadataT (doc_key f))
      (item_in look w' DocumentMetadataT (doc_key f))"
    using assms(1) by (simp add: items_rel_def)
  then show ?thesis
    using assms(2) False by (auto simp: open_or_final_def reap_step_def final_at_def)
qed

lemma waiting_guard: "waiting it \<Longrightarrow> cond_holds build_ddb_non_terminal_condition it"
  by (auto simp: waiting_def build_ddb_non_terminal_condition_def)

context reliable_service begin

lemma mark_terminal_resolves:
  assumes "open_or_final look f w" "reaped_status st"
  obtains b w' where "mark_terminal e f st reason w = (Inr b, w')" "final_at look f w'"
proof (cases "cond_holds build_ddb_non_terminal_condition
    (opt_default [] (item_in look w DocumentMetadataT (doc_key f)))")
  case False
  let ?us = "[USet ''processStatus'' (PStr (ps_value st)), USet ''updatedAt'' (PTime (now e))] @
    set_if_str ''errorMessage'' reason"
  obtain w' where w': "update_item e DocumentMetadataT (doc_key f) ?us build_ddb_non_terminal_condition w =
      (Inl ConditionalCheckFailed, w')" "item_in look w' = item_in look w"
    using update_item_refused [OF False] by metis
  have "final_at look f w"
    using assms(1) False waiting_guard by (auto simp: open_or_final_def)
  then have "final_at look f w'" using w'(2) by (simp add: final_at_def)
  moreover have "mark_terminal e f st reason w = (Inr False, w')"
    using w'(1) by (simp add: mark_terminal_def catchP_run thenP_run)
  ultimately show ?thesis using that by blast
next
  case True
  let ?us = "[USet ''processStatus'' (PStr (ps_value st)), USet ''updatedAt'' (PTime (now e))] @
    set_if_str ''errorMessage'' reason"
  let ?x = "item_in look w DocumentMetadataT (doc_key f)"
  have "\<exists>it. updated_item (doc_key f) ?x ?us = Some it"
    by (auto simp: updated_item_def set_if_str_def doc_key_def Let_def)
  then obtain it where it: "updated_item (doc_key f) ?x ?us = Some it" by blast
  obtain w' where w': "update_item e DocumentMetadataT (doc_key f) ?us build_ddb_non_terminal_condition w =
      (Inr it, w')" "item_in look w' = (item_in look w)(DocumentMetadataT :=
         (item_in look w DocumentMetadataT)(doc_key f \<mapsto> it))"
    using update_item_total [OF True it] by metis
  have "is_final it" using reaped_final [OF it _ assms(2)] by simp
  then have "final_at look f w'" by (simp add: final_at_def w'(2))
  moreover have "mark_terminal e f st reason w = (Inr True, w')"
    using w'(1) by (simp add: mark_terminal_def catchP_run thenP_run)
  ultimately show ?thesis using that by blast
qed

lemma mark_and_increment_resolves:
  assumes "open_or_final look f w" "reaped_status st"
  shows "final_at look f (snd (mark_and_increment e f b st reason w))"
proof -
  obtain a w1 where m: "mark_terminal e f st reason w = (Inr a, w1)" "final_at look f w1"
    by (rule mark_terminal_resolves [OF assms])
  have "items_rel look reap_step w1 (snd (thenP (whenP (a \<and> truthy_str b)
      (increment_resolved_count e (opt_default [] b))) (ret (if a then Some (ps_value st) else None)) w1))"
    by (rule guaranteesD [OF _ prod.collapse [symmetric]])
      (intro reaps.order.g_rules reaps.f_increment free_reap)
  then show ?thesis using m by (auto simp: mark_and_increment_def bindP_run intro: reap_final)
qed

lemma process_resolves:
  assumes "open_or_final look f w" "map_of r ''fileName'' = Some (PStr f)" "job_over rs r"
  shows "final_at look f (snd (process_stale_record e rs r w))"
  using assms(2,3) mark_and_increment_resolves [OF assms(1)]
  by (auto simp: process_stale_record_def job_over_def Let_def reaped_status_def split: option.splits)

lemma reap_resolves:
  assumes "\<forall>r \<in> set stale. has_key r ''fileName''" "r \<in> set stale"
    and "map_of r ''fileName'' = Some (PStr f)" "job_over rs r" "open_or_final look f w"
  shows "final_at look f (snd (reap e rs stale counts w))"
  using assms(1,2,5)
proof (induction stale arbitrary: counts w)
  case (Cons h stale)
  obtain s w1 where p: "process_stale_record e rs h w = (s, w1)"
    by (cases "process_stale_record e rs h w")
  obtain c where c: "snd (reap e rs (h # stale) counts w) = snd (reap e rs stale c w1)"
    using Cons.prems(1) p by (cases s) (auto simp: bindP_run catchP_run)
  have R: "items_rel look reap_step w w1" using guaranteesD [OF reap_process p] .
  have rest: "items_rel look reap_step w1 (snd (reap e rs stale c w1))"
    using reap_reap by (simp add: guarantees_def)
  show ?case
  proof (cases "r = h")
    case True
    have "final_at look f w1"
      using process_resolves [OF Cons.prems(3), of h rs] assms(3,4) p True by simp
    then show ?thesis unfolding c using rest by (rule reap_final [rotated])
  next
    case False
    then show ?thesis unfolding c using Cons.IH [of w1 c] Cons.prems reap_open [OF R] by auto
  qed
qed simp

lemma find_stale_finds:
  obtains items w' where "find_stale e sts cutoff w = (Inr items, w')" "item_in look w' = item_in look w"
    "set items = {it. (\<exists>k. item_in look w DocumentMetadataT k = Some it) \<and>
       (\<exists>st \<in> set sts. map_of it ''processStatus'' = Some (PStr (ps_value st))) \<and>
       keycond_holds it (KLt ''createdAt'' (PTime cutoff))}"
proof -
  have "\<exists>items w'. find_stale e sts cutoff w = (Inr items, w') \<and> item_in look w' = item_in look w \<and>
    set items = {it. (\<exists>k. item_in look w DocumentMetadataT k = Some it) \<and>
       (\<exists>st \<in> set sts. map_of it ''processStatus'' = Some (PStr (ps_value st))) \<and>
       keycond_holds it (KLt ''createdAt'' (PTime cutoff))}"
  proof (induction sts arbitrary: w)
    case (Cons st sts)
    let ?ks = "[KEq ''processStatus'' (PStr (ps_value st)), KLt ''createdAt'' (PTime cutoff)]"
    obtain pages t' where q: "db_query (client e) DocumentMetadataT ?ks (store w) = (Inr pages, t')"
      and pages: "set (concat pages) = {it. (\<exists>k. look (store w) DocumentMetadataT k = Some it) \<and>
        (\<forall>kc \<in> set ?ks. keycond_holds it kc)}"
      using query_total by blast
    define w1 where "w1 = w\<lparr>store := t'\<rparr>"
    have run: "on_store (db_query (client e) DocumentMetadataT ?ks) w = (Inr pages, w1)"
      by (simp add: on_store_def q w1_def)
    have i1: "item_in look w1 = item_in look w" using query_store_frame [OF run] by simp
    obtain rest w2 where r: "find_stale e sts cutoff w1 = (Inr rest, w2)" "item_in look w2 = item_in look w1"
      "set rest = {it. (\<exists>k. item_in look w1 DocumentMetadataT k = Some it) \<and>
         (\<exists>st \<in> set sts. map_of it ''processStatus'' = Some (PStr (ps_value st))) \<and>
         keycond_holds it (KLt ''createdAt'' (PTime cutoff))}"
      using Cons.IH [of w1] by blast
    have "find_stale e (st # sts) cutoff w = (Inr (concat pages @ rest), w2)"
      by (simp add: bindP_run catchP_run query_stale_by_status_def run r(1) collect_pages_concat)
    moreover have "set (concat pages @ rest) = {it. (\<exists>k. item_in look w DocumentMetadataT k = Some it) \<and>
       (\<exists>st \<in> set (st # sts). map_of it ''processStatus'' = Some (PStr (ps_value st))) \<and>
       keycond_holds it (KLt ''createdAt'' (PTime cutoff))}"
      using pages r(3) i1 by (auto simp: item_in_def simp del: keycond_holds.simps(3))
    moreover have "item_in look w2 = item_in look w" using i1 r(2) by simp
    ultimately show ?case by blast
  qed simp
  then show ?thesis using that by blast
qed

end

text \<open>C26: On a reliable table service no document stays stuck.  After a run of the reaper every document
  that was in a non-final status, was created before the threshold, and whose BDA job is absent,
  unknown, completed or failed, is final, whether or not counting it for its batch succeeded.\<close>

theorem reaper_resolves_stale:
  assumes "reliable_ddb look (client e)" "named look w"
    and "table_configured e DocumentMetadataT" "rs_status_index rs" "rs_metric_error rs = None"
    and "item_in look w DocumentMetadataT (doc_key f) = Some it" "due e rs it"
  shows "final_at look f (snd (reaper_main e rs w))"
proof -
  note S = reliable_serviceI [OF assms(1)]
  obtain stale w1 where f: "find_stale e non_terminal (stale_cutoff e) w = (Inr stale, w1)"
    and same: "item_in look w1 = item_in look w"
    and stale: "set stale = {it. (\<exists>k. item_in look w DocumentMetadataT k = Some it) \<and>
       (\<exists>st \<in> set non_terminal. map_of it ''processStatus'' = Some (PStr (ps_value st))) \<and>
       keycond_holds it (KLt ''createdAt'' (PTime (stale_cutoff e)))}"
    by (rule reliable_service.find_stale_finds [OF S])
  have names: "\<forall>r \<in> set stale. has_key r ''fileName''"
    using assms(2) unfolding stale named_def has_key_def by fastforce
  have name: "map_of it ''fileName'' = Some (PStr f)"
    using assms(2,6) unfolding named_def by (fastforce simp: doc_key_def)
  have mem: "it \<in> set stale" using assms(6,7) unfolding stale by (auto simp: due_def waiting_def)
  have "open_or_final look f w1" using assms(6,7) same by (auto simp: open_or_final_def due_def)
  then have "final_at look f (snd (reap e rs stale [] w1))"
    using reliable_service.reap_resolves [OF S names mem name] assms(7) by (simp add: due_def)
  moreover have "snd (reaper_main e rs w) = snd (reap e rs stale [] w1)"
    using assms(3-5) f
    by (simp add: reaper_main_def find_stale_records_def bindP_run thenP_run split: prod.splits sum.splits)
  ultimately show ?thesis by simp
qed

definition stuck_document :: mem where
  "stuck_document = [((DocumentMetadataT, doc_key ''a''),
     [(''fileName'', PStr ''a''), (''processStatus'', PStr (ps_value PS_STARTED)), (''createdAt'', PTime 0)])]"

definition reaping_env :: "mem env" where
  "reaping_env = base_env\<lparr>now := 7200\<rparr>"

definition no_bda :: reaper_services where
  "no_bda = \<lparr>rs_bda_status = (\<lambda>_. None), rs_metric_error = None, rs_status_index = True\<rparr>"

lemma reaper_resolves_stale_witness:
  "final_at mem_look ''a'' (snd (reaper_main reaping_env no_bda (world_of stuck_document)))"
proof -
  let ?it = "[(''fileName'', PStr ''a''), (''processStatus'', PStr (ps_value PS_STARTED)), (''createdAt'', PTime 0)]"
  have l: "reliable_ddb mem_look (client reaping_env)" using mem_reliable by (simp add: reaping_env_def)
  have i: "item_in mem_look (world_of stuck_document) DocumentMetadataT (doc_key ''a'') = Some ?it"
    by (simp add: item_in_def world_of_def stuck_document_def mem_look_def)
  have n: "named mem_look (world_of stuck_document)"
    by (auto simp: named_def item_in_def world_of_def stuck_document_def mem_look_def split: if_splits)
  have d: "due reaping_env no_bda ?it"
    by (simp add: due_def waiting_def non_terminal_def job_over_def no_bda_def stale_cutoff_def reaping_env_def
        stale_threshold_hours_def truthy_str_def Let_def)
  show ?thesis
    by (rule reaper_resolves_stale [OF l n _ _ _ i d])
      (simp_all add: reaping_env_def base_env_def no_bda_def)
qed

lemma reaper_keeps_final_witness:
  "outbox (snd (reaper_main reaping_env no_bda (world_of stuck_document))) = []"
proof -
  have l: "ddb_laws mem_look (client reaping_env)" using mem_laws by (simp add: reaping_env_def)
  have "outbox (snd (reaper_main reaping_env no_bda (world_of stuck_document))) = outbox (world_of stuck_document)"
    using reaper_keeps_final [OF l, of no_bda "world_of stuck_document"] by (metis prod.collapse)
  then show ?thesis by (simp add: world_of_def)
qed


end
