(* ===== verification/Job_Polling.thy ===== *)
theory Job_Polling
  imports Classification Uploads
begin

text \<open>
  Waiting for a job: \<open>utils/jobs.py\<close>, the presentation of a response in \<open>utils/response_builder.py\<close>
  and the polling loop of \<open>pipeline/jobs.py\<close>.
\<close>

section \<open>Presentation of the fields\<close>

text \<open>\<open>target.setdefault(part, {})\<close> along the parts, and the entry under the last one.\<close>

fun put_path :: "string list \<Rightarrow> pyval \<Rightarrow> dict \<Rightarrow> exn + dict" where
  "put_path [] entry target = Inr target"
| "put_path [part] entry target = Inr (dset part entry target)"
| "put_path (part # parts) entry target =
     (case dget_default target part (PDict []) of
        PDict d \<Rightarrow>
          (case put_path parts entry d of Inl x \<Rightarrow> Inl x | Inr d' \<Rightarrow> Inr (dset part (PDict d') target))
      | _ \<Rightarrow> Inl (OtherExc ''AttributeError''))"

fun nest_into :: "dict \<Rightarrow> dict \<Rightarrow> exn + dict" where
  "nest_into [] nested = Inr nested"
| "nest_into ((name, entry) # flat) nested =
     (case put_path (split_on CHR ''.'' name) entry nested of
        Inl x \<Rightarrow> Inl x | Inr nested' \<Rightarrow> nest_into flat nested')"

definition nest_fields :: "dict \<Rightarrow> exn + dict" where
  "nest_fields flat_fields = nest_into flat_fields []"

definition present_v1_response :: "dict \<Rightarrow> exn + dict" where
  "present_v1_response v1 =
     (case dget v1 ''fields'' of
        PDict fs \<Rightarrow> (case nest_fields fs of Inl x \<Rightarrow> Inl x
                     | Inr nested \<Rightarrow> Inr (dset ''fields'' (PDict nested) v1))
      | _ \<Rightarrow> Inr v1)"

section \<open>utils/jobs.py\<close>

record job_status =
  js_ddb_record :: "dict option"
  js_object_key :: pyval
  js_process_status :: pyval
  js_v1_response_json :: pyval

definition get_job_status :: "'t env \<Rightarrow> string \<Rightarrow> ('t, job_status) wprog" where
  "get_job_status e job_id =
     bindP (get_ddb_by_job_id e job_id) (\<lambda>r.
       ret (if \<not> present r
            then \<lparr>js_ddb_record = None, js_object_key = PNone, js_process_status = PNone,
                  js_v1_response_json = PNone\<rparr>
            else \<lparr>js_ddb_record = r, js_object_key = dget (opt_default [] r) ''fileName'',
                  js_process_status = dget (opt_default [] r) ''processStatus'',
                  js_v1_response_json = dget (opt_default [] r) ''v1ApiResponseJson''\<rparr>))"

section \<open>pipeline/jobs.py\<close>

text \<open>
  The client may be gone when a poll begins, and while the poller waits, anything may happen in
  the world: both are parameters, by the number of the poll.
\<close>

record 't poller =
  pl_disconnected :: "nat \<Rightarrow> bool"
  pl_wait :: "nat \<Rightarrow> 't world \<Rightarrow> 't world"

definition polling_interval :: int where
  "polling_interval = 5"

definition job_finished :: "job_status \<Rightarrow> bool" where
  "job_finished js =
     ((case js_process_status js of PStr s \<Rightarrow> s \<noteq> [] \<and> is_classified s | _ \<Rightarrow> False) \<and>
      truthy (js_v1_response_json js))"

definition as_response :: "pyval \<Rightarrow> exn + dict" where
  "as_response v = (case v of PDict d \<Rightarrow> present_v1_response d | _ \<Rightarrow> Inl (OtherExc ''AttributeError''))"

definition finished_response ::
  "'t env \<Rightarrow> job_status \<Rightarrow> bool \<Rightarrow> bool \<Rightarrow> ('t, dict) wprog" where
  "finished_response e js include_extracted_data include_bounding_box =
     (if include_extracted_data \<and> truthy (js_object_key js) then
        bindP (build_v1_api_response e (opt_default [] (to_opt_str (js_object_key js)))
                 (opt_default [] (to_opt_str (js_process_status js))) None None True include_bounding_box) (\<lambda>result.
          lift_result (present_v1_response result))
      else
        bindP (lift_result (json_loads (js_v1_response_json js))) (\<lambda>v. lift_result (as_response v)))"

text \<open>One poll: the object key seen so far, which a later error does not forget, and the response of a
  finished job.  Every exception of a poll is logged and counts as a poll without a response.\<close>

definition poll_once ::
  "'t env \<Rightarrow> string \<Rightarrow> bool \<Rightarrow> bool \<Rightarrow> string option \<Rightarrow> ('t, string option \<times> dict option) wprog"
where
  "poll_once e job_id include_extracted_data include_bounding_box object_key =
     bindP (catchP (bindP (get_job_status e job_id) (\<lambda>js. ret (Some js))) (\<lambda>x. ret None)) (\<lambda>found.
       case found of
         None \<Rightarrow> ret (object_key, None)
       | Some js \<Rightarrow>
           (let seen = (if truthy (js_object_key js) then to_opt_str (js_object_key js) else object_key) in
            if job_finished js then
              catchP (bindP (finished_response e js include_extracted_data include_bounding_box)
                        (\<lambda>d. ret (seen, Some d)))
                (\<lambda>x. ret (seen, None))
            else ret (seen, None)))"

function poll_loop ::
  "'t env \<Rightarrow> 't poller \<Rightarrow> string \<Rightarrow> int \<Rightarrow> bool \<Rightarrow> bool \<Rightarrow> int \<Rightarrow> nat \<Rightarrow> string option \<Rightarrow>
   ('t, string option \<times> dict option) wprog"
where
  "poll_loop e p job_id timeout data box elapsed n object_key =
     (if elapsed < timeout then
        if pl_disconnected p n then ret (object_key, None)
        else
          bindP (poll_once e job_id data box object_key) (\<lambda>(seen, found).
            if found \<noteq> None then ret (seen, found)
            else thenP (modifies (pl_wait p n))
                   (poll_loop e p job_id timeout data box (elapsed + polling_interval) (Suc n) seen))
      else ret (object_key, None))"
  by pat_completeness auto

termination
  by (relation "measure (\<lambda>(e, p, job_id, timeout, data, box, elapsed, n, object_key). nat (timeout - elapsed))")
    (auto simp: polling_interval_def)

declare poll_loop.simps [simp del]

definition int_str :: "int \<Rightarrow> string" where
  "int_str i = (if i < 0 then ''-'' @ nat_str (nat (- i)) else nat_str (nat i))"

definition timeout_response :: "string \<Rightarrow> int \<Rightarrow> dict" where
  "timeout_response job_id timeout =
     [(''job_id'', PStr job_id), (''job_status'', PStr (ps_value PS_FAILED)),
      (''message'', PStr (''Processing timeout after '' @ int_str timeout @ '' seconds''))]"

definition poll_for_completion ::
  "'t env \<Rightarrow> 't poller \<Rightarrow> string \<Rightarrow> int \<Rightarrow> bool \<Rightarrow> bool \<Rightarrow> ('t, dict) wprog" where
  "poll_for_completion e p job_id timeout data box =
     bindP (poll_loop e p job_id timeout data box 0 0 None) (\<lambda>(object_key, found).
       case found of
         Some response \<Rightarrow> ret response
       | None \<Rightarrow>
           thenP (whenP (truthy_str object_key)
                    (thenP (classify_as_failed e (opt_default [] object_key) ''Processing timeout''
                              (info_data (''Processing did not complete within '' @ int_str timeout @ '' seconds''))
                              None None)
                       (ret ())))
             (ret (timeout_response job_id timeout)))"

end
