(* ===== verification/Job_Laws.thy ===== *)
theory Job_Laws
  imports Job_Polling Processor_Laws "HOL-Library.Sublist"
begin

text \<open>
  Nested fields are found where their names say; polling ends, answers a job that finishes in time
  with its response, and never touches a final document.
\<close>

section \<open>Nested fields\<close>

fun path_lookup :: "string list \<Rightarrow> dict \<Rightarrow> pyval option" where
  "path_lookup [] d = Some (PDict d)"
| "path_lookup (part # parts) d =
     (case map_of d part of
        None \<Rightarrow> None
      | Some v \<Rightarrow> if parts = [] then Some v
                  else (case v of PDict s \<Rightarrow> path_lookup parts s | _ \<Rightarrow> None))"

definition is_dict :: "pyval option \<Rightarrow> bool" where
  "is_dict x = (case x of Some (PDict d) \<Rightarrow> True | _ \<Rightarrow> False)"

definition open_path :: "string list \<Rightarrow> dict \<Rightarrow> bool" where
  "open_path ps d = (\<forall>q. strict_prefix q ps \<longrightarrow> path_lookup q d = None \<or> is_dict (path_lookup q d))"

lemma open_path_step:
  assumes "open_path (p # ps) d" "ps \<noteq> []"
  obtains s where "dget_default d p (PDict []) = PDict s" "open_path ps s"
proof (cases "map_of d p")
  case None
  then have g: "dget_default d p (PDict []) = PDict []" by (simp add: dget_default_def)
  have "path_lookup q [] = None \<or> is_dict (path_lookup q [])" for q
    by (cases q) (simp_all add: is_dict_def)
  then have "open_path ps []" by (simp add: open_path_def)
  then show ?thesis using that g by blast
next
  case (Some v)
  have "strict_prefix [p] (p # ps)" using assms(2) by (simp add: strict_prefix_def)
  then have "path_lookup [p] d = None \<or> is_dict (path_lookup [p] d)"
    using assms(1) by (simp only: open_path_def)
  then have "is_dict (Some v)" using Some by simp
  then obtain s where s: "v = PDict s" by (auto simp: is_dict_def split: pyval.splits)
  have "open_path ps s"
    unfolding open_path_def
  proof (intro allI impI)
    fix q
    assume "strict_prefix q ps"
    then have "strict_prefix (p # q) (p # ps)" by simp
    then have o: "path_lookup (p # q) d = None \<or> is_dict (path_lookup (p # q) d)"
      using assms(1) by (simp only: open_path_def)
    show "path_lookup q s = None \<or> is_dict (path_lookup q s)"
      using o Some s by (cases q) (simp_all add: is_dict_def)
  qed
  moreover have "dget_default d p (PDict []) = PDict s" using Some s by (simp add: dget_default_def)
  ultimately show ?thesis using that by blast
qed

lemma put_path_total: "ps \<noteq> [] \<Longrightarrow> open_path ps d \<Longrightarrow> \<exists>d'. put_path ps v d = Inr d'"
proof (induction ps v d rule: put_path.induct)
  case (3 p p2 ps v d)
  obtain s where s: "dget_default d p (PDict []) = PDict s" "open_path (p2 # ps) s"
    by (rule open_path_step [OF 3(3)]) simp
  then show ?case using "3.IH" [OF s(1)] by (auto split: sum.splits)
qed simp_all

lemma put_path_at: "ps \<noteq> [] \<Longrightarrow> put_path ps v d = Inr d' \<Longrightarrow> path_lookup ps d' = Some v"
proof (induction ps v d arbitrary: d' rule: put_path.induct)
  case (3 p p2 ps v d)
  then show ?case by (auto split: pyval.splits sum.splits)
qed auto

lemma put_path_above:
  "put_path ps v d = Inr d' \<Longrightarrow> strict_prefix q ps \<Longrightarrow> is_dict (path_lookup q d')"
proof (induction ps v d arbitrary: d' q rule: put_path.induct)
  case (3 p p2 ps v d)
  obtain s s' where s: "dget_default d p (PDict []) = PDict s" "put_path (p2 # ps) v s = Inr s'"
    "d' = dset p (PDict s') d"
    using 3(2) by (auto split: pyval.splits sum.splits)
  show ?case
  proof (cases q)
    case (Cons a q')
    then have "a = p" "strict_prefix q' (p2 # ps)" using 3(3) by auto
    moreover have "path_lookup (p # q') d' = path_lookup q' s'" using s(3) by (cases "q' = []") simp_all
    ultimately show ?thesis using "3.IH" [OF s(1,2)] Cons by simp
  qed (simp add: is_dict_def)
qed (auto simp: is_dict_def strict_prefix_def prefix_Cons)

lemma put_path_other:
  "put_path ps v d = Inr d' \<Longrightarrow> \<not> prefix ps q \<Longrightarrow> \<not> prefix q ps \<Longrightarrow> path_lookup q d' = path_lookup q d"
proof (induction ps v d arbitrary: d' q rule: put_path.induct)
  case (2 p v d)
  then show ?case by (cases q) auto
next
  case (3 p p2 ps v d)
  obtain s s' where s: "dget_default d p (PDict []) = PDict s" "put_path (p2 # ps) v s = Inr s'"
    "d' = dset p (PDict s') d"
    using 3(2) by (auto split: pyval.splits sum.splits)
  obtain a q' where q: "q = a # q'" using 3(4) by (cases q) auto
  show ?case
  proof (cases "a = p")
    case True
    then have n: "\<not> prefix (p2 # ps) q'" "\<not> prefix q' (p2 # ps)" using 3(3,4) q by auto
    then have "q' \<noteq> []" by auto
    moreover have "path_lookup q' s' = path_lookup q' s" using "3.IH" [OF s(1,2)] n by blast
    moreover have "path_lookup q' [] = None" using \<open>q' \<noteq> []\<close> by (cases q') auto
    ultimately show ?thesis
      using True s(1,3) q by (auto simp: dget_default_def split: option.splits)
  next
    case False
    then show ?thesis using s(3) q by simp
  qed
qed simp

definition prefix_free :: "string list list \<Rightarrow> bool" where
  "prefix_free ps = sorted_wrt (\<lambda>p q. \<not> prefix p q \<and> \<not> prefix q p) ps"

definition settled :: "(string list \<times> pyval) list \<Rightarrow> dict \<Rightarrow> bool" where
  "settled placed d =
     ((\<forall>(ps, v) \<in> set placed. path_lookup ps d = Some v) \<and>
      (\<forall>q. path_lookup q d = None \<or> is_dict (path_lookup q d) \<or> (\<exists>(ps, v) \<in> set placed. prefix ps q)))"

lemma settled_put:
  assumes "settled placed d" "ps \<noteq> []" "\<forall>(qs, u) \<in> set placed. \<not> prefix qs ps \<and> \<not> prefix ps qs"
  obtains d' where "put_path ps v d = Inr d'" "settled ((ps, v) # placed) d'"
proof -
  have "open_path ps d"
    unfolding open_path_def
  proof (intro allI impI)
    fix q
    assume q: "strict_prefix q ps"
    have "\<not> (\<exists>(qs, u) \<in> set placed. prefix qs q)"
      using assms(3) q by (fastforce simp: strict_prefix_def dest: prefix_order.trans)
    then show "path_lookup q d = None \<or> is_dict (path_lookup q d)"
      using assms(1) unfolding settled_def by blast
  qed
  then obtain d' where d': "put_path ps v d = Inr d'" using put_path_total assms(2) by blast
  have "settled ((ps, v) # placed) d'"
    unfolding settled_def
  proof (intro conjI allI)
    have "path_lookup qs d' = Some u" if "(qs, u) \<in> set placed" for qs u
    proof -
      have "path_lookup qs d' = path_lookup qs d"
        using assms(3) that by (intro put_path_other [OF d']) auto
      then show ?thesis using assms(1) that by (auto simp: settled_def)
    qed
    then show "\<forall>(qs, u) \<in> set ((ps, v) # placed). path_lookup qs d' = Some u"
      using put_path_at [OF assms(2) d'] by auto
  next
    fix q
    show "path_lookup q d' = None \<or> is_dict (path_lookup q d') \<or>
        (\<exists>(qs, u) \<in> set ((ps, v) # placed). prefix qs q)"
    proof (cases "prefix ps q \<or> prefix q ps")
      case True
      then show ?thesis using put_path_above [OF d'] by (auto simp: strict_prefix_def)
    next
      case False
      then have "path_lookup q d' = path_lookup q d" using put_path_other [OF d'] by blast
      moreover have "path_lookup q d = None \<or> is_dict (path_lookup q d) \<or>
          (\<exists>(ps, v) \<in> set placed. prefix ps q)"
        using assms(1) unfolding settled_def by blast
      ultimately show ?thesis by auto
    qed
  qed
  then show ?thesis using that d' by blast
qed

lemma nest_into_settles:
  assumes "settled placed d" "prefix_free (map (split_on CHR ''.'' \<circ> fst) flat)"
    and "\<forall>(qs, u) \<in> set placed. \<forall>f \<in> set flat. \<not> prefix qs (split_on CHR ''.'' (fst f)) \<and>
      \<not> prefix (split_on CHR ''.'' (fst f)) qs"
  shows "\<exists>nested placed'. nest_into flat d = Inr nested \<and> settled placed' nested \<and>
    set placed' = set placed \<union> set (map (\<lambda>(n, v). (split_on CHR ''.'' n, v)) flat)"
  using assms
proof (induction flat arbitrary: placed d)
  case (Cons f flat)
  obtain n v where f: "f = (n, v)" by (cases f)
  let ?ps = "split_on CHR ''.'' n"
  have "\<forall>(qs, u) \<in> set placed. \<not> prefix qs ?ps \<and> \<not> prefix ?ps qs" using Cons.prems(3) f by auto
  then obtain d' where d': "put_path ?ps v d = Inr d'" "settled ((?ps, v) # placed) d'"
    by (rule settled_put [OF Cons.prems(1) split_on_nonempty])
  have p: "prefix_free (map (split_on CHR ''.'' \<circ> fst) flat)"
    using Cons.prems(2) by (simp add: prefix_free_def comp_def)
  have i: "\<forall>(qs, u) \<in> set ((?ps, v) # placed). \<forall>f \<in> set flat. \<not> prefix qs (split_on CHR ''.'' (fst f)) \<and>
      \<not> prefix (split_on CHR ''.'' (fst f)) qs"
    using Cons.prems(2,3) f by (auto simp: prefix_free_def)
  obtain nested placed' where "nest_into flat d' = Inr nested" "settled placed' nested"
    "set placed' = set ((?ps, v) # placed) \<union> set (map (\<lambda>(n, v). (split_on CHR ''.'' n, v)) flat)"
    using Cons.IH [OF d'(2) p i] by blast
  then show ?case using f d'(1) by (intro exI [of _ nested] exI [of _ placed']) auto
qed auto

text \<open>Presenting the fields of a response loses none of them: when no field name is a dotted prefix
  of another, nesting succeeds and every field is found in the nested dictionary along the parts of
  its name, with its entry unchanged.\<close>

theorem nested_fields_found:
  assumes "prefix_free (map (split_on CHR ''.'' \<circ> fst) flat)"
  shows "\<exists>nested. nest_fields flat = Inr nested \<and>
    list_all (\<lambda>(name, entry). path_lookup (split_on CHR ''.'' name) nested = Some entry) flat"
proof -
  have "settled [] []"
    unfolding settled_def
  proof (intro conjI allI)
    fix q
    show "path_lookup q [] = None \<or> is_dict (path_lookup q []) \<or> (\<exists>(ps, v) \<in> set []. prefix ps q)"
      by (cases q) (simp_all add: is_dict_def)
  qed simp
  from nest_into_settles [OF this assms] obtain nested placed' where n: "nest_into flat [] = Inr nested"
    "settled placed' nested" "set placed' = set (map (\<lambda>(n, v). (split_on CHR ''.'' n, v)) flat)"
    by auto
  have "path_lookup (split_on CHR ''.'' name) nested = Some entry" if "(name, entry) \<in> set flat" for name entry
    using n(2,3) that unfolding settled_def by fastforce
  then show ?thesis using n(1) by (auto simp: nest_fields_def list_all_iff)
qed

lemma nested_fields_found_witness:
  "\<exists>nested. nest_fields [(''name.first'', PStr ''Ann''), (''name.last'', PStr ''Lee''), (''ssn'', PStr ''1'')] =
     Inr nested \<and> path_lookup [''name'', ''last''] nested = Some (PStr ''Lee'')"
proof -
  have p: "prefix_free (map (split_on CHR ''.'' \<circ> fst)
      [(''name.first'', PStr ''Ann''), (''name.last'', PStr ''Lee''), (''ssn'', PStr ''1'')])"
    by code_simp
  have s: "split_on CHR ''.'' ''name.last'' = [''name'', ''last'']" by code_simp
  show ?thesis using nested_fields_found [OF p] s by auto
qed

section \<open>Polling ends\<close>

lemma idle_poll_once: "guarantees idle (poll_once e job data box k)"
  unfolding poll_once_def get_job_status_def get_ddb_by_job_id_def query_by_key_def finished_response_def Let_def
  by (intro idle.g_rules idle.r_query idle.r_build_v1)

text \<open>A poller that notes each of its waits in the world.\<close>

definition noting :: "(nat \<Rightarrow> bool) \<Rightarrow> 't poller" where
  "noting gone = \<lparr>pl_disconnected = gone,
     pl_wait = (\<lambda>n w. w\<lparr>invocations := invocations w @ [(''wait'', PNum (of_nat n))]\<rparr>)\<rparr>"

definition waits_within :: "int \<Rightarrow> nat" where
  "waits_within time = nat ((time + 4) div 5)"

lemma waits_within_step: "0 < time \<Longrightarrow> Suc (waits_within (time - polling_interval)) \<le> waits_within time"
  by (simp add: waits_within_def polling_interval_def)

lemma poll_loop_waits:
  "length (invocations (snd (poll_loop e (noting gone) job timeout data box elapsed n k w))) \<le>
   length (invocations w) + waits_within (timeout - elapsed)"
proof (induction "nat (timeout - elapsed)" arbitrary: elapsed n k w rule: less_induct)
  case less
  show ?case
  proof (cases "elapsed < timeout \<and> \<not> gone n")
    case False
    then show ?thesis by (subst poll_loop.simps) (auto simp: noting_def)
  next
    case True
    obtain r w1 where o: "poll_once e job data box k w = (r, w1)" by (cases "poll_once e job data box k w")
    have i: "invocations w1 = invocations w" using guaranteesD [OF idle_poll_once o] .
    let ?w2 = "w1\<lparr>invocations := invocations w1 @ [(''wait'', PNum (of_nat n))]\<rparr>"
    have IH: "length (invocations (snd (poll_loop e (noting gone) job timeout data box
        (elapsed + polling_interval) (Suc n) seen ?w2))) \<le>
      length (invocations ?w2) + waits_within (timeout - (elapsed + polling_interval))" for seen
      using True by (intro less) (simp add: polling_interval_def)
    have "Suc (waits_within (timeout - (elapsed + polling_interval))) \<le> waits_within (timeout - elapsed)"
      using waits_within_step [of "timeout - elapsed"] True by (simp add: algebra_simps)
    then have rest: "length (invocations (snd (poll_loop e (noting gone) job timeout data box
        (elapsed + polling_interval) (Suc n) seen ?w2))) \<le>
      length (invocations w) + waits_within (timeout - elapsed)" for seen
      using IH [of seen] i by simp
    show ?thesis
    proof (cases r)
      case (Inl x)
      then show ?thesis using True o i
        by (subst poll_loop.simps) (simp add: noting_def bindP_run)
    next
      case (Inr p)
      obtain seen found where p: "p = (seen, found)" by (cases p)
      have "snd (poll_loop e (noting gone) job timeout data box elapsed n k w) =
          (if found \<noteq> None then w1 else snd (poll_loop e (noting gone) job timeout data box
             (elapsed + polling_interval) (Suc n) seen ?w2))"
        using True o Inr p by (subst poll_loop.simps) (simp add: noting_def bindP_run thenP_run)
      then show ?thesis using rest [of seen] i by simp
    qed
  qed
qed

text \<open>C29: Polling ends: whatever the services answer and however often they fail, a call with a timeout
  of \<open>t\<close> seconds waits at most \<open>t / 5\<close> times, rounded up, before it returns or raises; with a
  timeout that is not positive it does not wait at all.\<close>

theorem polling_ends:
  "length (invocations (snd (poll_for_completion e (noting gone) job timeout data box w))) \<le>
     length (invocations w) + nat ((timeout + 4) div 5)"
proof -
  obtain r w1 where l: "poll_loop e (noting gone) job timeout data box 0 0 None w = (r, w1)"
    by (cases "poll_loop e (noting gone) job timeout data box 0 0 None w")
  let ?rest = "\<lambda>(object_key, found). case found of
         Some response \<Rightarrow> ret response
       | None \<Rightarrow>
           thenP (whenP (truthy_str object_key)
                    (thenP (classify_as_failed e (opt_default [] object_key) ''Processing timeout''
                              (info_data (''Processing did not complete within '' @ int_str timeout @ '' seconds''))
                              None None)
                       (ret ())))
             (ret (timeout_response job timeout))"
  have rest: "guarantees idle (?rest p)" for p
    by (cases p) (auto intro!: idle.g_rules idle_classify split: option.split)
  have "invocations (snd (poll_for_completion e (noting gone) job timeout data box w)) = invocations w1"
    using l rest unfolding poll_for_completion_def
    by (cases r) (simp_all add: bindP_run guarantees_def)
  then show ?thesis
    using poll_loop_waits [of e gone job timeout data box 0 0 None w] l by (simp add: waits_within_def)
qed

section \<open>A finished job is answered\<close>

definition of_job :: "string \<Rightarrow> dict \<Rightarrow> bool" where
  "of_job job it = (map_of it ''jobId'' = Some (PStr job))"

definition status_str :: "dict \<Rightarrow> string" where
  "status_str it = opt_default [] (to_opt_str (dget it ''processStatus''))"

definition answered :: "dict \<Rightarrow> bool" where
  "answered it = (is_final it \<and> truthy (dget it ''v1ApiResponseJson''))"

definition pending :: "('t \<Rightarrow> tname \<Rightarrow> dict \<Rightarrow> dict option) \<Rightarrow> string \<Rightarrow> 't world \<Rightarrow> bool" where
  "pending look job w =
     (\<forall>k it. item_in look w DocumentMetadataT k = Some it \<longrightarrow> of_job job it \<longrightarrow> \<not> answered it)"

definition answered_with ::
  "('t \<Rightarrow> tname \<Rightarrow> dict \<Rightarrow> dict option) \<Rightarrow> string \<Rightarrow> dict \<Rightarrow> 't world \<Rightarrow> bool" where
  "answered_with look job d w =
     ((\<exists>k it. item_in look w DocumentMetadataT k = Some it \<and> of_job job it) \<and>
      (\<forall>k it. item_in look w DocumentMetadataT k = Some it \<longrightarrow> of_job job it \<longrightarrow>
         is_final it \<and> dget it ''v1ApiResponseJson'' = PJson (PDict d)))"

lemma not_classified_empty: "\<not> is_classified []"
  by code_simp

definition job_status_of :: "dict option \<Rightarrow> job_status" where
  "job_status_of r =
     (if \<not> present r
      then \<lparr>js_ddb_record = None, js_object_key = PNone, js_process_status = PNone, js_v1_response_json = PNone\<rparr>
      else \<lparr>js_ddb_record = r, js_object_key = dget (opt_default [] r) ''fileName'',
            js_process_status = dget (opt_default [] r) ''processStatus'',
            js_v1_response_json = dget (opt_default [] r) ''v1ApiResponseJson''\<rparr>)"

lemma job_finished_answered: "job_finished (job_status_of (Some it)) = answered it"
  using not_classified_empty
  by (cases "it = []")
    (auto simp: job_status_of_def job_finished_def answered_def is_final_def present_def split: pyval.split)

context reliable_service begin

lemma get_job_status_total:
  obtains r w' where "get_job_status e job w = (Inr (job_status_of r), w')" "item_in look w' = item_in look w"
    "(r = None \<and> (\<forall>k it. item_in look w DocumentMetadataT k = Some it \<longrightarrow> \<not> of_job job it)) \<or>
     (\<exists>k it. r = Some it \<and> item_in look w DocumentMetadataT k = Some it \<and> of_job job it)"
proof -
  obtain items w' where q: "query_by_key e DocumentMetadataT ''jobId'' job None w = (Inr items, w')"
    "set items = {it. (\<exists>k. item_in look w DocumentMetadataT k = Some it) \<and> map_of it ''jobId'' = Some (PStr job)}"
    "item_in look w' = item_in look w"
    by (rule query_by_key_total)
  let ?r = "case items of [] \<Rightarrow> None | i # rest \<Rightarrow> Some i"
  have "get_job_status e job w = (Inr (job_status_of ?r), w')"
    by (simp add: get_job_status_def get_ddb_by_job_id_def bindP_run q(1) job_status_of_def)
  moreover have "(?r = None \<and> (\<forall>k it. item_in look w DocumentMetadataT k = Some it \<longrightarrow> \<not> of_job job it)) \<or>
     (\<exists>k it. ?r = Some it \<and> item_in look w DocumentMetadataT k = Some it \<and> of_job job it)"
    using q(2) by (cases items) (auto simp: of_job_def)
  ultimately show ?thesis using that q(3) by blast
qed

lemma poll_once_pending:
  assumes "pending look job w"
  obtains seen w' where "poll_once e job False box k w = (Inr (seen, None), w')" "item_in look w' = item_in look w"
proof -
  obtain r w' where r: "get_job_status e job w = (Inr (job_status_of r), w')" "item_in look w' = item_in look w"
    "(r = None \<and> (\<forall>k it. item_in look w DocumentMetadataT k = Some it \<longrightarrow> \<not> of_job job it)) \<or>
     (\<exists>k it. r = Some it \<and> item_in look w DocumentMetadataT k = Some it \<and> of_job job it)"
    by (rule get_job_status_total)
  have "\<not> job_finished (job_status_of r)"
  proof (cases r)
    case None
    then show ?thesis by (simp add: job_status_of_def job_finished_def present_def)
  next
    case (Some it)
    then show ?thesis using r(3) assms by (auto simp: job_finished_answered pending_def)
  qed
  then show ?thesis using that r(1,2) by (simp add: poll_once_def bindP_run catchP_run Let_def)
qed

lemma poll_once_answered:
  assumes "answered_with look job d w" "present_v1_response d = Inr d'"
  obtains seen w' where "poll_once e job False box k w = (Inr (seen, Some d'), w')"
proof -
  obtain r w' where r: "get_job_status e job w = (Inr (job_status_of r), w')"
    "(r = None \<and> (\<forall>k it. item_in look w DocumentMetadataT k = Some it \<longrightarrow> \<not> of_job job it)) \<or>
     (\<exists>k it. r = Some it \<and> item_in look w DocumentMetadataT k = Some it \<and> of_job job it)"
    by (rule get_job_status_total)
  then obtain it where it: "r = Some it" "is_final it" "dget it ''v1ApiResponseJson'' = PJson (PDict d)"
    using assms(1) unfolding answered_with_def by blast
  have f: "job_finished (job_status_of (Some it))" using it by (simp add: job_finished_answered answered_def)
  have "it \<noteq> []" using it(3) by auto
  then have v: "js_v1_response_json (job_status_of (Some it)) = PJson (PDict d)"
    using it(3) by (simp add: job_status_of_def present_def)
  show ?thesis
    using that r(1) f v assms(2)
    by (simp add: it(1) poll_once_def bindP_run catchP_run Let_def finished_response_def as_response_def)
qed

lemma poll_loop_answered:
  assumes "\<forall>i. n \<le> i \<and> i \<le> n + m \<longrightarrow> \<not> pl_disconnected p i"
    and "elapsed + polling_interval * int m < timeout" "present_v1_response d = Inr d'"
    and "if m = 0 then answered_with look job d w else pending look job w"
    and "\<forall>i v. pending look job v \<and> i < n + m - 1 \<longrightarrow> pending look job (pl_wait p i v)"
    and "\<forall>v. pending look job v \<longrightarrow> answered_with look job d (pl_wait p (n + m - 1) v)"
  shows "\<exists>seen w'. poll_loop e p job timeout False box elapsed n k w = (Inr (seen, Some d'), w')"
  using assms
proof (induction m arbitrary: n elapsed k w)
  case 0
  obtain seen w' where "poll_once e job False box k w = (Inr (seen, Some d'), w')"
    using poll_once_answered [of job d w d' box k] 0(3,4) by auto
  then show ?case using 0(1,2) by (subst poll_loop.simps) (simp add: bindP_run)
next
  case (Suc m)
  obtain seen w1 where o: "poll_once e job False box k w = (Inr (seen, None), w1)"
    "item_in look w1 = item_in look w"
    using poll_once_pending [of job w box k] Suc.prems(4) by auto
  have pend: "pending look job w1" using Suc.prems(4) o(2) by (simp add: pending_def)
  have "\<exists>s w'. poll_loop e p job timeout False box (elapsed + polling_interval) (Suc n) seen (pl_wait p n w1) =
      (Inr (s, Some d'), w')"
  proof (rule Suc.IH)
    show "if m = 0 then answered_with look job d (pl_wait p n w1) else pending look job (pl_wait p n w1)"
      using pend Suc.prems(5,6) by (cases m) auto
    show "elapsed + polling_interval + polling_interval * int m < timeout"
      using Suc.prems(2) by (simp add: algebra_simps)
  qed (use Suc.prems in \<open>auto simp: algebra_simps\<close>)
  moreover have "elapsed < timeout" "\<not> pl_disconnected p n"
    using Suc.prems(1,2) by (auto simp: polling_interval_def)
  ultimately show ?case using o(1) by (subst poll_loop.simps) (simp add: bindP_run thenP_run)
qed

end


definition finishing_poller :: "mem poller" where
  "finishing_poller = \<lparr>pl_disconnected = (\<lambda>n. False), pl_wait = (\<lambda>n w.
     if n = 1 then w\<lparr>store := [((DocumentMetadataT, doc_key ''a''),
       [(''fileName'', PStr ''a''), (''jobId'', PStr ''j''), (''processStatus'', PStr (ps_value PS_SUCCESS)),
        (''v1ApiResponseJson'', PJson (PDict [(''jobStatus'', PStr ''completed'')]))])]\<rparr> else w)\<rparr>"


section \<open>Polling and final documents\<close>

context service begin

lemma final_poll_once: "guarantees (items_rel look final_step) (poll_once e job data box k)"
  unfolding poll_once_def get_job_status_def get_ddb_by_job_id_def finished_response_def Let_def
  by (intro final.order.g_rules final.g_query_by_key final.reader.r_build_v1)

lemma final_classify_failed: "guarantees (items_rel look final_step) (classify_as_failed e k msg data started b)"
proof (rule guaranteesI)
  fix w
  have "once look k w (snd (run_call e k b (CallFailed msg data started) w))"
    using run_call_once [of k b "CallFailed msg data started"] unfolding guarantees_def by blast
  then show "items_rel look final_step w (snd (classify_as_failed e k msg data started b w))"
    by (simp add: once_def)
qed

lemma final_poll_loop:
  assumes "\<And>n w. items_rel look final_step w (pl_wait p n w)"
  shows "guarantees (items_rel look final_step) (poll_loop e p job timeout data box elapsed n k)"
proof (induction "nat (timeout - elapsed)" arbitrary: elapsed n k rule: less_induct)
  case less
  have w: "guarantees (items_rel look final_step) (modifies (pl_wait p n))"
    using assms by (intro guaranteesI) simp
  have rest: "guarantees (items_rel look final_step)
      (poll_loop e p job timeout data box (elapsed + polling_interval) (Suc n) seen)"
    if "elapsed < timeout" for seen
    using that by (intro less) (simp add: polling_interval_def)
  show ?case
  proof (cases "elapsed < timeout")
    case True
    show ?thesis
      by (subst poll_loop.simps) (intro final.order.g_rules final_poll_once w rest [OF True])
  next
    case False
    then show ?thesis by (subst poll_loop.simps) (simp only: if_False final.order.g_ret)
  qed
qed

end

text \<open>Polling never touches a final document.  If what happens while it waits keeps the status of
  every final document, so does the whole call, whatever fails; a timeout that comes after the
  document became final leaves it final.\<close>

theorem polling_keeps_final:
  assumes "ddb_laws look (client e)" "\<forall>n v. items_rel look final_step v (pl_wait p n v)"
  shows "items_rel look final_step w (snd (poll_for_completion e p job timeout data box w))"
proof -
  note S = serviceI [OF assms(1)]
  have o: "state_order (items_rel look final_step)"
    unfolding items_rel_def by (unfold_locales) (blast intro: final_step_refl final_step_trans)+
  have "guarantees (items_rel look final_step) (poll_for_completion e p job timeout data box)"
    unfolding poll_for_completion_def
    by (intro state_order.g_rules [OF o] service.final_poll_loop [OF S] service.final_classify_failed [OF S])
      (use assms(2) in blast)
  then show ?thesis by (simp add: guarantees_def)
qed

definition done_document :: mem where
  "done_document = [((DocumentMetadataT, doc_key ''a''),
     [(''fileName'', PStr ''a''), (''jobId'', PStr ''j''), (''processStatus'', PStr (ps_value PS_SUCCESS))])]"

definition still_poller :: "(nat \<Rightarrow> bool) \<Rightarrow> mem poller" where
  "still_poller gone = \<lparr>pl_disconnected = gone, pl_wait = (\<lambda>n w. w)\<rparr>"

lemma polling_keeps_final_witness:
  "final_at mem_look ''a'' (snd (poll_for_completion base_env (still_poller (\<lambda>n. False)) ''j'' 10 False False
     (world_of done_document)))"
proof -
  have f: "final_at mem_look ''a'' (world_of done_document)" by code_simp
  have l: "ddb_laws mem_look (client base_env)" using mem_laws by simp
  have "items_rel mem_look final_step (world_of done_document)
      (snd (poll_for_completion base_env (still_poller (\<lambda>n. False)) ''j'' 10 False False (world_of done_document)))"
    by (rule polling_keeps_final [OF l]) (simp add: still_poller_def items_rel_def final_step_refl)
  then show ?thesis using f by (rule items_rel_final)
qed

text \<open>A client that goes away fails its document, although it is still being processed and the timeout
  is far.\<close>

definition running_document :: mem where
  "running_document = [((DocumentMetadataT, doc_key ''a''),
     [(''fileName'', PStr ''a''), (''jobId'', PStr ''j''), (''processStatus'', PStr (ps_value PS_STARTED))])]"

lemma disconnect_fails_document:
  "status_of (document_in mem_look (snd (poll_for_completion base_env (still_poller (\<lambda>n. n = 1)) ''j'' 600
     False False (world_of running_document))) ''a'') = PStr (ps_value PS_FAILED)"
  by code_simp

end
