(* ===== verification/Auth.thy ===== *)
theory Auth
  imports Builds
begin

text \<open>
  Authentication: \<open>utils/auth.py\<close>, the claims of a token in \<open>utils/jwt_auth.py\<close> and the tenant checks of
  \<open>utils/tenant_access.py\<close>.  The digests, the random part of a new key, the configuration, SSM and
  the signature check of a token are not part of the repository; they are the record
  \<open>auth_services\<close>.  The pepper read from SSM and the times of the last writes live in the world, as
  they live in the container.
\<close>

record auth_services =
  au_resolve_pepper :: "exn + string option"
  au_sha256 :: "string \<Rightarrow> string"
  au_hmac :: "string \<Rightarrow> string \<Rightarrow> string"
  au_monotonic :: rat
  au_cache_ttl :: "exn + int"
  au_enabled :: bool
  au_shared_key :: "exn + string"
  au_tenant_index :: bool
  au_random :: string
  au_jwt_decode :: "string \<Rightarrow> exn + dict"
  au_client_id :: "string option"

definition unauthorized :: exn where
  "unauthorized = HTTPExc 401 ''Invalid API key''"

section \<open>Hashes\<close>

definition hash_key :: "auth_services \<Rightarrow> string \<Rightarrow> string" where
  "hash_key a api_key = au_sha256 a api_key"

text \<open>The result is cached for the life of the process, the \<open>None\<close> of a failure included.\<close>

definition get_pepper :: "auth_services \<Rightarrow> ('t, string option) wprog" where
  "get_pepper a =
     (\<lambda>w. case pepper_cached w of
        Some p \<Rightarrow> (Inr p, w)
      | None \<Rightarrow>
          (let p = (case au_resolve_pepper a of Inl x \<Rightarrow> None | Inr p \<Rightarrow> p)
           in (Inr p, w\<lparr>pepper_cached := Some p\<rparr>)))"

definition hash_key_with_pepper :: "auth_services \<Rightarrow> string \<Rightarrow> string \<Rightarrow> string" where
  "hash_key_with_pepper a api_key pepper = au_hmac a pepper api_key"

definition compute_key_hash :: "auth_services \<Rightarrow> string \<Rightarrow> ('t, string) wprog" where
  "compute_key_hash a api_key =
     bindP (get_pepper a) (\<lambda>pepper.
       ret (if truthy_str pepper then hash_key_with_pepper a api_key (opt_default [] pepper)
            else hash_key a api_key))"

definition api_key_key :: "string \<Rightarrow> dict" where
  "api_key_key key_hash = [(''keyHash'', PStr key_hash)]"

definition lookup_key_in_ddb :: "'t env \<Rightarrow> string \<Rightarrow> ('t, dict option) wprog" where
  "lookup_key_in_ddb e key_hash =
     (if \<not> table_configured e ApiKeysT then raise (ValueErr ''API_KEYS_TABLE_NAME environment variable not set'')
      else catchP (get_item e ApiKeysT (api_key_key key_hash)) (\<lambda>x. ret None))"

definition migrate_key_hash :: "'t env \<Rightarrow> string \<Rightarrow> string \<Rightarrow> ('t, unit) wprog" where
  "migrate_key_hash e old_hash new_hash =
     (if \<not> table_configured e ApiKeysT then ret ()
      else
        catchP
          (bindP (lookup_key_in_ddb e old_hash) (\<lambda>existing.
             if \<not> present existing then ret ()
             else
               thenP (put_item e ApiKeysT (dset ''keyHash'' (PStr new_hash) (opt_default [] existing)) CTrue)
              (thenP (delete_item e ApiKeysT (api_key_key old_hash))
                     (cache_invalidate old_hash))))
          (\<lambda>x. ret ()))"

definition lookup_legacy ::
  "'t env \<Rightarrow> auth_services \<Rightarrow> string \<Rightarrow> string option \<Rightarrow> ('t, dict option) wprog" where
  "lookup_legacy e a api_key pepper =
     bindP (lookup_key_in_ddb e (hash_key a api_key)) (\<lambda>legacy.
       if \<not> present legacy then ret None
       else
         thenP (whenP (truthy_str pepper)
                  (migrate_key_hash e (hash_key a api_key)
                     (hash_key_with_pepper a api_key (opt_default [] pepper))))
           (ret legacy))"

definition lookup_and_maybe_migrate ::
  "'t env \<Rightarrow> auth_services \<Rightarrow> string \<Rightarrow> ('t, dict option) wprog" where
  "lookup_and_maybe_migrate e a api_key =
     bindP (get_pepper a) (\<lambda>pepper.
     bindP (if truthy_str pepper
            then lookup_key_in_ddb e (hash_key_with_pepper a api_key (opt_default [] pepper))
            else ret None) (\<lambda>found.
       if present found then ret found else lookup_legacy e a api_key pepper))"

definition get_cache_ttl_minutes :: "auth_services \<Rightarrow> nat" where
  "get_cache_ttl_minutes a =
     (case au_cache_ttl a of Inl x \<Rightarrow> 5 | Inr seconds \<Rightarrow> nat (max 1 (seconds div 60)))"

section \<open>Validation\<close>

definition active_key :: "dict \<Rightarrow> bool" where
  "active_key r = truthy (dget_default r ''isActive'' (PBool False))"

text \<open>\<open>datetime.fromisoformat\<close> of a text that is not a time with a zone is a \<open>ValueError\<close>.\<close>

definition validate_key_record :: "'t env \<Rightarrow> dict \<Rightarrow> exn + bool" where
  "validate_key_record e r =
     (if \<not> active_key r then Inr False
      else
        (let expires_at = dget r ''expiresAt'' in
         if \<not> truthy expires_at then Inr True
         else
           (case expires_at of
              PTime expiry \<Rightarrow> Inr (\<not> expiry < now e)
            | PStr s \<Rightarrow> Inr False
            | _ \<Rightarrow> Inl (TypeErr ''fromisoformat: argument must be str''))))"

definition last_used_debounce_seconds :: rat where
  "last_used_debounce_seconds = 60"

definition last_used_max_entries :: int where
  "last_used_max_entries = 50000"

text \<open>An entry of the ordered dictionary is written, moved to the end, and the first ones go while
  there are too many.\<close>

definition touch_last_used :: "string \<Rightarrow> rat \<Rightarrow> (string \<times> rat) list \<Rightarrow> (string \<times> rat) list" where
  "touch_last_used key_hash t written =
     (let moved = filter (\<lambda>(h, _). h \<noteq> key_hash) written @ [(key_hash, t)]
      in drop (nat (int (length moved) - last_used_max_entries)) moved)"

definition update_last_used :: "'t env \<Rightarrow> auth_services \<Rightarrow> string \<Rightarrow> ('t, unit) wprog" where
  "update_last_used e a key_hash =
     bindP (reads last_used_written) (\<lambda>written.
       if au_monotonic a - opt_default 0 (map_of written key_hash) < last_used_debounce_seconds then ret ()
       else
         thenP (modifies (\<lambda>w. w\<lparr>last_used_written :=
                  touch_last_used key_hash (au_monotonic a) (last_used_written w)\<rparr>))
           (catchP
              (if \<not> table_configured e ApiKeysT
               then raise (ValueErr ''API_KEYS_TABLE_NAME environment variable not set'')
               else
                 thenP (update_item e ApiKeysT (api_key_key key_hash) [USet ''lastUsed'' (PTime (now e))] CTrue)
                   (ret ()))
              (\<lambda>x. modifies (\<lambda>w. w\<lparr>last_used_written :=
                     filter (\<lambda>(h, _). h \<noteq> key_hash) (last_used_written w)\<rparr>))))"

definition api_key_prefix :: string where
  "api_key_prefix = ''docai_''"

definition is_valid_key_format :: "string \<Rightarrow> bool" where
  "is_valid_key_format api_key =
     (api_key \<noteq> [] \<and> starts_with api_key_prefix api_key \<and> length api_key_prefix + 32 \<le> length api_key)"

text \<open>\<open>_authenticate\<close> in its two parts, the record of a key and its admission.  The update of the last
  use runs in a thread of its own and swallows its errors; it is run here when it is started.\<close>

definition key_record :: "'t env \<Rightarrow> auth_services \<Rightarrow> string \<Rightarrow> string \<Rightarrow> ('t, dict option) wprog" where
  "key_record e a api_key key_hash =
     bindP (cache_get e key_hash) (\<lambda>cached.
       case cached of
         PDict r \<Rightarrow> ret (Some r)
       | _ \<Rightarrow>
           bindP (lookup_and_maybe_migrate e a api_key) (\<lambda>found.
             thenP (whenP (present found)
                      (cache_add e key_hash (PDict (opt_default [] found)) (get_cache_ttl_minutes a)))
               (ret found)))"

definition admit ::
  "'t env \<Rightarrow> auth_services \<Rightarrow> string \<Rightarrow> dict option \<Rightarrow> ('t, dict \<times> pyval) wprog" where
  "admit e a key_hash found =
     (if \<not> present found then raise unauthorized
      else
        bindP (lift_result (validate_key_record e (opt_default [] found))) (\<lambda>valid.
          if \<not> valid then raise unauthorized
          else if \<not> truthy (dget (opt_default [] found) ''tenantId'') then raise unauthorized
          else thenP (update_last_used e a key_hash)
                 (ret (opt_default [] found, dget (opt_default [] found) ''tenantId''))))"

definition authenticate :: "'t env \<Rightarrow> auth_services \<Rightarrow> string \<Rightarrow> ('t, dict \<times> pyval) wprog" where
  "authenticate e a api_key =
     (if \<not> is_valid_key_format api_key then raise unauthorized
      else
        bindP (compute_key_hash a api_key) (\<lambda>key_hash.
        bindP (key_record e a api_key key_hash) (admit e a key_hash)))"

definition verify_with_insecure_shared_key :: "auth_services \<Rightarrow> string option \<Rightarrow> ('t, unit) wprog" where
  "verify_with_insecure_shared_key a api_key =
     bindP (lift_result (au_shared_key a)) (\<lambda>expected_key.
       if expected_key = [] then raise (HTTPExc 500 ''API key not configured'')
       else if \<not> truthy_str api_key \<or> api_key \<noteq> Some expected_key then raise unauthorized
       else ret ())"

section \<open>Issuing keys\<close>

definition get_active_keys_by_name ::
  "'t env \<Rightarrow> auth_services \<Rightarrow> string \<Rightarrow> string option \<Rightarrow> ('t, dict list) wprog" where
  "get_active_keys_by_name e a api_key_name tenant_id =
     (if \<not> table_configured e ApiKeysT then raise (ValueErr ''API_KEYS_TABLE_NAME environment variable not set'')
      else
        catchP
          (case tenant_id of
             Some t \<Rightarrow>
               if \<not> au_tenant_index a
               then raise (ValueErr ''API_KEYS_TENANT_INDEX_NAME environment variable not set'')
               else
                 bindP (query_by_key e ApiKeysT ''tenantId'' t (Some (''apiKeyName'', api_key_name))) (\<lambda>items.
                   ret (filter active_key items))
           | None \<Rightarrow>
               bindP (scan e ApiKeysT) (\<lambda>items.
                 ret (filter (\<lambda>i. dget i ''apiKeyName'' = PStr api_key_name \<and>
                                   active_key i) items)))
          (\<lambda>x. ret []))"

definition is_duplicate_key_name ::
  "'t env \<Rightarrow> auth_services \<Rightarrow> string \<Rightarrow> string \<Rightarrow> ('t, bool) wprog" where
  "is_duplicate_key_name e a tenant_id api_key_name =
     (if \<not> table_configured e ApiKeysT then raise (ValueErr ''API_KEYS_TABLE_NAME environment variable not set'')
      else
        catchP
          (if \<not> au_tenant_index a
           then raise (ValueErr ''API_KEYS_TENANT_INDEX_NAME environment variable not set'')
           else
             bindP (query_by_key e ApiKeysT ''tenantId'' tenant_id (Some (''apiKeyName'', api_key_name)))
               (\<lambda>items. ret (items \<noteq> [])))
          (\<lambda>x. ret False))"

definition new_api_key :: "auth_services \<Rightarrow> string" where
  "new_api_key a = api_key_prefix @ take 32 (au_random a)"

definition key_item ::
  "'t env \<Rightarrow> string \<Rightarrow> string \<Rightarrow> string \<Rightarrow> string \<Rightarrow> rat option \<Rightarrow> string option \<Rightarrow> string option \<Rightarrow> dict" where
  "key_item e key_hash api_key_name environment tenant_id expires_at created_by email_address =
     [(''keyHash'', PStr key_hash), (''apiKeyName'', PStr api_key_name), (''environment'', PStr environment),
      (''isActive'', PBool True), (''createdAt'', PTime (now e))] @
     (case expires_at of None \<Rightarrow> [] | Some t \<Rightarrow> [(''expiresAt'', PTime t)]) @
     [(''tenantId'', PStr tenant_id)] @
     (if truthy_str created_by then [(''createdBy'', of_opt_str created_by)] else []) @
     (if truthy_str email_address then [(''emailAddress'', of_opt_str email_address)] else [])"

definition generate_api_key ::
  "'t env \<Rightarrow> auth_services \<Rightarrow> string \<Rightarrow> string \<Rightarrow> string \<Rightarrow> rat option \<Rightarrow> string option \<Rightarrow> string option \<Rightarrow>
   ('t, string \<times> dict list) wprog"
where
  "generate_api_key e a api_key_name environment tenant_id expires_at created_by email_address =
     bindP (get_active_keys_by_name e a api_key_name (Some tenant_id)) (\<lambda>existing_keys.
     bindP (compute_key_hash a (new_api_key a)) (\<lambda>key_hash.
       if \<not> table_configured e ApiKeysT
       then raise (ValueErr ''API_KEYS_TABLE_NAME environment variable not set'')
       else
         thenP (put_item e ApiKeysT
                  (key_item e key_hash api_key_name environment tenant_id expires_at created_by email_address) CTrue)
           (ret (new_api_key a, existing_keys))))"

section \<open>Finding and revoking keys\<close>

definition prefix_matches :: "string \<Rightarrow> string option \<Rightarrow> dict list \<Rightarrow> pyval list" where
  "prefix_matches prefix tenant_id items =
     map (\<lambda>i. dget i ''keyHash'')
       (filter (\<lambda>i. active_key i \<and>
                    starts_with prefix (opt_default [] (to_opt_str (dget i ''keyHash''))) \<and>
                    (tenant_id = None \<or> dget i ''tenantId'' = of_opt_str tenant_id)) items)"

definition find_api_key_by_prefix :: "'t env \<Rightarrow> string \<Rightarrow> string option \<Rightarrow> ('t, string option) wprog" where
  "find_api_key_by_prefix e prefix tenant_id =
     (if \<not> table_configured e ApiKeysT then raise (ValueErr ''API_KEYS_TABLE_NAME environment variable not set'')
      else
        bindP (catchP (bindP (scan e ApiKeysT) (\<lambda>items. ret (Some items))) (\<lambda>x. ret None)) (\<lambda>scanned.
          case scanned of
            None \<Rightarrow> ret None
          | Some items \<Rightarrow>
              (case prefix_matches prefix tenant_id items of
                 [] \<Rightarrow> ret None
               | [h] \<Rightarrow> ret (to_opt_str h)
               | _ \<Rightarrow> raise (ValueErr ''Prefix matches several keys; use a longer prefix''))))"

definition deactivate_api_key :: "'t env \<Rightarrow> string \<Rightarrow> ('t, bool) wprog" where
  "deactivate_api_key e key_hash =
     (if \<not> table_configured e ApiKeysT then raise (ValueErr ''API_KEYS_TABLE_NAME environment variable not set'')
      else
        bindP (get_item e ApiKeysT (api_key_key key_hash)) (\<lambda>existing.
          if \<not> present existing then ret False
          else
            thenP (update_item e ApiKeysT (api_key_key key_hash) [USet ''isActive'' (PBool False)] CTrue)
           (thenP (cache_invalidate key_hash) (ret True))))"

fun deactivate_each :: "'t env \<Rightarrow> dict list \<Rightarrow> nat \<Rightarrow> ('t, nat) wprog" where
  "deactivate_each e [] count = ret count"
| "deactivate_each e (i # active) count =
     (if \<not> truthy (dget i ''keyHash'') then deactivate_each e active count
      else
        bindP (catchP (bindP (deactivate_api_key e (opt_default [] (to_opt_str (dget i ''keyHash''))))
                         (\<lambda>found. ret (count + 1)))
                 (\<lambda>x. ret count))
          (deactivate_each e active))"

definition deactivate_keys_for_tenant :: "'t env \<Rightarrow> auth_services \<Rightarrow> string \<Rightarrow> ('t, nat) wprog" where
  "deactivate_keys_for_tenant e a tenant_id =
     (if \<not> table_configured e ApiKeysT \<or> \<not> au_tenant_index a then ret 0
      else
        bindP (query_by_key e ApiKeysT ''tenantId'' tenant_id None) (\<lambda>items.
          deactivate_each e (filter active_key items) 0))"

section \<open>Claims of a token\<close>

definition super_admin :: string where
  "super_admin = ''__admin__''"

text \<open>A group claim that is a text is one group; otherwise it is iterated.\<close>

definition get_roles :: "dict \<Rightarrow> pyval list" where
  "get_roles claims =
     (case dget claims ''cognito:groups'' of
        PStr s \<Rightarrow> (if s = [] then [] else [PStr s])
      | PList vs \<Rightarrow> vs
      | PDict d \<Rightarrow> map (PStr \<circ> fst) d
      | _ \<Rightarrow> [])"

definition get_tenant_id :: "dict \<Rightarrow> pyval" where
  "get_tenant_id claims = dget claims ''custom:tenant_id''"

definition is_super_admin :: "dict \<Rightarrow> bool" where
  "is_super_admin claims = (PStr ''super-admin'' \<in> set (get_roles claims))"

definition is_tenant_admin :: "dict \<Rightarrow> bool" where
  "is_tenant_admin claims = (PStr ''tenant-admin'' \<in> set (get_roles claims))"

definition require_super_admin :: "dict \<Rightarrow> exn + unit" where
  "require_super_admin claims =
     (if \<not> is_super_admin claims then Inl (HTTPExc 403 ''Super-admin role required.'') else Inr ())"

definition require_role :: "dict \<Rightarrow> exn + unit" where
  "require_role claims =
     (if \<not> (is_super_admin claims \<or> is_tenant_admin claims)
      then Inl (HTTPExc 403 ''Your account is pending approval by an administrator.'') else Inr ())"

definition assert_tenant_scope :: "dict \<Rightarrow> string option \<Rightarrow> string \<Rightarrow> exn + unit" where
  "assert_tenant_scope r scope tenant_id_key =
     (if scope \<noteq> None \<and> dget r tenant_id_key \<noteq> of_opt_str scope
      then Inl (HTTPExc 404 ''Document not found'') else Inr ())"

definition no_tenant :: exn where
  "no_tenant = HTTPExc 403 ''Account has no tenant assigned. Contact an administrator.''"

text \<open>A tenant claim is a text; Cognito has no other attribute type for it.\<close>

definition tenant_scope :: "dict \<Rightarrow> exn + string option" where
  "tenant_scope claims =
     (if is_super_admin claims then Inr None
      else
        (case to_opt_str (get_tenant_id claims) of
           None \<Rightarrow> Inl no_tenant
         | Some t \<Rightarrow> if t = [] then Inl no_tenant else Inr (Some t)))"

definition resolve_tenant :: "dict \<Rightarrow> string option \<Rightarrow> exn + string option" where
  "resolve_tenant claims requested_tenant_id =
     (case tenant_scope claims of
        Inl x \<Rightarrow> Inl x
      | Inr (Some t) \<Rightarrow> Inr (Some t)
      | Inr None \<Rightarrow> Inr requested_tenant_id)"

definition wrong_client :: "auth_services \<Rightarrow> dict \<Rightarrow> bool" where
  "wrong_client a payload =
     (truthy_str (au_client_id a) \<and>
      (if dget payload ''token_use'' = PStr ''id''
       then dget payload ''aud'' \<noteq> of_opt_str (au_client_id a)
       else dget payload ''client_id'' \<noteq> of_opt_str (au_client_id a)))"

definition decode_and_verify :: "auth_services \<Rightarrow> string \<Rightarrow> exn + dict" where
  "decode_and_verify a token =
     (case au_jwt_decode a token of
        Inl x \<Rightarrow> Inl x
      | Inr payload \<Rightarrow>
          if dget payload ''token_use'' \<notin> {PStr ''access'', PStr ''id''}
          then Inl (OtherExc ''InvalidTokenError'')
          else if wrong_client a payload then Inl (OtherExc ''InvalidTokenError'')
          else Inr payload)"

section \<open>User contexts\<close>

record user_context =
  uc_tenant_id :: string
  uc_api_key_name :: string
  uc_auth_method :: string

definition user_context_of :: "pyval \<Rightarrow> pyval \<Rightarrow> string \<Rightarrow> exn + user_context" where
  "user_context_of tenant_id api_key_name auth_method =
     (case (tenant_id, api_key_name) of
        (PStr t, PStr n) \<Rightarrow> Inr \<lparr>uc_tenant_id = t, uc_api_key_name = n, uc_auth_method = auth_method\<rparr>
      | _ \<Rightarrow> Inl (OtherExc ''ValidationError''))"

definition user_context_from_ddb :: "'t env \<Rightarrow> auth_services \<Rightarrow> string option \<Rightarrow> ('t, user_context) wprog" where
  "user_context_from_ddb e a api_key =
     bindP (authenticate e a (opt_default [] api_key)) (\<lambda>(r, tenant_id).
       lift_result (user_context_of tenant_id (dget_default r ''apiKeyName'' (PStr ''unknown'')) ''api_key''))"

definition get_user_context_from_api_key ::
  "'t env \<Rightarrow> auth_services \<Rightarrow> string option \<Rightarrow> ('t, user_context) wprog" where
  "get_user_context_from_api_key e a api_key =
     (if au_enabled a then user_context_from_ddb e a api_key
      else thenP (verify_with_insecure_shared_key a api_key)
             (ret \<lparr>uc_tenant_id = ''local'', uc_api_key_name = ''local-dev'', uc_auth_method = ''api_key''\<rparr>))"

definition verify_api_key :: "'t env \<Rightarrow> auth_services \<Rightarrow> string option \<Rightarrow> ('t, unit) wprog" where
  "verify_api_key e a api_key =
     (if \<not> au_enabled a then verify_with_insecure_shared_key a api_key
      else thenP (authenticate e a (opt_default [] api_key)) (ret ()))"

definition context_of_claims :: "dict \<Rightarrow> exn + user_context" where
  "context_of_claims claims =
     (case require_role claims of
        Inl x \<Rightarrow> Inl x
      | Inr u \<Rightarrow>
          (let tenant_id = (if is_super_admin claims then PStr super_admin else get_tenant_id claims) in
           if \<not> is_super_admin claims \<and> \<not> truthy tenant_id then Inl no_tenant
           else user_context_of tenant_id
                  (py_or (dget claims ''email'') (dget_default claims ''sub'' (PStr ''unknown''))) ''jwt''))"

definition is_http :: "exn \<Rightarrow> bool" where
  "is_http x = (case x of HTTPExc n s \<Rightarrow> True | _ \<Rightarrow> False)"

definition missing_credentials :: exn where
  "missing_credentials = HTTPExc 401 ''Missing or invalid API-Key or Authorization header''"

definition context_of_token :: "auth_services \<Rightarrow> string \<Rightarrow> exn + user_context" where
  "context_of_token a token =
     (case (case decode_and_verify a token of Inl x \<Rightarrow> Inl x | Inr claims \<Rightarrow> context_of_claims claims) of
        Inr c \<Rightarrow> Inr c
      | Inl x \<Rightarrow> if is_http x then Inl x else Inl missing_credentials)"

definition get_user_context_with_fallback ::
  "'t env \<Rightarrow> auth_services \<Rightarrow> string option \<Rightarrow> string option \<Rightarrow> ('t, user_context) wprog" where
  "get_user_context_with_fallback e a api_key token =
     bindP (if truthy_str api_key then
              catchP (bindP (get_user_context_from_api_key e a api_key) (\<lambda>c. ret (Some c)))
                (\<lambda>x. if is_http x then ret None else raise x)
            else ret None) (\<lambda>found.
       case found of
         Some c \<Rightarrow> ret c
       | None \<Rightarrow>
           (case token of
              Some t \<Rightarrow> lift_result (context_of_token a t)
            | None \<Rightarrow> raise missing_credentials))"

definition resolve_tenant_from_context :: "user_context \<Rightarrow> string option \<Rightarrow> exn + string option" where
  "resolve_tenant_from_context c requested_tenant_id =
     (let own = (if truthy_str requested_tenant_id \<and> requested_tenant_id \<noteq> Some (uc_tenant_id c)
                 then Inl (HTTPExc 403 ''Access denied.'') else Inr (Some (uc_tenant_id c)))
      in if uc_auth_method c = ''api_key'' then own
         else if uc_tenant_id c = super_admin then Inr requested_tenant_id
         else own)"

section \<open>utils/tenant_access.py\<close>

definition validate_document_tenant_access :: "dict option \<Rightarrow> string \<Rightarrow> exn + unit" where
  "validate_document_tenant_access r tenant_id =
     (if \<not> present r \<or> dget (opt_default [] r) ''tenantId'' \<noteq> PStr tenant_id
      then Inl (HTTPExc 404 ''Job ID not found'') else Inr ())"

definition validate_batch_tenant_access :: "'t env \<Rightarrow> string \<Rightarrow> user_context \<Rightarrow> ('t, unit) wprog" where
  "validate_batch_tenant_access e batch_id c =
     bindP (get_batch e batch_id) (\<lambda>batch.
       if \<not> present batch \<or> dget (opt_default [] batch) ''tenantId'' \<noteq> PStr (uc_tenant_id c)
       then raise (HTTPExc 404 ''Batch not found'') else ret ())"

definition validate_build_tenant_access :: "'t env \<Rightarrow> string \<Rightarrow> user_context \<Rightarrow> ('t, unit) wprog" where
  "validate_build_tenant_access e build_id c =
     bindP (get_build_metadata e build_id) (\<lambda>m.
       if \<not> present m \<or> dget (opt_default [] m) ''tenantId'' \<noteq> PStr (uc_tenant_id c)
       then raise (HTTPExc 404 ''Build not found'') else ret ())"

end
