(* ===== verification/Wp_Rules.thy ===== *)
theory Wp_Rules
  imports Store_Reasoning
begin

text \<open>
  Weakest preconditions of programs, for the properties in which a step depends on what an earlier
  step found: the equations of the program constructs, and what a call to a table may do.
\<close>

definition wp :: "('s, 'a) prog \<Rightarrow> (exn + 'a \<Rightarrow> 's \<Rightarrow> bool) \<Rightarrow> 's \<Rightarrow> bool" where
  "wp m Q s = (case m s of (r, s') \<Rightarrow> Q r s')"

named_theorems wp_simps

lemma wp_ret [wp_simps]: "wp (ret x) Q s = Q (Inr x) s"
  by (simp add: wp_def)

lemma wp_raise [wp_simps]: "wp (raise x) Q s = Q (Inl x) s"
  by (simp add: wp_def)

lemma wp_lift [wp_simps]: "wp (lift_result z) Q s = Q z s"
  by (simp add: wp_def)

lemma wp_reads [wp_simps]: "wp (reads f) Q s = Q (Inr (f s)) s"
  by (simp add: wp_def)

lemma wp_modifies [wp_simps]: "wp (modifies g) Q s = Q (Inr ()) (g s)"
  by (simp add: wp_def)

lemma wp_bind [wp_simps]:
  "wp (bindP m k) Q s = wp m (\<lambda>r s'. case r of Inl x \<Rightarrow> Q (Inl x) s' | Inr x \<Rightarrow> wp (k x) Q s') s"
  by (simp add: wp_def bindP_def split: prod.split sum.split)

lemma wp_then [wp_simps]:
  "wp (thenP m n) Q s = wp m (\<lambda>r s'. case r of Inl x \<Rightarrow> Q (Inl x) s' | Inr x \<Rightarrow> wp n Q s') s"
  by (simp add: thenP_def wp_bind)

lemma wp_catch [wp_simps]:
  "wp (catchP m h) Q s = wp m (\<lambda>r s'. case r of Inl x \<Rightarrow> wp (h x) Q s' | Inr x \<Rightarrow> Q (Inr x) s') s"
  by (simp add: wp_def catchP_def split: prod.split sum.split)

lemma wp_when [wp_simps]: "wp (whenP b n) Q s = (if b then wp n Q s else Q (Inr ()) s)"
  by (simp add: wp_def whenP_def)

lemma wp_if [wp_simps]: "wp (if b then m else n) Q s = (if b then wp m Q s else wp n Q s)"
  by simp

lemma wp_conseq: "wp m P s \<Longrightarrow> (\<And>r s'. P r s' \<Longrightarrow> Q r s') \<Longrightarrow> wp m Q s"
  by (auto simp: wp_def split: prod.splits)

lemma wp_conj: "wp m P s \<Longrightarrow> wp m Q s \<Longrightarrow> wp m (\<lambda>r s'. P r s' \<and> Q r s') s"
  by (auto simp: wp_def split: prod.splits)

lemma wpI: "(\<And>r s'. m s = (r, s') \<Longrightarrow> Q r s') \<Longrightarrow> wp m Q s"
  by (auto simp: wp_def split: prod.splits)

lemma wpD: "wp m Q s \<Longrightarrow> m s = (r, s') \<Longrightarrow> Q r s'"
  by (simp add: wp_def)

lemma wp_run: "wp m Q s \<Longrightarrow> Q (fst (m s)) (snd (m s))"
  by (auto simp: wp_def split: prod.splits)

lemma wp_guarantees: "guarantees (\<lambda>s s'. I s \<longrightarrow> I s') m \<Longrightarrow> I s \<Longrightarrow> wp m (\<lambda>r s'. I s') s"
  by (auto simp: wp_def guarantees_def split: prod.split)

text \<open>A program keeps an invariant when it guarantees that the invariant survives it.\<close>

abbreviation keeps :: "('s \<Rightarrow> bool) \<Rightarrow> ('s, 'a) prog \<Rightarrow> bool" where
  "keeps I \<equiv> guarantees (\<lambda>s s'. I s \<longrightarrow> I s')"

interpretation kept: state_order "\<lambda>s s'. I s \<longrightarrow> I s'" for I :: "'s \<Rightarrow> bool"
  by unfold_locales auto

lemma keepsI:
  assumes "\<And>s. I s \<Longrightarrow> wp m (\<lambda>r s'. I s') s"
  shows "keeps I m"
  unfolding guarantees_def using wp_run [OF assms] by simp

lemma keeps_modifies: "(\<And>s. I s \<Longrightarrow> I (g s)) \<Longrightarrow> keeps I (modifies g)"
  by (rule keepsI) (simp add: wp_modifies)

text \<open>An invariant that every program of a sequence keeps holds after the sequence, and what each
  program then promises of its result holds of the results.\<close>

lemma run_each_wp:
  assumes "\<And>x s. x \<in> set xs \<Longrightarrow> I s \<Longrightarrow> wp (f x) (\<lambda>r s'. I s' \<and> Q x r) s" "I s"
  shows "I (snd (run_each (map f xs) s)) \<and> list_all2 Q xs (fst (run_each (map f xs) s))"
  using assms
proof (induction xs arbitrary: s)
  case (Cons x xs)
  obtain r s' where m: "f x s = (r, s')" by (cases "f x s")
  have "I s' \<and> Q x r" using Cons.prems(1) [of x s] Cons.prems(2) m by (simp add: wp_def)
  moreover have "I (snd (run_each (map f xs) s')) \<and> list_all2 Q xs (fst (run_each (map f xs) s'))"
    using Cons.IH [of s'] Cons.prems(1) calculation by auto
  ultimately show ?case using m by (auto split: prod.splits)
qed simp

lemma item_in_store [simp]: "item_in look (w\<lparr>store := t\<rparr>) = look t"
  by (simp add: item_in_def)

lemma item_in_memory [simp]:
  "item_in look (w\<lparr>cache_items := c\<rparr>) = item_in look w"
  "item_in look (w\<lparr>last_used_written := u\<rparr>) = item_in look w"
  "item_in look (w\<lparr>pepper_cached := p\<rparr>) = item_in look w"
  by (simp_all add: item_in_def)

lemma wp_on_store: "wp (on_store m) Q w = wp m (\<lambda>r t. Q r (w\<lparr>store := t\<rparr>)) (store w)"
  by (auto simp: wp_def on_store_def split: prod.splits)

context service begin

lemma wp_get_item:
  assumes "\<And>x t. look t = item_in look w \<Longrightarrow> Q (Inl x) (w\<lparr>store := t\<rparr>)"
    and "\<And>t. look t = item_in look w \<Longrightarrow> Q (Inr (item_in look w T k)) (w\<lparr>store := t\<rparr>)"
  shows "wp (get_item e T k) Q w"
  unfolding get_item_def wp_on_store
proof (rule wpI)
  fix r t
  assume r: "db_get (client e) T k (store w) = (r, t)"
  then have "look t = item_in look w" using get_frame [OF r] by (simp add: item_in_def)
  then show "Q r (w\<lparr>store := t\<rparr>)"
    using assms r get_val [of T k "store w" _ t] by (cases r) (auto simp: item_in_def)
qed

lemma wp_update_item:
  assumes "\<And>x t. look t = item_in look w \<Longrightarrow> Q (Inl x) (w\<lparr>store := t\<rparr>)"
    and "\<And>it t. look t = (item_in look w)(T := (item_in look w T)(k \<mapsto> it)) \<Longrightarrow>
      cond_holds c (opt_default [] (item_in look w T k)) \<Longrightarrow>
      updated_item k (item_in look w T k) us = Some it \<Longrightarrow> Q (Inr it) (w\<lparr>store := t\<rparr>)"
  shows "wp (update_item e T k us c) Q w"
  unfolding update_item_def wp_on_store
proof (rule wpI)
  fix r t
  assume r: "db_update (client e) T k us c (store w) = (r, t)"
  show "Q r (w\<lparr>store := t\<rparr>)"
  proof (cases r)
    case (Inl x)
    then show ?thesis using assms(1) update_err [of T k us c "store w" x t] r by (simp add: item_in_def)
  next
    case (Inr it)
    then show ?thesis using assms(2) [of t it] update_ok [of T k us c "store w" it t] r
      by (simp add: item_in_def)
  qed
qed

lemma wp_put_item:
  assumes "\<And>x t. look t = item_in look w \<Longrightarrow> Q (Inl x) (w\<lparr>store := t\<rparr>)"
    and "\<And>t. look t = (item_in look w)(T := (item_in look w T)(key_of T it \<mapsto> it)) \<Longrightarrow>
      cond_holds c (opt_default [] (item_in look w T (key_of T it))) \<Longrightarrow> Q (Inr ()) (w\<lparr>store := t\<rparr>)"
  shows "wp (put_item e T it c) Q w"
  unfolding put_item_def wp_on_store
proof (rule wpI)
  fix r t
  assume r: "db_put (client e) T it c (store w) = (r, t)"
  show "Q r (w\<lparr>store := t\<rparr>)"
  proof (cases r)
    case (Inl x)
    then show ?thesis using assms(1) put_err [of T it c "store w" x t] r by (simp add: item_in_def)
  next
    case (Inr u)
    then show ?thesis using assms(2) [of t] put_ok [of T it c "store w" u t] r
      by (simp add: item_in_def)
  qed
qed

lemma wp_delete_item:
  assumes "\<And>x t. look t = item_in look w \<Longrightarrow> Q (Inl x) (w\<lparr>store := t\<rparr>)"
    and "\<And>t. look t = (item_in look w)(T := (item_in look w T)(k := None)) \<Longrightarrow> Q (Inr ()) (w\<lparr>store := t\<rparr>)"
  shows "wp (delete_item e T k) Q w"
  unfolding delete_item_def wp_on_store
proof (rule wpI)
  fix r t
  assume r: "db_delete (client e) T k (store w) = (r, t)"
  show "Q r (w\<lparr>store := t\<rparr>)"
  proof (cases r)
    case (Inl x)
    then show ?thesis using assms(1) delete_err [of T k "store w" x t] r by (simp add: item_in_def)
  next
    case (Inr u)
    then show ?thesis using assms(2) [of t] delete_ok [of T k "store w" u t] r
      by (simp add: item_in_def)
  qed
qed

lemma wp_query:
  assumes "\<And>r t. look t = item_in look w \<Longrightarrow>
    (\<And>pages it. r = Inr pages \<Longrightarrow> it \<in> set (concat pages) \<Longrightarrow> \<forall>kc \<in> set ks. keycond_holds it kc) \<Longrightarrow>
    Q r (w\<lparr>store := t\<rparr>)"
  shows "wp (on_store (db_query (client e) T ks)) Q w"
  unfolding wp_on_store
proof (rule wpI)
  fix r t
  assume r: "db_query (client e) T ks (store w) = (r, t)"
  show "Q r (w\<lparr>store := t\<rparr>)"
    using assms [of t r] query_frame [OF r] query_sound [of T ks "store w" _ t] r by (auto simp: item_in_def)
qed

lemma wp_scan:
  assumes "\<And>r t. look t = item_in look w \<Longrightarrow>
    (\<And>items it. r = Inr items \<Longrightarrow> it \<in> set items \<Longrightarrow> \<exists>k. item_in look w T k = Some it) \<Longrightarrow> Q r (w\<lparr>store := t\<rparr>)"
  shows "wp (scan e T) Q w"
  unfolding scan_def wp_bind wp_on_store
proof (rule wpI)
  fix r t
  assume r: "db_scan (client e) T (store w) = (r, t)"
  show "case r of Inl x \<Rightarrow> Q (Inl x) (w\<lparr>store := t\<rparr>)
    | Inr pages \<Rightarrow> wp (ret (collect_pages [] pages)) Q (w\<lparr>store := t\<rparr>)"
  proof (cases r)
    case (Inl x)
    then show ?thesis using assms [of t "Inl x"] scan_frame [OF r] by (simp add: item_in_def)
  next
    case (Inr pages)
    then show ?thesis using assms [of t "Inr (concat pages)"] scan_frame [OF r] scan_sound [OF r [unfolded Inr]]
      by (simp add: item_in_def wp_ret collect_pages_concat)
  qed
qed

lemma wp_query_by_key:
  assumes "\<And>x t. look t = item_in look w \<Longrightarrow> Q (Inl x) (w\<lparr>store := t\<rparr>)"
    and "\<And>items t. look t = item_in look w \<Longrightarrow>
      (\<And>it. it \<in> set items \<Longrightarrow> map_of it a = Some (PStr v)) \<Longrightarrow> Q (Inr items) (w\<lparr>store := t\<rparr>)"
  shows "wp (query_by_key e T a v sk) Q w"
  unfolding query_by_key_def wp_bind
proof (rule wp_query)
  fix r :: "exn + dict list list" and t
  let ?ks = "KEq a (PStr v) # (case sk of None \<Rightarrow> []
    | Some (b, x) \<Rightarrow> if b \<noteq> [] \<and> x \<noteq> [] then [KEq b (PStr x)] else [])"
  assume same: "look t = item_in look w"
    and sound: "\<And>pages it. r = Inr pages \<Longrightarrow> it \<in> set (concat pages) \<Longrightarrow> \<forall>kc \<in> set ?ks. keycond_holds it kc"
  show "case r of Inl x \<Rightarrow> Q (Inl x) (w\<lparr>store := t\<rparr>)
    | Inr pages \<Rightarrow> wp (ret (collect_pages [] pages)) Q (w\<lparr>store := t\<rparr>)"
  proof (cases r)
    case (Inr pages)
    have "map_of it a = Some (PStr v)" if "it \<in> set (concat pages)" for it
      using sound [OF Inr that] by simp
    then show ?thesis using assms(2) [OF same, of "concat pages"] Inr by (simp add: wp_ret collect_pages_concat)
  qed (simp add: assms(1) [OF same])
qed

lemmas wp_store = wp_get_item wp_update_item wp_put_item wp_delete_item wp_scan

end

text \<open>On a reliable table service only the refusal of a condition and of an expression are left.\<close>

context reliable_service begin

lemma rwp_get_item:
  assumes "\<And>t. look t = item_in look w \<Longrightarrow> Q (Inr (item_in look w T k)) (w\<lparr>store := t\<rparr>)"
  shows "wp (get_item e T k) Q w"
proof -
  obtain t where "db_get (client e) T k (store w) = (Inr (look (store w) T k), t)"
    using get_total by blast
  then show ?thesis using assms [of t] get_frame [of T k "store w" _ t]
    by (auto simp: get_item_def on_store_def wp_def item_in_def)
qed

lemma rwp_update_item:
  assumes "cond_holds c (opt_default [] (item_in look w T k))"
    and "updated_item k (item_in look w T k) us = Some it"
    and "\<And>t. look t = (item_in look w)(T := (item_in look w T)(k \<mapsto> it)) \<Longrightarrow> Q (Inr it) (w\<lparr>store := t\<rparr>)"
  shows "wp (update_item e T k us c) Q w"
proof -
  obtain t where t: "db_update (client e) T k us c (store w) = (Inr it, t)"
    using update_total assms(1,2) unfolding item_in_def by blast
  show ?thesis using assms(3) [of t] update_ok [OF t] t
    by (auto simp: update_item_def on_store_def wp_def item_in_def)
qed

lemma rwp_put_item:
  assumes "cond_holds c (opt_default [] (item_in look w T (key_of T it)))"
    and "\<And>t. look t = (item_in look w)(T := (item_in look w T)(key_of T it \<mapsto> it)) \<Longrightarrow> Q (Inr ()) (w\<lparr>store := t\<rparr>)"
  shows "wp (put_item e T it c) Q w"
proof -
  obtain t where t: "db_put (client e) T it c (store w) = (Inr (), t)"
    using put_total assms(1) unfolding item_in_def by blast
  show ?thesis using assms(2) [of t] put_ok [OF t] t
    by (auto simp: put_item_def on_store_def wp_def item_in_def)
qed

lemma rwp_delete_item:
  assumes "\<And>t. look t = (item_in look w)(T := (item_in look w T)(k := None)) \<Longrightarrow> Q (Inr ()) (w\<lparr>store := t\<rparr>)"
  shows "wp (delete_item e T k) Q w"
proof -
  obtain t where t: "db_delete (client e) T k (store w) = (Inr (), t)"
    using delete_total by blast
  show ?thesis using assms [of t] delete_ok [OF t] t
    by (auto simp: delete_item_def on_store_def wp_def item_in_def)
qed

lemma rwp_scan:
  assumes "\<And>t items. look t = item_in look w \<Longrightarrow>
    set items = {it. \<exists>k. item_in look w T k = Some it} \<Longrightarrow> Q (Inr items) (w\<lparr>store := t\<rparr>)"
  shows "wp (scan e T) Q w"
proof -
  obtain pages t where t: "db_scan (client e) T (store w) = (Inr pages, t)"
    and pages: "set (concat pages) = {it. \<exists>k. look (store w) T k = Some it}"
    using scan_total by blast
  show ?thesis using assms [of t "concat pages"] scan_frame [OF t] t pages
    by (auto simp: scan_def wp_simps wp_on_store wp_def [of "db_scan _ _"] collect_pages_concat item_in_def)
qed

lemma rwp_query_by_key:
  assumes "\<And>t items. look t = item_in look w \<Longrightarrow>
    set items = {it. (\<exists>k. item_in look w T k = Some it) \<and> map_of it a = Some (PStr v)} \<Longrightarrow>
    Q (Inr items) (w\<lparr>store := t\<rparr>)"
  shows "wp (query_by_key e T a v None) Q w"
proof -
  obtain pages t where t: "db_query (client e) T [KEq a (PStr v)] (store w) = (Inr pages, t)"
    and pages: "set (concat pages) =
      {it. (\<exists>k. look (store w) T k = Some it) \<and> (\<forall>kc \<in> set [KEq a (PStr v)]. keycond_holds it kc)}"
    using query_total by blast
  show ?thesis using assms [of t "concat pages"] query_frame [OF t] t pages
    by (auto simp: query_by_key_def wp_simps wp_on_store wp_def [of "db_query _ _ _"] collect_pages_concat item_in_def)
qed

end

end
