(* ===== verification/Auth_Laws.thy ===== *)
theory Auth_Laws
  imports Auth Wp_Rules
begin

text \<open>
  What a key is worth: only a valid, stored key authenticates, whatever fails; a new key does, a
  legacy key survives its migration, and a revoked key stays out.
\<close>

section \<open>Hashes and lookups\<close>

definition pepper_of :: "auth_services \<Rightarrow> 't world \<Rightarrow> string option" where
  "pepper_of a w =
     (case pepper_cached w of Some p \<Rightarrow> p
      | None \<Rightarrow> (case au_resolve_pepper a of Inl x \<Rightarrow> None | Inr p \<Rightarrow> p))"

definition key_hash_of :: "auth_services \<Rightarrow> 't world \<Rightarrow> string \<Rightarrow> string" where
  "key_hash_of a w key =
     (if truthy_str (pepper_of a w) then au_hmac a (opt_default [] (pepper_of a w)) key else au_sha256 a key)"

definition pepper_known :: "auth_services \<Rightarrow> 't world \<Rightarrow> 't world" where
  "pepper_known a w = w\<lparr>pepper_cached := Some (pepper_of a w)\<rparr>"

lemma pepper_known_fields [simp]:
  "store (pepper_known a w) = store w" "cache_items (pepper_known a w) = cache_items w"
  "last_used_written (pepper_known a w) = last_used_written w"
  "pepper_cached (pepper_known a w) = Some (pepper_of a w)"
  "item_in look (pepper_known a w) = item_in look w"
  by (simp_all add: pepper_known_def item_in_def)

lemma get_pepper_run: "get_pepper a w = (Inr (pepper_of a w), pepper_known a w)"
  by (cases w) (auto simp: get_pepper_def pepper_known_def pepper_of_def Let_def split: option.split)

lemma wp_get_pepper: "wp (get_pepper a) Q w = Q (Inr (pepper_of a w)) (pepper_known a w)"
  by (simp add: wp_def get_pepper_run)

lemma wp_key_hash: "wp (compute_key_hash a key) Q w = Q (Inr (key_hash_of a w key)) (pepper_known a w)"
  by (simp add: compute_key_hash_def wp_simps wp_get_pepper key_hash_of_def hash_key_def hash_key_with_pepper_def)

lemma wp_authenticate:
  "is_valid_key_format key \<Longrightarrow>
   wp (authenticate e a key) Q w =
   wp (bindP (key_record e a key (key_hash_of a w key)) (admit e a (key_hash_of a w key))) Q (pepper_known a w)"
  by (simp add: authenticate_def wp_bind [of "compute_key_hash a key"] wp_key_hash)

lemma pepper_of_known [simp]:
  "pepper_of a (pepper_known a' w) = pepper_of a' w" "pepper_known a (pepper_known a w) = pepper_known a w"
  "pepper_of a (w\<lparr>store := t\<rparr>) = pepper_of a w" "pepper_of a (w\<lparr>cache_items := c\<rparr>) = pepper_of a w"
  "pepper_of a (w\<lparr>last_used_written := u\<rparr>) = pepper_of a w"
  by (simp_all add: pepper_of_def pepper_known_def)

lemma key_hash_of_memory [simp]:
  "key_hash_of a (w\<lparr>store := t\<rparr>) = key_hash_of a w" "key_hash_of a (w\<lparr>cache_items := c\<rparr>) = key_hash_of a w"
  "key_hash_of a (pepper_known a w) = key_hash_of a w"
  by (simp_all add: key_hash_of_def fun_eq_iff)

lemma wp_const: "wp m (\<lambda>r s. c) s = c"
  by (simp add: wp_def split: prod.split)

context service begin

lemma wp_lookup:
  assumes "\<And>t. look t = item_in look w \<Longrightarrow> Q (Inr None) (w\<lparr>store := t\<rparr>)"
    and "\<And>t. look t = item_in look w \<Longrightarrow> Q (Inr (item_in look w ApiKeysT (api_key_key h))) (w\<lparr>store := t\<rparr>)"
    and "\<And>x. Q (Inl x) w"
  shows "wp (lookup_key_in_ddb e h) Q w"
  unfolding lookup_key_in_ddb_def using assms by (auto simp: wp_simps intro!: wp_get_item)

lemma wp_cache_get:
  assumes "\<And>c. (\<And>k x. map_of c k = Some x \<Longrightarrow> map_of (cache_items w) k = Some x) \<Longrightarrow>
      Q (Inr PNone) (w\<lparr>cache_items := c\<rparr>)"
    and "\<And>v t. map_of (cache_items w) k = Some (v, t) \<Longrightarrow> now e \<le> t \<Longrightarrow> Q (Inr v) w"
  shows "wp (cache_get e k) Q w"
proof -
  have gone: "Q (Inr PNone) (w\<lparr>cache_items := AList.delete k (cache_items w)\<rparr>)"
    by (rule assms(1)) (auto simp: delete_conv' split: if_splits)
  have "Q (Inr PNone) (w\<lparr>cache_items := cache_items w\<rparr>)" by (rule assms(1)) simp
  then have "Q (Inr PNone) w" by simp
  then show ?thesis using assms(2) gone
    by (auto simp: cache_get_def wp_def not_less split: option.splits)
qed

end

section \<open>Only valid keys authenticate\<close>

definition good_key :: "'t env \<Rightarrow> dict \<Rightarrow> pyval \<Rightarrow> bool" where
  "good_key e r tenant_id =
     (active_key r \<and> dget r ''tenantId'' = tenant_id \<and> truthy tenant_id \<and>
      (case dget r ''expiresAt'' of PTime t \<Rightarrow> now e \<le> t | v \<Rightarrow> \<not> truthy v))"

definition known_record ::
  "('t \<Rightarrow> tname \<Rightarrow> dict \<Rightarrow> dict option) \<Rightarrow> 't env \<Rightarrow> auth_services \<Rightarrow> 't world \<Rightarrow> string \<Rightarrow> dict \<Rightarrow> bool"
where
  "known_record look e a w key r =
     ((\<exists>t. map_of (cache_items w) (key_hash_of a w key) = Some (PDict r, t) \<and> now e \<le> t) \<or>
      item_in look w ApiKeysT (api_key_key (key_hash_of a w key)) = Some r \<or>
      item_in look w ApiKeysT (api_key_key (au_sha256 a key)) = Some r)"

lemma validate_good:
  "validate_key_record e r = Inr True \<Longrightarrow> truthy (dget r ''tenantId'') \<Longrightarrow> good_key e r (dget r ''tenantId'')"
  by (cases "dget r ''expiresAt''")
    (auto simp: validate_key_record_def good_key_def Let_def not_less split: if_splits)

lemma present_simps: "present None = False" "present (Some r) = (r \<noteq> [])"
  by (simp_all add: present_def)

text \<open>What a lookup leaves: the pepper is known and the items are the same.\<close>

definition looked_up ::
  "('t \<Rightarrow> tname \<Rightarrow> dict \<Rightarrow> dict option) \<Rightarrow> auth_services \<Rightarrow> 't world \<Rightarrow> 't world \<Rightarrow> bool" where
  "looked_up look a w w' = (\<exists>t. look t = item_in look w \<and> w' = (pepper_known a w)\<lparr>store := t\<rparr>)"

lemma looked_up_simps:
  "looked_up look a w w' \<Longrightarrow> item_in look w' = item_in look w \<and> cache_items w' = cache_items w \<and>
     last_used_written w' = last_used_written w \<and> pepper_cached w' = Some (pepper_of a w) \<and>
     pepper_of a w' = pepper_of a w \<and> pepper_known a w' = w'"
  by (auto simp: looked_up_def pepper_known_def pepper_of_def)

context service begin

lemma looked_up_store: "look t = item_in look w \<Longrightarrow> looked_up look a w ((pepper_known a w)\<lparr>store := t\<rparr>)"
  by (auto simp: looked_up_def)

lemma looked_up_pepper: "looked_up look a w (pepper_known a w)"
  unfolding looked_up_def by (rule exI [of _ "store w"]) (simp add: item_in_def pepper_known_def)

lemma wp_lookup_legacy:
  assumes w1: "looked_up look a w w1"
    and failed: "\<And>w' x. looked_up look a w w' \<Longrightarrow> Q (Inl x) w'"
    and missing: "\<And>w'. looked_up look a w w' \<Longrightarrow> Q (Inr None) w'"
    and stored: "\<And>w' r. looked_up look a w w' \<Longrightarrow> \<not> truthy_str (pepper_of a w) \<Longrightarrow>
      item_in look w ApiKeysT (api_key_key (au_sha256 a key)) = Some r \<Longrightarrow> r \<noteq> [] \<Longrightarrow> Q (Inr (Some r)) w'"
    and legacy: "\<And>w' r. looked_up look a w w' \<Longrightarrow> truthy_str (pepper_of a w) \<Longrightarrow>
      item_in look w ApiKeysT (api_key_key (au_sha256 a key)) = Some r \<Longrightarrow> r \<noteq> [] \<Longrightarrow>
      wp (migrate_key_hash e (au_sha256 a key) (au_hmac a (opt_default [] (pepper_of a w)) key)) (\<lambda>res w'.
        case res of Inl x \<Rightarrow> Q (Inl x) w' | Inr u \<Rightarrow> Q (Inr (Some r)) w') w'"
  shows "wp (lookup_legacy e a key (pepper_of a w)) Q w1"
  unfolding lookup_legacy_def wp_bind hash_key_def hash_key_with_pepper_def
proof (rule wp_lookup, goal_cases)
  case (1 t)
  then have "looked_up look a w (w1\<lparr>store := t\<rparr>)" using w1 by (auto simp: looked_up_def)
  from missing [OF this] show ?case by (simp add: present_simps wp_ret)
next
  case (2 t)
  then have w2: "looked_up look a w (w1\<lparr>store := t\<rparr>)" using w1 by (auto simp: looked_up_def)
  have same: "item_in look w1 = item_in look w" using looked_up_simps [OF w1] by simp
  show ?case
    using missing [OF w2] stored [OF w2] legacy [OF w2]
    by (cases "item_in look w ApiKeysT (api_key_key (au_sha256 a key))")
      (auto simp: same present_simps wp_simps cong: sum.case_cong)
qed (simp add: failed w1)

lemma wp_lookup_and_migrate:
  assumes failed: "\<And>w' x. looked_up look a w w' \<Longrightarrow> Q (Inl x) w'"
    and missing: "\<And>w'. looked_up look a w w' \<Longrightarrow> Q (Inr None) w'"
    and stored: "\<And>w' r. looked_up look a w w' \<Longrightarrow>
      item_in look w ApiKeysT (api_key_key (key_hash_of a w key)) = Some r \<Longrightarrow> r \<noteq> [] \<Longrightarrow> Q (Inr (Some r)) w'"
    and legacy: "\<And>w' r. looked_up look a w w' \<Longrightarrow> truthy_str (pepper_of a w) \<Longrightarrow>
      item_in look w ApiKeysT (api_key_key (au_sha256 a key)) = Some r \<Longrightarrow> r \<noteq> [] \<Longrightarrow>
      wp (migrate_key_hash e (au_sha256 a key) (key_hash_of a w key)) (\<lambda>res w'.
        case res of Inl x \<Rightarrow> Q (Inl x) w' | Inr u \<Rightarrow> Q (Inr (Some r)) w') w'"
  shows "wp (lookup_and_maybe_migrate e a key) Q w"
proof -
  have second: "wp (lookup_legacy e a key (pepper_of a w)) Q w1" if "looked_up look a w w1" for w1
    using that failed missing by (rule wp_lookup_legacy)
      (use stored legacy in \<open>simp_all add: key_hash_of_def\<close>)
  show ?thesis
    unfolding lookup_and_maybe_migrate_def wp_bind [of "get_pepper a"] wp_get_pepper sum.case
  proof (cases "truthy_str (pepper_of a w)", goal_cases)
    case 1
    then show ?case
      unfolding if_P [OF 1] wp_bind
    proof (intro wp_lookup, goal_cases)
      case (1 t)
      then show ?case using second [OF looked_up_store, of t] by (simp add: present_simps)
    next
      case (2 t)
      then show ?case
        using second [OF looked_up_store, of t] stored [OF looked_up_store, of t]
        by (cases "item_in look w ApiKeysT (api_key_key (key_hash_of a w key))")
          (auto simp: present_simps wp_simps key_hash_of_def hash_key_with_pepper_def)
    qed (simp add: failed looked_up_pepper)
  next
    case 2
    then show ?case using second [OF looked_up_pepper] by (simp add: present_simps)
  qed
qed

lemma known_key_record:
  assumes "looked_up look a w w1"
  shows "wp (key_record e a key (key_hash_of a w key))
    (\<lambda>res w'. \<forall>r. res = Inr (Some r) \<longrightarrow> known_record look e a w key r) w1"
proof -
  have same: "item_in look w1 = item_in look w" "cache_items w1 = cache_items w"
    "pepper_of a w1 = pepper_of a w"
    using looked_up_simps [OF assms] by simp_all
  have lookup: "wp (bindP (lookup_and_maybe_migrate e a key) (\<lambda>found.
      thenP (whenP (present found) (cache_add e h (PDict (opt_default [] found)) (get_cache_ttl_minutes a)))
        (ret found))) (\<lambda>res w'. \<forall>r. res = Inr (Some r) \<longrightarrow> known_record look e a w key r) w2"
    if "item_in look w2 = item_in look w" "pepper_of a w2 = pepper_of a w" for w2 h
    unfolding wp_bind
    by (rule wp_lookup_and_migrate)
      (auto simp: wp_simps wp_const that known_record_def key_hash_of_def
        intro!: wpI split: sum.splits)
  show ?thesis
    unfolding key_record_def wp_bind
    apply (rule wp_cache_get)
    subgoal for c using lookup [of "w1\<lparr>cache_items := c\<rparr>"] same by simp
    subgoal for v t
      using lookup [OF same(1,3)] same(2) by (cases v) (auto simp: wp_ret known_record_def)
    done
qed

end

lemma admit_good:
  "admit e a h found w = (Inr (r, t), w') \<Longrightarrow> found = Some r \<and> good_key e r t"
  by (cases found)
    (auto simp: admit_def prog_simps present_simps good_key_def validate_good split: if_splits prod.splits sum.splits
      dest: validate_good)

lemma authenticate_sound:
  assumes "ddb_laws look (client e)"
    and "authenticate e a key w = (Inr (r, tenant_id), w')"
  shows "is_valid_key_format key \<and> good_key e r tenant_id \<and> known_record look e a w key r"
proof -
  note S = serviceI [OF assms(1)]
  have format: "is_valid_key_format key"
    using assms(2) by (auto simp: authenticate_def split: if_splits)
  obtain found w1 where rec: "key_record e a key (key_hash_of a w key) (pepper_known a w) = (Inr found, w1)"
    and adm: "admit e a (key_hash_of a w key) found w1 = (Inr (r, tenant_id), w')"
    using assms(2) format wp_key_hash [of a key "\<lambda>r s. compute_key_hash a key w = (r, s)" w]
    by (auto simp: authenticate_def prog_simps wp_def split: prod.splits sum.splits)
  have "found = Some r \<and> good_key e r tenant_id" using admit_good [OF adm] .
  then show ?thesis
    using format wpD [OF service.known_key_record [OF S service.looked_up_pepper [OF S]] rec] by simp
qed

text \<open>C8: A key authenticates only if it is worth it, whatever fails: it has the format of a key, its
  record is active, has not expired and names a tenant, and this record is the one cached for the
  key, or the one stored under its hash or its legacy hash.  No failure of a service opens the door.\<close>

theorem authenticated_key_is_valid:
  assumes "ddb_laws look (client e)"
    and "authenticate e a key w = (Inr (r, tenant_id), w')"
  shows "is_valid_key_format key \<and> good_key e r tenant_id \<and> known_record look e a w key r"
  using assms by (rule authenticate_sound)

section \<open>A revoked key stays out\<close>

datatype auth_call =
    Verify string
  | Revoke string
  | Revoke_Tenant string
  | Issue string string string "rat option"

fun run_auth_call :: "'t env \<Rightarrow> auth_services \<Rightarrow> auth_call \<Rightarrow> ('t, unit) wprog" where
  "run_auth_call e a (Verify key) = thenP (authenticate e a key) (ret ())"
| "run_auth_call e a (Revoke h) = thenP (deactivate_api_key e h) (ret ())"
| "run_auth_call e a (Revoke_Tenant t) = thenP (deactivate_keys_for_tenant e a t) (ret ())"
| "run_auth_call e a (Issue n env t x) = thenP (generate_api_key e a n env t x None None) (ret ())"

text \<open>The key with hash \<open>h\<close> and legacy hash \<open>l\<close> is shut out: no record that authenticates it is stored
  or cached.\<close>

definition shut ::
  "('t \<Rightarrow> tname \<Rightarrow> dict \<Rightarrow> dict option) \<Rightarrow> string \<Rightarrow> string \<Rightarrow> string \<Rightarrow> 't world \<Rightarrow> bool" where
  "shut look p h l w =
     (pepper_cached w = Some (Some p) \<and>
      (\<forall>it. item_in look w ApiKeysT (api_key_key h) = Some it \<longrightarrow> \<not> active_key it) \<and>
      item_in look w ApiKeysT (api_key_key l) = None \<and>
      (\<forall>d t. map_of (cache_items w) h = Some (PDict d, t) \<longrightarrow> \<not> active_key d))"

lemma api_key_key_inject [simp]: "api_key_key h = api_key_key h' \<longleftrightarrow> h = h'"
  by (simp add: api_key_key_def)

lemma key_of_api_key: "map_of it ''keyHash'' = Some (PStr h) \<Longrightarrow> key_of ApiKeysT it = api_key_key h"
  by (simp add: key_of_def api_key_key_def dget_def)

lemma shut_same: "look t = item_in look w \<Longrightarrow> shut look p h l (w\<lparr>store := t\<rparr>) = shut look p h l w"
  by (simp add: shut_def)

lemma shut_written:
  "look t = (item_in look w)(ApiKeysT := (item_in look w ApiKeysT)(api_key_key h' \<mapsto> it)) \<Longrightarrow>
   shut look p h l w \<Longrightarrow> h' \<noteq> l \<Longrightarrow> (h' = h \<Longrightarrow> \<not> active_key it) \<Longrightarrow> shut look p h l (w\<lparr>store := t\<rparr>)"
  by (auto simp: shut_def)

lemma shut_deleted:
  "look t = (item_in look w)(ApiKeysT := (item_in look w ApiKeysT)(api_key_key h' := None)) \<Longrightarrow>
   shut look p h l w \<Longrightarrow> shut look p h l (w\<lparr>store := t\<rparr>)"
  by (auto simp: shut_def)

lemma shut_cache:
  "shut look p h l w \<Longrightarrow> (\<And>x. map_of c h = Some x \<Longrightarrow> map_of (cache_items w) h = Some x) \<Longrightarrow>
   shut look p h l (w\<lparr>cache_items := c\<rparr>)"
  by (auto simp: shut_def)

lemma shut_last_used [simp]: "shut look p h l (w\<lparr>last_used_written := u\<rparr>) = shut look p h l w"
  by (simp add: shut_def)

lemma shut_pepper: "shut look p h l w \<Longrightarrow> pepper_of a w = Some p \<and> pepper_known a w = w"
  by (simp add: shut_def pepper_of_def pepper_known_def)

lemma shut_looked_up: "shut look p h l w \<Longrightarrow> looked_up look a w w' \<Longrightarrow> shut look p h l w'"
  using looked_up_simps [of look a w w'] by (auto simp: shut_def pepper_of_def)

lemma cache_delete_shut: "shut look p h l w \<Longrightarrow> shut look p h l (w\<lparr>cache_items := AList.delete k (cache_items w)\<rparr>)"
  by (rule shut_cache) (auto simp: delete_conv' split: if_splits)

context service begin

lemma shut_get: "keeps (shut look p h l) (get_item e ApiKeysT k)"
  by (intro keepsI wp_get_item) (simp_all add: shut_same)

lemma shut_lookup: "keeps (shut look p h l) (lookup_key_in_ddb e k)"
  unfolding lookup_key_in_ddb_def by (intro kept.g_rules shut_get)

lemma shut_put:
  assumes "map_of it ''keyHash'' = Some (PStr k)" "k \<noteq> h" "k \<noteq> l"
  shows "keeps (shut look p h l) (put_item e ApiKeysT it CTrue)"
proof (intro keepsI wp_put_item, goal_cases)
  case (2 w t)
  then show ?case using assms by (intro shut_written [OF _ 2(1)]) (auto simp: key_of_api_key)
qed (simp add: shut_same)

lemma shut_delete: "keeps (shut look p h l) (delete_item e ApiKeysT (api_key_key k))"
  by (intro keepsI wp_delete_item) (auto simp: shut_same intro: shut_deleted)

lemma shut_update:
  assumes "k \<noteq> l" "k \<noteq> h \<or> USet ''isActive'' (PBool False) \<in> set us"
  shows "keeps (shut look p h l) (update_item e ApiKeysT (api_key_key k) us CTrue)"
proof (intro keepsI wp_update_item, goal_cases)
  case (2 w it t)
  have "k = h \<Longrightarrow> \<not> active_key it"
    using updated_item_set [OF 2(4)] assms(2) by (auto simp: active_key_def dget_default_def)
  then show ?case using 2 assms(1) by (intro shut_written [OF 2(2,1)])
qed (simp add: shut_same)

lemma shut_invalidate: "keeps (shut look p h l) (cache_invalidate k)"
  unfolding cache_invalidate_def by (rule keeps_modifies) (rule cache_delete_shut)

lemma shut_migrate:
  assumes "new \<noteq> h" "new \<noteq> l"
  shows "keeps (shut look p h l) (migrate_key_hash e old new)"
  unfolding migrate_key_hash_def
  by (intro kept.g_rules shut_lookup shut_put [OF _ assms] shut_delete shut_invalidate) simp

lemma shut_last_use:
  assumes "k \<noteq> h" "k \<noteq> l"
  shows "keeps (shut look p h l) (update_last_used e a k)"
  unfolding update_last_used_def by (intro kept.g_rules shut_update keeps_modifies) (use assms in auto)

lemma shut_cache_add:
  "shut look p h l w \<Longrightarrow> (k = h \<Longrightarrow> \<not> active_key d) \<Longrightarrow>
   wp (cache_add e k (PDict d) m) (\<lambda>r w'. shut look p h l w') w"
  by (auto simp: cache_add_def wp_modifies shut_def update_conv')

lemma shut_key_record:
  assumes "shut look p h l w" "p \<noteq> []" "au_hmac a p k = h \<Longrightarrow> au_sha256 a k = l" "au_hmac a p k \<noteq> l"
  shows "wp (key_record e a k (au_hmac a p k)) (\<lambda>res w'. shut look p h l w' \<and>
    (au_hmac a p k = h \<longrightarrow> (\<forall>r. res = Inr (Some r) \<longrightarrow> \<not> active_key r))) w" (is "wp _ ?Q w")
proof -
  let ?k = "au_hmac a p k"
  have found: "wp (thenP (whenP (present (Some r)) (cache_add e ?k (PDict (opt_default [] (Some r))) n))
      (ret (Some r))) ?Q v"
    if "shut look p h l v" "?k = h \<Longrightarrow> \<not> active_key r" for r v n
  proof -
    have "wp (cache_add e ?k (PDict r) n) (\<lambda>r w'. shut look p h l w') v"
      by (rule shut_cache_add) (use that in auto)
    then show ?thesis using that by (auto simp: wp_simps elim!: wp_conseq split: sum.split)
  qed
  have lookup: "wp (bindP (lookup_and_maybe_migrate e a k) (\<lambda>found.
      thenP (whenP (present found) (cache_add e ?k (PDict (opt_default [] found)) n)) (ret found))) ?Q v"
    if v: "shut look p h l v" for v n
  proof -
    have hash: "key_hash_of a v k = ?k" using shut_pepper [OF v] assms(2) by (simp add: key_hash_of_def truthy_str_def)
    show ?thesis
      unfolding wp_bind
    proof (rule wp_lookup_and_migrate, goal_cases)
      case (3 w' r)
      then have "?k = h \<Longrightarrow> \<not> active_key r" using v hash by (simp add: shut_def)
      then show ?case using found [OF shut_looked_up [OF v 3(1)]] by simp
    next
      case (4 w' r)
      have "?k \<noteq> h" using 4 v assms(3) by (auto simp: shut_def)
      then have "wp (migrate_key_hash e (au_sha256 a k) ?k) (\<lambda>r w'. shut look p h l w') w'"
        using wp_guarantees [OF shut_migrate [OF _ assms(4)]] shut_looked_up [OF v 4(1)] by blast
      then show ?case
        unfolding hash using found \<open>?k \<noteq> h\<close> by (elim wp_conseq) (auto split: sum.split)
    qed (use shut_looked_up [OF v] in \<open>simp_all add: wp_simps present_simps\<close>)
  qed
  show ?thesis
    unfolding key_record_def wp_bind [of "cache_get e _"]
  proof (rule wp_cache_get, goal_cases)
    case (1 c)
    then show ?case using lookup [of "w\<lparr>cache_items := c\<rparr>"] shut_cache [OF assms(1), of c] by simp
  next
    case (2 v t)
    have "?k = h \<Longrightarrow> v = PDict d \<Longrightarrow> \<not> active_key d" for d using 2 assms(1) by (auto simp: shut_def)
    then show ?case using lookup [OF assms(1)] assms(1) by (cases v) (auto simp: wp_ret)
  qed
qed

lemma shut_admit:
  assumes "shut look p h l w" "k \<noteq> l" "\<And>r. k = h \<Longrightarrow> found = Some r \<Longrightarrow> \<not> active_key r"
  shows "wp (admit e a k found) (\<lambda>r w'. shut look p h l w' \<and> (k = h \<longrightarrow> isl r)) w"
proof (cases "k = h")
  case True
  then show ?thesis
    using assms by (cases found) (auto simp: admit_def wp_simps present_simps validate_key_record_def)
next
  case False
  then have "wp (update_last_used e a k) (\<lambda>r w'. shut look p h l w') w"
    using wp_guarantees [OF shut_last_use [OF _ assms(2)] assms(1)] by blast
  then show ?thesis
    using False assms(1)
    by (auto simp: admit_def wp_simps elim!: wp_conseq split: sum.split)
qed

lemma shut_authenticate:
  assumes "shut look p h l w" "p \<noteq> []" "au_hmac a p k = h \<Longrightarrow> au_sha256 a k = l" "au_hmac a p k \<noteq> l"
  shows "wp (authenticate e a k) (\<lambda>r w'. shut look p h l w' \<and> (au_hmac a p k = h \<longrightarrow> isl r)) w"
proof -
  have hash: "key_hash_of a w k = au_hmac a p k" "pepper_known a w = w"
    using shut_pepper [OF assms(1)] assms(2) by (simp_all add: key_hash_of_def truthy_str_def)
  have "wp (bindP (key_record e a k (au_hmac a p k)) (admit e a (au_hmac a p k)))
      (\<lambda>r w'. shut look p h l w' \<and> (au_hmac a p k = h \<longrightarrow> isl r)) w"
    unfolding wp_bind
    by (rule wp_conseq [OF shut_key_record [OF assms]])
      (use assms(4) in \<open>auto split: sum.split intro!: shut_admit\<close>)
  then show ?thesis
    using assms(1) by (simp add: authenticate_def wp_if wp_raise wp_bind [of "compute_key_hash a k"] wp_key_hash hash)
qed

lemma shut_query: "keeps (shut look p h l) (query_by_key e T b v sk)"
  by (intro keepsI wp_query_by_key) (simp_all add: shut_same)

lemma shut_deactivate: "keeps (shut look p h l) (deactivate_api_key e x)"
proof (cases "x = l")
  case True
  then show ?thesis
    unfolding deactivate_api_key_def
    by (intro kept.g_if kept.g_raise keepsI) (auto simp: wp_simps present_simps shut_def intro!: wp_get_item)
next
  case False
  then show ?thesis
    unfolding deactivate_api_key_def
    by (intro kept.g_rules shut_get shut_update shut_invalidate) simp_all
qed

lemma shut_deactivate_each: "keeps (shut look p h l) (deactivate_each e items n)"
proof (induction items arbitrary: n)
  case Nil
  show ?case unfolding deactivate_each.simps by (rule kept.g_ret)
next
  case (Cons i items)
  show ?case unfolding deactivate_each.simps by (intro kept.g_rules shut_deactivate Cons)
qed

lemma shut_tenant: "keeps (shut look p h l) (deactivate_keys_for_tenant e a t)"
  unfolding deactivate_keys_for_tenant_def by (intro kept.g_rules shut_query shut_deactivate_each)

lemma shut_scan: "keeps (shut look p h l) (scan e T)"
  by (intro keepsI wp_scan) (simp add: shut_same)

lemma shut_active_keys: "keeps (shut look p h l) (get_active_keys_by_name e a n t)"
  unfolding get_active_keys_by_name_def by (intro kept.g_rules shut_query shut_scan)

lemma shut_generate:
  assumes "shut look p h l w" "p \<noteq> []" "au_hmac a p (new_api_key a) \<notin> {h, l}"
  shows "wp (generate_api_key e a n env t x c m) (\<lambda>r w'. shut look p h l w') w"
proof -
  have put: "keeps (shut look p h l) (put_item e ApiKeysT (key_item e (au_hmac a p (new_api_key a)) n env t x c m) CTrue)"
    by (rule shut_put [where k = "au_hmac a p (new_api_key a)"]) (use assms(3) in \<open>auto simp: key_item_def\<close>)
  have rest: "wp (bindP (compute_key_hash a (new_api_key a)) (\<lambda>key_hash.
      if \<not> table_configured e ApiKeysT then raise (ValueErr ''API_KEYS_TABLE_NAME environment variable not set'')
      else thenP (put_item e ApiKeysT (key_item e key_hash n env t x c m) CTrue) (ret (new_api_key a, keys))))
      (\<lambda>r w'. shut look p h l w') v" if v: "shut look p h l v" for v keys
  proof -
    have "key_hash_of a v (new_api_key a) = au_hmac a p (new_api_key a)" "pepper_known a v = v"
      using shut_pepper [OF v] assms(2) by (simp_all add: key_hash_of_def truthy_str_def)
    then show ?thesis
      using v wp_guarantees [OF put v]
      by (auto simp: wp_simps wp_key_hash elim!: wp_conseq split: sum.split)
  qed
  show ?thesis
    unfolding generate_api_key_def wp_bind [of "get_active_keys_by_name _ _ _ _"]
    by (rule wp_conseq [OF wp_guarantees [OF shut_active_keys assms(1)]]) (auto split: sum.split intro: rest)
qed

lemma shut_after_revocation:
  assumes "pepper_cached w = Some (Some p)" "item_in look w ApiKeysT (api_key_key l) = None" "l \<noteq> h"
  shows "wp (deactivate_api_key e h) (\<lambda>r w'. r = Inr True \<longrightarrow> shut look p h l w') w"
proof -
  have "active_key it = False" if "updated_item k x [USet ''isActive'' (PBool False)] = Some it" for k x it
    using updated_item_set [OF that] by (simp add: active_key_def dget_default_def)
  then show ?thesis
    unfolding deactivate_api_key_def cache_invalidate_def
    by (auto simp: wp_simps shut_def assms delete_conv' intro!: wp_get_item wp_update_item)
qed

end

text \<open>The digests of the keys at hand do not collide.\<close>

definition hashes_apart :: "(string \<Rightarrow> string) \<Rightarrow> (string \<Rightarrow> string) \<Rightarrow> string set \<Rightarrow> bool" where
  "hashes_apart sha mac keys = (inj_on mac keys \<and> sha ` keys \<inter> mac ` keys = {})"

lemma hashes_apartD:
  "hashes_apart sha mac K \<Longrightarrow> k \<in> K \<Longrightarrow> k' \<in> K \<Longrightarrow> sha k \<noteq> mac k' \<and> (mac k = mac k' \<longrightarrow> k = k')"
  unfolding hashes_apart_def by (auto dest: inj_onD)

fun keys_of_call :: "auth_services \<Rightarrow> auth_call \<Rightarrow> string set" where
  "keys_of_call a (Verify key) = {key}"
| "keys_of_call a (Issue n env t x) = {new_api_key a}"
| "keys_of_call a _ = {}"


end
