(* ===== verification/Key_Laws.thy ===== *)
theory Key_Laws
  imports Auth_Laws
begin

text \<open>
  Keys on a reliable table service: a key that was issued authenticates, a legacy key survives its
  migration, and the deactivation of a tenant leaves none of its keys active.
\<close>

section \<open>The last use\<close>

text \<open>The update of the last use never raises and changes no item but the one of the key, of which it
  changes no attribute but the time.\<close>

definition same_but :: "string list \<Rightarrow> dict \<Rightarrow> dict \<Rightarrow> bool" where
  "same_but as it it' = (\<forall>b. b \<notin> set as \<longrightarrow> map_of it' b = map_of it b)"

lemma same_but_refl: "same_but as it it"
  by (simp add: same_but_def)

lemma same_but_dget: "same_but as it it' \<Longrightarrow> b \<notin> set as \<Longrightarrow> dget it' b = dget it b"
  by (simp add: same_but_def dget_def)

definition used_since :: "('t \<Rightarrow> tname \<Rightarrow> dict \<Rightarrow> dict option) \<Rightarrow> string \<Rightarrow> 't world \<Rightarrow> 't world \<Rightarrow> bool" where
  "used_since look h w w' =
     (cache_items w' = cache_items w \<and> pepper_cached w' = pepper_cached w \<and>
      (\<forall>T k. T \<noteq> ApiKeysT \<or> k \<noteq> api_key_key h \<longrightarrow> item_in look w' T k = item_in look w T k) \<and>
      (\<forall>it. item_in look w ApiKeysT (api_key_key h) = Some it \<longrightarrow>
         (\<exists>it'. item_in look w' ApiKeysT (api_key_key h) = Some it' \<and> same_but [''lastUsed''] it it')))"

lemma used_since_memory [simp]:
  "used_since look h w (w'\<lparr>last_used_written := u\<rparr>) = used_since look h w w'"
  "used_since look h (w\<lparr>last_used_written := u\<rparr>) w' = used_since look h w w'"
  by (simp_all add: used_since_def)

lemma used_since_same: "look t = item_in look w \<Longrightarrow> used_since look h w (w\<lparr>store := t\<rparr>)"
  by (simp add: used_since_def same_but_refl)

lemma used_since_refl: "used_since look h w w"
  by (simp add: used_since_def same_but_refl)

context service begin

lemma wp_last_use: "wp (update_last_used e a h) (\<lambda>r w'. r = Inr () \<and> used_since look h w w') w"
proof -
  have upd: "wp (update_item e ApiKeysT (api_key_key h) [USet ''lastUsed'' (PTime (now e))] CTrue)
      (\<lambda>r w'. used_since look h w w') v" if v: "v = w\<lparr>last_used_written := u\<rparr>" for u v
  proof (rule wp_update_item, goal_cases)
    case (2 it t)
    have "map_of it b = map_of (opt_default (api_key_key h) (item_in look w ApiKeysT (api_key_key h))) b"
      if "b \<noteq> ''lastUsed''" for b
      using updated_item_other [OF 2(3), of b] that v by simp
    then show ?case using 2 v by (auto simp: used_since_def same_but_def)
  qed (simp add: v used_since_def same_but_refl)
  show ?thesis
    unfolding update_last_used_def
    by (auto simp: wp_simps used_since_refl intro!: wp_conseq [OF upd [OF refl]] split: sum.split)
qed

end

section \<open>A valid stored key is admitted\<close>

lemma good_validates: "good_key e r t \<Longrightarrow> validate_key_record e r = Inr True"
  by (cases "dget r ''expiresAt''") (auto simp: good_key_def validate_key_record_def Let_def not_less)

context service begin

lemma wp_admit_good:
  assumes "good_key e r t" "r \<noteq> []"
  shows "wp (admit e a h (Some r)) (\<lambda>res w'. res = Inr (r, t) \<and> used_since look h w w') w"
proof -
  have "dget r ''tenantId'' = t" "truthy t" using assms(1) by (simp_all add: good_key_def)
  then show ?thesis
    using assms(2) by (auto simp: admit_def wp_simps present_simps good_validates [OF assms(1)]
        intro!: wp_conseq [OF wp_last_use] split: sum.split)
qed

end

context reliable_service begin

lemma rwp_lookup:
  assumes "table_configured e ApiKeysT"
    and "\<And>t. look t = item_in look w \<Longrightarrow> Q (Inr (item_in look w ApiKeysT (api_key_key h))) (w\<lparr>store := t\<rparr>)"
  shows "wp (lookup_key_in_ddb e h) Q w"
  unfolding lookup_key_in_ddb_def using assms by (auto simp: wp_simps intro!: rwp_get_item)

lemma rwp_find_stored:
  assumes "table_configured e ApiKeysT" "r \<noteq> []"
    and "item_in look w ApiKeysT (api_key_key (key_hash_of a w key)) = Some r"
  shows "wp (lookup_and_maybe_migrate e a key) (\<lambda>res w'. res = Inr (Some r) \<and> item_in look w' = item_in look w) w"
  unfolding lookup_and_maybe_migrate_def lookup_legacy_def
  using assms
  by (auto simp: wp_simps wp_get_pepper key_hash_of_def hash_key_def hash_key_with_pepper_def present_simps
      intro!: rwp_lookup split: if_splits)

lemma rwp_record_stored:
  assumes "table_configured e ApiKeysT" "r \<noteq> []" "map_of (cache_items w) (key_hash_of a w key) = None"
    and "item_in look w ApiKeysT (api_key_key (key_hash_of a w key)) = Some r"
  shows "wp (key_record e a key (key_hash_of a w key))
    (\<lambda>res w'. res = Inr (Some r) \<and> item_in look w' = item_in look w) w"
proof -
  have "wp (cache_get e (key_hash_of a w key)) (\<lambda>res w'. res = Inr PNone \<and> w' = w) w"
    by (simp add: cache_get_def wp_def assms(3))
  moreover have "wp (bindP (lookup_and_maybe_migrate e a key) (\<lambda>found.
      thenP (whenP (present found) (cache_add e h (PDict (opt_default [] found)) n)) (ret found)))
      (\<lambda>res w'. res = Inr (Some r) \<and> item_in look w' = item_in look w) w" for h n
    unfolding wp_bind
    by (rule wp_conseq [OF rwp_find_stored [OF assms(1,2,4)]])
      (auto simp: wp_simps cache_add_def)
  ultimately show ?thesis
    unfolding key_record_def wp_bind [of "cache_get e _"] by (elim wp_conseq) auto
qed

lemma rwp_authenticate_stored:
  assumes "table_configured e ApiKeysT" "is_valid_key_format key" "good_key e r t" "r \<noteq> []"
    and "map_of (cache_items w) (key_hash_of a w key) = None"
    and "item_in look w ApiKeysT (api_key_key (key_hash_of a w key)) = Some r"
  shows "wp (authenticate e a key) (\<lambda>res w'. res = Inr (r, t)) w"
proof -
  have "wp (key_record e a key (key_hash_of a w key))
      (\<lambda>res w'. res = Inr (Some r) \<and> item_in look w' = item_in look w) (pepper_known a w)"
    using rwp_record_stored [OF assms(1,4), of "pepper_known a w" a key] assms(5,6) by simp
  then show ?thesis
    unfolding wp_authenticate [OF assms(2)] wp_bind
    by (rule wp_conseq) (auto intro: wp_conseq [OF wp_admit_good [OF assms(3,4)]])
qed

end

section \<open>A new key authenticates\<close>

context service begin

lemma wp_active_keys:
  "wp (get_active_keys_by_name e a n t) (\<lambda>r w'. (table_configured e ApiKeysT \<longrightarrow> (\<exists>ks. r = Inr ks)) \<and>
     (\<exists>t. look t = item_in look w \<and> w' = w\<lparr>store := t\<rparr>)) w"
proof -
  have same: "\<exists>t. look t = item_in look w \<and> w = w\<lparr>store := t\<rparr>"
    by (rule exI [of _ "store w"]) (simp add: item_in_def)
  have here: "look t = item_in look w \<Longrightarrow> \<exists>t'. look t' = item_in look w \<and> w\<lparr>store := t\<rparr> = w\<lparr>store := t'\<rparr>" for t
    by auto
  show ?thesis
    unfolding get_active_keys_by_name_def
    by (auto simp: wp_simps same here intro!: wp_query_by_key wp_scan split: option.splits sum.split)
qed

end

lemma valid_new_key: "32 \<le> length (au_random a) \<Longrightarrow> is_valid_key_format (new_api_key a)"
  by (simp add: is_valid_key_format_def new_api_key_def api_key_prefix_def starts_with_append starts_with_def)

context reliable_service begin

lemma wp_generate:
  assumes "table_configured e ApiKeysT"
  shows "wp (generate_api_key e a n env t x c m) (\<lambda>r w'.
    (\<exists>olds. r = Inr (new_api_key a, olds)) \<and> cache_items w' = cache_items w \<and>
    pepper_cached w' = Some (pepper_of a w) \<and>
    item_in look w' ApiKeysT (api_key_key (key_hash_of a w (new_api_key a))) =
      Some (key_item e (key_hash_of a w (new_api_key a)) n env t x c m)) w"
  unfolding generate_api_key_def wp_bind [of "get_active_keys_by_name _ _ _ _"]
proof (rule wp_conseq [OF wp_active_keys], goal_cases)
  case (1 r w')
  then obtain ks t where r: "r = Inr ks" and t: "look t = item_in look w" "w' = w\<lparr>store := t\<rparr>"
    using assms by blast
  have key: "key_of ApiKeysT (key_item e h n env t x c m) = api_key_key h" for h t
    by (rule key_of_api_key) (simp add: key_item_def)
  show ?case
    unfolding r by (auto simp: wp_simps wp_key_hash assms t key intro!: rwp_put_item)
qed

end

text \<open>C22: A key that has been issued authenticates, on a reliable table service, until it expires, as a key
  of the tenant it was issued for and under its name.\<close>

theorem issued_key_authenticates:
  assumes "reliable_ddb look (client e)" "client e' = client e"
    and "table_configured e ApiKeysT" "table_configured e' ApiKeysT"
    and "32 \<le> length (au_random a)" "tenant_id \<noteq> []" "\<forall>t. x = Some t \<longrightarrow> now e' \<le> t"
    and "map_of (cache_items w) (key_hash_of a w (new_api_key a)) = None"
    and "generate_api_key e a n env tenant_id x c m w = (r, w1)"
  shows "\<exists>olds it. r = Inr (new_api_key a, olds) \<and> dget it ''apiKeyName'' = PStr n \<and>
    fst (authenticate e' a (new_api_key a) w1) = Inr (it, PStr tenant_id)"
proof -
  note S = reliable_serviceI [OF assms(1)]
  have S': "reliable_service look e'" using assms(1,2) by (intro reliable_serviceI) simp
  let ?h = "key_hash_of a w (new_api_key a)"
  let ?it = "key_item e ?h n env tenant_id x c m"
  have w1: "\<exists>olds. r = Inr (new_api_key a, olds)" "cache_items w1 = cache_items w"
    "pepper_cached w1 = Some (pepper_of a w)" "item_in look w1 ApiKeysT (api_key_key ?h) = Some ?it"
    using wpD [OF reliable_service.wp_generate [OF S assms(3)] assms(9)] by blast+
  have pep: "pepper_of a w1 = pepper_of a w" "pepper_known a w1 = w1"
    using w1(3) by (simp_all add: pepper_of_def pepper_known_def)
  have hash: "key_hash_of a w1 (new_api_key a) = ?h" by (simp add: key_hash_of_def pep)
  have good: "good_key e' ?it (PStr tenant_id)"
    using assms(6,7) by (cases x) (auto simp: good_key_def key_item_def active_key_def dget_default_def)
  have name: "dget ?it ''apiKeyName'' = PStr n" by (simp add: key_item_def)
  have ne: "?it \<noteq> []" by (simp add: key_item_def)
  have "wp (authenticate e' a (new_api_key a)) (\<lambda>res w'. res = Inr (?it, PStr tenant_id)) w1"
    by (rule reliable_service.rwp_authenticate_stored [OF S' assms(4) valid_new_key [OF assms(5)] good ne])
      (simp_all add: hash w1(2,4) assms(8))
  then show ?thesis using w1(1) name by (auto simp: wp_def split: prod.splits)
qed

section \<open>A legacy key is migrated\<close>

context reliable_service begin

lemma rwp_migrate:
  assumes "table_configured e ApiKeysT" "item_in look w ApiKeysT (api_key_key old) = Some r" "r \<noteq> []" "new \<noteq> old"
  shows "wp (migrate_key_hash e old new) (\<lambda>res w'. res = Inr () \<and> pepper_cached w' = pepper_cached w \<and>
    item_in look w' = (item_in look w)(ApiKeysT := (item_in look w ApiKeysT)
      (api_key_key new \<mapsto> dset ''keyHash'' (PStr new) r, api_key_key old := None))) w"
proof -
  have key: "key_of ApiKeysT (dset ''keyHash'' (PStr new) r) = api_key_key new" by (rule key_of_api_key) simp
  show ?thesis
    unfolding migrate_key_hash_def
    by (auto simp: wp_simps assms present_simps key cache_invalidate_def
        intro!: rwp_lookup rwp_put_item rwp_delete_item) (auto simp: fun_eq_iff)
qed

lemma rwp_record_legacy:
  fixes w a key
  defines "h \<equiv> key_hash_of a w key" and "l \<equiv> au_sha256 a key"
  assumes "table_configured e ApiKeysT" "r \<noteq> []" "truthy_str (pepper_of a w)" "h \<noteq> l"
    and "map_of (cache_items w) h = None" "item_in look w ApiKeysT (api_key_key h) = None"
    and "item_in look w ApiKeysT (api_key_key l) = Some r"
  shows "wp (key_record e a key h) (\<lambda>res w'. res = Inr (Some r) \<and> pepper_cached w' = Some (pepper_of a w) \<and>
    item_in look w' = (item_in look w)(ApiKeysT := (item_in look w ApiKeysT)
      (api_key_key h \<mapsto> dset ''keyHash'' (PStr h) r, api_key_key l := None))) w"
proof -
  have hash: "hash_key a key = l" "hash_key_with_pepper a key (opt_default [] (pepper_of a w)) = h"
    using assms(5) by (simp_all add: h_def l_def key_hash_of_def hash_key_def hash_key_with_pepper_def)
  have "wp (cache_get e h) (\<lambda>res w'. res = Inr PNone \<and> w' = w) w"
    by (simp add: cache_get_def wp_def assms(7))
  moreover have "wp (bindP (lookup_and_maybe_migrate e a key) (\<lambda>found.
      thenP (whenP (present found) (cache_add e h (PDict (opt_default [] found)) n)) (ret found)))
      (\<lambda>res w'. res = Inr (Some r) \<and> pepper_cached w' = Some (pepper_of a w) \<and>
        item_in look w' = (item_in look w)(ApiKeysT := (item_in look w ApiKeysT)
          (api_key_key h \<mapsto> dset ''keyHash'' (PStr h) r, api_key_key l := None))) w" for n
    unfolding lookup_and_maybe_migrate_def lookup_legacy_def
    by (auto simp: wp_simps wp_get_pepper hash assms(4-9) present_simps cache_add_def
        intro!: rwp_lookup [OF assms(3)] wp_conseq [OF rwp_migrate [OF assms(3) _ assms(4,6)]])
  ultimately show ?thesis
    unfolding key_record_def wp_bind [of "cache_get e _"] by (elim wp_conseq) auto
qed

end

lemma good_key_same_but:
  assumes "good_key e r t" "same_but [''keyHash'', ''lastUsed''] r r'"
  shows "good_key e r' t"
  using assms same_but_dget [OF assms(2), of "''tenantId''"] same_but_dget [OF assms(2), of "''expiresAt''"]
  by (simp add: good_key_def active_key_def dget_default_def same_but_def)

text \<open>C23: A legacy key survives its migration, on a reliable table service.  The request that finds it
  under its plain hash is answered with its record; afterwards the record is stored under the new
  hash only, unchanged but for the hash and the time of its last use, and without the help of the
  cache the key authenticates from there, at any time at which its record is valid.\<close>

theorem legacy_key_survives_migration:
  fixes w a key
  defines "h \<equiv> key_hash_of a w key" and "l \<equiv> au_sha256 a key"
  assumes "reliable_ddb look (client e)" "table_configured e ApiKeysT"
    and "is_valid_key_format key" "good_key e r t" "truthy_str (pepper_of a w)" "h \<noteq> l"
    and "map_of (cache_items w) h = None" "item_in look w ApiKeysT (api_key_key h) = None"
    and "item_in look w ApiKeysT (api_key_key l) = Some r"
    and "authenticate e a key w = (res, w')"
  shows "res = Inr (r, t) \<and> item_in look w' ApiKeysT (api_key_key l) = None \<and>
    (\<exists>r'. item_in look w' ApiKeysT (api_key_key h) = Some r' \<and> same_but [''keyHash'', ''lastUsed''] r r' \<and>
      (\<forall>e2. client e2 = client e \<and> table_configured e2 ApiKeysT \<and> good_key e2 r t \<longrightarrow>
         fst (authenticate e2 a key (w'\<lparr>cache_items := []\<rparr>)) = Inr (r', t)))"
proof -
  note S = reliable_serviceI [OF assms(3)]
  have S0: "service look e" using assms(3) by (intro serviceI) (rule reliable_ddb.axioms)
  have ne: "r \<noteq> []" using assms(6) by (auto simp: good_key_def)
  let ?r1 = "dset ''keyHash'' (PStr h) r"
  let ?after = "(item_in look w)(ApiKeysT := (item_in look w ApiKeysT)(api_key_key h \<mapsto> ?r1, api_key_key l := None))"
  have found: "wp (key_record e a key h) (\<lambda>res w1. res = Inr (Some r) \<and>
      pepper_cached w1 = Some (pepper_of a w) \<and> item_in look w1 = ?after) (pepper_known a w)"
    using reliable_service.rwp_record_legacy [OF S assms(4) ne, of a "pepper_known a w" key] assms(7-11)
    by (simp add: h_def l_def)
  have run: "wp (authenticate e a key) (\<lambda>res w'. res = Inr (r, t) \<and> (\<exists>w1. pepper_cached w1 = Some (pepper_of a w) \<and>
      item_in look w1 = ?after \<and> used_since look h w1 w')) w"
    unfolding wp_authenticate [OF assms(5)] wp_bind h_def [symmetric]
    by (rule wp_conseq [OF found]) (auto intro!: wp_conseq [OF service.wp_admit_good [OF S0 assms(6) ne]])
  then obtain w1 where res: "res = Inr (r, t)" and w1: "pepper_cached w1 = Some (pepper_of a w)"
    "item_in look w1 = ?after" "used_since look h w1 w'"
    using wpD [OF run assms(12)] by blast
  obtain r' where r': "item_in look w' ApiKeysT (api_key_key h) = Some r'" "same_but [''lastUsed''] ?r1 r'"
    using w1(2,3) assms(8) by (auto simp: used_since_def)
  have same: "same_but [''keyHash'', ''lastUsed''] r r'" using r'(2) by (simp add: same_but_def)
  have ne': "r' \<noteq> []" using r'(2) by (auto simp: same_but_def dest!: spec [of _ "''keyHash''"])
  have "fst (authenticate e2 a key (w'\<lparr>cache_items := []\<rparr>)) = Inr (r', t)"
    if e2: "client e2 = client e" "table_configured e2 ApiKeysT" "good_key e2 r t" for e2
  proof -
    have S2: "reliable_service look e2" using assms(3) e2(1) by (intro reliable_serviceI) simp
    have "key_hash_of a w' key = h"
      using w1(1,3) by (simp add: h_def key_hash_of_def pepper_of_def used_since_def)
    then show ?thesis
      using wp_run [OF reliable_service.rwp_authenticate_stored
          [OF S2 e2(2) assms(5) good_key_same_but [OF e2(3) same] ne', of "w'\<lparr>cache_items := []\<rparr>" a]] r'(1)
      by simp
  qed
  moreover have "item_in look w' ApiKeysT (api_key_key l) = None"
    using w1(2,3) assms(8) by (simp add: used_since_def)
  ultimately show ?thesis using res r'(1) same by blast
qed

section \<open>The keys of a deactivated tenant\<close>

text \<open>The keys with a hash in \<open>hs\<close> have been switched off and nothing else has changed.\<close>

definition switched_off ::
  "('t \<Rightarrow> tname \<Rightarrow> dict \<Rightarrow> dict option) \<Rightarrow> string set \<Rightarrow> 't world \<Rightarrow> 't world \<Rightarrow> bool" where
  "switched_off look hs w w' =
     ((\<forall>T k. T \<noteq> ApiKeysT \<or> k \<notin> api_key_key ` hs \<longrightarrow> item_in look w' T k = item_in look w T k) \<and>
      (\<forall>h it. h \<in> hs \<and> item_in look w ApiKeysT (api_key_key h) = Some it \<longrightarrow>
         (\<exists>it'. item_in look w' ApiKeysT (api_key_key h) = Some it' \<and>
            same_but [''isActive''] it it' \<and> \<not> active_key it')))"

lemma switched_off_none: "item_in look w' = item_in look w \<Longrightarrow> switched_off look {} w w'"
  by (simp add: switched_off_def)

lemma switched_off_same:
  assumes "switched_off look hs w w'" "h \<notin> hs"
  shows "item_in look w' ApiKeysT (api_key_key h) = item_in look w ApiKeysT (api_key_key h)"
proof -
  have "api_key_key h \<notin> api_key_key ` hs" using assms(2) by auto
  then show ?thesis using assms(1) unfolding switched_off_def by blast
qed

lemma switched_off_done:
  assumes "switched_off look hs w w'" "h \<in> hs" "item_in look w ApiKeysT (api_key_key h) = Some it"
  obtains it' where "item_in look w' ApiKeysT (api_key_key h) = Some it'" "same_but [''isActive''] it it'"
    "\<not> active_key it'"
  using assms unfolding switched_off_def by blast

lemma switched_off_trans:
  assumes "switched_off look hs w w1" "switched_off look hs' w1 w2"
  shows "switched_off look (hs \<union> hs') w w2"
  unfolding switched_off_def
proof (intro conjI allI impI)
  fix T k
  assume "T \<noteq> ApiKeysT \<or> k \<notin> api_key_key ` (hs \<union> hs')"
  then show "item_in look w2 T k = item_in look w T k"
    using assms by (auto simp: switched_off_def image_Un)
next
  fix h it
  assume h: "h \<in> hs \<union> hs' \<and> item_in look w ApiKeysT (api_key_key h) = Some it"
  obtain it1 where it1: "item_in look w1 ApiKeysT (api_key_key h) = Some it1" "same_but [''isActive''] it it1"
    "h \<in> hs \<longrightarrow> \<not> active_key it1"
    using h switched_off_same [OF assms(1), of h] switched_off_done [OF assms(1), of h it] same_but_refl
    by (cases "h \<in> hs") auto
  show "\<exists>it'. item_in look w2 ApiKeysT (api_key_key h) = Some it' \<and> same_but [''isActive''] it it' \<and> \<not> active_key it'"
  proof (cases "h \<in> hs'")
    case True
    then obtain it2 where "item_in look w2 ApiKeysT (api_key_key h) = Some it2" "same_but [''isActive''] it1 it2"
      "\<not> active_key it2"
      using it1(1) switched_off_done [OF assms(2)] by blast
    then show ?thesis using it1(2) by (auto simp: same_but_def)
  next
    case False
    then have "item_in look w2 ApiKeysT (api_key_key h) = Some it1"
      using it1(1) switched_off_same [OF assms(2)] by simp
    then show ?thesis using it1 h False by auto
  qed
qed

text \<open>A key is stored under its hash.\<close>

definition stored_key :: "('t \<Rightarrow> tname \<Rightarrow> dict \<Rightarrow> dict option) \<Rightarrow> 't world \<Rightarrow> string \<Rightarrow> bool" where
  "stored_key look w h = (h \<noteq> [] \<and>
     (\<exists>it. item_in look w ApiKeysT (api_key_key h) = Some it \<and> map_of it ''keyHash'' = Some (PStr h)))"

lemma stored_key_kept:
  assumes "switched_off look hs w w'" "stored_key look w h"
  shows "stored_key look w' h"
proof -
  obtain it where it: "h \<noteq> []" "item_in look w ApiKeysT (api_key_key h) = Some it"
    "map_of it ''keyHash'' = Some (PStr h)"
    using assms(2) by (auto simp: stored_key_def)
  show ?thesis
  proof (cases "h \<in> hs")
    case True
    then obtain it' where "item_in look w' ApiKeysT (api_key_key h) = Some it'" "same_but [''isActive''] it it'"
      using switched_off_done [OF assms(1)] it(2) by blast
    then show ?thesis using it by (auto simp: stored_key_def same_but_def)
  next
    case False
    then show ?thesis using switched_off_same [OF assms(1)] it by (simp add: stored_key_def)
  qed
qed

definition hash_in :: "dict \<Rightarrow> string" where
  "hash_in it = opt_default [] (to_opt_str (dget it ''keyHash''))"

context reliable_service begin

lemma rwp_deactivate:
  assumes "table_configured e ApiKeysT" "stored_key look w h"
  shows "wp (deactivate_api_key e h) (\<lambda>r w'. r = Inr True \<and> switched_off look {h} w w' \<and>
    cache_items w' = AList.delete h (cache_items w)) w"
proof -
  obtain it where it: "item_in look w ApiKeysT (api_key_key h) = Some it" "it \<noteq> []"
    using assms(2) unfolding stored_key_def by (metis list.distinct(1) map_of.simps(1) option.distinct(1))
  have upd: "updated_item (api_key_key h) (Some it) [USet ''isActive'' (PBool False)] =
      Some (dset ''isActive'' (PBool False) it)"
    by (simp add: updated_item_def api_key_key_def)
  show ?thesis
    unfolding deactivate_api_key_def
    by (auto simp: wp_simps assms(1) it present_simps upd cache_invalidate_def switched_off_def same_but_def
        active_key_def dget_default_def intro!: rwp_get_item rwp_update_item)
qed

lemma rwp_deactivate_each:
  assumes "table_configured e ApiKeysT" "\<And>i. i \<in> set items \<Longrightarrow> stored_key look w (hash_in i)"
  shows "wp (deactivate_each e items n) (\<lambda>r w'. r = Inr (n + length items) \<and>
    switched_off look (hash_in ` set items) w w' \<and>
    (\<forall>k. map_of (cache_items w) k = None \<or> k \<in> hash_in ` set items \<longrightarrow> map_of (cache_items w') k = None)) w"
  using assms(2)
proof (induction items arbitrary: n w)
  case Nil
  show ?case unfolding deactivate_each.simps wp_ret by (simp add: switched_off_none)
next
  case (Cons i items)
  let ?h = "hash_in i"
  have i: "stored_key look w ?h" using Cons.prems by simp
  have key: "truthy (dget i ''keyHash'')" "opt_default [] (to_opt_str (dget i ''keyHash'')) = ?h"
    using i unfolding hash_in_def stored_key_def by (cases "dget i ''keyHash''"; simp)+
  have rest: "wp (deactivate_each e items (n + 1)) (\<lambda>r w'. r = Inr (n + length (i # items)) \<and>
      switched_off look (hash_in ` set (i # items)) w w' \<and>
      (\<forall>k. map_of (cache_items w) k = None \<or> k \<in> hash_in ` set (i # items) \<longrightarrow> map_of (cache_items w') k = None)) w1"
    if w1: "switched_off look {?h} w w1" "cache_items w1 = AList.delete ?h (cache_items w)" for w1
  proof -
    have "stored_key look w1 (hash_in j)" if "j \<in> set items" for j
      using stored_key_kept [OF w1(1)] Cons.prems [of j] that by simp
    from Cons.IH [OF this, of "n + 1"] show ?thesis
      by (rule wp_conseq) (use switched_off_trans [OF w1(1)] w1(2) in \<open>auto simp: delete_conv'\<close>)
  qed
  show ?case
    unfolding deactivate_each.simps key if_not_P [OF not_not [THEN iffD2, OF key(1)]] wp_bind wp_catch
    by (rule wp_conseq [OF rwp_deactivate [OF assms(1) i]]) (auto simp: wp_ret intro: rest [simplified])
qed

end

text \<open>Deactivating a tenant revokes its keys.  On a reliable table service no key of the tenant is
  active in the table or cached afterwards, the keys of the other tenants are as they were, and the
  keys that were active are counted.\<close>

theorem deactivated_tenant_has_no_keys:
  assumes "reliable_ddb look (client e)" "table_configured e ApiKeysT" "au_tenant_index a"
    and stored: "\<forall>k it. item_in look w ApiKeysT k = Some it \<longrightarrow>
      (\<exists>h. h \<noteq> [] \<and> k = api_key_key h \<and> map_of it ''keyHash'' = Some (PStr h))"
    and "deactivate_keys_for_tenant e a t w = (r, w')"
  shows "(\<exists>n. r = Inr n) \<and>
    (\<forall>k it. item_in look w ApiKeysT k = Some it \<longrightarrow>
       (\<exists>it'. item_in look w' ApiKeysT k = Some it' \<and>
          (if map_of it ''tenantId'' = Some (PStr t) then same_but [''isActive''] it it' \<and> \<not> active_key it' \<and>
             (active_key it \<longrightarrow> map_of (cache_items w') (hash_in it) = None)
           else it' = it)))"
proof -
  note S = reliable_serviceI [OF assms(1)]
  have hash: "hash_in it = h" if "map_of it ''keyHash'' = Some (PStr h)" for it h
    using that by (simp add: hash_in_def dget_def)
  let ?hs = "{h. \<exists>it. item_in look w ApiKeysT (api_key_key h) = Some it \<and>
    map_of it ''tenantId'' = Some (PStr t) \<and> active_key it}"
  have "wp (deactivate_keys_for_tenant e a t) (\<lambda>r w'. (\<exists>n. r = Inr n) \<and> switched_off look ?hs w w' \<and>
      (\<forall>h \<in> ?hs. map_of (cache_items w') h = None)) w"
    unfolding deactivate_keys_for_tenant_def wp_if wp_bind using assms(2,3)
  proof (simp, intro reliable_service.rwp_query_by_key [OF S], goal_cases)
    case (1 u items)
    let ?act = "filter active_key items"
    have acts: "hash_in ` set ?act = ?hs" using 1 stored hash by fastforce
    have "stored_key look (w\<lparr>store := u\<rparr>) (hash_in i)" if "i \<in> set ?act" for i
      using that 1 stored hash by (fastforce simp: stored_key_def)
    from reliable_service.rwp_deactivate_each [OF S assms(2) this, of ?act 0] show ?case
      unfolding sum.case acts by (rule wp_conseq) (use 1 in \<open>auto simp: switched_off_def\<close>)
  qed
  from wpD [OF this assms(5)] have r: "\<exists>n. r = Inr n" "switched_off look ?hs w w'"
    "\<And>h. h \<in> ?hs \<Longrightarrow> map_of (cache_items w') h = None" by auto
  have "\<exists>it'. item_in look w' ApiKeysT k = Some it' \<and>
      (if map_of it ''tenantId'' = Some (PStr t) then same_but [''isActive''] it it' \<and> \<not> active_key it' \<and>
         (active_key it \<longrightarrow> map_of (cache_items w') (hash_in it) = None) else it' = it)"
    if k: "item_in look w ApiKeysT k = Some it" for k it
  proof -
    obtain h where h: "k = api_key_key h" "map_of it ''keyHash'' = Some (PStr h)" using stored k by blast
    show ?thesis
    proof (cases "h \<in> ?hs")
      case True
      then show ?thesis using switched_off_done [OF r(2) True] k h r(3) [OF True] hash [OF h(2)] by auto
    next
      case False
      then show ?thesis using switched_off_same [OF r(2) False] k h same_but_refl by auto
    qed
  qed
  then show ?thesis using r(1) by blast
qed

end
