(* ===== verification/Tenant_Laws.thy ===== *)
theory Tenant_Laws
  imports Key_Laws
begin

text \<open>
  Which tenant a caller acts for, and the authentication run on concrete keys: the witnesses of the
  theorems on keys, and the inputs on which the code does not do what it means to do.
\<close>

section \<open>The scope of a caller\<close>

lemma context_of_claims_cases:
  assumes "context_of_claims claims = Inr c"
  shows "uc_auth_method c = ''jwt'' \<and>
    (is_super_admin claims \<and> uc_tenant_id c = super_admin \<or>
     \<not> is_super_admin claims \<and> is_tenant_admin claims \<and> get_tenant_id claims = PStr (uc_tenant_id c) \<and> uc_tenant_id c \<noteq> [])"
  using assms
  by (auto simp: context_of_claims_def require_role_def Let_def user_context_of_def
      split: if_splits pyval.splits sum.splits)

lemma context_of_token_cases:
  "context_of_token a token = Inr c \<Longrightarrow> \<exists>claims. decode_and_verify a token = Inr claims \<and> context_of_claims claims = Inr c"
  by (auto simp: context_of_token_def split: sum.splits if_splits)

lemma own_scope:
  "uc_auth_method c = ''api_key'' \<or> uc_tenant_id c \<noteq> super_admin \<Longrightarrow>
   resolve_tenant_from_context c req = Inr scope \<Longrightarrow> scope = Some (uc_tenant_id c)"
  by (auto simp: resolve_tenant_from_context_def Let_def split: if_splits)

lemma key_context:
  assumes "ddb_laws look (client e)" "get_user_context_from_api_key e a api_key w = (Inr c, w')"
  shows "uc_auth_method c = ''api_key'' \<and>
    (au_enabled a \<longrightarrow> (\<exists>r. good_key e r (PStr (uc_tenant_id c)) \<and> known_record look e a w (opt_default [] api_key) r))"
proof (cases "au_enabled a")
  case True
  then obtain r t where run: "authenticate e a (opt_default [] api_key) w = (Inr (r, t), w')"
    and c: "user_context_of t (dget_default r ''apiKeyName'' (PStr ''unknown'')) ''api_key'' = Inr c"
    using assms(2)
    by (auto simp: get_user_context_from_api_key_def user_context_from_ddb_def prog_simps split: prod.splits sum.splits)
  have t: "t = PStr (uc_tenant_id c)" "uc_auth_method c = ''api_key''"
    using c by (auto simp: user_context_of_def split: pyval.splits)
  show ?thesis using authenticate_sound [OF assms(1) run] t by blast
next
  case False
  then show ?thesis using assms(2)
    by (auto simp: get_user_context_from_api_key_def prog_simps split: prod.splits sum.splits)
qed

text \<open>C21: A caller acts for its own tenant.  With an API key the effective tenant is the one of its valid
  record, with a token the one in the verified claims of a tenant administrator; only a verified
  token of the super-admin group chooses its tenant, and another tenant that is asked for is refused.
  (No tenant can be named like the sentinel of the super-administrators.)\<close>

theorem caller_acts_for_own_tenant:
  assumes "ddb_laws look (client e)"
    and "get_user_context_with_fallback e a api_key token w = (Inr c, w')"
    and "resolve_tenant_from_context c req = Inr scope"
  shows "uc_auth_method c = ''api_key'' \<and> scope = Some (uc_tenant_id c) \<and>
      (au_enabled a \<longrightarrow> (\<exists>r. good_key e r (PStr (uc_tenant_id c)) \<and> known_record look e a w (opt_default [] api_key) r)) \<or>
    (\<exists>t claims. token = Some t \<and> decode_and_verify a t = Inr claims \<and>
      (is_super_admin claims \<and> scope = req \<or>
       is_tenant_admin claims \<and> get_tenant_id claims = PStr (uc_tenant_id c) \<and>
         (uc_tenant_id c \<noteq> super_admin \<longrightarrow> scope = Some (uc_tenant_id c))))"
proof -
  consider (key) "get_user_context_from_api_key e a api_key w = (Inr c, w')"
    | (token) t where "token = Some t" "context_of_token a t = Inr c"
    using assms(2)
    by (auto simp: get_user_context_with_fallback_def prog_simps split: if_splits option.splits prod.splits sum.splits)
  then show ?thesis
  proof cases
    case key
    from key_context [OF assms(1) this] own_scope [OF _ assms(3)] show ?thesis by blast
  next
    case token
    obtain claims where "decode_and_verify a t = Inr claims" "context_of_claims claims = Inr c"
      using context_of_token_cases [OF token(2)] by blast
    then show ?thesis
      using context_of_claims_cases [of claims c] token(1) own_scope [OF _ assms(3)] assms(3)
      by (auto simp: resolve_tenant_from_context_def super_admin_def)
  qed
qed

section \<open>Examples\<close>

definition example_auth :: auth_services where
  "example_auth =
     \<lparr>au_resolve_pepper = Inr (Some ''p''), au_sha256 = (\<lambda>k. ''s:'' @ k), au_hmac = (\<lambda>p k. p @ '':'' @ k),
      au_monotonic = 100, au_cache_ttl = Inr 300, au_enabled = True, au_shared_key = Inr [],
      au_tenant_index = True, au_random = replicate 43 CHR ''x'', au_jwt_decode = (\<lambda>t. Inl (OtherExc ''DecodeError'')),
      au_client_id = None\<rparr>"

definition example_key :: string where
  "example_key = ''docai_0123456789abcdef0123456789abcdef''"

definition key_world :: "string list \<Rightarrow> mem world" where
  "key_world hashes =
     (world_of (map (\<lambda>h. ((ApiKeysT, api_key_key h), key_item base_env h ''svc'' ''prod'' ''t1'' (Some 5000) None None)) hashes))
       \<lparr>pepper_cached := Some (Some ''p'')\<rparr>"

definition at_time :: "rat \<Rightarrow> mem env" where
  "at_time t = base_env\<lparr>now := t\<rparr>"

lemma fst_run: "fst x = r \<Longrightarrow> x = (r, snd x)"
  by (simp add: prod_eq_iff)

definition example_record :: dict where
  "example_record = key_item base_env (''p:'' @ example_key) ''svc'' ''prod'' ''t1'' (Some 5000) None None"

lemma example_valid_run:
  "fst (authenticate base_env example_auth example_key (key_world [''p:'' @ example_key])) =
     Inr (example_record, PStr ''t1'')"
  by code_simp

lemma authenticated_key_is_valid_witness:
  "good_key base_env example_record (PStr ''t1'') \<and>
   known_record mem_look base_env example_auth (key_world [''p:'' @ example_key]) example_key example_record"
proof -
  have "ddb_laws mem_look (client base_env)" by (simp add: mem_laws)
  from authenticated_key_is_valid [OF this fst_run [OF example_valid_run]] show ?thesis by blast
qed

text \<open>A key is revoked while another one is in use; neither the cache nor a failing service lets it in.\<close>

definition other_key :: string where
  "other_key = ''docai_fedcba9876543210fedcba9876543210''"

definition example_calls :: "(mem env \<times> auth_services \<times> auth_call) list" where
  "example_calls = [(at_time 1, example_auth, Verify example_key), (at_time 2, example_auth, Verify other_key),
     (at_time 1000, example_auth, Verify example_key)]"

definition cached_world :: "mem world" where
  "cached_world = snd (authenticate base_env example_auth example_key
     (key_world [''p:'' @ example_key, ''s:'' @ other_key]))"

lemma example_revoked_run: "fst (deactivate_api_key base_env (''p:'' @ example_key) cached_world) = Inr True"
  by code_simp

lemma example_revoked_pepper: "pepper_cached cached_world = Some (Some ''p'')"
  by code_simp

lemma example_revoked_legacy: "mem_look (store cached_world) ApiKeysT (api_key_key (''s:'' @ example_key)) = None"
  by code_simp

lemma example_apart: "hashes_apart (au_sha256 example_auth) (au_hmac example_auth ''p'') {example_key, other_key}"
  by (auto simp: hashes_apart_def example_auth_def inj_on_def)


lemma issued_key_authenticates_witness:
  "\<exists>olds it. fst (generate_api_key base_env example_auth ''svc'' ''prod'' ''t1'' (Some 5000) None None (key_world [])) =
     Inr (new_api_key example_auth, olds) \<and> dget it ''apiKeyName'' = PStr ''svc'' \<and>
   fst (authenticate (at_time 10) example_auth (new_api_key example_auth)
     (snd (generate_api_key base_env example_auth ''svc'' ''prod'' ''t1'' (Some 5000) None None (key_world [])))) =
     Inr (it, PStr ''t1'')"
  by (rule issued_key_authenticates [of mem_look base_env])
    (simp_all add: mem_reliable at_time_def base_env_def example_auth_def key_world_def world_of_def)

lemma legacy_key_survives_migration_witness:
  "item_in mem_look (snd (authenticate base_env example_auth example_key (key_world [''s:'' @ example_key])))
     ApiKeysT (api_key_key (''s:'' @ example_key)) = None"
proof -
  let ?w = "key_world [''s:'' @ example_key]"
  let ?r = "key_item base_env (''s:'' @ example_key) ''svc'' ''prod'' ''t1'' (Some 5000) None None"
  have hash: "key_hash_of example_auth ?w example_key = ''p:'' @ example_key" "truthy_str (pepper_of example_auth ?w)"
    by code_simp+
  have "item_in mem_look (snd (authenticate base_env example_auth example_key ?w)) ApiKeysT
      (api_key_key (au_sha256 example_auth example_key)) = None"
    by (rule legacy_key_survives_migration [of mem_look base_env example_key ?r "PStr ''t1''" example_auth ?w,
          OF _ _ _ _ hash(2) _ _ _ _ surjective_pairing, THEN conjunct2, THEN conjunct1], unfold hash(1))
      (simp_all add: mem_reliable, code_simp+)
  then show ?thesis by (simp add: example_auth_def)
qed

definition tenant_world :: "mem world" where
  "tenant_world = key_world [''p:'' @ example_key, ''p:'' @ other_key]"

lemma deactivated_tenant_has_no_keys_witness:
  "\<exists>it'. item_in mem_look (snd (deactivate_keys_for_tenant base_env example_auth ''t1'' tenant_world)) ApiKeysT
     (api_key_key (''p:'' @ example_key)) = Some it' \<and> \<not> active_key it'"
proof -
  let ?it = "key_item base_env (''p:'' @ example_key) ''svc'' ''prod'' ''t1'' (Some 5000) None None"
  have look: "item_in mem_look tenant_world ApiKeysT (api_key_key (''p:'' @ example_key)) = Some ?it"
    "map_of ?it ''tenantId'' = Some (PStr ''t1'')"
    by code_simp+
  have stored: "\<forall>k it. item_in mem_look tenant_world ApiKeysT k = Some it \<longrightarrow>
      (\<exists>h. h \<noteq> [] \<and> k = api_key_key h \<and> map_of it ''keyHash'' = Some (PStr h))"
    by (auto simp: tenant_world_def key_world_def world_of_def item_in_def mem_look_def key_item_def split: if_splits)
  have reliable: "reliable_ddb mem_look (client base_env)" by (simp add: mem_reliable)
  have "table_configured base_env ApiKeysT" "au_tenant_index example_auth"
    by (simp_all add: base_env_def example_auth_def)
  from deactivated_tenant_has_no_keys [where t = "''t1''", OF reliable this stored surjective_pairing, THEN conjunct2, rule_format, OF look(1)]
  show ?thesis using look(2) by auto
qed

definition example_context :: user_context where
  "example_context = \<lparr>uc_tenant_id = ''t1'', uc_api_key_name = ''svc'', uc_auth_method = ''api_key''\<rparr>"

lemma example_context_run:
  "fst (get_user_context_with_fallback base_env example_auth (Some example_key) None (key_world [''p:'' @ example_key])) =
     Inr example_context"
  by code_simp

lemma caller_acts_for_own_tenant_witness:
  "resolve_tenant_from_context example_context None = Inr (Some ''t1'') \<and>
   (\<exists>r. good_key base_env r (PStr ''t1'') \<and>
      known_record mem_look base_env example_auth (key_world [''p:'' @ example_key]) example_key r)"
proof -
  have scope: "resolve_tenant_from_context example_context None = Inr (Some ''t1'')" by code_simp
  have "ddb_laws mem_look (client base_env)" by (simp add: mem_laws)
  from caller_acts_for_own_tenant [OF this fst_run [OF example_context_run] scope]
  show ?thesis using scope by (simp add: example_auth_def example_context_def)
qed

section \<open>Where keys do not do what they are meant to do\<close>

text \<open>A legacy key whose migration fails once is locked out.  The first request is admitted, but the
  update of the last use creates an item under the new hash, which holds nothing but that time; once
  the cache has expired this item is found and is not active.\<close>

definition failing_put :: "mem env" where
  "failing_put = base_env\<lparr>client := mem_client\<lparr>db_put := (\<lambda>T it c t. (Inl (ClientErr ''ThrottlingException''), t))\<rparr>\<rparr>"

lemma failed_migration_locks_key_out:
  "isl (fst (authenticate failing_put example_auth example_key (key_world [''s:'' @ example_key]))) = False \<and>
   fst (authenticate (at_time 1000) example_auth example_key
     (snd (authenticate failing_put example_auth example_key (key_world [''s:'' @ example_key])))) = Inl unauthorized"
  by code_simp

text \<open>A failed read lets a revoked key in again.  Where the deletion at the end of a migration failed, the
  active legacy record is still there; when later the read of the revoked record fails, the lookup
  falls back to the legacy record and even migrates it over the revoked one.\<close>

definition failing_get :: "string \<Rightarrow> mem env" where
  "failing_get h = base_env\<lparr>client := mem_client\<lparr>db_get := (\<lambda>T k t.
     if k = api_key_key h then (Inl (ClientErr ''ThrottlingException''), t) else mem_get T k t)\<rparr>\<rparr>"

lemma failed_read_admits_revoked_key:
  "isl (fst (authenticate (failing_get (''p:'' @ example_key)) example_auth example_key
     (snd (deactivate_api_key base_env (''p:'' @ example_key)
        (key_world [''p:'' @ example_key, ''s:'' @ example_key]))))) = False"
  by code_simp

text \<open>The revocation of a legacy key does not take effect at once where its migration failed, since its
  record is cached under the new hash and the cache is cleared under the old one.\<close>

lemma legacy_revocation_is_late:
  "isl (fst (authenticate (at_time 10) example_auth example_key
     (snd (deactivate_api_key base_env (''s:'' @ example_key)
        (snd (authenticate failing_put example_auth example_key (key_world [''s:'' @ example_key]))))))) = False"
  by code_simp

text \<open>A failure to read the pepper is remembered as if there were none, so that the container refuses
  every peppered key from then on.\<close>

lemma pepper_failure_sticks:
  "fst (authenticate base_env example_auth example_key
     (snd (authenticate base_env (example_auth\<lparr>au_resolve_pepper := Inl (ClientErr ''ThrottlingException'')\<rparr>) example_key
        ((key_world [''p:'' @ example_key])\<lparr>pepper_cached := None\<rparr>)))) = Inl unauthorized"
  by code_simp

end
