(* ===== verification/Admin.thy ===== *)
theory Admin
  imports Auth
begin

text \<open>
  The administration of keys, tenants and users: \<open>utils/audit_log.py\<close> (its writer),
  \<open>routers/api_keys.py\<close>, \<open>routers/tenants.py\<close>, \<open>services/cognito.py\<close> and \<open>routers/users.py\<close>.  The claims are those of a verified
  token; each handler begins with the role its dependency requires.  The masking of names in
  presentations is not modelled.
\<close>

section \<open>utils/audit_log.py\<close>

definition global_tenant :: string where
  "global_tenant = ''__global__''"

definition ttl_seconds :: int where
  "ttl_seconds = 365 * 24 * 60 * 60"

text \<open>The sort key, the text of the time, \<open>#\<close> and the identifier, is kept as these two parts.\<close>

definition audit_item :: "'t env \<Rightarrow> dict \<Rightarrow> string \<Rightarrow> string \<Rightarrow> string \<Rightarrow> dict \<Rightarrow> dict" where
  "audit_item e claims action target_type target_id metadata =
     [(''timestamp#eventId'', PList [PTime (now e), PStr (fresh_id e 0)]), (''eventId'', PStr (fresh_id e 0)),
      (''actorSub'', dget_default claims ''sub'' (PStr ''unknown'')),
      (''actorEmail'', dget_default claims ''email'' (PStr ''unknown'')),
      (''action'', PStr action), (''targetType'', PStr target_type), (''targetId'', PStr target_id),
      (''metadata'', PDict metadata), (''ttl'', PNum (of_int (\<lfloor>now e\<rfloor> + ttl_seconds)))]"

definition log_event ::
  "'t env \<Rightarrow> dict \<Rightarrow> string \<Rightarrow> string \<Rightarrow> string \<Rightarrow> string option \<Rightarrow> dict \<Rightarrow> ('t, unit) wprog" where
  "log_event e claims action target_type target_id tenant_id metadata =
     (let partition = (if truthy_str tenant_id then opt_default [] tenant_id else global_tenant);
          base_item = audit_item e claims action target_type target_id metadata
      in catchP
           (if \<not> table_configured e AuditEventsT
            then raise (ValueErr ''AUDIT_EVENTS_TABLE_NAME environment variable not set'')
            else
              thenP (put_item e AuditEventsT (base_item @ [(''tenantId'', PStr partition)]) CTrue)
                (whenP (partition \<noteq> global_tenant)
                   (put_item e AuditEventsT (base_item @ [(''tenantId'', PStr global_tenant)]) CTrue)))
           (\<lambda>x. ret ()))"

section \<open>routers/api_keys.py\<close>

record create_key_request =
  ck_name :: string
  ck_environment :: string
  ck_email :: "string option"
  ck_expires_at :: "rat option"
  ck_tenant_id :: "string option"

definition owner_email :: "dict \<Rightarrow> string option \<Rightarrow> string option" where
  "owner_email claims email =
     (if email = None \<and> truthy (dget claims ''email'') then to_opt_str (dget claims ''email'') else email)"

definition check_tenant :: "string option \<Rightarrow> dict option \<Rightarrow> exn + unit" where
  "check_tenant effective_tenant tenant_record =
     (if \<not> present tenant_record then Inl (HTTPExc 400 ''Tenant does not exist.'')
      else if \<not> truthy (dget_default (opt_default [] tenant_record) ''isActive'' (PBool True))
      then Inl (HTTPExc 400 ''Tenant is inactive.'') else Inr ())"

definition issue_key ::
  "'t env \<Rightarrow> auth_services \<Rightarrow> dict \<Rightarrow> create_key_request \<Rightarrow> string \<Rightarrow> ('t, dict) wprog" where
  "issue_key e a claims b tenant =
     (let created_by = to_opt_str (py_or (dget claims ''email'') (dget claims ''sub''));
          email_address = owner_email claims (ck_email b)
      in bindP (catchP (generate_api_key e a (ck_name b) (ck_environment b) tenant (ck_expires_at b) created_by email_address)
                  (\<lambda>x. raise (HTTPExc 500 ''Failed to generate API key''))) (\<lambda>(api_key, existing_keys).
           thenP (log_event e claims ''key.create'' ''key'' (take 8 (au_sha256 a api_key)) (Some tenant)
                    [(''api_key_name'', PStr (ck_name b)), (''environment'', PStr (ck_environment b)),
                     (''expires_at'', case ck_expires_at b of None \<Rightarrow> PNone | Some t \<Rightarrow> PTime t),
                     (''email_address'', of_opt_str email_address)])
             (ret [(''api_key'', PStr api_key), (''api_key_name'', PStr (ck_name b)),
                   (''environment'', PStr (ck_environment b)),
                   (''expires_at'', case ck_expires_at b of None \<Rightarrow> PNone | Some t \<Rightarrow> PTime t),
                   (''existing_active_keys'', PNum (of_nat (length existing_keys))),
                   (''created_by'', of_opt_str created_by)])))"

definition create_api_key :: "'t env \<Rightarrow> auth_services \<Rightarrow> dict \<Rightarrow> create_key_request \<Rightarrow> ('t, dict) wprog" where
  "create_api_key e a claims b =
     thenP (lift_result (require_role claims))
     (bindP (lift_result (resolve_tenant claims (ck_tenant_id b))) (\<lambda>effective_tenant.
        if \<not> truthy_str effective_tenant
        then raise (HTTPExc 400 ''tenant_id is required when creating keys as super-admin.'')
        else
          bindP (get_tenant e (opt_default [] effective_tenant)) (\<lambda>tenant_record.
          thenP (lift_result (check_tenant effective_tenant tenant_record))
         (bindP (is_duplicate_key_name e a (opt_default [] effective_tenant) (ck_name b)) (\<lambda>duplicate.
            if duplicate then raise (HTTPExc 409 ''An active key with this name already exists for this tenant.'')
            else issue_key e a claims b (opt_default [] effective_tenant))))))"

definition key_entry :: "dict \<Rightarrow> dict" where
  "key_entry r =
     [(''api_key_name'', dget r ''apiKeyName''), (''tenant_id'', dget r ''tenantId''),
      (''environment'', dget r ''environment''), (''is_active'', dget r ''isActive''),
      (''created_at'', dget r ''createdAt''), (''expires_at'', dget r ''expiresAt''),
      (''last_used'', dget r ''lastUsed''), (''created_by'', dget r ''createdBy''),
      (''email_address'', dget r ''emailAddress''),
      (''key_prefix'', PStr (take 8 (opt_default [] (to_opt_str (dget r ''keyHash'')))))]"

definition listed_keys :: "string option \<Rightarrow> string option \<Rightarrow> bool \<Rightarrow> dict list \<Rightarrow> dict list" where
  "listed_keys effective_tenant api_key_name include_inactive items =
     filter (\<lambda>r. (effective_tenant = None \<or> dget r ''tenantId'' = of_opt_str effective_tenant) \<and>
                  (\<not> truthy_str api_key_name \<or> dget r ''apiKeyName'' = of_opt_str api_key_name) \<and>
                  (include_inactive \<or> active_key r)) items"

definition list_api_keys ::
  "'t env \<Rightarrow> dict \<Rightarrow> string option \<Rightarrow> bool \<Rightarrow> string option \<Rightarrow> ('t, dict list) wprog" where
  "list_api_keys e claims api_key_name include_inactive tenant_id =
     thenP (lift_result (require_role claims))
     (bindP (lift_result (resolve_tenant claims tenant_id)) (\<lambda>effective_tenant.
        bindP (catchP (if \<not> table_configured e ApiKeysT
                       then raise (ValueErr ''API_KEYS_TABLE_NAME not configured'') else scan e ApiKeysT)
                 (\<lambda>x. raise (HTTPExc 500 ''Failed to list API keys''))) (\<lambda>items.
          ret (map key_entry (listed_keys effective_tenant api_key_name include_inactive items)))))"

definition key_not_found :: exn where
  "key_not_found = HTTPExc 404 ''Key not found''"

definition key_to_delete :: "'t env \<Rightarrow> string option \<Rightarrow> string \<Rightarrow> ('t, string) wprog" where
  "key_to_delete e caller_tenant key_id =
     (if length key_id = 64 then
        if caller_tenant = None then ret key_id
        else if \<not> table_configured e ApiKeysT then raise (HTTPExc 503 ''Storage not configured'')
        else
          bindP (get_item e ApiKeysT (api_key_key key_id)) (\<lambda>r.
            if \<not> present r \<or> dget (opt_default [] r) ''tenantId'' \<noteq> of_opt_str caller_tenant
            then raise key_not_found else ret key_id)
      else
        bindP (catchP (find_api_key_by_prefix e key_id caller_tenant)
                 (\<lambda>x. case x of ValueErr s \<Rightarrow> raise (HTTPExc 409 s) | _ \<Rightarrow> raise x)) (\<lambda>full_hash.
          if \<not> truthy_str full_hash then raise key_not_found else ret (opt_default [] full_hash)))"

definition delete_api_key :: "'t env \<Rightarrow> dict \<Rightarrow> string \<Rightarrow> ('t, dict) wprog" where
  "delete_api_key e claims key_id =
     thenP (lift_result (require_role claims))
     (bindP (lift_result (tenant_scope claims)) (\<lambda>caller_tenant.
      bindP (key_to_delete e caller_tenant key_id) (\<lambda>full_hash.
      bindP (deactivate_api_key e full_hash) (\<lambda>found.
        if \<not> found then raise key_not_found
        else
          thenP (log_event e claims ''key.revoke'' ''key'' (take 8 full_hash) caller_tenant [])
            (ret [(''deactivated'', PBool True), (''key_id'', PStr (take 8 full_hash))])))))"

section \<open>routers/tenants.py\<close>

definition tenant_entry :: "dict \<Rightarrow> dict" where
  "tenant_entry r =
     [(''tenant_id'', dget_default r ''tenantId'' (PStr [])), (''display_name'', dget_default r ''displayName'' (PStr [])),
      (''primary_contact'', dget r ''primaryContact''), (''is_active'', dget_default r ''isActive'' (PBool True)),
      (''extraction_confidence_floor'', dget r ''extractionConfidenceFloor''),
      (''max_writes_per_day'', dget r ''maxWritesPerDay''), (''max_writes_per_month'', dget r ''maxWritesPerMonth''),
      (''disabled_blueprint_list'', dget r ''disabledBlueprintList''),
      (''created_at'', dget r ''createdAt''), (''updated_at'', dget r ''updatedAt'')]"

definition enforce_scope :: "dict \<Rightarrow> string \<Rightarrow> exn + unit" where
  "enforce_scope claims tenant_id =
     (case tenant_scope claims of
        Inl x \<Rightarrow> Inl x
      | Inr scope \<Rightarrow>
          if scope \<noteq> None \<and> scope \<noteq> Some tenant_id then Inl (HTTPExc 403 ''Access denied to this tenant.'') else Inr ())"

definition value_error_as :: "nat \<Rightarrow> exn \<Rightarrow> exn" where
  "value_error_as code x = (case x of ValueErr s \<Rightarrow> HTTPExc code s | _ \<Rightarrow> x)"

definition create_tenant_endpoint ::
  "'t env \<Rightarrow> dict \<Rightarrow> string \<Rightarrow> string \<Rightarrow> string option \<Rightarrow> rat option \<Rightarrow> nat option \<Rightarrow> nat option \<Rightarrow> ('t, dict) wprog"
where
  "create_tenant_endpoint e claims tenant_id display_name contact conf_floor per_day per_month =
     thenP (lift_result (require_super_admin claims))
     (bindP (catchP (create_tenant e tenant_id display_name contact conf_floor per_day per_month)
               (\<lambda>x. raise (value_error_as 409 x))) (\<lambda>r.
        thenP (log_event e claims ''tenant.create'' ''tenant'' tenant_id None
                 [(''display_name'', PStr display_name), (''primary_contact'', of_opt_str contact)])
          (ret (tenant_entry r))))"

definition list_tenants_endpoint :: "'t env \<Rightarrow> dict \<Rightarrow> bool \<Rightarrow> ('t, dict list) wprog" where
  "list_tenants_endpoint e claims active_only =
     thenP (lift_result (require_role claims))
     (bindP (lift_result (tenant_scope claims)) (\<lambda>scope.
        if truthy_str scope then
          bindP (get_tenant e (opt_default [] scope)) (\<lambda>r.
            ret (if present r then [tenant_entry (opt_default [] r)] else []))
        else
          bindP (list_tenants e active_only) (\<lambda>records.
            ret (sort_key (\<lambda>i. str_lower (opt_default [] (to_opt_str (dget i ''tenant_id''))))
                   (map tenant_entry records)))))"

definition get_tenant_endpoint :: "'t env \<Rightarrow> dict \<Rightarrow> string \<Rightarrow> ('t, dict) wprog" where
  "get_tenant_endpoint e claims tenant_id =
     thenP (lift_result (require_role claims))
    (thenP (lift_result (enforce_scope claims tenant_id))
    (bindP (get_tenant e tenant_id) (\<lambda>r.
       if \<not> present r then raise (HTTPExc 404 ''Tenant not found'') else ret (tenant_entry (opt_default [] r)))))"

text \<open>The body of an update holds the fields that were given, \<open>None\<close> where a field is to be cleared.\<close>

definition super_admin_protected :: "string list" where
  "super_admin_protected =
     [''is_active'', ''extraction_confidence_floor'', ''max_writes_per_day'', ''max_writes_per_month'']"

definition set_fields_of :: "dict \<Rightarrow> dict" where
  "set_fields_of body =
     (let dbl = dget body ''disabled_blueprint_list'' in
      filter (\<lambda>(f, v). f \<noteq> ''disabled_blueprint_list'' \<and> v \<noteq> PNone) body @
      (if dbl \<noteq> PList [] \<and> dbl \<noteq> PNone then [(''disabled_blueprint_list'', dbl)] else []))"

definition clear_fields_of :: "dict \<Rightarrow> string list" where
  "clear_fields_of body =
     map fst (filter (\<lambda>(f, v). f \<noteq> ''disabled_blueprint_list'' \<and> v = PNone) body) @
     (if dget body ''disabled_blueprint_list'' = PList [] then [''disabled_blueprint_list''] else [])"

definition effective_limit :: "dict \<Rightarrow> dict \<Rightarrow> string \<Rightarrow> string \<Rightarrow> pyval" where
  "effective_limit body r field attr =
     (if field \<in> set (clear_fields_of body) then PNone
      else dget_default (set_fields_of body) field (dget r attr))"

definition limits_conflict :: "dict \<Rightarrow> dict \<Rightarrow> bool" where
  "limits_conflict body r =
     (case (effective_limit body r ''max_writes_per_day'' ''maxWritesPerDay'',
            effective_limit body r ''max_writes_per_month'' ''maxWritesPerMonth'') of
        (PNum day, PNum month) \<Rightarrow> month < day
      | _ \<Rightarrow> False)"

definition update_tenant_endpoint ::
  "'t env \<Rightarrow> auth_services \<Rightarrow> dict \<Rightarrow> string \<Rightarrow> dict \<Rightarrow> ('t, dict) wprog" where
  "update_tenant_endpoint e a claims tenant_id body =
     thenP (lift_result (require_role claims))
    (thenP (lift_result (enforce_scope claims tenant_id))
    (bindP (get_tenant e tenant_id) (\<lambda>r.
       if \<not> present r then raise (HTTPExc 404 ''Tenant not found'')
       else if \<not> is_super_admin claims \<and> list_ex (\<lambda>(f, v). f \<in> set super_admin_protected) body
       then raise (HTTPExc 403 ''Only super-admins may modify protected fields'')
       else if limits_conflict body (opt_default [] r)
       then raise (HTTPExc 422 ''Daily write limit cannot exceed monthly write limit'')
       else
         bindP (catchP (update_tenant e tenant_id (clear_fields_of body) (set_fields_of body))
                  (\<lambda>x. raise (value_error_as 400 x))) (\<lambda>updated.
         bindP (if dget (set_fields_of body) ''is_active'' = PBool False
                then bindP (deactivate_keys_for_tenant e a tenant_id) (\<lambda>n.
                       ret [(''revoked_key_count'', PNum (of_nat n))])
                else ret []) (\<lambda>revoked.
         thenP (log_event e claims ''tenant.update'' ''tenant'' tenant_id (Some tenant_id)
                  ((''changed_fields'', of_strs (filter (\<lambda>f. f \<noteq> ''disabled_blueprint_list'') (map fst body))) # revoked))
           (ret (tenant_entry updated)))))))"

definition delete_tenant_endpoint :: "'t env \<Rightarrow> auth_services \<Rightarrow> dict \<Rightarrow> string \<Rightarrow> ('t, dict) wprog" where
  "delete_tenant_endpoint e a claims tenant_id =
     thenP (lift_result (require_super_admin claims))
     (bindP (deactivate_keys_for_tenant e a tenant_id) (\<lambda>revoked.
      bindP (deactivate_tenant e tenant_id) (\<lambda>found.
        if \<not> found then raise (HTTPExc 404 ''Tenant not found'')
        else
          thenP (log_event e claims ''tenant.deactivate'' ''tenant'' tenant_id (Some tenant_id)
                   [(''revoked_key_count'', PNum (of_nat revoked))])
            (ret [(''deleted'', PBool True), (''tenant_id'', PStr tenant_id)]))))"

section \<open>services/cognito.py\<close>

text \<open>The client of Cognito is a parameter: the groups it reports for a user and the calls that raise.  A
  call that does not raise is recorded with its arguments.\<close>

record cognito =
  cg_pool :: "string option"
  cg_groups :: "string \<Rightarrow> exn + string list"
  cg_error :: "string \<Rightarrow> string list \<Rightarrow> exn option"

definition role_groups :: "string list" where
  "role_groups = [''super-admin'', ''tenant-admin'']"

definition user_pool_id :: "cognito \<Rightarrow> exn + string" where
  "user_pool_id g =
     (if \<not> truthy_str (cg_pool g) then Inl (ValueErr ''COGNITO_USER_POOL_ID environment variable not set'')
      else Inr (opt_default [] (cg_pool g)))"

definition cognito_call :: "cognito \<Rightarrow> string \<Rightarrow> string list \<Rightarrow> ('t, unit) wprog" where
  "cognito_call g name args =
     (case cg_error g name args of
        Some x \<Rightarrow> raise x
      | None \<Rightarrow> modifies (\<lambda>w. w\<lparr>invocations := invocations w @ [(name, of_strs args)]\<rparr>))"

definition set_tenant :: "cognito \<Rightarrow> string \<Rightarrow> string option \<Rightarrow> ('t, unit) wprog" where
  "set_tenant g username tenant_id =
     bindP (lift_result (user_pool_id g)) (\<lambda>pool_id.
       if truthy_str tenant_id
       then cognito_call g ''admin_update_user_attributes''
              [pool_id, username, ''custom:tenant_id'', opt_default [] tenant_id]
       else cognito_call g ''admin_delete_user_attributes'' [pool_id, username, ''custom:tenant_id''])"

definition delete_cognito_user :: "cognito \<Rightarrow> string \<Rightarrow> ('t, unit) wprog" where
  "delete_cognito_user g username =
     bindP (lift_result (user_pool_id g)) (\<lambda>pool_id. cognito_call g ''admin_delete_user'' [pool_id, username])"

fun remove_role_groups :: "cognito \<Rightarrow> string \<Rightarrow> string \<Rightarrow> string list \<Rightarrow> ('t, unit) wprog" where
  "remove_role_groups g pool_id username [] = ret ()"
| "remove_role_groups g pool_id username (name # names) =
     thenP (whenP (name \<in> set role_groups)
              (cognito_call g ''admin_remove_user_from_group'' [pool_id, username, name]))
       (remove_role_groups g pool_id username names)"

definition replace_role :: "cognito \<Rightarrow> string \<Rightarrow> string option \<Rightarrow> ('t, unit) wprog" where
  "replace_role g username new_role =
     bindP (lift_result (user_pool_id g)) (\<lambda>pool_id.
     bindP (lift_result (cg_groups g username)) (\<lambda>groups.
     thenP (remove_role_groups g pool_id username groups)
       (whenP (truthy_str new_role)
          (cognito_call g ''admin_add_user_to_group'' [pool_id, username, opt_default [] new_role]))))"

section \<open>routers/users.py\<close>

definition validate_tenant_for_role :: "string option \<Rightarrow> string option \<Rightarrow> exn + unit" where
  "validate_tenant_for_role role tenant_id =
     (if role = Some ''tenant-admin'' \<and> \<not> truthy_str tenant_id
      then Inl (HTTPExc 400 ''tenant_id is required when assigning the tenant-admin role.'') else Inr ())"

definition tenant_must_exist :: "'t env \<Rightarrow> string option \<Rightarrow> ('t, unit) wprog" where
  "tenant_must_exist e tenant_id =
     (if truthy_str tenant_id then
        bindP (get_tenant e (opt_default [] tenant_id)) (\<lambda>r.
          if \<not> present r then raise (HTTPExc 400 ''Tenant does not exist.'') else ret ())
      else ret ())"

text \<open>\<open>body.role == SUPER_ADMIN\<close> compares the role with the sentinel of the tenant, as the code does.\<close>

definition approve_user :: "'t env \<Rightarrow> cognito \<Rightarrow> dict \<Rightarrow> string \<Rightarrow> string \<Rightarrow> string option \<Rightarrow> ('t, dict) wprog" where
  "approve_user e g claims username role tenant_id =
     thenP (lift_result (require_super_admin claims))
    (thenP (lift_result (validate_tenant_for_role (Some role) tenant_id))
    (thenP (tenant_must_exist e tenant_id)
    (thenP (catchP (thenP (replace_role g username (Some role))
                      (if role = super_admin then set_tenant g username None else set_tenant g username tenant_id))
              (\<lambda>x. raise (HTTPExc 500 ''Failed to approve user'')))
    (thenP (log_event e claims ''user.approve'' ''user'' username tenant_id
              [(''role'', PStr role), (''tenant_id'', of_opt_str tenant_id)])
      (ret [(''username'', PStr username), (''role'', PStr role), (''tenant_id'', of_opt_str tenant_id)])))))"

definition change_role ::
  "'t env \<Rightarrow> cognito \<Rightarrow> dict \<Rightarrow> string \<Rightarrow> string option \<Rightarrow> string option \<Rightarrow> ('t, dict) wprog" where
  "change_role e g claims username role tenant_id =
     (let effective = (if role = Some ''tenant-admin'' then tenant_id else None) in
      thenP (lift_result (require_super_admin claims))
     (thenP (lift_result (validate_tenant_for_role role tenant_id))
     (thenP (tenant_must_exist e tenant_id)
     (thenP (catchP (thenP (replace_role g username role) (set_tenant g username effective))
               (\<lambda>x. raise (HTTPExc 500 ''Failed to change role'')))
     (thenP (log_event e claims ''user.role.change'' ''user'' username effective
               [(''new_role'', of_opt_str role), (''tenant_id'', of_opt_str effective)])
       (ret [(''username'', PStr username), (''role'', of_opt_str role), (''tenant_id'', of_opt_str effective)]))))))"

definition change_tenant :: "'t env \<Rightarrow> cognito \<Rightarrow> dict \<Rightarrow> string \<Rightarrow> string option \<Rightarrow> ('t, dict) wprog" where
  "change_tenant e g claims username tenant_id =
     thenP (lift_result (require_super_admin claims))
    (thenP (tenant_must_exist e tenant_id)
    (thenP (catchP (set_tenant g username tenant_id) (\<lambda>x. raise (HTTPExc 500 ''Failed to change tenant'')))
    (thenP (log_event e claims ''user.tenant.change'' ''user'' username tenant_id [(''new_tenant'', of_opt_str tenant_id)])
      (ret [(''username'', PStr username), (''tenant_id'', of_opt_str tenant_id)]))))"

definition delete_user :: "'t env \<Rightarrow> cognito \<Rightarrow> dict \<Rightarrow> string \<Rightarrow> ('t, dict) wprog" where
  "delete_user e g claims username =
     thenP (lift_result (require_super_admin claims))
     (if dget claims ''cognito:username'' = PStr username \<or> dget claims ''sub'' = PStr username
      then raise (HTTPExc 400 ''You cannot delete your own account.'')
      else
        thenP (catchP (delete_cognito_user g username) (\<lambda>x. raise (HTTPExc 500 ''Failed to delete user'')))
       (thenP (log_event e claims ''user.delete'' ''user'' username None [])
          (ret [(''username'', PStr username), (''deleted'', PBool True)])))"

end
