(* ===== verification/Admin_Laws.thy ===== *)
theory Admin_Laws
  imports Admin Tenant_Laws Crud_Laws
begin

text \<open>
  What the administrator of one tenant can do: whatever the request, and however the services fail,
  the keys and the records of the other tenants stay as they are, the settings of the own tenant
  that are reserved for super-administrators too, and no user is touched.
\<close>

section \<open>Requests\<close>

datatype admin_request =
    Create_Key create_key_request
  | List_Keys "string option" bool "string option"
  | Delete_Key string
  | Create_Tenant string string "string option" "rat option" "nat option" "nat option"
  | List_Tenants bool
  | Get_Tenant string
  | Update_Tenant string dict
  | Delete_Tenant string
  | Approve_User string string "string option"
  | Change_Role string "string option" "string option"
  | Change_Tenant string "string option"
  | Delete_User string

fun run_admin :: "'t env \<Rightarrow> auth_services \<Rightarrow> cognito \<Rightarrow> dict \<Rightarrow> admin_request \<Rightarrow> ('t, dict list) wprog" where
  "run_admin e a g claims (Create_Key b) = bindP (create_api_key e a claims b) (\<lambda>d. ret [d])"
| "run_admin e a g claims (List_Keys n inactive t) = list_api_keys e claims n inactive t"
| "run_admin e a g claims (Delete_Key h) = bindP (delete_api_key e claims h) (\<lambda>d. ret [d])"
| "run_admin e a g claims (Create_Tenant t n c f d m) = bindP (create_tenant_endpoint e claims t n c f d m) (\<lambda>d. ret [d])"
| "run_admin e a g claims (List_Tenants active) = list_tenants_endpoint e claims active"
| "run_admin e a g claims (Get_Tenant t) = bindP (get_tenant_endpoint e claims t) (\<lambda>d. ret [d])"
| "run_admin e a g claims (Update_Tenant t b) = bindP (update_tenant_endpoint e a claims t b) (\<lambda>d. ret [d])"
| "run_admin e a g claims (Delete_Tenant t) = bindP (delete_tenant_endpoint e a claims t) (\<lambda>d. ret [d])"
| "run_admin e a g claims (Approve_User u r t) = bindP (approve_user e g claims u r t) (\<lambda>d. ret [d])"
| "run_admin e a g claims (Change_Role u r t) = bindP (change_role e g claims u r t) (\<lambda>d. ret [d])"
| "run_admin e a g claims (Change_Tenant u t) = bindP (change_tenant e g claims u t) (\<lambda>d. ret [d])"
| "run_admin e a g claims (Delete_User u) = bindP (delete_user e g claims u) (\<lambda>d. ret [d])"

text \<open>The fields of the body of an update of a tenant.\<close>

definition update_fields :: "string list" where
  "update_fields = [''display_name'', ''primary_contact'', ''is_active'', ''extraction_confidence_floor'',
     ''max_writes_per_day'', ''max_writes_per_month'', ''disabled_blueprint_list'']"

section \<open>What may change\<close>

definition tenant_key :: "string \<Rightarrow> dict" where
  "tenant_key t = [(''tenantId'', PStr t)]"

definition reserved_attrs :: "string list" where
  "reserved_attrs = [''isActive'', ''extractionConfidenceFloor'', ''maxWritesPerDay'', ''maxWritesPerMonth'']"

definition attr_of ::
  "('t \<Rightarrow> tname \<Rightarrow> dict \<Rightarrow> dict option) \<Rightarrow> string \<Rightarrow> string \<Rightarrow> 't world \<Rightarrow> pyval option" where
  "attr_of look t b w = (case item_in look w TenantsT (tenant_key t) of None \<Rightarrow> None | Some it \<Rightarrow> map_of it b)"

definition confined ::
  "('t \<Rightarrow> tname \<Rightarrow> dict \<Rightarrow> dict option) \<Rightarrow> string \<Rightarrow> 't world \<Rightarrow> 't world \<Rightarrow> bool" where
  "confined look t w w' =
     ((\<forall>k it. item_in look w ApiKeysT k = Some it \<and> dget it ''tenantId'' \<noteq> PStr t \<longrightarrow>
         item_in look w' ApiKeysT k = Some it) \<and>
      (\<forall>k. k \<noteq> tenant_key t \<longrightarrow> item_in look w' TenantsT k = item_in look w TenantsT k) \<and>
      (\<forall>b \<in> set reserved_attrs. attr_of look t b w' = attr_of look t b w) \<and>
      invocations w' = invocations w)"

text \<open>A program that only reads leaves the items, the record of the calls and the pepper alone.\<close>

definition calm :: "('t \<Rightarrow> tname \<Rightarrow> dict \<Rightarrow> dict option) \<Rightarrow> 't world \<Rightarrow> 't world \<Rightarrow> bool" where
  "calm look w w' =
     (item_in look w' = item_in look w \<and> invocations w' = invocations w \<and> pepper_cached w' = pepper_cached w)"

interpretation confines: state_order "confined look t" for look t
  by unfold_locales (auto simp: confined_def)

interpretation calms: state_order "calm look" for look
  by unfold_locales (auto simp: calm_def)

lemma calm_confined: "calm look w w' \<Longrightarrow> confined look t w w'"
  by (simp add: calm_def confined_def attr_of_def)

lemma calm_guarantee: "guarantees (calm look) m \<Longrightarrow> guarantees (confined look t) m"
  unfolding guarantees_def using calm_confined by blast

lemma calm_store: "look u = item_in look w \<Longrightarrow> calm look w (w\<lparr>store := u\<rparr>)"
  by (simp add: calm_def)

lemma confined_other:
  "look u = (item_in look w)(T := m) \<Longrightarrow> T \<noteq> ApiKeysT \<Longrightarrow> T \<noteq> TenantsT \<Longrightarrow> confined look t w (w\<lparr>store := u\<rparr>)"
  by (simp add: confined_def attr_of_def)

lemma guaranteesI_wp: "(\<And>w. wp m (\<lambda>r w'. R w w') w) \<Longrightarrow> guarantees R m"
  unfolding guarantees_def wp_def by (metis (mono_tags, lifting) case_prod_unfold)

lemma wp_of_guarantee: "guarantees R m \<Longrightarrow> wp m (\<lambda>r w'. R w w') w"
  unfolding guarantees_def wp_def by (simp split: prod.split) (metis snd_conv)

text \<open>A part that guarantees \<open>R\<close>, then the rest from wherever it leaves.\<close>

lemma wp_seq:
  assumes "guarantees R m" "\<And>x w1. R w w1 \<Longrightarrow> Q (Inl x) w1" "\<And>x w1. R w w1 \<Longrightarrow> wp (f x) Q w1"
  shows "wp (bindP m f) Q w"
  unfolding wp_bind by (rule wp_conseq [OF wp_of_guarantee [OF assms(1)]]) (auto split: sum.split intro: assms(2,3))

lemma wp_calm_seq:
  assumes "calm look w w1" "guarantees (calm look) m"
    and "\<And>x w2. calm look w w2 \<Longrightarrow> Q (Inl x) w2" "\<And>x w2. calm look w w2 \<Longrightarrow> wp (f x) Q w2"
  shows "wp (bindP m f) Q w1"
  by (rule wp_seq [OF assms(2)]) (use assms(3,4) calms.R_trans [OF assms(1)] in blast)+

lemma to_ddb_keys: "fst ` set (to_ddb_fields flds) = snake_to_camel ` fst ` set flds"
proof -
  have "fst ` set (fold (\<lambda>(k, v) d. dset (snake_to_camel k) v d) flds d) = fst ` set d \<union> snake_to_camel ` fst ` set flds"
    for d by (induction flds arbitrary: d) (simp_all add: case_prod_beta dset_keys insert_commute)
  then show ?thesis by (simp add: to_ddb_fields_def)
qed

lemma update_names:
  assumes "f \<in> fst ` set (set_fields_of body) \<union> set (clear_fields_of body)"
  shows "f \<in> fst ` set body \<or> f = ''disabled_blueprint_list''"
proof -
  have kept: "fst ` set (filter P body) \<subseteq> fst ` set body" for P by auto
  have plus: "fst ` set (xs @ (if c then [(f, v)] else [])) \<subseteq> insert f (fst ` set xs)"
    "set (map fst xs @ (if c then [f] else [])) \<subseteq> insert f (fst ` set xs)" for xs :: dict and c f v
    by auto
  have 1: "fst ` set (set_fields_of body) \<subseteq> insert ''disabled_blueprint_list'' (fst ` set body)"
    unfolding set_fields_of_def Let_def by (rule subset_trans [OF plus(1) insert_mono [OF kept]])
  have 2: "set (clear_fields_of body) \<subseteq> insert ''disabled_blueprint_list'' (fst ` set body)"
    unfolding clear_fields_of_def by (rule subset_trans [OF plus(2) insert_mono [OF kept]])
  show ?thesis using assms 1 2 by blast
qed

text \<open>The fields that are left to the administrator of a tenant are stored under none of the reserved names.\<close>

lemma free_fields_stored:
  "f \<in> set update_fields \<Longrightarrow> f \<notin> set super_admin_protected \<Longrightarrow> snake_to_camel f \<notin> set reserved_attrs"
proof -
  have "list_all (\<lambda>f. f \<in> set super_admin_protected \<or> snake_to_camel f \<notin> set reserved_attrs) update_fields"
    by code_simp
  then show "f \<in> set update_fields \<Longrightarrow> f \<notin> set super_admin_protected \<Longrightarrow> snake_to_camel f \<notin> set reserved_attrs"
    by (auto simp: list_all_iff)
qed

lemma wp_ifI: "(b \<Longrightarrow> wp m Q s) \<Longrightarrow> (\<not> b \<Longrightarrow> wp n Q s) \<Longrightarrow> wp (if b then m else n) Q s"
  by simp

text \<open>The handlers read first, and fail or change something after that.\<close>

lemma confined_fail: "calm look w w1 \<Longrightarrow> wp (raise x) (\<lambda>r w'. confined look t w w') w1"
  by (simp add: wp_raise calm_confined)

lemma confined_calm:
  assumes "calm look w w1" "guarantees (calm look) m"
    and "\<And>x w2. calm look w w2 \<Longrightarrow> wp (f x) (\<lambda>r w'. confined look t w w') w2"
  shows "wp (bindP m f) (\<lambda>r w'. confined look t w w') w1"
  by (rule wp_calm_seq [OF assms(1,2) calm_confined assms(3)])

context service begin

lemma calm_get: "guarantees (calm look) (get_item e T k)"
  by (intro guaranteesI_wp wp_get_item) (simp_all add: calm_store)

lemma calm_query: "guarantees (calm look) (query_by_key e T b v sk)"
  by (intro guaranteesI_wp wp_query_by_key) (simp_all add: calm_store)

lemma calm_scan: "guarantees (calm look) (scan e T)"
  by (intro guaranteesI_wp wp_scan) (simp add: calm_store)

lemma calm_table_get: "guarantees (calm look) (table_get e tb pk sk)"
  unfolding table_get_def by (intro calms.g_rules calm_get)

lemma calm_get_tenant: "guarantees (calm look) (get_tenant e t)"
  unfolding get_tenant_def by (rule calm_table_get)

lemma calm_duplicate: "guarantees (calm look) (is_duplicate_key_name e a t n)"
  unfolding is_duplicate_key_name_def by (intro calms.g_rules calm_query)

lemma calm_active_keys: "guarantees (calm look) (get_active_keys_by_name e a n t)"
  unfolding get_active_keys_by_name_def by (intro calms.g_rules calm_query calm_scan)

lemma calm_list_keys: "guarantees (calm look) (list_api_keys e claims n inactive t)"
  unfolding list_api_keys_def by (intro calms.g_rules calm_scan)

lemma calm_get_tenant_endpoint: "guarantees (calm look) (get_tenant_endpoint e claims t)"
  unfolding get_tenant_endpoint_def by (intro calms.g_rules calm_get_tenant)

lemma confined_audit: "guarantees (confined look t) (log_event e claims action ty target part m)"
proof -
  have "guarantees (confined look t) (put_item e AuditEventsT it CTrue)" for it
    by (intro guaranteesI_wp wp_put_item)
      (auto intro: confined_other calm_confined calm_store)
  then show ?thesis unfolding log_event_def Let_def by (intro confines.g_rules)
qed

text \<open>A key is revoked that belongs to the tenant.\<close>

lemma confined_deactivate:
  assumes "\<And>it. item_in look w ApiKeysT (api_key_key h) = Some it \<Longrightarrow> dget it ''tenantId'' = PStr t"
  shows "wp (deactivate_api_key e h) (\<lambda>r w'. confined look t w w') w"
proof -
  have calm: "look u = item_in look w \<Longrightarrow> confined look t w (w\<lparr>store := u\<rparr>)" for u
    by (intro calm_confined calm_store)
  show ?thesis
    unfolding deactivate_api_key_def cache_invalidate_def
    using assms
    by (auto simp: wp_simps confined_def attr_of_def intro!: wp_get_item wp_update_item)
qed

end

text \<open>Every key is stored under its hash.\<close>

definition keyed :: "('t \<Rightarrow> tname \<Rightarrow> dict \<Rightarrow> dict option) \<Rightarrow> 't world \<Rightarrow> bool" where
  "keyed look w = (\<forall>k it. item_in look w ApiKeysT k = Some it \<longrightarrow>
     (\<exists>h. k = api_key_key h \<and> map_of it ''keyHash'' = Some (PStr h)))"

lemma keyedD:
  "keyed look w \<Longrightarrow> item_in look w ApiKeysT k = Some it \<Longrightarrow> dget it ''keyHash'' = PStr h \<Longrightarrow> k = api_key_key h"
  unfolding keyed_def dget_def by fastforce

text \<open>A single match of a prefix is the hash of a key of the tenant that is asked for.\<close>

lemma prefix_match:
  assumes "prefix_matches p (Some t) items = [v]" "to_opt_str v = Some h"
  shows "\<exists>i \<in> set items. dget i ''keyHash'' = PStr h \<and> dget i ''tenantId'' = PStr t"
proof -
  have "v \<in> set (prefix_matches p (Some t) items)" using assms(1) by simp
  moreover have "v = PStr h" using assms(2) by (cases v) auto
  ultimately show ?thesis unfolding prefix_matches_def by (auto simp: of_opt_str_def)
qed

definition belongs :: "('t \<Rightarrow> tname \<Rightarrow> dict \<Rightarrow> dict option) \<Rightarrow> string \<Rightarrow> 't world \<Rightarrow> string \<Rightarrow> bool" where
  "belongs look t w h =
     (\<forall>it. item_in look w ApiKeysT (api_key_key h) = Some it \<longrightarrow> dget it ''tenantId'' = PStr t)"

lemma belongs_calm: "calm look w w' \<Longrightarrow> belongs look t w' h = belongs look t w h"
  by (simp add: belongs_def calm_def)

context service begin

lemma wp_find_prefix:
  assumes "keyed look w"
  shows "wp (find_api_key_by_prefix e p (Some t))
    (\<lambda>r w'. calm look w w' \<and> (\<forall>h. r = Inr (Some h) \<longrightarrow> belongs look t w h)) w"
proof -
  have found: "belongs look t w h"
    if single: "prefix_matches p (Some t) items = [v]" "to_opt_str v = Some h"
      and items: "\<And>it. it \<in> set items \<Longrightarrow> \<exists>k. item_in look w ApiKeysT k = Some it" for items v h
  proof -
    obtain i where i: "i \<in> set items" "dget i ''keyHash'' = PStr h" "dget i ''tenantId'' = PStr t"
      using prefix_match [OF single] by blast
    obtain k where "item_in look w ApiKeysT k = Some i" using items [OF i(1)] by blast
    then show ?thesis using keyedD [OF assms _ i(2), of k] i(3) by (simp add: belongs_def)
  qed
  have select: "wp (case prefix_matches p (Some t) items of [] \<Rightarrow> ret None | [h] \<Rightarrow> ret (to_opt_str h)
      | _ \<Rightarrow> raise (ValueErr ''Prefix matches several keys; use a longer prefix''))
      (\<lambda>r w'. calm look w w' \<and> (\<forall>h. r = Inr (Some h) \<longrightarrow> belongs look t w h)) w1"
    if same: "calm look w w1" and items: "\<And>it. it \<in> set items \<Longrightarrow> \<exists>k. item_in look w ApiKeysT k = Some it"
    for items w1
    using same found [OF _ _ items] by (auto simp: wp_simps split: list.split)
  show ?thesis
    unfolding find_api_key_by_prefix_def wp_if wp_raise wp_bind [of "catchP _ _"] wp_catch wp_bind [of "scan _ _"]
    by (auto simp: calms.R_refl wp_simps calm_store split: sum.split intro!: wp_scan select)
qed

lemma wp_key_to_delete:
  assumes "keyed look w"
  shows "wp (key_to_delete e (Some t) key_id)
    (\<lambda>r w'. calm look w w' \<and> (\<forall>h. r = Inr h \<longrightarrow> belongs look t w h)) w"
  unfolding key_to_delete_def
  by (auto simp: wp_simps calms.R_refl calm_store belongs_def present_simps of_opt_str_def truthy_str_def
      intro!: wp_get_item wp_conseq [OF wp_find_prefix [OF assms]] split: sum.split exn.split option.splits)

lemma confined_after:
  assumes "confined look t w w1" "wp m (\<lambda>r w'. confined look t w1 w') w1"
  shows "wp m (\<lambda>r w'. confined look t w w') w1"
  using assms(2) by (rule wp_conseq) (rule confines.R_trans [OF assms(1)])

lemma confined_generate:
  assumes "item_in look w ApiKeysT (api_key_key (key_hash_of a w (new_api_key a))) = None"
  shows "wp (generate_api_key e a n env t' x c m) (\<lambda>r w'. confined look t w w') w"
  unfolding generate_api_key_def
proof (rule wp_seq [OF calm_active_keys], goal_cases)
  case (2 olds w1)
  let ?h = "key_hash_of a w (new_api_key a)"
  have hash: "key_hash_of a w1 (new_api_key a) = ?h" and same: "item_in look w1 = item_in look w"
    using 2 by (auto simp: calm_def key_hash_of_def pepper_of_def)
  have key: "key_of ApiKeysT (key_item e ?h n env t' x c m) = api_key_key ?h"
    by (rule key_of_api_key) (simp add: key_item_def)
  have inv: "invocations w1 = invocations w" using 2 by (simp add: calm_def)
  show ?case
    using assms by (auto simp: wp_simps wp_key_hash hash key confined_def attr_of_def same inv pepper_known_def
        intro!: wp_put_item split: sum.split)
qed (simp add: calm_confined)

lemma confined_issue:
  assumes "item_in look w ApiKeysT (api_key_key (key_hash_of a w (new_api_key a))) = None"
  shows "wp (issue_key e a claims b t') (\<lambda>r w'. confined look t w w') w"
proof -
  have rest: "wp (thenP (log_event e claims action ty target part m) (ret d)) (\<lambda>r w'. confined look t w w') w1"
    if "confined look t w w1" for w1 action ty target part m and d :: dict
  proof -
    have "wp (log_event e claims action ty target part m) (\<lambda>r w'. confined look t w w') w1"
      by (rule confined_after [OF that wp_of_guarantee [OF confined_audit]])
    then show ?thesis unfolding wp_then by (rule wp_conseq) (simp add: wp_ret split: sum.split)
  qed
  show ?thesis
    unfolding issue_key_def Let_def wp_bind wp_catch
  proof (rule wp_conseq [OF confined_generate [OF assms, where t = t]], goal_cases)
    case (1 r w1)
    show ?case
      by (cases r) (use rest [OF 1] 1 in \<open>auto simp: wp_raise split: prod.split\<close>)
  qed
qed

lemma confined_create_key:
  assumes "item_in look w ApiKeysT (api_key_key (key_hash_of a w (new_api_key a))) = None"
  shows "wp (create_api_key e a claims b) (\<lambda>r w'. confined look t w w') w"
proof -
  have issue: "wp (issue_key e a claims b t') (\<lambda>r w'. confined look t w w') w1" if "calm look w w1" for w1 t'
  proof -
    have "key_hash_of a w1 = key_hash_of a w" "item_in look w1 = item_in look w"
      using that by (auto simp: calm_def key_hash_of_def pepper_of_def fun_eq_iff)
    then show ?thesis using assms confined_after [OF calm_confined [OF that] confined_issue] by simp
  qed
  show ?thesis
    unfolding create_api_key_def thenP_def
    by (rule issue
        | (rule confined_calm, (assumption | rule calms.R_refl), rule calms.g_lift calm_get_tenant calm_duplicate)
        | (rule confined_fail, assumption) | rule wp_ifI | assumption)+
qed

lemma confined_delete_key:
  assumes "keyed look w" "\<not> is_super_admin claims" "to_opt_str (get_tenant_id claims) = Some t"
  shows "wp (delete_api_key e claims key_id) (\<lambda>r w'. confined look t w w') w"
proof -
  have scope: "tenant_scope claims = (if t = [] then Inl no_tenant else Inr (Some t))"
    using assms(2,3) by (simp add: tenant_scope_def)
  have revoke: "wp (bindP (deactivate_api_key e h) (\<lambda>found. if \<not> found then raise key_not_found
      else thenP (log_event e claims ''key.revoke'' ''key'' (take 8 h) (Some t) [])
        (ret [(''deactivated'', PBool True), (''key_id'', PStr (take 8 h))]))) (\<lambda>r w'. confined look t w w') w1"
    if w1: "calm look w w1" "belongs look t w h" for w1 h
  proof -
    have "wp (deactivate_api_key e h) (\<lambda>r w'. confined look t w1 w') w1"
      by (rule confined_deactivate) (use w1 belongs_calm [OF w1(1), of t h] in \<open>auto simp: belongs_def\<close>)
    from confined_after [OF calm_confined [OF w1(1)] this] show ?thesis
      unfolding wp_bind
      by (rule wp_conseq)
        (auto simp: wp_if wp_raise thenP_def split: sum.split
          intro!: wp_seq [OF confined_audit [of t]] intro: confines.R_trans simp: wp_ret)
  qed
  have "wp (bindP (key_to_delete e (Some t) key_id) (\<lambda>h. bindP (deactivate_api_key e h) (\<lambda>found.
      if \<not> found then raise key_not_found
      else thenP (log_event e claims ''key.revoke'' ''key'' (take 8 h) (Some t) [])
        (ret [(''deactivated'', PBool True), (''key_id'', PStr (take 8 h))])))) (\<lambda>r w'. confined look t w w') w"
    unfolding wp_bind [of "key_to_delete _ _ _"]
    by (rule wp_conseq [OF wp_key_to_delete [OF assms(1)]]) (auto split: sum.split intro: calm_confined revoke)
  then show ?thesis
    unfolding delete_api_key_def by (auto simp: wp_then wp_lift wp_bind [of "lift_result _"] scope confines.R_refl split: sum.split)
qed

lemma calm_list_tenants: "guarantees (calm look) (list_tenants_endpoint e claims active)"
  unfolding list_tenants_endpoint_def list_tenants_def table_list_all_def
  by (intro calms.g_rules calm_get_tenant calm_scan)

text \<open>An update that names no reserved attribute.\<close>

lemma confined_table_update:
  assumes "set reserved_attrs \<inter> (fst ` set flds \<union> set clear) = {}"
  shows "wp (table_update e tenants_table (PStr t) PNone clear flds) (\<lambda>r w'. confined look t w w') w"
proof -
  have key: "build_key tenants_table (PStr t) PNone = tenant_key t" "ct_name tenants_table = TenantsT"
    by (simp_all add: build_key_def tenants_table_def tenant_key_def)
  have step: "confined look t w (w1\<lparr>store := u\<rparr>)"
    if "calm look w w1" "look u = (item_in look w1)(TenantsT := (item_in look w1 TenantsT)(tenant_key t \<mapsto> it))"
      "updated_item (tenant_key t) (item_in look w1 TenantsT (tenant_key t))
         (update_actions e tenants_table (filter P flds) clear) = Some it" for w1 u it P
  proof -
    have "map_of it b = map_of (opt_default (tenant_key t) (item_in look w TenantsT (tenant_key t))) b"
      if b: "b \<in> set reserved_attrs" for b
    proof -
      have "b \<noteq> ct_updated tenants_table" "b \<notin> fst ` set (filter P flds) \<union> set clear"
        using b assms by (auto simp: reserved_attrs_def tenants_table_def)
      then show ?thesis
        using crud_update_fields [OF \<open>updated_item _ _ _ = Some it\<close>, of b] \<open>calm look w w1\<close> by (auto simp: calm_def)
    qed
    moreover have "map_of (tenant_key t) b = None" if "b \<in> set reserved_attrs" for b
      using that by (auto simp: reserved_attrs_def tenant_key_def)
    ultimately show ?thesis
      using that by (auto simp: confined_def attr_of_def calm_def split: option.splits)
  qed
  have body: "wp (bindP (update_item e (ct_name tenants_table) (build_key tenants_table (PStr t) PNone)
        (update_actions e tenants_table (filter P flds) clear) CTrue)
        (\<lambda>_. bindP (table_get e tenants_table (PStr t) PNone) (\<lambda>updated.
           case updated of None \<Rightarrow> raise a
           | Some it \<Rightarrow> if it = [] then raise b else ret it)))
        (\<lambda>r w'. confined look t w w') w1" if w1: "calm look w w1" for w1 P a b
  proof -
    have last: "wp (bindP (table_get e tenants_table (PStr t) PNone) (\<lambda>updated.
           case updated of None \<Rightarrow> raise a | Some it \<Rightarrow> if it = [] then raise b else ret it))
        (\<lambda>r w'. confined look t w w') w2" if "confined look t w w2" for w2
      by (rule confined_after [OF that], rule wp_seq [OF calm_guarantee [OF calm_table_get]])
        (auto simp: wp_simps split: option.split)
    show ?thesis
      unfolding key wp_bind [of "update_item _ _ _ _ _"]
    proof (rule wp_update_item, goal_cases)
      case (1 x u)
      then show ?case using calms.R_trans [OF w1 calm_store [of look u w1]] by (simp add: calm_confined)
    next
      case (2 it u)
      then show ?case using last [OF step [OF w1]] by simp
    qed
  qed
  have name: "wp (bindP (lift_result (get_table_name e tenants_table)) f) (\<lambda>r w'. confined look t w w') w1"
    if "calm look w w1" "wp (f (ct_name tenants_table)) (\<lambda>r w'. confined look t w w') w1" for f w1
    using that by (auto simp: wp_simps get_table_name_def calm_confined)
  show ?thesis
    unfolding table_update_def Let_def thenP_def
    by (rule confined_calm [OF calms.R_refl calm_table_get]) (intro wp_ifI confined_fail name body)
qed

lemma confined_update_tenant:
  assumes "set reserved_attrs \<inter> snake_to_camel ` (fst ` set flds \<union> set clear) = {}"
  shows "wp (update_tenant e t clear flds) (\<lambda>r w'. confined look t w w') w"
proof -
  have sub: "A \<subseteq> C \<Longrightarrow> B \<subseteq> D \<Longrightarrow> R \<inter> (C \<union> D) = {} \<Longrightarrow> R \<inter> (A \<union> B) = {}" for A B C D R :: "string set"
    by blast
  have free: "set reserved_attrs \<inter>
      (fst ` set (to_ddb_fields (filter P flds)) \<union> set (remdups (filter R (map snake_to_camel clear)))) = {}" for P R
    by (rule sub [OF _ _ assms [unfolded image_Un]]) (auto simp: to_ddb_keys)
  show ?thesis
    unfolding update_tenant_def Let_def
    by (rule wp_ifI, rule confined_fail [OF calms.R_refl], rule confined_table_update [OF free])
qed

lemma scoped_to_self:
  assumes "\<not> is_super_admin claims" "to_opt_str (get_tenant_id claims) = Some t"
  shows "enforce_scope claims t' = Inr u \<Longrightarrow> t' = t"
  by (cases "t = []") (simp_all add: enforce_scope_def tenant_scope_def assms split: if_splits)

lemma confined_update_endpoint:
  assumes "\<not> is_super_admin claims" "to_opt_str (get_tenant_id claims) = Some t"
    and "fst ` set body \<subseteq> set update_fields"
  shows "wp (update_tenant_endpoint e a claims t' body) (\<lambda>r w'. confined look t w w') w"
proof -
  note named = update_names [of _ body]
  have update: "wp (update_tenant e t (clear_fields_of body) (set_fields_of body)) (\<lambda>r w'. confined look t w1 w') w1"
    if "\<not> list_ex (\<lambda>(f, v). f \<in> set super_admin_protected) body" for w1
  proof (rule confined_update_tenant)
    have "snake_to_camel f \<notin> set reserved_attrs"
      if "f \<in> fst ` set (set_fields_of body) \<union> set (clear_fields_of body)" for f
    proof (rule free_fields_stored)
      have "''disabled_blueprint_list'' \<in> set update_fields" by (simp add: update_fields_def)
      then show "f \<in> set update_fields" using named [OF that] assms(3) by blast
      have "''disabled_blueprint_list'' \<notin> set super_admin_protected" by (simp add: super_admin_protected_def)
      then show "f \<notin> set super_admin_protected"
        using named [OF that] \<open>\<not> list_ex _ body\<close> unfolding list_ex_iff by auto
    qed
    then show "set reserved_attrs \<inter> snake_to_camel ` (fst ` set (set_fields_of body) \<union> set (clear_fields_of body)) = {}"
      by blast
  qed
  have active: "dget (set_fields_of body) ''is_active'' \<noteq> PBool False"
    if "\<not> list_ex (\<lambda>(f, v). f \<in> set super_admin_protected) body"
  proof -
    have "''is_active'' \<in> set super_admin_protected" by (simp add: super_admin_protected_def)
    then have "''is_active'' \<notin> fst ` set body" using that unfolding list_ex_iff by auto
    then have "''is_active'' \<notin> fst ` set (set_fields_of body)" using update_names [of "''is_active''" body] by auto
    then show ?thesis by (simp add: dget_def map_of_eq_None_iff [symmetric])
  qed
  have scope: "wp (bindP (lift_result (enforce_scope claims t')) f) (\<lambda>r w'. confined look t w w') w1"
    if "calm look w w1" "t' = t \<Longrightarrow> wp (f ()) (\<lambda>r w'. confined look t w w') w1" for f w1
    by (cases "enforce_scope claims t'")
      (use that scoped_to_self [OF assms(1,2), of t'] in \<open>auto simp: wp_simps calm_confined\<close>)
  have rest: "wp (bindP (catchP (update_tenant e t (clear_fields_of body) (set_fields_of body)) (\<lambda>x. raise (h x)))
      (\<lambda>d. bindP (if dget (set_fields_of body) ''is_active'' = PBool False then m else ret [])
        (\<lambda>l. bindP (log_event e claims ac ty tg pa (md l)) (\<lambda>_. ret (res d))))) (\<lambda>r w'. confined look t w w') w1"
    if "calm look w w1" "\<not> list_ex (\<lambda>(f, v). f \<in> set super_admin_protected) body"
    for h m ac ty tg pa md res w1
  proof -
    have "guarantees (confined look t) (bindP (log_event e claims ac ty tg pa (md [])) (\<lambda>_. ret (res d)))" for d
      by (intro confines.g_rules confined_audit)
    note log = confined_after [OF _ wp_of_guarantee [OF this]]
    have "wp (update_tenant e t (clear_fields_of body) (set_fields_of body)) (\<lambda>r w'. confined look t w w') w1"
      by (rule confined_after [OF calm_confined [OF that(1)] update [OF that(2)]])
    then show ?thesis
      unfolding wp_bind [of "catchP _ _"] wp_catch
      by (rule wp_conseq)
        (auto simp: wp_raise wp_bind [of "if _ then _ else _"] active [OF that(2)] wp_ret split: sum.split intro: log)
  qed
  show ?thesis
    unfolding update_tenant_endpoint_def thenP_def
    by (rule confined_calm [OF calms.R_refl calms.g_lift], rule scope, assumption, hypsubst,
        rule confined_calm, assumption, rule calm_get_tenant,
        (rule wp_ifI, rule confined_fail, assumption)+, rule rest) (use assms(1) in auto)
qed

end

text \<open>The other handlers end at the role they require.\<close>

lemma super_admin_only:
  assumes "\<not> is_super_admin claims"
  shows "wp (thenP (lift_result (require_super_admin claims)) m) (\<lambda>r w'. confined look t w w') w"
  using assms by (simp add: wp_simps require_super_admin_def confines.R_refl)


text \<open>The administrator of one tenant asks for the deletion of a key of another one.\<close>

definition quiet_cognito :: cognito where
  "quiet_cognito = \<lparr>cg_pool = Some ''pool'', cg_groups = (\<lambda>u. Inr [''tenant-admin'', ''staff'']), cg_error = (\<lambda>n v. None)\<rparr>"

definition neighbour_claims :: dict where
  "neighbour_claims = [(''cognito:groups'', PList [PStr ''tenant-admin'']), (''custom:tenant_id'', PStr ''t2'')]"

lemma tenant_world_keyed: "keyed mem_look tenant_world"
  by (auto simp: keyed_def tenant_world_def key_world_def world_of_def item_in_def mem_look_def key_item_def
      split: if_splits)

lemma tenant_world_new_key:
  "item_in mem_look tenant_world ApiKeysT (api_key_key (key_hash_of example_auth tenant_world (new_api_key example_auth))) = None"
  by code_simp

lemma neighbour_scope:
  "\<not> is_super_admin neighbour_claims" "to_opt_str (get_tenant_id neighbour_claims) = Some ''t2''"
  by code_simp+

lemma tenant_world_key:
  "item_in mem_look tenant_world ApiKeysT (api_key_key (''p:'' @ example_key)) =
     Some (key_item base_env (''p:'' @ example_key) ''svc'' ''prod'' ''t1'' (Some 5000) None None)"
  by code_simp


text \<open>Approving a super-administrator with a tenant leaves the tenant on the user: the role is compared
  with the sentinel that stands for the tenant of a super-administrator.\<close>

definition admin_claims :: dict where
  "admin_claims = [(''cognito:groups'', PList [PStr ''super-admin''])]"

lemma approved_super_admin_keeps_tenant:
  "invocations (snd (approve_user base_env quiet_cognito admin_claims ''u'' ''super-admin'' (Some ''acme'')
     (world_of example_tenant))) =
   [(''admin_remove_user_from_group'', of_strs [''pool'', ''u'', ''tenant-admin'']),
    (''admin_add_user_to_group'', of_strs [''pool'', ''u'', ''super-admin'']),
    (''admin_update_user_attributes'', of_strs [''pool'', ''u'', ''custom:tenant_id'', ''acme''])]"
  by code_simp

end
