(* ===== verification/Documents.thy ===== *)
theory Documents
  imports Job_Polling Document_Claims Write_Limits Auth
begin

text \<open>
  The endpoints of a document: \<open>routers/documents.py\<close> (upload, wait, results, deletion, search) and
  \<open>routers/presigned.py\<close>.  The caller is the \<open>user_context\<close> that the authentication found.  Response
  headers are not modelled.
\<close>

section \<open>Uploading\<close>

text \<open>The fields of the form.  \<open>fresh_id e 0\<close> is the trace that is made up for a request without one and
  \<open>fresh_id e 1\<close> the identifier of the job.\<close>

record upload_form =
  uf_file :: upload
  uf_category :: "string option"
  uf_trace_id :: "string option"
  uf_external_document_id :: "string option"
  uf_external_system_id :: "string option"
  uf_ai_consent :: bool
  uf_is_demo :: bool
  uf_is_test_run :: bool
  uf_is_compare :: bool
  uf_upload_source :: "string option"

record upload_result =
  ures_job_id :: string
  ures_job_status :: process_status
  ures_message :: string

definition demo_document_ttl_days :: int where
  "demo_document_ttl_days = 7"

definition test_run_document_ttl_days :: int where
  "test_run_document_ttl_days = 7"

definition compare_document_ttl_days :: int where
  "compare_document_ttl_days = 7"

definition form_trace :: "'t env \<Rightarrow> upload_form \<Rightarrow> string option" where
  "form_trace e f = (if truthy_str (uf_trace_id f) then uf_trace_id f else Some (fresh_id e 0))"

definition form_record ::
  "'t env \<Rightarrow> user_context \<Rightarrow> upload_form \<Rightarrow> string \<Rightarrow> string \<Rightarrow> string \<Rightarrow> document_record" where
  "form_record e c f filename content_type ddb_key =
     (new_document ddb_key filename (fresh_id e 1) ''direct'' (uc_tenant_id c) (uc_api_key_name c))
       \<lparr>dr_category := uf_category f, dr_trace_id := form_trace e f, dr_content_type := Some content_type,
        dr_external_document_id := uf_external_document_id f,
        dr_external_system_id := uf_external_system_id f,
        dr_ai_consent_flag := Some (uf_ai_consent f), dr_upload_source := uf_upload_source f,
        dr_is_demo := uf_is_demo f, dr_is_test_run := uf_is_test_run f,
        dr_ttl_days := (if uf_is_demo f then Some demo_document_ttl_days
                        else if uf_is_test_run f then Some test_run_document_ttl_days
                        else if uf_is_compare f then Some compare_document_ttl_days else None),
        dr_is_compare := uf_is_compare f\<rparr>"

text \<open>An absent location is formatted as \<open>None\<close>.\<close>

definition form_request ::
  "'t env \<Rightarrow> string option \<Rightarrow> user_context \<Rightarrow> upload_form \<Rightarrow> string \<Rightarrow> string \<Rightarrow> string \<Rightarrow> upload_request" where
  "form_request e demo_location c f filename content_type unique_file_name =
     \<lparr>ur_dest_path = opt_default ''None'' (if uf_is_demo f then demo_location else input_location e) @
        ''/'' @ uc_tenant_id c @ ''/'' @ unique_file_name,
      ur_original_file_name = filename, ur_content_type = content_type, ur_tenant_id = uc_tenant_id c,
      ur_category = uf_category f, ur_job_id = Some (fresh_id e 1), ur_trace_id = form_trace e f,
      ur_batch_id = None, ur_build_id = None\<rparr>"

definition upload_record_failed :: exn where
  "upload_record_failed = HTTPExc 500 ''Failed to create upload record''"

definition is_conversion_error :: "exn \<Rightarrow> bool" where
  "is_conversion_error x = (case x of ImageConversionErr m \<Rightarrow> True | _ \<Rightarrow> False)"

definition upload_document ::
  "'t env \<Rightarrow> codecs \<Rightarrow> string option \<Rightarrow> user_context \<Rightarrow> upload_form \<Rightarrow> ('t, upload_result) wprog" where
  "upload_document e cd demo_location c f =
     bindP (lift_result (validate_upload cd (uf_file f))) (\<lambda>content_type.
     thenP (whenP (\<not> uf_is_demo f \<and> \<not> uf_is_test_run f) (increment_and_check e (uc_tenant_id c)))
    (let filename = opt_default [] (up_filename (uf_file f)); job_id = fresh_id e 1 in
     bindP (lift_result (generate_unique_filename filename job_id)) (\<lambda>ddb_key.
     thenP (catchP (insert_minimal_ddb_record e (form_record e c f filename content_type ddb_key))
              (\<lambda>x. raise upload_record_failed))
     (if \<not> uf_ai_consent f then
        thenP (classify_as_ai_consent_declined e ddb_key None)
          (ret \<lparr>ures_job_id = job_id, ures_job_status = PS_AI_CONSENT_DECLINED,
                ures_message = ''Document not processed - AI consent not provided''\<rparr>)
      else
        catchP
          (thenP (dispatch_upload e cd (up_bytes (uf_file f))
                    (form_request e demo_location c f filename content_type ddb_key) ddb_key)
             (ret \<lparr>ures_job_id = job_id, ures_job_status = PS_NOT_STARTED,
                   ures_message = ''Document uploaded successfully''\<rparr>))
          (\<lambda>x. if is_conversion_error x
               then ret \<lparr>ures_job_id = job_id, ures_job_status = PS_CONVERSION_FAILED,
                         ures_message = ''Image conversion failed''\<rparr>
               else raise x)))))"

definition upload_response :: "upload_result \<Rightarrow> dict" where
  "upload_response r =
     [(''job_id'', PStr (ures_job_id r)), (''job_status'', PStr (ps_value (ures_job_status r))),
      (''message'', PStr (ures_message r))]"

definition direct_form :: "upload_form \<Rightarrow> upload_form" where
  "direct_form f = f\<lparr>uf_is_demo := False, uf_is_test_run := False, uf_is_compare := False\<rparr>"

definition create_document ::
  "'t env \<Rightarrow> codecs \<Rightarrow> user_context \<Rightarrow> upload_form \<Rightarrow> ('t, dict) wprog" where
  "create_document e cd c f =
     bindP (upload_document e cd None c (direct_form f)) (\<lambda>r. ret (upload_response r))"

definition apigw_max_timeout_seconds :: int where
  "apigw_max_timeout_seconds = 25"

definition create_document_wait ::
  "'t env \<Rightarrow> codecs \<Rightarrow> 't poller \<Rightarrow> user_context \<Rightarrow> upload_form \<Rightarrow> bool \<Rightarrow> bool \<Rightarrow> int \<Rightarrow> ('t, dict) wprog" where
  "create_document_wait e cd p c f include_extracted_data include_bounding_box timeout =
     bindP (upload_document e cd None c (direct_form f)) (\<lambda>r.
       if is_classified (ps_value (ures_job_status r)) then ret (upload_response r)
       else poll_for_completion e p (ures_job_id r) (min timeout apigw_max_timeout_seconds)
              (include_bounding_box \<or> include_extracted_data) include_bounding_box)"

section \<open>Results\<close>

definition text_of :: "pyval \<Rightarrow> string" where
  "text_of v = opt_default [] (to_opt_str v)"

definition pending_response :: "string \<Rightarrow> pyval \<Rightarrow> dict" where
  "pending_response job_id process_status =
     (let current_status = py_or process_status (PStr (ps_value PS_NOT_STARTED)) in
      [(''job_id'', PStr job_id), (''job_status'', current_status),
       (''message'', PStr (pending_message (text_of current_status)))])"

definition job_not_found :: exn where
  "job_not_found = HTTPExc 404 ''Job ID not found''"

definition incomplete_record :: exn where
  "incomplete_record = HTTPExc 500 ''Incomplete record for job''"

definition built_response :: "'t env \<Rightarrow> job_status \<Rightarrow> bool \<Rightarrow> ('t, dict) wprog" where
  "built_response e js include_bounding_box =
     bindP (build_v1_api_response e (text_of (js_object_key js)) (text_of (js_process_status js)) None None True
              include_bounding_box)
       (\<lambda>result. lift_result (present_v1_response result))"

definition stored_response :: "job_status \<Rightarrow> ('t, dict) wprog" where
  "stored_response js =
     bindP (lift_result (json_loads (js_v1_response_json js))) (\<lambda>v. lift_result (as_response v))"

definition get_document_results ::
  "'t env \<Rightarrow> user_context \<Rightarrow> string \<Rightarrow> bool \<Rightarrow> bool \<Rightarrow> ('t, dict) wprog" where
  "get_document_results e c job_id include_extracted_data include_bounding_box =
     catchP
       (bindP (get_job_status e job_id) (\<lambda>js.
        thenP (lift_result (validate_document_tenant_access (js_ddb_record js) (uc_tenant_id c)))
        (if js_process_status js = PStr (ps_value PS_DELETED) then raise job_not_found
         else if \<not> truthy (js_v1_response_json js) then ret (pending_response job_id (js_process_status js))
         else if include_bounding_box \<or> include_extracted_data then
           if \<not> truthy (js_object_key js) \<or> \<not> truthy (js_process_status js) then raise incomplete_record
           else built_response e js include_bounding_box
         else stored_response js)))
       (\<lambda>x. if is_http x then raise x else raise (HTTPExc 500 ''Failed to retrieve results''))"

section \<open>Deletion\<close>

definition delete_document :: "'t env \<Rightarrow> user_context \<Rightarrow> string \<Rightarrow> bool \<Rightarrow> ('t, unit) wprog" where
  "delete_document e c job_id soft_delete =
     bindP (get_job_status e job_id) (\<lambda>js.
     thenP (lift_result (validate_document_tenant_access (js_ddb_record js) (uc_tenant_id c)))
     (if js_process_status js = PStr (ps_value PS_DELETED) then raise job_not_found
      else if \<not> truthy (js_process_status js) \<or> \<not> is_classified (text_of (js_process_status js))
      then raise (HTTPExc 400 ''Cannot delete a document that is still processing'')
      else if \<not> truthy (js_object_key js) then raise incomplete_record
      else
        bindP (if \<not> soft_delete then purge_document_s3_artifacts e (text_of (js_object_key js)) (uc_tenant_id c)
               else ret []) (\<lambda>failures.
          if failures \<noteq> [] then raise (HTTPExc 500 ''Failed to fully delete document'')
          else mark_document_deleted e (text_of (js_object_key js)) (if soft_delete then DEL_SOFT else DEL_HARD))))"

section \<open>Search\<close>

definition max_search_job_ids :: nat where
  "max_search_job_ids = 25"

definition search_entry :: "string \<Rightarrow> string \<Rightarrow> string \<Rightarrow> dict" where
  "search_entry job_id st message = [(''job_id'', PStr job_id), (''job_status'', PStr st), (''message'', PStr message)]"

definition search_one ::
  "'t env \<Rightarrow> user_context \<Rightarrow> bool \<Rightarrow> string \<Rightarrow> exn + job_status \<Rightarrow> ('t, dict) wprog" where
  "search_one e c include_extracted_data job_id found =
     catchP
       (bindP (lift_result found) (\<lambda>js.
          if \<not> present (js_ddb_record js) \<or>
             dget (opt_default [] (js_ddb_record js)) ''tenantId'' \<noteq> PStr (uc_tenant_id c)
          then ret (search_entry job_id ''not_found'' ''Job ID not found'')
          else if \<not> truthy (js_v1_response_json js) then ret (pending_response job_id (js_process_status js))
          else if include_extracted_data then
            if \<not> truthy (js_object_key js) \<or> \<not> truthy (js_process_status js)
            then ret (search_entry job_id ''error'' ''Incomplete record'')
            else built_response e js False
          else stored_response js))
       (\<lambda>x. ret (search_entry job_id ''error'' ''Failed to retrieve results''))"

fun search_each ::
  "'t env \<Rightarrow> user_context \<Rightarrow> bool \<Rightarrow> (string \<times> (exn + job_status)) list \<Rightarrow> ('t, dict list) wprog" where
  "search_each e c data [] = ret []"
| "search_each e c data ((job_id, found) # rest) =
     bindP (search_one e c data job_id found) (\<lambda>r.
     bindP (search_each e c data rest) (\<lambda>rs. ret (r # rs)))"

text \<open>The statuses of all jobs are gathered first, the exceptions of a read as values.\<close>

definition gather_statuses :: "'t env \<Rightarrow> string list \<Rightarrow> ('t, (exn + job_status) list) wprog" where
  "gather_statuses e job_ids = (\<lambda>w. case run_each (map (get_job_status e) job_ids) w of (rs, w') \<Rightarrow> (Inr rs, w'))"

definition search_documents :: "'t env \<Rightarrow> user_context \<Rightarrow> string list \<Rightarrow> bool \<Rightarrow> ('t, dict list) wprog" where
  "search_documents e c job_ids include_extracted_data =
     (if job_ids = [] then raise (HTTPExc 400 ''job_ids must not be empty'')
      else if max_search_job_ids < length job_ids then raise (HTTPExc 400 ''Too many job_ids per request'')
      else bindP (gather_statuses e job_ids) (\<lambda>found. search_each e c include_extracted_data (zip job_ids found)))"

end
