(* ===== verification/Document_Laws.thy ===== *)
theory Document_Laws
  imports Documents Wp_Rules Footprints Job_Laws Upload_Laws Write_Limit_Laws Tenant_Laws
begin

text \<open>
  What a caller sees of the documents: the jobs of other tenants look like jobs that do not exist, a
  document is deleted only by its tenant and only when it is final, and an upload is found again.
\<close>

section \<open>Reading the status of a job\<close>

definition foreign :: "('t \<Rightarrow> tname \<Rightarrow> dict \<Rightarrow> dict option) \<Rightarrow> string \<Rightarrow> string \<Rightarrow> 't world \<Rightarrow> bool" where
  "foreign look t job w =
     (\<forall>k it. item_in look w DocumentMetadataT k = Some it \<longrightarrow> of_job job it \<longrightarrow> dget it ''tenantId'' \<noteq> PStr t)"

definition not_ours :: "string \<Rightarrow> job_status \<Rightarrow> bool" where
  "not_ours t js =
     (\<not> present (js_ddb_record js) \<or> dget (opt_default [] (js_ddb_record js)) ''tenantId'' \<noteq> PStr t)"

context reliable_service begin

lemma rwp_job_status:
  assumes "\<And>r w'. item_in look w' = item_in look w \<Longrightarrow> s3_writes w' = s3_writes w \<Longrightarrow>
    (case r of None \<Rightarrow> \<forall>k it. item_in look w DocumentMetadataT k = Some it \<longrightarrow> \<not> of_job job it
     | Some it \<Rightarrow> of_job job it \<and> (\<exists>k. item_in look w DocumentMetadataT k = Some it)) \<Longrightarrow>
    Q (Inr (job_status_of r)) w'"
  shows "wp (get_job_status e job) Q w"
  unfolding get_job_status_def get_ddb_by_job_id_def wp_bind
proof (rule rwp_query_by_key)
  fix u items
  assume same: "look u = item_in look w"
    and items: "set items = {it. (\<exists>k. item_in look w DocumentMetadataT k = Some it) \<and>
      map_of it ''jobId'' = Some (PStr job)}"
  let ?r = "case items of [] \<Rightarrow> None | i # is \<Rightarrow> Some i"
  have "case ?r of None \<Rightarrow> \<forall>k it. item_in look w DocumentMetadataT k = Some it \<longrightarrow> \<not> of_job job it
     | Some it \<Rightarrow> of_job job it \<and> (\<exists>k. item_in look w DocumentMetadataT k = Some it)"
    using items by (cases items) (auto simp: of_job_def)
  from assms [OF _ _ this, of "w\<lparr>store := u\<rparr>"] same
  show "case Inr items of Inl x \<Rightarrow> (case Inl x of Inl x \<Rightarrow> Q (Inl x) (w\<lparr>store := u\<rparr>)
        | Inr r \<Rightarrow> wp (ret (if \<not> present r
            then \<lparr>js_ddb_record = None, js_object_key = PNone, js_process_status = PNone, js_v1_response_json = PNone\<rparr>
            else \<lparr>js_ddb_record = r, js_object_key = dget (opt_default [] r) ''fileName'',
                  js_process_status = dget (opt_default [] r) ''processStatus'',
                  js_v1_response_json = dget (opt_default [] r) ''v1ApiResponseJson''\<rparr>)) Q (w\<lparr>store := u\<rparr>))
    | Inr items \<Rightarrow> wp (ret (case items of [] \<Rightarrow> None | i # is \<Rightarrow> Some i))
        (\<lambda>r s'. case r of Inl x \<Rightarrow> Q (Inl x) s'
          | Inr r \<Rightarrow> wp (ret (if \<not> present r
            then \<lparr>js_ddb_record = None, js_object_key = PNone, js_process_status = PNone, js_v1_response_json = PNone\<rparr>
            else \<lparr>js_ddb_record = r, js_object_key = dget (opt_default [] r) ''fileName'',
                  js_process_status = dget (opt_default [] r) ''processStatus'',
                  js_v1_response_json = dget (opt_default [] r) ''v1ApiResponseJson''\<rparr>)) Q s') (w\<lparr>store := u\<rparr>)"
    by (simp add: wp_ret job_status_of_def)
qed

lemma rwp_foreign_status:
  assumes "foreign look t job w"
  shows "wp (get_job_status e job)
    (\<lambda>r w'. \<exists>js. r = Inr js \<and> not_ours t js \<and> item_in look w' = item_in look w) w"
  by (rule rwp_job_status)
    (use assms in \<open>auto simp: foreign_def not_ours_def job_status_of_def split: option.splits\<close>)

end

lemma not_ours_refused: "not_ours t js \<Longrightarrow> validate_document_tenant_access (js_ddb_record js) t = Inl job_not_found"
  by (auto simp: not_ours_def validate_document_tenant_access_def job_not_found_def)

section \<open>Other tenants' jobs look like no job at all\<close>

lemma search_one_not_ours:
  "not_ours (uc_tenant_id c) js \<Longrightarrow>
   search_one e c data job (Inr js) w = (Inr (search_entry job ''not_found'' ''Job ID not found''), w)"
  by (auto simp: search_one_def not_ours_def catchP_run bindP_run)

lemma search_each_nth:
  assumes "search_each e c data xs w = (Inr rs, w')"
  shows "length rs = length xs \<and> (\<forall>i < length xs. \<exists>u. fst (search_one e c data (fst (xs ! i)) (snd (xs ! i)) u) = Inr (rs ! i))"
  using assms
proof (induction xs arbitrary: rs w w')
  case (Cons x xs)
  obtain job found where x: "x = (job, found)" by (cases x)
  obtain r w1 where one: "search_one e c data job found w = (Inr r, w1)"
    using Cons.prems by (auto simp: x bindP_run split: prod.splits sum.splits)
  obtain rest w2 where rest: "search_each e c data xs w1 = (Inr rest, w2)" "rs = r # rest"
    using Cons.prems one by (auto simp: x bindP_run split: prod.splits sum.splits)
  have "fst (search_one e c data job found w) = Inr r" using one by simp
  with Cons.IH [OF rest(1)] rest(2) show ?case
    by (auto simp: x nth_Cons split: nat.split)
qed simp

context reliable_service begin

lemma gather_foreign:
  assumes "gather_statuses e jobs w = (r, w')"
  shows "item_in look w' = item_in look w \<and> (\<exists>found. r = Inr found \<and> length found = length jobs \<and>
    (\<forall>i < length jobs. foreign look t (jobs ! i) w \<longrightarrow> (\<exists>js. found ! i = Inr js \<and> not_ours t js)))"
proof -
  let ?I = "\<lambda>v. item_in look v = item_in look w"
  let ?Q = "\<lambda>job r. foreign look t job w \<longrightarrow> (\<exists>js. r = Inr js \<and> not_ours t js)"
  have one: "wp (get_job_status e job) (\<lambda>r v'. ?I v' \<and> ?Q job r) v" if "?I v" for job v
  proof -
    have same: "foreign look t job v = foreign look t job w" using that by (simp add: foreign_def)
    have frame: "wp (get_job_status e job) (\<lambda>r v'. ?I v') v"
      by (rule rwp_job_status) (use that in simp)
    show ?thesis
    proof (cases "foreign look t job v")
      case True
      then show ?thesis by (rule wp_conseq [OF rwp_foreign_status]) (use that in auto)
    qed (use frame same in \<open>auto elim: wp_conseq\<close>)
  qed
  have "?I (snd (run_each (map (get_job_status e) jobs) w)) \<and>
      list_all2 ?Q jobs (fst (run_each (map (get_job_status e) jobs) w))"
    by (rule run_each_wp [of jobs ?I]) (use one in auto)
  then show ?thesis
    using assms unfolding gather_statuses_def
    by (auto simp: list_all2_conv_all_nth split: prod.splits)
qed

end

text \<open>C11: For a caller, a job of another tenant is a job that does not exist: asking for its results and
  asking for its deletion give the same 404 as an unknown identifier, a search lists it as not found,
  and nothing is changed.\<close>

theorem foreign_jobs_look_missing:
  assumes "reliable_ddb look (client e)" "foreign look (uc_tenant_id c) job w"
  shows "fst (get_document_results e c job data box w) = Inl job_not_found \<and>
    fst (delete_document e c job soft w) = Inl job_not_found \<and>
    item_in look (snd (delete_document e c job soft w)) = item_in look w \<and>
    (fst (search_documents e c jobs data w) = Inr rs \<and> i < length jobs \<and> jobs ! i = job \<longrightarrow>
       length rs = length jobs \<and> rs ! i = search_entry job ''not_found'' ''Job ID not found'')"
proof -
  note S = reliable_serviceI [OF assms(1)]
  let ?t = "uc_tenant_id c"
  obtain js v where js: "get_job_status e job w = (Inr js, v)" "not_ours ?t js" "item_in look v = item_in look w"
    using reliable_service.rwp_foreign_status [OF S assms(2)] by (auto simp: wp_def split: prod.splits)
  note refused = not_ours_refused [OF js(2)]
  have results: "fst (get_document_results e c job data box w) = Inl job_not_found"
    by (simp add: get_document_results_def catchP_run bindP_run thenP_run js(1) refused is_http_def job_not_found_def)
  have deletion: "delete_document e c job soft w = (Inl job_not_found, v)"
    by (simp add: delete_document_def bindP_run thenP_run js(1) refused)
  have search: "length rs = length jobs \<and> rs ! i = search_entry job ''not_found'' ''Job ID not found''"
    if s: "fst (search_documents e c jobs data w) = Inr rs" and i: "i < length jobs" "jobs ! i = job"
  proof -
    obtain r w1 where g: "gather_statuses e jobs w = (r, w1)" by (metis surj_pair)
    obtain found where found: "r = Inr found" "length found = length jobs"
      "\<forall>i < length jobs. foreign look ?t (jobs ! i) w \<longrightarrow> (\<exists>js. found ! i = Inr js \<and> not_ours ?t js)"
      using reliable_service.gather_foreign [OF S g] by blast
    obtain w2 where each: "search_each e c data (zip jobs found) w1 = (Inr rs, w2)"
      using s found(1) by (cases "search_each e c data (zip jobs found) w1")
        (auto simp: search_documents_def bindP_run g split: if_splits)
    obtain js' where own: "found ! i = Inr js'" "not_ours ?t js'"
      using found(3) i assms(2) by blast
    show ?thesis
      using search_each_nth [OF each] i found(2) own search_one_not_ours [OF own(2), of e data job] by auto
  qed
  show ?thesis using results deletion js(3) search by auto
qed

section \<open>Deletion\<close>

definition deleted_item :: "dict \<Rightarrow> dict option \<Rightarrow> deletion_type \<Rightarrow> dict \<Rightarrow> bool" where
  "deleted_item key x how it' =
     (map_of it' ''processStatus'' = Some (PStr (ps_value PS_DELETED)) \<and>
      map_of it' ''deletionType'' = Some (PStr (del_value how)) \<and>
      (\<forall>a. a \<notin> {''processStatus'', ''deletionType'', ''updatedAt''} \<longrightarrow> map_of it' a = map_of (opt_default key x) a))"

definition purge_ops :: "'t env \<Rightarrow> string \<Rightarrow> string \<Rightarrow> s3_op list" where
  "purge_ops e t key = map (\<lambda>l. the (purge_op t l)) (filter configured (purge_locations e key))"

lemma purge_complete:
  assumes "purge_document_s3_artifacts e key t w = (Inr [], w')"
  shows "w' = w\<lparr>s3_writes := s3_writes w @ purge_ops e t key\<rparr>"
proof -
  have "filter (\<lambda>l. configured l \<and> \<not> purge_fails e t l) (purge_locations e key) =
      filter configured (purge_locations e key)"
    using assms unfolding purge_document_s3_artifacts_def purge_each_run by (auto simp: filter_empty_conv intro: filter_cong)
  then show ?thesis
    using assms unfolding purge_document_s3_artifacts_def purge_each_run purge_ops_def by simp
qed

lemma purge_items: "item_in look (snd (purge_document_s3_artifacts e key t w)) = item_in look w"
  unfolding purge_document_s3_artifacts_def purge_each_run by (simp add: item_in_def)

lemma purge_returns: "\<exists>fs. fst (purge_document_s3_artifacts e key t w) = Inr fs"
  unfolding purge_document_s3_artifacts_def purge_each_run by simp

context service begin

lemma wp_mark_deleted:
  assumes "\<And>x u. look u = item_in look w \<Longrightarrow> Q (Inl x) (w\<lparr>store := u\<rparr>)"
    and "\<And>it' u. look u = (item_in look w)(DocumentMetadataT := (item_in look w DocumentMetadataT)(doc_key key \<mapsto> it')) \<Longrightarrow>
      deleted_item (doc_key key) (item_in look w DocumentMetadataT (doc_key key)) how it' \<Longrightarrow> Q (Inr ()) (w\<lparr>store := u\<rparr>)"
  shows "wp (mark_document_deleted e key how) Q w"
  unfolding mark_document_deleted_def execute_ddb_update_def wp_then
proof (rule wp_update_item, goal_cases)
  case (2 it' u)
  have "deleted_item (doc_key key) (item_in look w DocumentMetadataT (doc_key key)) how it'"
    using updated_item_set [OF 2(3)] updated_item_other [OF 2(3)] by (auto simp: deleted_item_def)
  then show ?case using assms(2) 2(1) by (simp add: wp_ret)
qed (simp add: assms(1))

end

text \<open>The part of the deletion that follows the checks.\<close>

definition delete_checked :: "'t env \<Rightarrow> string \<Rightarrow> string \<Rightarrow> bool \<Rightarrow> ('t, unit) wprog" where
  "delete_checked e t key soft =
     bindP (if \<not> soft then purge_document_s3_artifacts e key t else ret []) (\<lambda>failures.
       if failures \<noteq> [] then raise (HTTPExc 500 ''Failed to fully delete document'')
       else mark_document_deleted e key (if soft then DEL_SOFT else DEL_HARD))"

context service begin

lemma wp_delete_checked:
  "wp (delete_checked e t key soft) (\<lambda>r w'. case r of
     Inl x \<Rightarrow> item_in look w' = item_in look w
   | Inr u \<Rightarrow> \<exists>it'. item_in look w' =
         (item_in look w)(DocumentMetadataT := (item_in look w DocumentMetadataT)(doc_key key \<mapsto> it')) \<and>
       deleted_item (doc_key key) (item_in look w DocumentMetadataT (doc_key key)) (if soft then DEL_SOFT else DEL_HARD) it' \<and>
       s3_writes w' = s3_writes w @ (if soft then [] else purge_ops e t key)) w"
proof -
  obtain fs w1 where f: "(if \<not> soft then purge_document_s3_artifacts e key t else ret []) w = (Inr fs, w1)"
    using purge_returns [of e key t w] by (cases soft) (auto simp: prod_eq_iff)
  have items: "item_in look w1 = item_in look w"
    using f purge_items [of look e key t w] by (cases soft) auto
  have ops: "s3_writes w1 = s3_writes w @ (if soft then [] else purge_ops e t key)" if "fs = []"
    using f purge_complete [of e key t w w1] that by (cases soft) auto
  have mark: "wp (mark_document_deleted e key how) (\<lambda>r w'. case r of
     Inl x \<Rightarrow> item_in look w' = item_in look w
   | Inr u \<Rightarrow> \<exists>it'. item_in look w' =
         (item_in look w)(DocumentMetadataT := (item_in look w DocumentMetadataT)(doc_key key \<mapsto> it')) \<and>
       deleted_item (doc_key key) (item_in look w DocumentMetadataT (doc_key key)) how it' \<and>
       s3_writes w' = s3_writes w1) w1" for how
  proof (rule wp_mark_deleted, goal_cases)
    case (2 it' u)
    then show ?case unfolding items by (intro sum.case [THEN iffD2] exI [of _ it']) (simp_all add: fun_upd_def)
  qed (simp add: items)
  let ?how = "if soft then DEL_SOFT else DEL_HARD"
  have run: "delete_checked e t key soft w =
      (if fs \<noteq> [] then (Inl (HTTPExc 500 ''Failed to fully delete document''), w1)
       else mark_document_deleted e key ?how w1)"
    unfolding delete_checked_def bindP_run f by simp
  show ?thesis
  proof (cases "fs = []")
    case True
    have "wp (mark_document_deleted e key ?how) (\<lambda>r w'. case r of
       Inl x \<Rightarrow> item_in look w' = item_in look w
     | Inr u \<Rightarrow> \<exists>it'. item_in look w' =
           (item_in look w)(DocumentMetadataT := (item_in look w DocumentMetadataT)(doc_key key \<mapsto> it')) \<and>
         deleted_item (doc_key key) (item_in look w DocumentMetadataT (doc_key key)) ?how it' \<and>
         s3_writes w' = s3_writes w @ (if soft then [] else purge_ops e t key)) w1"
      using mark [of ?how] unfolding ops [OF True] .
    then show ?thesis unfolding wp_def run using True by simp
  qed (simp add: wp_def run items)
qed

end


section \<open>An upload is found again\<close>

context item_order begin

lemma f_rollback: "free P T \<Longrightarrow> guarantees (items_rel look P) (rollback e T t d)"
  unfolding rollback_def by (intro order.g_rules f_update_item)

lemma f_count_and_check: "free P T \<Longrightarrow> guarantees (items_rel look P) (count_and_check e t T d day month)"
  unfolding count_and_check_def check_monthly_def get_monthly_total_def query_month_items_def Let_def
  by (intro order.g_rules f_update_item f_rollback g_store)

lemma f_increment_and_check:
  assumes "free P TenantRequestCountsT"
  shows "guarantees (items_rel look P) (increment_and_check e t)"
proof -
  have free: "free P (ct_name request_counts_table)" using assms by (simp add: request_counts_table_def)
  have limits: "guarantees (items_rel look P) (bindP (lift_result (get_table_name e request_counts_table))
      (\<lambda>T. count_and_check e t T d day month))" for d day month
    by (rule f_table_name) (rule f_count_and_check [OF free])
  show ?thesis
    unfolding increment_and_check_def get_tenant_def table_get_def Let_def
    by (intro order.g_rules limits g_store)
qed

end

text \<open>The documents stay as they are.\<close>

definition docs_same :: "tname \<Rightarrow> dict \<Rightarrow> dict option \<Rightarrow> dict option \<Rightarrow> bool" where
  "docs_same T k x y = (T = DocumentMetadataT \<longrightarrow> y = x)"

sublocale service \<subseteq> docs: item_order look e docs_same
  by unfold_locales (auto simp: docs_same_def)

lemma docs_sameD: "items_rel look docs_same w w' \<Longrightarrow> item_in look w' DocumentMetadataT = item_in look w DocumentMetadataT"
  by (auto simp: items_rel_def docs_same_def)

lemma docs_free: "T \<noteq> DocumentMetadataT \<Longrightarrow> free docs_same T"
  by (simp add: free_def docs_same_def)

text \<open>The item that an upload creates.\<close>

definition fresh_item :: "'t env \<Rightarrow> user_context \<Rightarrow> string \<Rightarrow> dict \<Rightarrow> bool" where
  "fresh_item e c key it =
     (map_of it ''jobId'' = Some (PStr (fresh_id e 1)) \<and> map_of it ''tenantId'' = Some (PStr (uc_tenant_id c)) \<and>
      map_of it ''processStatus'' = Some (PStr (ps_value PS_NOT_STARTED)) \<and>
      map_of it ''fileName'' = Some (PStr key) \<and> map_of it ''v1ApiResponseJson'' = None)"

lemma fresh_upserted:
  assumes "updated_item (doc_key key) None (upsert_updates e (initial_of_document (form_record e c f name ct key))) = Some it"
  shows "fresh_item e c key it"
proof -
  let ?us = "upsert_updates e (initial_of_document (form_record e c f name ct key))"
  have attrs: "upd_attr ` set ?us \<subseteq> set upsert_attrs"
    using subseq_set [OF upsert_updates_form(2)] by fastforce
  have "''v1ApiResponseJson'' \<notin> set upsert_attrs" "''fileName'' \<notin> set upsert_attrs" by code_simp+
  then have "''v1ApiResponseJson'' \<notin> upd_attr ` set ?us" "''fileName'' \<notin> upd_attr ` set ?us"
    using attrs by blast+
  then have other: "map_of it ''v1ApiResponseJson'' = None" "map_of it ''fileName'' = Some (PStr key)"
    using updated_item_other [OF assms, of "''v1ApiResponseJson''"] updated_item_other [OF assms, of "''fileName''"]
    by (simp_all add: doc_key_def)
  have sets: "USet ''jobId'' (PStr (fresh_id e 1)) \<in> set ?us" "USet ''tenantId'' (PStr (uc_tenant_id c)) \<in> set ?us"
    "USet ''processStatus'' (PStr (ps_value PS_NOT_STARTED)) \<in> set ?us"
    by (simp_all add: upsert_updates_def initial_of_document_def form_record_def new_document_def
        initial_ddb_fields_def apply_ddb_fields_def of_opt_str_def)
  show ?thesis using sets [THEN updated_item_set [OF assms]] other by (simp add: fresh_item_def)
qed

lemma dispatch_failed_raises: "\<exists>x'. fst (dispatch_failed e k x w) = Inl x'"
  by (cases x) (simp_all add: dispatch_failed_def thenP_run split: prod.split sum.split)

lemma not_started_pending: "\<not> is_classified (ps_value PS_NOT_STARTED)"
  by code_simp

context service begin

lemma wp_insert_form:
  assumes "item_in look w DocumentMetadataT (doc_key key) = None"
  shows "wp (insert_minimal_ddb_record e (form_record e c f name ct key)) (\<lambda>r w'. r = Inr () \<longrightarrow>
    (\<exists>it. fresh_item e c key it \<and>
       item_in look w' DocumentMetadataT = (item_in look w DocumentMetadataT)(doc_key key \<mapsto> it))) w"
proof -
  have shape: "in_pre_classification (initial_of_document (form_record e c f name ct key)) = None"
    "in_process_status (initial_of_document (form_record e c f name ct key)) = PS_NOT_STARTED"
    "in_object_key (initial_of_document (form_record e c f name ct key)) = key"
    by (simp_all add: initial_of_document_def form_record_def new_document_def initial_record_def)
  show ?thesis
    unfolding insert_minimal_ddb_record_def upsert_ddb_def execute_ddb_update_def shape wp_then
  proof (rule wp_update_item, goal_cases)
    case (2 it u)
    then have "fresh_item e c key it" unfolding assms by (intro fresh_upserted)
    then show ?case using 2(1) by (auto simp: wp_simps not_started_pending)
  qed (simp add: wp_simps)
qed

lemma wp_dispatch:
  "wp (dispatch_upload e cd body req key)
     (\<lambda>r w'. r = Inr () \<longrightarrow> item_in look w' DocumentMetadataT = item_in look w DocumentMetadataT) w"
proof (rule wpI)
  fix r w'
  assume run: "dispatch_upload e cd body req key w = (r, w')"
  obtain r1 w1 where u: "upload_document_for_processing e cd body req w = (r1, w1)" by (metis surj_pair)
  show "r = Inr () \<longrightarrow> item_in look w' DocumentMetadataT = item_in look w DocumentMetadataT"
  proof (cases r1)
    case (Inl x)
    then show ?thesis using run u dispatch_failed_raises [of e key x w1] by (auto simp: dispatch_upload_def catchP_run)
  next
    case (Inr a)
    then have "w' = w1" using run u by (simp add: dispatch_upload_def catchP_run)
    then show ?thesis
      using docs.f_upload [OF docs_free, of cd body req] u docs_sameD unfolding guarantees_def by (metis snd_conv tname.distinct)
  qed
qed

lemma wp_upload:
  assumes "item_in look w DocumentMetadataT (doc_key key) = None"
    and "generate_unique_filename (opt_default [] (up_filename (uf_file f))) (fresh_id e 1) = Inr key"
  shows "wp (upload_document e cd demo c f) (\<lambda>r w'. \<forall>u. r = Inr u \<and> ures_job_status u = PS_NOT_STARTED \<longrightarrow>
    ures_job_id u = fresh_id e 1 \<and> (\<exists>it. fresh_item e c key it \<and>
       item_in look w' DocumentMetadataT = (item_in look w DocumentMetadataT)(doc_key key \<mapsto> it))) w"
proof -
  let ?Q = "\<lambda>r w'. \<forall>u. r = Inr u \<and> ures_job_status u = PS_NOT_STARTED \<longrightarrow>
    ures_job_id u = fresh_id e 1 \<and> (\<exists>it. fresh_item e c key it \<and>
       item_in look w' DocumentMetadataT = (item_in look w DocumentMetadataT)(doc_key key \<mapsto> it))"
  have quota: "wp (whenP b (increment_and_check e t))
      (\<lambda>r w'. item_in look w' DocumentMetadataT = item_in look w DocumentMetadataT) w" for b t
    using docs.order.g_when [OF docs.f_increment_and_check [OF docs_free], of b t] docs_sameD
    unfolding guarantees_def wp_def by (metis (mono_tags, lifting) case_prod_unfold tname.distinct)
  have declined: "wp (thenP (classify_as_ai_consent_declined e key None) (ret u)) ?Q w2"
    if "ures_job_status u \<noteq> PS_NOT_STARTED" for u w2
    unfolding wp_then by (rule wpI) (use that in \<open>auto simp: wp_ret split: sum.split\<close>)
  have sent: "wp (catchP (thenP (dispatch_upload e cd body req key) (ret u))
      (\<lambda>x. if is_conversion_error x then ret u' else raise x)) ?Q w2"
    if "ures_job_id u = fresh_id e 1" "ures_job_status u' \<noteq> PS_NOT_STARTED"
      "\<exists>it. fresh_item e c key it \<and>
         item_in look w2 DocumentMetadataT = (item_in look w DocumentMetadataT)(doc_key key \<mapsto> it)"
    for body req u u' w2
    unfolding wp_catch wp_then
    by (rule wp_conseq [OF wp_dispatch]) (use that in \<open>auto simp: wp_ret wp_raise wp_if split: sum.split\<close>)
  have insert: "wp (catchP (insert_minimal_ddb_record e (form_record e c f name ct key)) (\<lambda>x. raise upload_record_failed))
      (\<lambda>r w2. r = Inr () \<longrightarrow> (\<exists>it. fresh_item e c key it \<and>
         item_in look w2 DocumentMetadataT = (item_in look w DocumentMetadataT)(doc_key key \<mapsto> it))) w1"
    if "item_in look w1 DocumentMetadataT = item_in look w DocumentMetadataT" for name ct w1
    unfolding wp_catch
    by (rule wp_conseq [OF wp_insert_form]) (use assms(1) that in \<open>auto simp: wp_raise split: sum.split\<close>)
  have main: "wp (thenP (catchP (insert_minimal_ddb_record e (form_record e c f name ct key)) (\<lambda>x. raise upload_record_failed))
      (if \<not> consent then thenP (classify_as_ai_consent_declined e key None) (ret u)
       else catchP (thenP (dispatch_upload e cd body req key) (ret v)) (\<lambda>x. if is_conversion_error x then ret v' else raise x)))
      ?Q w1"
    if "item_in look w1 DocumentMetadataT = item_in look w DocumentMetadataT"
      "ures_job_status u \<noteq> PS_NOT_STARTED" "ures_job_id v = fresh_id e 1" "ures_job_status v' \<noteq> PS_NOT_STARTED"
    for name ct consent body req u v v' w1
    unfolding wp_then [of "catchP _ _"]
  proof (rule wp_conseq [OF insert [OF that(1)]], goal_cases)
    case (1 r w2)
    then show ?case using declined [OF that(2)] sent [OF that(3,4)] by (cases r) auto
  qed
  show ?thesis
  proof (cases "validate_upload cd (uf_file f)")
    case (Inl x)
    then show ?thesis by (simp add: upload_document_def wp_bind wp_lift)
  next
    case (Inr ct)
    show ?thesis
      unfolding upload_document_def Let_def assms(2) wp_bind [of "lift_result _"] wp_lift Inr sum.case
        wp_then [of "whenP _ _"]
    proof (rule wp_conseq [OF quota], goal_cases)
      case (1 r w1)
      then show ?case by (cases r) (simp_all del: One_nat_def add: main)
    qed
  qed
qed

end


section \<open>The theorems at work\<close>

definition finished_document :: mem where
  "finished_document = [((DocumentMetadataT, doc_key ''a''),
     [(''fileName'', PStr ''a''), (''jobId'', PStr ''j''), (''tenantId'', PStr ''acme''),
      (''processStatus'', PStr (ps_value PS_SUCCESS)),
      (''v1ApiResponseJson'', PJson (PDict [(''jobStatus'', PStr ''completed'')]))])]"

definition caller :: "string \<Rightarrow> user_context" where
  "caller t = \<lparr>uc_tenant_id = t, uc_api_key_name = ''svc'', uc_auth_method = ''api_key''\<rparr>"

lemma finished_document_look:
  "item_in mem_look (world_of finished_document) DocumentMetadataT k = Some it \<Longrightarrow>
   k = doc_key ''a'' \<and> dget it ''tenantId'' = PStr ''acme'' \<and> dget it ''fileName'' = PStr ''a''"
  by (auto simp: finished_document_def world_of_def item_in_def mem_look_def split: if_splits)

lemma foreign_jobs_look_missing_witness:
  "fst (get_document_results base_env (caller ''other'') ''j'' True False (world_of finished_document)) = Inl job_not_found \<and>
   fst (delete_document base_env (caller ''other'') ''j'' False (world_of finished_document)) = Inl job_not_found"
proof -
  have "reliable_ddb mem_look (client base_env)" by (simp add: mem_reliable)
  moreover have "foreign mem_look (uc_tenant_id (caller ''other'')) ''j'' (world_of finished_document)"
    using finished_document_look by (force simp: foreign_def caller_def)
  ultimately show ?thesis using foreign_jobs_look_missing [of mem_look base_env "caller ''other''" "''j''"] by blast
qed

lemma finished_document_deletes: "fst (delete_document base_env (caller ''acme'') ''j'' False (world_of finished_document)) = Inr ()"
  by code_simp


definition example_form :: upload_form where
  "example_form = \<lparr>uf_file = \<lparr>up_filename = Some ''a.pdf'', up_size = Some 3, up_content_type = None, up_bytes = ''PDF''\<rparr>,
     uf_category = None, uf_trace_id = None, uf_external_document_id = None, uf_external_system_id = None,
     uf_ai_consent = True, uf_is_demo = False, uf_is_test_run = False, uf_is_compare = False, uf_upload_source = None\<rparr>"

definition pdf_codecs :: codecs where
  "pdf_codecs = plain_codecs\<lparr>guess_mime := (\<lambda>s. Some ''application/pdf'')\<rparr>"

lemma example_valid: "validate_upload pdf_codecs (uf_file example_form) = Inr ''application/pdf''"
proof -
  have "validate_file_type pdf_codecs ''PDF'' = Inr ''application/pdf''" by code_simp
  then show ?thesis by (simp add: validate_upload_def example_form_def truthy_str_def max_upload_size_bytes_def)
qed

lemma example_upload_run:
  "fst (upload_document base_env pdf_codecs None (caller ''acme'') example_form (world_of [])) =
     Inr \<lparr>ures_job_id = ''id-1'', ures_job_status = PS_NOT_STARTED, ures_message = ''Document uploaded successfully''\<rparr>"
  unfolding upload_document_def example_valid by code_simp

lemma example_upload_key:
  "generate_unique_filename (opt_default [] (up_filename (uf_file example_form))) (fresh_id base_env 1) = Inr ''a-id-1.pdf''"
  by code_simp


text \<open>A search still answers for a deleted document, whose results are refused as not found.\<close>

lemma search_shows_deleted:
  "fst (get_document_results base_env (caller ''acme'') ''j'' False False
     (snd (delete_document base_env (caller ''acme'') ''j'' True (world_of finished_document)))) = Inl job_not_found \<and>
   fst (search_documents base_env (caller ''acme'') [''j''] False
     (snd (delete_document base_env (caller ''acme'') ''j'' True (world_of finished_document)))) =
     Inr [[(''jobStatus'', PStr ''completed'')]]"
  by code_simp

end
