(* ===== verification/Batch_Uploads.thy ===== *)
theory Batch_Uploads
  imports Documents
begin

text \<open>
  Batches of uploads: \<open>routers/batch.py\<close> and \<open>utils/zip.py\<close>.
\<close>

section \<open>utils/zip.py\<close>

text \<open>An entry of the archive: its name, whether it is a directory, the size that the central directory
  declares and what decompressing it gives.  An archive that cannot be opened is \<open>None\<close>.\<close>

record zip_entry =
  ze_name :: string
  ze_is_dir :: bool
  ze_declared :: nat
  ze_content :: "exn + string"

definition max_batch_size :: nat where
  "max_batch_size = 25"

definition max_zip_decompression_ratio :: int where
  "max_zip_decompression_ratio = 100"

definition max_zip_extracted_bytes :: int where
  "max_zip_extracted_bytes = 500 * 1024 * 1024"

text \<open>\<open>total / zip_size > ratio\<close> for a positive size.\<close>

definition zip_limits :: "int \<Rightarrow> int \<Rightarrow> exn + unit" where
  "zip_limits zip_size amount =
     (if max_zip_extracted_bytes < amount then Inl (HTTPExc 400 ''ZIP extracted size exceeds limit'')
      else if 0 < zip_size \<and> max_zip_decompression_ratio * zip_size < amount
      then Inl (HTTPExc 400 ''ZIP decompression ratio exceeds limit'') else Inr ())"

definition zip_upload :: "string \<Rightarrow> string \<Rightarrow> upload" where
  "zip_upload name body =
     \<lparr>up_filename = Some (basename name), up_size = None, up_content_type = None, up_bytes = body\<rparr>"

text \<open>The declared size is checked before an entry is decompressed and the real one after it.\<close>

fun extract_entries :: "nat \<Rightarrow> int \<Rightarrow> zip_entry list \<Rightarrow> upload list \<Rightarrow> int \<Rightarrow> exn + upload list" where
  "extract_entries max_files zip_size [] files total_extracted = Inr files"
| "extract_entries max_files zip_size (z # zs) files total_extracted =
     (if ze_is_dir z then extract_entries max_files zip_size zs files total_extracted
      else if max_files \<le> length files then Inl (HTTPExc 400 ''ZIP contains more files than allowed'')
      else
        (case zip_limits zip_size (total_extracted + int (ze_declared z)) of
           Inl x \<Rightarrow> Inl x
         | Inr u \<Rightarrow>
             (case ze_content z of
                Inl x \<Rightarrow> Inl x
              | Inr file_content \<Rightarrow>
                  (case zip_limits zip_size (total_extracted + int (length file_content)) of
                     Inl x \<Rightarrow> Inl x
                   | Inr u \<Rightarrow> extract_entries max_files zip_size zs (files @ [zip_upload (ze_name z) file_content])
                                (total_extracted + int (length file_content))))))"

definition bad_zip_file :: exn where
  "bad_zip_file = OtherExc ''BadZipFile''"

definition extract_files_from_zip :: "int \<Rightarrow> zip_entry list option \<Rightarrow> exn + upload list" where
  "extract_files_from_zip zip_size archive =
     (case (case archive of None \<Rightarrow> Inl bad_zip_file
            | Some entries \<Rightarrow> extract_entries max_batch_size zip_size entries [] 0) of
        Inr files \<Rightarrow> Inr files
      | Inl x \<Rightarrow>
          if x = bad_zip_file then Inl (HTTPExc 400 ''Invalid zip file'')
          else if is_http x then Inl x
          else Inl (HTTPExc 500 ''Failed to extract zip file''))"

section \<open>routers/batch.py\<close>

record batch_form =
  bf_upload_method :: string
  bf_category :: "string option"
  bf_trace_id :: string
  bf_external_document_id :: "string option"
  bf_external_system_id :: "string option"
  bf_ai_consent :: bool

record batch_job =
  bj_file_name :: string
  bj_job_id :: string
  bj_position :: nat

text \<open>The identifiers of a request: 0 the trace, 1 the batch, and from 2 on the jobs by position.\<close>

definition batch_job_id :: "'t env \<Rightarrow> nat \<Rightarrow> string" where
  "batch_job_id e idx = fresh_id e (idx + 2)"

definition batch_record ::
  "'t env \<Rightarrow> user_context \<Rightarrow> batch_form \<Rightarrow> string \<Rightarrow> nat \<Rightarrow> string \<Rightarrow> string \<Rightarrow> string \<Rightarrow> document_record" where
  "batch_record e c b batch_id idx filename content_type ddb_key =
     (new_document ddb_key filename (batch_job_id e idx) (bf_upload_method b) (uc_tenant_id c) (uc_api_key_name c))
       \<lparr>dr_category := bf_category b, dr_trace_id := Some (bf_trace_id b), dr_batch_id := Some batch_id,
        dr_content_type := Some content_type, dr_external_document_id := bf_external_document_id b,
        dr_external_system_id := bf_external_system_id b, dr_ai_consent_flag := Some (bf_ai_consent b)\<rparr>"

definition batch_request ::
  "'t env \<Rightarrow> user_context \<Rightarrow> batch_form \<Rightarrow> string \<Rightarrow> nat \<Rightarrow> string \<Rightarrow> string \<Rightarrow> string \<Rightarrow> upload_request" where
  "batch_request e c b batch_id idx filename content_type unique_file_name =
     \<lparr>ur_dest_path = opt_default [] (input_location e) @ ''/'' @ uc_tenant_id c @ ''/'' @ unique_file_name,
      ur_original_file_name = filename, ur_content_type = content_type, ur_tenant_id = uc_tenant_id c,
      ur_category = bf_category b, ur_job_id = Some (batch_job_id e idx), ur_trace_id = Some (bf_trace_id b),
      ur_batch_id = Some batch_id, ur_build_id = None\<rparr>"

text \<open>A failed conversion is recorded and does not fail the file; an \<open>HTTPException\<close> is recorded and
  raised again; anything else is only raised.\<close>

definition batch_file_failed :: "'t env \<Rightarrow> string \<Rightarrow> string \<Rightarrow> exn \<Rightarrow> ('t, unit) wprog" where
  "batch_file_failed e ddb_key batch_id x =
     (case x of
        ImageConversionErr m \<Rightarrow> thenP (classify_as_conversion_failed e ddb_key m (Some batch_id)) (ret ())
      | HTTPExc n detail \<Rightarrow>
          thenP (classify_as_failed e ddb_key detail (info_data detail) None (Some batch_id)) (raise x)
      | _ \<Rightarrow> raise x)"

definition process_one ::
  "'t env \<Rightarrow> codecs \<Rightarrow> user_context \<Rightarrow> batch_form \<Rightarrow> string \<Rightarrow> nat \<Rightarrow> upload \<Rightarrow> ('t, batch_job) wprog" where
  "process_one e cd c b batch_id idx file =
     (if \<not> truthy_str (up_filename file) then raise (HTTPExc 400 ''Filename is required'')
      else
        (let filename = opt_default [] (up_filename file); job_id = batch_job_id e idx;
             job = \<lparr>bj_file_name = filename, bj_job_id = job_id, bj_position = idx\<rparr>
         in
         thenP (increment_and_check e (uc_tenant_id c))
        (bindP (lift_result (validate_file_type cd (up_bytes file))) (\<lambda>content_type.
         bindP (lift_result (generate_unique_filename filename job_id)) (\<lambda>unique.
           (let ddb_key = nat_str idx @ ''-'' @ unique in
            thenP (insert_minimal_ddb_record e (batch_record e c b batch_id idx filename content_type ddb_key))
            (if \<not> bf_ai_consent b
             then thenP (classify_as_ai_consent_declined e ddb_key (Some batch_id)) (ret job)
             else
               thenP (catchP (upload_document_for_processing e cd (up_bytes file)
                                (batch_request e c b batch_id idx filename content_type ddb_key))
                        (batch_file_failed e ddb_key batch_id))
                 (ret job))))))))"

text \<open>
  The files are tasks of one group: when one raises, those that have not started are cancelled and the
  others run on to their next await.  Here a task runs as a whole, in the order of the files, and
  \<open>cancelled idx\<close> tells whether the failure of an earlier task reached the task in time.
\<close>

fun run_group ::
  "(nat \<Rightarrow> bool) \<Rightarrow> bool \<Rightarrow> (nat \<times> (nat \<Rightarrow> ('t, batch_job) wprog)) list \<Rightarrow> 't world \<Rightarrow> (exn + batch_job) list \<times> 't world"
where
  "run_group cancelled failed [] w = ([], w)"
| "run_group cancelled failed ((idx, task) # tasks) w =
     (if failed \<and> cancelled idx then run_group cancelled failed tasks w
      else
        (case task idx w of (r, w') \<Rightarrow>
           (case run_group cancelled (failed \<or> isl r) tasks w' of (rs, w'') \<Rightarrow> (r # rs, w''))))"

text \<open>The two \<open>except*\<close> clauses: the first \<open>HTTPException\<close>, or the first other one; where both clauses
  run, their exceptions come out as a new group.\<close>

definition group_error :: "exn list \<Rightarrow> exn" where
  "group_error xs =
     (case (filter is_http xs, filter (\<lambda>x. \<not> is_http x) xs) of
        (h # hs, []) \<Rightarrow> h
      | ([], o1 # os) \<Rightarrow> o1
      | _ \<Rightarrow> OtherExc ''ExceptionGroup'')"

fun lefts :: "('a + 'b) list \<Rightarrow> 'a list" where
  "lefts [] = []" | "lefts (Inl x # rs) = x # lefts rs" | "lefts (Inr y # rs) = lefts rs"

fun rights :: "('a + 'b) list \<Rightarrow> 'b list" where
  "rights [] = []" | "rights (Inl x # rs) = rights rs" | "rights (Inr y # rs) = y # rights rs"

definition process_batch_files ::
  "'t env \<Rightarrow> codecs \<Rightarrow> (nat \<Rightarrow> bool) \<Rightarrow> user_context \<Rightarrow> batch_form \<Rightarrow> string \<Rightarrow> upload list \<Rightarrow> ('t, batch_job list) wprog" where
  "process_batch_files e cd cancelled c b batch_id files =
     (if \<not> truthy_str (input_location e)
      then raise (HTTPExc 500 ''DOCUMENTAI_INPUT_LOCATION environment variable not set'')
      else
        (\<lambda>w. case run_group cancelled False
                (map (\<lambda>(idx, file). (idx, \<lambda>i. process_one e cd c b batch_id i file)) (enumerate 0 files)) w of
           (rs, w') \<Rightarrow> (if lefts rs = [] then Inr (rights rs) else Inl (group_error (lefts rs)), w')))"

definition default_ddb_error_message :: string where
  "default_ddb_error_message = ''Internal processing error''"

definition execute_batch ::
  "'t env \<Rightarrow> codecs \<Rightarrow> (nat \<Rightarrow> bool) \<Rightarrow> user_context \<Rightarrow> batch_form \<Rightarrow> upload list \<Rightarrow> ('t, string \<times> pyval \<times> batch_job list) wprog" where
  "execute_batch e cd cancelled c b files =
     (let batch_id = uc_tenant_id c @ ''/'' @ fresh_id e 1 in
      catchP
        (bindP (create_batch e batch_id (length files) (bf_category b) BS_UPLOADING (Some (uc_tenant_id c))
                  (Some (uc_api_key_name c))) (\<lambda>created_at.
         bindP (process_batch_files e cd cancelled c b batch_id files) (\<lambda>jobs.
         thenP (update_batch_status e batch_id BS_PROCESSING None CTrue)
           (ret (batch_id, created_at, jobs)))))
        (\<lambda>x. if is_http x then raise x
             else
               bindP (get_batch e batch_id) (\<lambda>batch.
                 thenP (whenP (present batch)
                          (update_batch_status e batch_id BS_FAILED (Some default_ddb_error_message) CTrue))
                   (raise (HTTPExc 500 ''Failed to upload batch'')))))"

definition upload_document_batch ::
  "'t env \<Rightarrow> codecs \<Rightarrow> (nat \<Rightarrow> bool) \<Rightarrow> user_context \<Rightarrow> batch_form \<Rightarrow> upload list \<Rightarrow> ('t, string \<times> pyval \<times> batch_job list) wprog" where
  "upload_document_batch e cd cancelled c b files =
     (if files = [] then raise (HTTPExc 400 ''No files provided'')
      else if max_batch_size < length files then raise (HTTPExc 400 ''Batch size exceeds maximum of 25 files'')
      else execute_batch e cd cancelled c (b\<lparr>bf_upload_method := ''batch''\<rparr>) files)"

definition upload_zip_batch ::
  "'t env \<Rightarrow> codecs \<Rightarrow> (nat \<Rightarrow> bool) \<Rightarrow> user_context \<Rightarrow> batch_form \<Rightarrow> int \<Rightarrow> zip_entry list option \<Rightarrow>
   ('t, string \<times> pyval \<times> batch_job list) wprog" where
  "upload_zip_batch e cd cancelled c b zip_size archive =
     bindP (lift_result (extract_files_from_zip zip_size archive)) (\<lambda>files.
       if files = [] then raise (HTTPExc 400 ''No valid files found in zip'')
       else execute_batch e cd cancelled c (b\<lparr>bf_upload_method := ''batch_zip''\<rparr>) files)"

section \<open>The status of a batch\<close>

record batch_status_response =
  br_batch_status :: pyval
  br_total_jobs :: nat
  br_completed :: nat
  br_in_progress :: int
  br_failed :: nat
  br_created_at :: pyval
  br_category :: pyval
  br_jobs :: "(pyval \<times> pyval \<times> pyval) list"

definition batch_job_status :: "dict \<Rightarrow> pyval" where
  "batch_job_status r = dget_default r ''processStatus'' (PStr ''not_found'')"

definition batch_summary :: "dict \<Rightarrow> dict list \<Rightarrow> batch_status_response" where
  "batch_summary batch job_records =
     (let sts = map (\<lambda>r. text_of (batch_job_status r)) job_records in
      \<lparr>br_batch_status = dget batch ''batchStatus'',
       br_total_jobs = length job_records,
       br_completed = length (filter is_completed sts),
       br_in_progress = int (length job_records) - int (length (filter is_classified sts)),
       br_failed = length (filter (\<lambda>s. s = ps_value PS_FAILED) sts),
       br_created_at = dget batch ''createdAt'', br_category = dget batch ''category'',
       br_jobs = map (\<lambda>r. (dget r ''fileName'', dget r ''jobId'', batch_job_status r)) job_records\<rparr>)"

definition get_batch_status :: "'t env \<Rightarrow> user_context \<Rightarrow> string \<Rightarrow> ('t, batch_status_response) wprog" where
  "get_batch_status e c batch_id =
     thenP (validate_batch_tenant_access e batch_id c)
       (catchP
         (bindP (get_batch e batch_id) (\<lambda>batch.
            if \<not> present batch then raise (HTTPExc 404 ''Batch not found'')
            else bindP (query_jobs_by_batch_id e batch_id) (\<lambda>job_records.
                   ret (batch_summary (opt_default [] batch) job_records))))
         (\<lambda>x. if is_http x then raise x else raise (HTTPExc 500 ''Failed to retrieve batch'')))"

end
