(* ===== verification/Batch_Upload_Laws.thy ===== *)
theory Batch_Upload_Laws
  imports Batch_Uploads Document_Laws
begin

text \<open>
  The limits of an archive hold of what is extracted from it, and an accepted batch has a job for each of
  its files.
\<close>

section \<open>Archives\<close>

definition extracted_size :: "upload list \<Rightarrow> int" where
  "extracted_size files = int (sum_list (map (\<lambda>f. length (up_bytes f)) files))"

definition entry_file :: "zip_entry \<Rightarrow> string \<times> string" where
  "entry_file z = (basename (ze_name z), case ze_content z of Inl x \<Rightarrow> [] | Inr body \<Rightarrow> body)"

lemma zip_limits_ok:
  "zip_limits n amount = Inr u \<Longrightarrow> amount \<le> max_zip_extracted_bytes \<and> (0 < n \<longrightarrow> amount \<le> max_zip_decompression_ratio * n)"
  by (auto simp: zip_limits_def split: if_splits)

lemma extract_entries_bounds:
  assumes "extract_entries m n zs files amount = Inr out" "amount = extracted_size files"
    and "length files \<le> m" "zip_limits n amount = Inr ()"
  shows "length out \<le> m \<and> zip_limits n (extracted_size out) = Inr () \<and>
    map (\<lambda>f. (opt_default [] (up_filename f), up_bytes f)) out =
      map (\<lambda>f. (opt_default [] (up_filename f), up_bytes f)) files @ map entry_file (filter (\<lambda>z. \<not> ze_is_dir z) zs)"
  using assms
proof (induction zs arbitrary: files amount)
  case (Cons z zs)
  show ?case
  proof (cases "ze_is_dir z")
    case True
    then show ?thesis using Cons by simp
  next
    case False
    obtain body where body: "ze_content z = Inr body"
      and rest: "extract_entries m n zs (files @ [zip_upload (ze_name z) body]) (amount + int (length body)) = Inr out"
      and room: "length files < m" and limits: "zip_limits n (amount + int (length body)) = Inr ()"
      using Cons.prems(1) False by (auto split: if_splits sum.splits)
    have "amount + int (length body) = extracted_size (files @ [zip_upload (ze_name z) body])"
      using Cons.prems(2) by (simp add: extracted_size_def zip_upload_def)
    from Cons.IH [OF rest this _ limits] room show ?thesis
      using False body by (simp add: zip_upload_def entry_file_def)
  qed
qed simp


definition example_archive :: "zip_entry list" where
  "example_archive =
     [\<lparr>ze_name = ''d/'', ze_is_dir = True, ze_declared = 0, ze_content = Inl bad_zip_file\<rparr>,
      \<lparr>ze_name = ''d/a.pdf'', ze_is_dir = False, ze_declared = 3, ze_content = Inr ''PDF''\<rparr>]"


section \<open>Batches\<close>

lemma lefts_Nil: "lefts rs = [] \<Longrightarrow> rs = map Inr (rights rs)"
  by (induction rs rule: lefts.induct) auto

lemma isl_lefts: "lefts rs = [] \<longleftrightarrow> (\<forall>r \<in> set rs. \<not> isl r)"
  by (induction rs rule: lefts.induct) auto

text \<open>A group without a failure runs every task.\<close>

lemma run_group_all:
  assumes "run_group cancelled False tasks w = (rs, w')" "lefts rs = []"
    and "\<And>idx task v r v'. (idx, task) \<in> set tasks \<Longrightarrow> task idx v = (Inr r, v') \<Longrightarrow> P idx r"
  shows "list_all2 P (map fst tasks) (rights rs)"
  using assms
proof (induction tasks arbitrary: w rs w')
  case (Cons t tasks)
  obtain idx task where t: "t = (idx, task)" by (cases t)
  obtain r w1 where r: "task idx w = (r, w1)" by (metis surj_pair)
  obtain rs1 w2 where g: "run_group cancelled (isl r) tasks w1 = (rs1, w2)" by (metis surj_pair)
  have rs: "rs = r # rs1" using Cons.prems(1) by (simp add: t r g)
  obtain y where y: "r = Inr y" "lefts rs1 = []" using Cons.prems(2) rs by (cases r) auto
  have "list_all2 P (map fst tasks) (rights rs1)"
  proof (rule Cons.IH)
    show "run_group cancelled False tasks w1 = (rs1, w2)" using g y(1) by simp
    show "lefts rs1 = []" by (rule y(2))
    show "P i x" if "(i, k) \<in> set tasks" "k i v = (Inr x, v')" for i k v x v'
      using Cons.prems(3) [of i k v x v'] that by simp
  qed
  moreover have "P idx y" using Cons.prems(3) [of idx task w y w1] t r y(1) by simp
  ultimately show ?case by (simp add: t rs y(1))
qed simp

lemma process_one_job:
  assumes "process_one e cd c b batch_id idx file w = (Inr job, w')"
  shows "bj_position job = idx \<and> bj_job_id job = batch_job_id e idx \<and> up_filename file = Some (bj_file_name job)"
proof -
  show ?thesis
    using assms
    by (auto simp: process_one_def Let_def thenP_run bindP_run truthy_str_def split: prod.splits sum.splits if_splits option.splits)
qed

lemma group_error_http: "\<forall>x \<in> set xs. is_http x \<Longrightarrow> xs \<noteq> [] \<Longrightarrow> is_http (group_error xs)"
  by (cases xs) (auto simp: group_error_def filter_empty_conv)

context service begin

lemma wp_update_batch:
  assumes "\<And>x u. look u = item_in look w \<Longrightarrow> Q (Inl x) (w\<lparr>store := u\<rparr>)"
    and "\<And>it u. look u = (item_in look w)(DocumentBatchesT := (item_in look w DocumentBatchesT)(batch_key b \<mapsto> it)) \<Longrightarrow>
      map_of it ''batchStatus'' = Some (PStr (bs_value st)) \<Longrightarrow>
      (\<forall>a. a \<notin> {''batchStatus'', ''updatedAt'', ''errorMessage''} \<longrightarrow>
         map_of it a = map_of (opt_default (batch_key b) (item_in look w DocumentBatchesT (batch_key b))) a) \<Longrightarrow>
      Q (Inr ()) (w\<lparr>store := u\<rparr>)"
  shows "wp (update_batch_status e b st m CTrue) Q w"
  unfolding update_batch_status_def wp_then
proof (rule wp_update_item, goal_cases)
  case (2 it u)
  have "map_of it a = map_of (opt_default (batch_key b) (item_in look w DocumentBatchesT (batch_key b))) a"
    if "a \<notin> {''batchStatus'', ''updatedAt'', ''errorMessage''}" for a
    by (rule updated_item_other [OF 2(3)]) (use that in \<open>auto simp: set_if_str_def\<close>)
  then show ?case using assms(2) 2(1) updated_item_set [OF 2(3)] by (simp add: wp_ret)
qed (simp add: assms(1))

end

lemma bindP_returns:
  "bindP m f s = (Inr y, s') \<Longrightarrow> \<exists>x s1. m s = (Inr x, s1) \<and> f x s1 = (Inr y, s')"
  by (auto simp: bindP_run split: prod.splits sum.splits)

lemma catchP_returns:
  assumes "\<And>x v. isl (fst (h x v))" "catchP m h s = (Inr y, s')"
  shows "m s = (Inr y, s')"
proof -
  obtain r s1 where m: "m s = (r, s1)" by (cases "m s")
  show ?thesis
  proof (cases r)
    case (Inl x)
    then show ?thesis using assms(2) assms(1) [of x s1] m by (simp add: catchP_run)
  qed (use assms(2) m in \<open>simp add: catchP_run\<close>)
qed

lemma bindP_raises: "(\<And>x v. isl (fst (f x v))) \<Longrightarrow> isl (fst (bindP m f s))"
  by (auto simp: bindP_run split: prod.split sum.split)

text \<open>C13: A batch that is accepted has one job for each of its files, in their order and with their names,
  and is being processed when the call returns.\<close>

theorem accepted_batch_covers_files:
  assumes "ddb_laws look (client e)" "execute_batch e cd cancelled c b files w = (Inr (batch_id, created_at, jobs), w')"
  shows "map bj_position jobs = [0..<length files] \<and>
    map (\<lambda>j. Some (bj_file_name j)) jobs = map up_filename files \<and>
    map bj_job_id jobs = map (batch_job_id e) [0..<length files] \<and>
    batch_id = uc_tenant_id c @ ''/'' @ fresh_id e 1 \<and>
    (\<exists>it. item_in look w' DocumentBatchesT (batch_key batch_id) = Some it \<and>
       map_of it ''batchStatus'' = Some (PStr (bs_value BS_PROCESSING)))"
proof -
  note S = serviceI [OF assms(1)]
  let ?id = "uc_tenant_id c @ ''/'' @ fresh_id e 1"
  have handler: "isl (fst ((if is_http x then raise x else bindP (get_batch e ?id) (\<lambda>batch.
      thenP (whenP (present batch) (update_batch_status e ?id BS_FAILED (Some default_ddb_error_message) CTrue))
        (raise (HTTPExc 500 ''Failed to upload batch'')))) v))"
    for x :: exn and v :: "'a world"
    by (cases "is_http x") (auto simp: thenP_def intro!: bindP_raises)
  from catchP_returns [OF this, OF assms(2) [unfolded execute_batch_def Let_def]]
  obtain cr w1 where "bindP (process_batch_files e cd cancelled c b ?id files) (\<lambda>jobs.
      thenP (update_batch_status e ?id BS_PROCESSING None CTrue) (ret (?id, cr, jobs))) w1 =
        (Inr (batch_id, created_at, jobs), w')"
    by (blast dest: bindP_returns)
  then obtain jobs' w2 where files: "process_batch_files e cd cancelled c b ?id files w1 = (Inr jobs', w2)"
    and upd: "thenP (update_batch_status e ?id BS_PROCESSING None CTrue) (ret (?id, cr, jobs')) w2 =
        (Inr (batch_id, created_at, jobs), w')"
    by (blast dest: bindP_returns)
  from bindP_returns [OF upd [unfolded thenP_def]]
  have status: "update_batch_status e ?id BS_PROCESSING None CTrue w2 = (Inr (), w')" and id: "batch_id = ?id"
    and same: "jobs' = jobs" by auto
  note files = files [unfolded same]
  let ?tasks = "map (\<lambda>(idx, file). (idx, \<lambda>i. process_one e cd c b ?id i file)) (enumerate 0 files)"
  obtain rs where g: "run_group cancelled False ?tasks w1 = (rs, w2)" "lefts rs = []" "jobs = rights rs"
    using files by (auto simp: process_batch_files_def split: if_splits prod.splits)
  let ?P = "\<lambda>idx job. bj_position job = idx \<and> bj_job_id job = batch_job_id e idx \<and> Some (bj_file_name job) = up_filename (files ! idx)"
  have "list_all2 ?P (map fst ?tasks) (rights rs)"
  proof (rule run_group_all [OF g(1,2)])
    fix idx task v r v'
    assume "(idx, task) \<in> set ?tasks" "task idx v = (Inr r, v')"
    then show "?P idx r"
      using process_one_job [of e cd c b ?id idx "files ! idx" v r v'] by (auto simp: in_set_enumerate_eq)
  qed
  moreover have "map fst ?tasks = [0..<length files]" by (simp add: comp_def case_prod_beta)
  ultimately have jobs: "list_all2 ?P [0..<length files] jobs" using g(3) by simp
  then have n: "length jobs = length files" "\<And>i. i < length files \<Longrightarrow> ?P i (jobs ! i)"
    by (auto simp: list_all2_conv_all_nth)
  have "\<exists>it. item_in look w' DocumentBatchesT (batch_key ?id) = Some it \<and>
       map_of it ''batchStatus'' = Some (PStr (bs_value BS_PROCESSING))"
  proof -
    have "wp (update_batch_status e ?id BS_PROCESSING None CTrue)
        (\<lambda>r v. r = Inr () \<longrightarrow> (\<exists>it. item_in look v DocumentBatchesT (batch_key ?id) = Some it \<and>
           map_of it ''batchStatus'' = Some (PStr (bs_value BS_PROCESSING)))) w2"
      by (rule service.wp_update_batch [OF S]) auto
    from wpD [OF this status] show ?thesis by simp
  qed
  then show ?thesis using n id by (auto intro!: nth_equalityI)
qed

text \<open>A file that is refused leaves the batch uploading for good: the \<open>HTTPException\<close> of the file is raised
  again before the batch is marked as failed.\<close>

definition example_batch_form :: batch_form where
  "example_batch_form = \<lparr>bf_upload_method = ''batch'', bf_category = None, bf_trace_id = ''t'',
     bf_external_document_id = None, bf_external_system_id = None, bf_ai_consent = True\<rparr>"

definition pdf_upload :: "string \<Rightarrow> string \<Rightarrow> upload" where
  "pdf_upload name body = \<lparr>up_filename = Some name, up_size = None, up_content_type = None, up_bytes = body\<rparr>"

lemma refused_file_leaves_batch_uploading:
  "(case upload_document_batch base_env plain_codecs (\<lambda>i. True) (caller ''acme'') example_batch_form
       [pdf_upload ''b.xyz'' ''junk''] (world_of []) of
     (r, w') \<Rightarrow>
       r = Inl (HTTPExc 400 ''Invalid file type detected'') \<and>
       map_option (\<lambda>it. dget it ''batchStatus'') (item_in mem_look w' DocumentBatchesT (batch_key ''acme/id-1'')) =
         Some (PStr (bs_value BS_UPLOADING)))"
  by code_simp

lemma example_batch_run:
  "fst (execute_batch base_env plain_codecs (\<lambda>i. True) (caller ''acme'') example_batch_form
      [pdf_upload ''a.pdf'' ''%PDF''] (world_of [])) =
   Inr (''acme/id-1'', PTime 0, [\<lparr>bj_file_name = ''a.pdf'', bj_job_id = ''id-2'', bj_position = 0\<rparr>])"
  by code_simp

lemma accepted_batch_covers_files_witness:
  "\<exists>it. item_in mem_look (snd (execute_batch base_env plain_codecs (\<lambda>i. True) (caller ''acme'') example_batch_form
      [pdf_upload ''a.pdf'' ''%PDF''] (world_of []))) DocumentBatchesT (batch_key ''acme/id-1'') = Some it \<and>
    map_of it ''batchStatus'' = Some (PStr (bs_value BS_PROCESSING))"
proof -
  have "ddb_laws mem_look (client base_env)" by (simp add: mem_laws)
  from accepted_batch_covers_files [OF this fst_run [OF example_batch_run]] show ?thesis by blast
qed

end
