(* ===== verification/Calendar.thy ===== *)
theory Calendar
  imports Bda_Results
begin

text \<open>
  What the metrics take from texts: \<open>int\<close> and \<open>float\<close> of a text, the hour of a time, and dates.
  \<open>utils/dates.py\<close> checks the dates of a request; a \<open>datetime\<close> at midnight is its year, month and
  day, and \<open>strftime\<close> prints a year with four digits.  A number is exact, so the texts of the
  infinities and of NaN are none.
\<close>

section \<open>Numbers in a text\<close>

definition is_digit :: "char \<Rightarrow> bool" where
  "is_digit c = (let n = (of_char c :: nat) in 48 \<le> n \<and> n \<le> 57)"

definition digit_value :: "char \<Rightarrow> int" where
  "digit_value c = int (of_char c) - 48"

definition digits_value :: "string \<Rightarrow> int" where
  "digits_value s = foldl (\<lambda>acc c. 10 * acc + digit_value c) 0 s"

text \<open>Digits may be grouped with single underscores between them.\<close>

fun well_grouped :: "string \<Rightarrow> bool" where
  "well_grouped [] = False"
| "well_grouped [c] = is_digit c"
| "well_grouped (c # d # ds) =
     (is_digit c \<and> (if d = CHR ''_'' then well_grouped ds else well_grouped (d # ds)))"

definition group_value :: "string \<Rightarrow> int option" where
  "group_value s = (if well_grouped s then Some (digits_value (filter is_digit s)) else None)"

definition split_sign :: "string \<Rightarrow> int \<times> string" where
  "split_sign s =
     (case s of c # cs \<Rightarrow> if c = CHR ''-'' then (- 1, cs) else if c = CHR ''+'' then (1, cs) else (1, s)
      | [] \<Rightarrow> (1, s))"

text \<open>\<open>int(s)\<close>: surrounding space and a sign are allowed, more than 4300 digits are not.\<close>

definition max_str_digits :: int where
  "max_str_digits = 4300"

definition int_of_text :: "string \<Rightarrow> int option" where
  "int_of_text s =
     (case split_sign (str_strip s) of (sign, t) \<Rightarrow>
        if int (length (filter is_digit t)) > max_str_digits then None
        else map_option (\<lambda>n. sign * n) (group_value t))"

text \<open>\<open>float(s)\<close>: one of the parts around the point may be missing, and an exponent may follow.\<close>

definition mantissa_value :: "string \<Rightarrow> rat option" where
  "mantissa_value s =
     (case partition_at CHR ''.'' s of (whole, decimals) \<Rightarrow>
        if whole = [] \<and> decimals = [] then None
        else if (whole \<noteq> [] \<and> \<not> well_grouped whole) \<or> (decimals \<noteq> [] \<and> \<not> well_grouped decimals) then None
        else Some (of_int (digits_value (filter is_digit whole)) +
                   of_int (digits_value (filter is_digit decimals)) / 10 ^ length (filter is_digit decimals)))"

definition is_exponent_mark :: "char \<Rightarrow> bool" where
  "is_exponent_mark c = (c = CHR ''e'' \<or> c = CHR ''E'')"

definition exponent_value :: "string \<Rightarrow> int option" where
  "exponent_value s =
     (case s of [] \<Rightarrow> Some 0
      | _ # t \<Rightarrow> (case split_sign t of (sign, u) \<Rightarrow> map_option (\<lambda>n. sign * n) (group_value u)))"

definition scale10 :: "rat \<Rightarrow> int \<Rightarrow> rat" where
  "scale10 x n = (if 0 \<le> n then x * 10 ^ nat n else x / 10 ^ nat (- n))"

definition float_of_text :: "string \<Rightarrow> rat option" where
  "float_of_text s =
     (case split_sign (str_strip s) of (sign, t) \<Rightarrow>
        (case mantissa_value (takeWhile (\<lambda>c. \<not> is_exponent_mark c) t) of
           None \<Rightarrow> None
         | Some x \<Rightarrow>
             map_option (scale10 (of_int sign * x))
               (exponent_value (dropWhile (\<lambda>c. \<not> is_exponent_mark c) t))))"

section \<open>Dates\<close>

type_synonym ymd = "int \<times> int \<times> int"

definition is_leap :: "int \<Rightarrow> bool" where
  "is_leap y = (y mod 4 = 0 \<and> (y mod 100 \<noteq> 0 \<or> y mod 400 = 0))"

definition days_in_month :: "int \<Rightarrow> int \<Rightarrow> int" where
  "days_in_month y m =
     (if m = 2 then if is_leap y then 29 else 28 else if m \<in> {4, 6, 9, 11} then 30 else 31)"

fun valid_date :: "ymd \<Rightarrow> bool" where
  "valid_date (y, m, d) =
     (1 \<le> y \<and> y \<le> 9999 \<and> 1 \<le> m \<and> m \<le> 12 \<and> 1 \<le> d \<and> d \<le> days_in_month y m)"

definition month_str :: "int \<Rightarrow> int \<Rightarrow> string" where
  "month_str y m = digits 4 y @ ''-'' @ digits 2 m"

fun ymd_str :: "ymd \<Rightarrow> string" where
  "ymd_str (y, m, d) = month_str y m @ ''-'' @ digits 2 d"

text \<open>
  \<open>datetime.strptime(s, "%Y-%m-%d")\<close>: four digits of year, one or two of month and day, a day also
  with a space before its digit.
\<close>

definition short_number :: "string \<Rightarrow> bool" where
  "short_number s = (list_all is_digit s \<and> (length s = 1 \<or> length s = 2))"

definition day_text :: "string \<Rightarrow> string" where
  "day_text s = (case s of [c, d] \<Rightarrow> if c = CHR '' '' then [d] else s | _ \<Rightarrow> s)"

definition strptime_ymd :: "string \<Rightarrow> ymd option" where
  "strptime_ymd s =
     (case split_on CHR ''-'' s of
        [y, m, d0] \<Rightarrow>
          (let d = day_text d0; date = (digits_value y, digits_value m, digits_value d)
           in if length y = 4 \<and> list_all is_digit y \<and> short_number m \<and> short_number d \<and> valid_date date
              then Some date else None)
      | _ \<Rightarrow> None)"

definition bad_date :: "string \<Rightarrow> exn" where
  "bad_date s = ValueErr (''Invalid date format: '' @ s)"

definition validate_yyyymmdd_format :: "string \<Rightarrow> exn + ymd" where
  "validate_yyyymmdd_format text =
     (case split_on CHR ''-'' text of
        [y, m, d] \<Rightarrow>
          if length y = 4 \<and> length m = 2 \<and> length d = 2 \<and> list_all is_digit (y @ m @ d)
          then (case strptime_ymd text of None \<Rightarrow> Inl (bad_date text) | Some date \<Rightarrow> Inr date)
          else Inl (bad_date text)
      | _ \<Rightarrow> Inl (bad_date text))"

definition validate_date_range :: "string \<Rightarrow> string option \<Rightarrow> exn + (string \<times> string)" where
  "validate_date_range start_date end_date0 =
     (case validate_yyyymmdd_format start_date of Inl x \<Rightarrow> Inl x
      | Inr _ \<Rightarrow>
          (let end_date = (if truthy_str end_date0 then opt_default [] end_date0 else start_date) in
           case validate_yyyymmdd_format end_date of Inl x \<Rightarrow> Inl x
           | Inr _ \<Rightarrow>
               if end_date < start_date
               then Inl (ValueErr ''start_date must be before or equal to end_date'')
               else Inr (start_date, end_date)))"

text \<open>\<open>dt <= end\<close>, \<open>dt + timedelta(days=1)\<close>, and the number of the day that differences count in.\<close>

fun date_le :: "ymd \<Rightarrow> ymd \<Rightarrow> bool" where
  "date_le (y, m, d) (y', m', d') = (y < y' \<or> (y = y' \<and> (m < m' \<or> (m = m' \<and> d \<le> d'))))"

fun next_day :: "ymd \<Rightarrow> exn + ymd" where
  "next_day (y, m, d) =
     (if d < days_in_month y m then Inr (y, m, d + 1)
      else if m < 12 then Inr (y, m + 1, 1)
      else if y < 9999 then Inr (y + 1, 1, 1)
      else Inl (OtherExc ''OverflowError''))"

fun next_month :: "ymd \<Rightarrow> exn + ymd" where
  "next_month (y, m, d) =
     (if 12 \<le> m
      then if y < 9999 then Inr (y + 1, 1, 1) else Inl (ValueErr ''year 10000 is out of range'')
      else Inr (y, m + 1, 1))"

text \<open>The year and month of the day before the first of a month.\<close>

definition previous_month :: "int \<Rightarrow> int \<Rightarrow> exn + string" where
  "previous_month y m =
     (if 1 < m then Inr (month_str y (m - 1))
      else if 1 < y then Inr (month_str (y - 1) 12)
      else Inl (OtherExc ''OverflowError''))"

definition days_before_month :: "int \<Rightarrow> int \<Rightarrow> int" where
  "days_before_month y m = sum_list (map (\<lambda>k. days_in_month y (int k)) [1..<nat m])"

definition days_before_year :: "int \<Rightarrow> int" where
  "days_before_year y = (y - 1) * 365 + (y - 1) div 4 - (y - 1) div 100 + (y - 1) div 400"

fun toordinal :: "ymd \<Rightarrow> int" where
  "toordinal (y, m, d) = days_before_year y + days_before_month y m + d"

section \<open>Times\<close>

text \<open>
  The hour that \<open>datetime.fromisoformat\<close> reads from a text: the texts that \<open>isoformat\<close> makes of a
  date, of a time with seconds or microseconds, and of a time with its offset are times, others are
  a \<open>ValueError\<close>.
\<close>

definition two_digits :: "string \<Rightarrow> int \<Rightarrow> bool" where
  "two_digits s bound = (length s = 2 \<and> list_all is_digit s \<and> digits_value s < bound)"

definition seconds_text :: "string \<Rightarrow> bool" where
  "seconds_text s =
     (two_digits (take 2 s) 60 \<and>
      (length s = 2 \<or> (length s = 9 \<and> s ! 2 = CHR ''.'' \<and> list_all is_digit (drop 3 s))))"

definition offset_text :: "string \<Rightarrow> bool" where
  "offset_text s =
     (s = [] \<or> (length s = 6 \<and> s ! 0 \<in> {CHR ''+'', CHR ''-''} \<and> two_digits (take 2 (drop 1 s)) 24 \<and>
                s ! 3 = CHR '':'' \<and> two_digits (drop 4 s) 60))"

definition iso_hour :: "string \<Rightarrow> int option" where
  "iso_hour s =
     (case validate_yyyymmdd_format (take 10 s) of Inl _ \<Rightarrow> None
      | Inr _ \<Rightarrow>
          if length s = 10 then Some 0
          else
            (let time = takeWhile (\<lambda>c. c \<noteq> CHR ''+'' \<and> c \<noteq> CHR ''-'') (drop 11 s);
                 offset = drop (11 + length time) s
             in case split_on CHR '':'' time of
                  [h, m, sec] \<Rightarrow>
                    if two_digits h 24 \<and> two_digits m 60 \<and> seconds_text sec \<and> offset_text offset
                    then Some (digits_value h) else None
                | _ \<Rightarrow> None))"


section \<open>Laws of dates\<close>

lemma digit_value_bounds: "is_digit c \<Longrightarrow> 0 \<le> digit_value c \<and> digit_value c < 10"
  by (auto simp: is_digit_def digit_value_def Let_def)

lemma char_of_digit_value:
  assumes "is_digit c"
  shows "char_of (48 + nat (digit_value c)) = c"
proof -
  have "48 \<le> (of_char c :: nat)" using assms by (simp add: is_digit_def Let_def)
  moreover have "digit_value c = int (of_char c) - 48" by (simp add: digit_value_def)
  ultimately have "48 + nat (digit_value c) = of_char c" by simp
  then show ?thesis by simp
qed

lemma digits_value_snoc: "digits_value (s @ [c]) = 10 * digits_value s + digit_value c"
  by (simp add: digits_value_def)

lemma digits_of_value: "list_all is_digit s \<Longrightarrow> digits (length s) (digits_value s) = s"
proof (induction s rule: rev_induct)
  case Nil
  then show ?case by simp
next
  case (snoc c s)
  then have c: "is_digit c" and IH: "digits (length s) (digits_value s) = s" by simp_all
  have "digits_value (s @ [c]) div 10 = digits_value s" "digits_value (s @ [c]) mod 10 = digit_value c"
    using digit_value_bounds [OF c] by (simp_all add: digits_value_snoc)
  then show ?case using IH char_of_digit_value [OF c] by simp
qed

lemma day_text_digits: "list_all is_digit s \<Longrightarrow> day_text s = s"
proof -
  have "\<not> is_digit CHR '' ''" by code_simp
  then show "list_all is_digit s \<Longrightarrow> day_text s = s"
    by (auto simp: day_text_def split: list.splits)
qed

text \<open>A text that the check accepts is the text of its date, and \<open>strptime\<close> reads the same date.\<close>

lemma validate_date:
  assumes "validate_yyyymmdd_format s = Inr date"
  shows "ymd_str date = s" and "valid_date date" and "strptime_ymd s = Some date"
proof -
  obtain y m d where split: "split_on CHR ''-'' s = [y, m, d]"
    and len: "length y = 4" "length m = 2" "length d = 2"
    and dig: "list_all is_digit y" "list_all is_digit m" "list_all is_digit d"
    and strp: "strptime_ymd s = Some date"
    using assms by (auto simp: validate_yyyymmdd_format_def split: list.splits if_splits option.splits)
  show "strptime_ymd s = Some date" by (rule strp)
  have date: "date = (digits_value y, digits_value m, digits_value d)" and "valid_date date"
    using strp dig(3) by (auto simp: strptime_ymd_def split Let_def day_text_digits split: if_splits)
  then show "valid_date date" by simp
  have "s = str_join ''-'' [y, m, d]" using join_split [of "CHR ''-''" s] split by simp
  then show "ymd_str date = s"
    using digits_of_value [OF dig(1)] digits_of_value [OF dig(2)] digits_of_value [OF dig(3)]
    by (simp add: date len month_str_def)
qed

lemma next_day_later: "next_day a = Inr b \<Longrightarrow> \<not> date_le b a"
  by (cases a) (auto split: if_splits)

lemma date_le_refl [simp]: "date_le a a"
  by (cases a) simp

lemma next_day_succeeds: "valid_date a \<Longrightarrow> a \<noteq> (9999, 12, 31) \<Longrightarrow> \<exists>b. next_day a = Inr b"
  by (cases a) (auto simp: days_in_month_def)

text \<open>The number of the day counts the days one by one.\<close>

lemma days_before_month_Suc:
  assumes "1 \<le> m"
  shows "days_before_month y (m + 1) = days_before_month y m + days_in_month y m"
proof -
  have "nat (m + 1) = Suc (nat m)" using assms by simp
  then have "[1..<nat (m + 1)] = [1..<nat m] @ [nat m]" using assms by simp
  then show ?thesis using assms by (simp add: days_before_month_def)
qed

lemma div_step:
  fixes y k :: int
  assumes "0 < k"
  shows "y div k = (y - 1) div k + (if y mod k = 0 then 1 else 0)"
proof (cases "y mod k = 0")
  case True
  have "y - 1 = k * (y div k - 1) + (k - 1)"
    using True mult_div_mod_eq [of k y] by (simp add: algebra_simps)
  then have "(y - 1) div k = y div k - 1"
    by (rule int_div_pos_eq) (use assms in simp_all)
  with True show ?thesis by simp
next
  case False
  have m: "0 \<le> y mod k" "y mod k < k" using assms by simp_all
  have "y - 1 = k * (y div k) + (y mod k - 1)" using mult_div_mod_eq [of k y] by simp
  then have "(y - 1) div k = y div k"
    by (rule int_div_pos_eq) (use m False in simp_all)
  with False show ?thesis by simp
qed

lemma leap_sum:
  fixes n :: int
  assumes "a = a' + (if P then 1 else 0)" "b = b' + (if Q then 1 else 0)" "c = c' + (if R then 1 else 0)"
    and "Q \<Longrightarrow> P" and "R \<Longrightarrow> Q"
  shows "n + 365 + a - b + c = n + a' - b' + c' + (if P \<and> (\<not> Q \<or> R) then 366 else 365)"
  using assms by (cases P; cases Q; cases R) auto

lemma days_before_year_Suc: "days_before_year (y + 1) = days_before_year y + (if is_leap y then 366 else 365)"
proof -
  have "y mod 4 = 0" if "y mod 100 = 0"
    using that mod_mod_cancel [of 4 100 y] by simp
  moreover have "y mod 100 = 0" if "y mod 400 = 0"
    using that mod_mod_cancel [of 100 400 y] by simp
  ultimately have sum: "(y - 1) * 365 + 365 + y div 4 - y div 100 + y div 400 =
      (y - 1) * 365 + (y - 1) div 4 - (y - 1) div 100 + (y - 1) div 400 +
      (if y mod 4 = 0 \<and> (\<not> y mod 100 = 0 \<or> y mod 400 = 0) then 366 else 365)"
    by (intro leap_sum div_step) simp_all
  have "(y - 1) * 365 + 365 = y * 365" "y + 1 - 1 = y" by simp_all
  then show ?thesis
    using sum unfolding days_before_year_def is_leap_def by (simp only:)
qed

lemma days_of_year: "days_before_month y 12 + 31 = (if is_leap y then 366 else 365)"
proof -
  have months: "[1..<nat 12] = [1, 2, 3, 4, 5, 6, 7, 8, 9, 10, 11]" by code_simp
  show ?thesis unfolding days_before_month_def months by (simp add: days_in_month_def)
qed

lemma toordinal_next: "valid_date a \<Longrightarrow> next_day a = Inr b \<Longrightarrow> toordinal b = toordinal a + 1 \<and> valid_date b"
proof (cases a)
  case (fields y m d)
  assume a: "valid_date a" "next_day a = Inr b"
  have one: "days_before_month y' 1 = 0" for y' by (simp add: days_before_month_def)
  consider "d < days_in_month y m" | "d = days_in_month y m" "m < 12"
    | "d = days_in_month y m" "m = 12" "y < 9999"
    using a fields by (auto split: if_splits)
  then show ?thesis
  proof cases
    case 1
    then show ?thesis using a fields by auto
  next
    case 2
    then show ?thesis using a fields days_before_month_Suc [of m y]
      by (auto simp: days_in_month_def split: if_splits)
  next
    case 3
    then show ?thesis using a fields days_before_year_Suc [of y] days_of_year [of y] one [of "y + 1"]
      by (auto simp: days_in_month_def split: if_splits)
  qed
qed

end
