(* ===== verification/Metrics.thy ===== *)
theory Metrics
  imports Calendar Auth
begin

text \<open>
  The metrics of the processed documents: \<open>jobs/metrics_aggregator/main.py\<close> counts the records of
  a day, in all and by tenant, and sums the days of a month; \<open>utils/metrics.py\<close> and
  \<open>routers/metrics.py\<close> read them back.

  A stats document is the dictionary the code keeps: its totals, its tallies (\<open>by_status\<close> and so
  on), its timing and its usage are dictionaries of numbers by key, in the order of insertion, and
  a section that is read can be missing.  A record of Athena maps column names to texts.  Athena and
  the failures of S3 are parameters; the bucket is the list of its stats documents by key.
\<close>

section \<open>Dictionaries of numbers\<close>

type_synonym numbers = "(string \<times> rat) list"

definition num_get :: "numbers \<Rightarrow> string \<Rightarrow> rat" where
  "num_get d k = (case map_of d k of None \<Rightarrow> 0 | Some n \<Rightarrow> n)"

text \<open>\<open>d[k] = d.get(k, 0) + n\<close>\<close>

definition num_add :: "string \<Rightarrow> rat \<Rightarrow> numbers \<Rightarrow> numbers" where
  "num_add k n d = AList.update k (num_get d k + n) d"

record stats =
  st_date :: "string option"
  st_month :: "string option"
  st_totals :: numbers
  st_tallies :: "(string \<times> numbers) list"
  st_timing :: "numbers option"
  st_usage :: "numbers option"

definition tally :: "stats \<Rightarrow> string \<Rightarrow> numbers" where
  "tally s by = (case map_of (st_tallies s) by of None \<Rightarrow> [] | Some t \<Rightarrow> t)"

definition timing :: "stats \<Rightarrow> string \<Rightarrow> rat" where
  "timing s k = num_get (opt_default [] (st_timing s)) k"

section \<open>constants/metrics.py\<close>

definition daily_prefix :: string where
  "daily_prefix = ''aggregated/utc/date''"

definition monthly_prefix :: string where
  "monthly_prefix = ''aggregated/utc/month''"

definition athena_query_timeout_seconds :: nat where
  "athena_query_timeout_seconds = 300"

datatype granularity = DAILY | MONTHLY

fun granularity_value :: "granularity \<Rightarrow> string" where
  "granularity_value DAILY = ''daily''"
| "granularity_value MONTHLY = ''monthly''"

definition is_legacy_unset :: "string \<Rightarrow> bool" where
  "is_legacy_unset v =
     (str_lower (str_strip v) \<in> {''unknown'', ''not specified'', ''null'', ''''})"

definition timing_prefixes :: "string list" where
  "timing_prefixes = [''total_processing_time'', ''bda_processing_time'', ''bda_wait_time'']"

definition is_final_query :: "string \<Rightarrow> bool" where
  "is_final_query s = (s \<in> {''SUCCEEDED'', ''FAILED'', ''CANCELLED''})"

section \<open>Stats of the records of a day\<close>

definition zeros :: "string list \<Rightarrow> numbers" where
  "zeros ks = map (\<lambda>k. (k, 0)) ks"

definition total_keys :: "string list" where
  "total_keys =
     [''total_records'', ''total_bda_invocations'', ''total_textract_extractions'',
      ''total_extraction_invocations'', ''total_documents_recognized'']"

definition tally_keys :: "string list" where
  "tally_keys =
     [''by_status'', ''by_classification'', ''by_response_code'', ''by_file_type'',
      ''by_user_category'', ''by_upload_method'', ''by_hour'']"

definition timing_keys :: "string list" where
  "timing_keys =
     concat (map (\<lambda>p. [p @ ''_avg'', p @ ''_sum'', p @ ''_count'']) timing_prefixes)"

definition usage_keys :: "string list" where
  "usage_keys =
     [''total_file_size_bytes'', ''total_pages'', ''total_bda_pages'',
      ''total_bedrock_input_tokens'', ''total_bedrock_output_tokens'']"

definition initialize_stats :: "string \<Rightarrow> stats" where
  "initialize_stats target_date =
     \<lparr>st_date = Some target_date, st_month = None, st_totals = zeros total_keys,
      st_tallies = map (\<lambda>k. (k, [])) tally_keys, st_timing = Some (zeros timing_keys),
      st_usage = Some (zeros usage_keys)\<rparr>"

text \<open>One number of the stats, and adding to it.\<close>

datatype metric = Total string | Tally string string | Timing string | Usage string

fun bump :: "metric \<Rightarrow> rat \<Rightarrow> stats \<Rightarrow> stats" where
  "bump (Total k) n s = s\<lparr>st_totals := num_add k n (st_totals s)\<rparr>"
| "bump (Tally by k) n s =
     s\<lparr>st_tallies := AList.update by (num_add k n (tally s by)) (st_tallies s)\<rparr>"
| "bump (Timing k) n s = s\<lparr>st_timing := Some (num_add k n (opt_default [] (st_timing s)))\<rparr>"
| "bump (Usage k) n s = s\<lparr>st_usage := Some (num_add k n (opt_default [] (st_usage s)))\<rparr>"

type_synonym row = "(string \<times> string) list"

text \<open>\<open>record.get(k)\<close> where it is truthy, and \<open>record.get(k) or d\<close>.\<close>

definition cell :: "row \<Rightarrow> string \<Rightarrow> string option" where
  "cell r k = (case map_of r k of Some v \<Rightarrow> if v = [] then None else Some v | None \<Rightarrow> None)"

definition cell_or :: "row \<Rightarrow> string \<Rightarrow> string \<Rightarrow> string" where
  "cell_or r k d = opt_default d (cell r k)"

definition add_tallies :: "row \<Rightarrow> stats \<Rightarrow> stats" where
  "add_tallies r s =
     (let status = opt_default ''unknown'' (map_of r ''process_status'');
          classification = cell_or r ''bda_matched_document_class'' ''null'';
          response_code = cell_or r ''response_code'' ''null'';
          file_type = get_extension (cell_or r ''content_type'' []) ''unknown'';
          user_category0 = cell_or r ''user_provided_document_category'' [];
          user_category = (if is_legacy_unset user_category0 then ''not specified'' else user_category0);
          upload_method = cell_or r ''upload_method'' ''unknown'';
          s = bump (Tally ''by_status'' status) 1 s;
          s = bump (Tally ''by_classification'' classification) 1 s;
          s = bump (Tally ''by_response_code'' response_code) 1 s;
          s = bump (Tally ''by_file_type'' file_type) 1 s;
          s = bump (Tally ''by_user_category'' user_category) 1 s
      in bump (Tally ''by_upload_method'' upload_method) 1 s)"

definition add_invocations :: "row \<Rightarrow> stats \<Rightarrow> stats" where
  "add_invocations r s =
     (let invoked = (cell r ''bda_invocation_arn'' \<noteq> None);
          textract = (map_of r ''extraction_method'' = Some (em_value EM_TEXTRACT));
          s = (if invoked then bump (Total ''total_bda_invocations'') 1 s else s);
          s = (if invoked \<or> textract then bump (Total ''total_extraction_invocations'') 1 s else s);
          s = (if textract then bump (Total ''total_textract_extractions'') 1 s else s)
      in if is_document_type_identified (cell_or r ''response_code'' ''null'')
         then bump (Total ''total_documents_recognized'') 1 s else s)"

definition add_hour :: "row \<Rightarrow> stats \<Rightarrow> stats" where
  "add_hour r s =
     (case cell r ''created_at'' of None \<Rightarrow> s
      | Some created_at \<Rightarrow>
          (case iso_hour created_at of None \<Rightarrow> s
           | Some h \<Rightarrow> bump (Tally ''by_hour'' (nat_str (nat h))) 1 s))"

definition count_usage :: "string option \<Rightarrow> string \<Rightarrow> stats \<Rightarrow> stats" where
  "count_usage v key s =
     (case v of None \<Rightarrow> s
      | Some t \<Rightarrow> (case int_of_text t of None \<Rightarrow> s | Some n \<Rightarrow> bump (Usage key) (of_int n) s))"

definition add_timing :: "string option \<Rightarrow> string \<Rightarrow> stats \<Rightarrow> stats" where
  "add_timing v p s =
     (case v of None \<Rightarrow> s
      | Some t \<Rightarrow>
          (case float_of_text t of None \<Rightarrow> s
           | Some x \<Rightarrow> bump (Timing (p @ ''_count'')) 1 (bump (Timing (p @ ''_sum'')) x s)))"

definition first_cell :: "row \<Rightarrow> string \<Rightarrow> string \<Rightarrow> string option" where
  "first_cell r k k' = (case cell r k of None \<Rightarrow> cell r k' | Some v \<Rightarrow> Some v)"

definition process_metrics_record :: "row \<Rightarrow> stats \<Rightarrow> stats" where
  "process_metrics_record r s =
     (let s = bump (Total ''total_records'') 1 s;
          s = add_tallies r s;
          s = add_invocations r s;
          s = add_hour r s;
          s = count_usage (cell r ''file_size_bytes'') ''total_file_size_bytes'' s;
          s = count_usage (cell r ''pages_detected'') ''total_pages'' s;
          s = count_usage (cell r ''pages_sent_to_bda'') ''total_bda_pages'' s;
          s = count_usage (cell r ''preclassification_input_tokens'') ''total_bedrock_input_tokens'' s;
          s = count_usage (cell r ''crop_input_tokens'') ''total_bedrock_input_tokens'' s;
          s = count_usage (cell r ''preclassification_output_tokens'') ''total_bedrock_output_tokens'' s;
          s = count_usage (cell r ''crop_output_tokens'') ''total_bedrock_output_tokens'' s;
          s = add_timing (cell r ''total_processing_time_seconds'') ''total_processing_time'' s;
          s = add_timing (first_cell r ''extraction_processing_time_seconds''
                            ''bda_processing_time_seconds'') ''bda_processing_time'' s
      in add_timing (first_cell r ''extraction_wait_time_seconds'' ''bda_wait_time_seconds'')
           ''bda_wait_time'' s)"

definition set_timing :: "string \<Rightarrow> rat \<Rightarrow> stats \<Rightarrow> stats" where
  "set_timing k x s = s\<lparr>st_timing := Some (AList.update k x (opt_default [] (st_timing s)))\<rparr>"

definition finalize_one :: "string \<Rightarrow> stats \<Rightarrow> stats" where
  "finalize_one p s =
     (let count = timing s (p @ ''_count'')
      in if 0 < count then set_timing (p @ ''_avg'') (py_round2 (timing s (p @ ''_sum'') / count)) s
         else s)"

definition finalize_timing :: "stats \<Rightarrow> stats" where
  "finalize_timing s = fold finalize_one timing_prefixes s"

type_synonym by_tenant = "(string \<times> stats) list"

definition record_tenant :: "row \<Rightarrow> string" where
  "record_tenant r = cell_or r ''tenant_id'' ''__unknown__''"

definition add_to_tenant :: "string \<Rightarrow> row \<Rightarrow> by_tenant \<Rightarrow> by_tenant" where
  "add_to_tenant target_date r bt =
     AList.update (record_tenant r)
       (process_metrics_record r (opt_default (initialize_stats target_date) (map_of bt (record_tenant r)))) bt"

definition add_record :: "string \<Rightarrow> row \<Rightarrow> stats \<times> by_tenant \<Rightarrow> stats \<times> by_tenant" where
  "add_record target_date r a =
     (process_metrics_record r (fst a), add_to_tenant target_date r (snd a))"

definition aggregate_records :: "row list \<Rightarrow> string \<Rightarrow> by_tenant" where
  "aggregate_records records target_date =
     (case fold (add_record target_date) records (initialize_stats target_date, []) of
        (global_stats, bt) \<Rightarrow>
          AList.update ''__global__'' (finalize_timing global_stats)
            (map (\<lambda>(t, s). (t, finalize_timing s)) bt))"

section \<open>Athena\<close>

text \<open>A page of results: the names of its columns and its rows of optional texts.\<close>

record result_page =
  rp_columns :: "string list"
  rp_rows :: "string option list list"

text \<open>
  The client: starting a query, the state that the \<open>i\<close>-th question about an execution answers, and
  the pages of its results.
\<close>

record athena =
  start_query :: "string \<Rightarrow> string \<Rightarrow> string \<Rightarrow> exn + string"
  query_state :: "string \<Rightarrow> nat \<Rightarrow> exn + string"
  query_pages :: "string \<Rightarrow> exn + result_page list"

definition newline :: string where
  "newline = [char_of (10 :: nat)]"

definition quoted :: "string \<Rightarrow> string" where
  "quoted s = [char_of (39 :: nat)] @ s @ [char_of (39 :: nat)]"

definition build_deduplication_query :: "string \<Rightarrow> string \<Rightarrow> string \<Rightarrow> string" where
  "build_deduplication_query database_name table_name target_date =
     str_join newline
       ['''', ''    WITH ranked_records AS ('', ''        SELECT'', ''            *,'',
        ''            ROW_NUMBER() OVER ('', ''                PARTITION BY file_name'',
        ''                ORDER BY updated_at DESC'', ''            ) AS rn'',
        ''        FROM '' @ database_name @ ''.'' @ table_name,
        ''        WHERE date = '' @ quoted target_date, ''    )'', ''    SELECT *'',
        ''    FROM ranked_records'', ''    WHERE rn = 1'', ''    '']"

text \<open>At most \<open>n\<close> questions, from the \<open>i\<close>-th on, until the state is final.\<close>

fun poll_query :: "athena \<Rightarrow> string \<Rightarrow> nat \<Rightarrow> nat \<Rightarrow> exn + string" where
  "poll_query a execution_id i 0 =
     Inl (OtherExc (''Athena query '' @ execution_id @ '' did not complete within 300s''))"
| "poll_query a execution_id i (Suc n) =
     (case query_state a execution_id i of Inl x \<Rightarrow> Inl x
      | Inr status \<Rightarrow>
          if is_final_query status then Inr status else poll_query a execution_id (Suc i) n)"

text \<open>A row with fewer cells than columns raises; a later column of the same name replaces the first.\<close>

fun read_row :: "string list \<Rightarrow> string option list \<Rightarrow> row \<Rightarrow> exn + row" where
  "read_row [] cells r = Inr r"
| "read_row (c # cs) [] r = Inl (OtherExc ''IndexError'')"
| "read_row (c # cs) (v # vs) r = read_row cs vs (AList.update c (opt_default [] v) r)"

fun read_rows :: "string list \<Rightarrow> string option list list \<Rightarrow> exn + row list" where
  "read_rows cs [] = Inr []"
| "read_rows cs (v # vs) =
     (case read_row cs v [] of Inl x \<Rightarrow> Inl x
      | Inr r \<Rightarrow> (case read_rows cs vs of Inl x \<Rightarrow> Inl x | Inr rs \<Rightarrow> Inr (r # rs)))"

text \<open>The first row of every page is dropped as the header.\<close>

fun read_pages :: "result_page list \<Rightarrow> exn + row list" where
  "read_pages [] = Inr []"
| "read_pages (p # ps) =
     (case read_rows (rp_columns p) (drop 1 (rp_rows p)) of Inl x \<Rightarrow> Inl x
      | Inr rs \<Rightarrow> (case read_pages ps of Inl x \<Rightarrow> Inl x | Inr rs' \<Rightarrow> Inr (rs @ rs')))"

definition get_athena_results :: "athena \<Rightarrow> string \<Rightarrow> exn + row list" where
  "get_athena_results a execution_id =
     (case poll_query a execution_id 0 athena_query_timeout_seconds of Inl x \<Rightarrow> Inl x
      | Inr status \<Rightarrow>
          if status \<noteq> ''SUCCEEDED'' then Inl (OtherExc (''Query failed with status: '' @ status))
          else (case query_pages a execution_id of Inl x \<Rightarrow> Inl x | Inr ps \<Rightarrow> read_pages ps))"

section \<open>The bucket\<close>

text \<open>The settings of the job, and the errors of S3 by key.\<close>

record metrics_env =
  me_export_bucket :: "string option"
  me_glue_database :: "string option"
  me_raw_table :: "string option"
  me_workgroup :: "string option"
  me_athena :: athena
  head_error :: "string \<Rightarrow> exn option"
  get_error :: "string \<Rightarrow> exn option"
  put_error :: "string \<Rightarrow> exn option"
  list_error :: "string \<Rightarrow> exn option"

type_synonym bucket = "(string \<times> stats) list"

type_synonym 'a mprog = "(bucket, 'a) prog"

definition failing :: "(string \<Rightarrow> exn option) \<Rightarrow> string \<Rightarrow> 'a mprog \<Rightarrow> 'a mprog" where
  "failing error key m = (case error key of Some x \<Rightarrow> raise x | None \<Rightarrow> m)"

definition head_stats :: "metrics_env \<Rightarrow> string \<Rightarrow> unit mprog" where
  "head_stats e key =
     failing (head_error e) key
       (bindP (reads (\<lambda>b. map_of b key))
          (\<lambda>d. if d = None then raise (ClientErr ''404'') else ret ()))"

definition get_stats :: "metrics_env \<Rightarrow> string \<Rightarrow> stats mprog" where
  "get_stats e key =
     failing (get_error e) key
       (bindP (reads (\<lambda>b. map_of b key))
          (\<lambda>d. case d of None \<Rightarrow> raise (ClientErr ''NoSuchKey'') | Some s \<Rightarrow> ret s))"

definition put_stats :: "metrics_env \<Rightarrow> string \<Rightarrow> stats \<Rightarrow> unit mprog" where
  "put_stats e key s = failing (put_error e) key (modifies (AList.update key s))"

text \<open>Keys are listed in their order.\<close>

definition list_keys :: "metrics_env \<Rightarrow> string \<Rightarrow> string list mprog" where
  "list_keys e key_prefix =
     failing (list_error e) key_prefix
       (reads (\<lambda>b. sort (filter (starts_with key_prefix) (map fst b))))"

section \<open>Daily stats\<close>

definition daily_key :: "string \<Rightarrow> string" where
  "daily_key target_date = daily_prefix @ ''='' @ target_date @ ''/stats.json''"

definition daily_tenant_key :: "string \<Rightarrow> string \<Rightarrow> string" where
  "daily_tenant_key target_date tenant_id =
     daily_prefix @ ''='' @ target_date @ ''/tenant='' @ tenant_id @ ''/stats.json''"

definition monthly_key :: "string \<Rightarrow> string" where
  "monthly_key yyyymm = monthly_prefix @ ''='' @ yyyymm @ ''/stats.json''"

definition monthly_tenant_key :: "string \<Rightarrow> string \<Rightarrow> string" where
  "monthly_tenant_key yyyymm tenant_id =
     monthly_prefix @ ''='' @ yyyymm @ ''/tenant='' @ tenant_id @ ''/stats.json''"

definition check_if_previously_aggregated :: "metrics_env \<Rightarrow> string \<Rightarrow> bool mprog" where
  "check_if_previously_aggregated e target_date =
     catchP (thenP (head_stats e (daily_key target_date)) (ret True))
       (\<lambda>x. if x \<in> {ClientErr ''404'', ClientErr ''NoSuchKey''} then ret False else raise x)"

definition round_sum :: "string \<Rightarrow> stats \<Rightarrow> stats" where
  "round_sum p s = set_timing (p @ ''_sum'') (py_round2 (timing s (p @ ''_sum''))) s"

definition round_sums :: "stats \<Rightarrow> stats" where
  "round_sums s = fold round_sum timing_prefixes s"

definition scoped_daily_key :: "string \<Rightarrow> string \<Rightarrow> string" where
  "scoped_daily_key target_date tenant_id =
     (if tenant_id = ''__global__'' then daily_key target_date
      else daily_tenant_key target_date tenant_id)"

definition write_tenant_stats :: "metrics_env \<Rightarrow> string \<Rightarrow> string \<times> stats \<Rightarrow> unit mprog" where
  "write_tenant_stats e target_date entry =
     put_stats e (scoped_daily_key target_date (fst entry)) (round_sums (snd entry))"

definition write_aggregated_stats :: "metrics_env \<Rightarrow> by_tenant \<Rightarrow> string \<Rightarrow> string mprog" where
  "write_aggregated_stats e stats_by_tenant target_date =
     thenP (forP (write_tenant_stats e target_date) stats_by_tenant) (ret (daily_key target_date))"

section \<open>Summaries\<close>

definition add_all :: "numbers \<Rightarrow> numbers \<Rightarrow> numbers" where
  "add_all d acc = fold (\<lambda>(k, n). num_add k n) d acc"

definition add_keys :: "string list \<Rightarrow> numbers \<Rightarrow> numbers \<Rightarrow> numbers" where
  "add_keys ks d acc = fold (\<lambda>k. num_add k (num_get d k)) ks acc"

definition sum_count_keys :: "string list" where
  "sum_count_keys = concat (map (\<lambda>p. [p @ ''_sum'', p @ ''_count'']) timing_prefixes)"

definition empty_summary :: stats where
  "empty_summary =
     \<lparr>st_date = None, st_month = None, st_totals = zeros total_keys,
      st_tallies = map (\<lambda>k. (k, [])) tally_keys, st_timing = Some (zeros timing_keys),
      st_usage = Some (zeros usage_keys)\<rparr>"

text \<open>The totals, the tallies and the timing of one period, then the usage in a loop of its own.\<close>

definition add_tally :: "stats \<Rightarrow> string \<Rightarrow> stats \<Rightarrow> stats" where
  "add_tally s by acc =
     acc\<lparr>st_tallies := AList.update by (add_all (tally s by) (tally acc by)) (st_tallies acc)\<rparr>"

definition add_period :: "stats \<Rightarrow> stats \<Rightarrow> stats" where
  "add_period s acc0 =
     (let acc = acc0\<lparr>st_totals := add_keys total_keys (st_totals s) (st_totals acc0)\<rparr>;
          acc = fold (add_tally s) tally_keys acc
      in case st_timing s of None \<Rightarrow> acc
         | Some t \<Rightarrow>
             acc\<lparr>st_timing := Some (add_keys sum_count_keys t (opt_default [] (st_timing acc)))\<rparr>)"

definition average_one :: "string \<Rightarrow> stats \<Rightarrow> stats" where
  "average_one p s =
     (let count = timing s (p @ ''_count'')
      in set_timing (p @ ''_avg'')
           (if 0 < count then py_round2 (timing s (p @ ''_sum'') / count) else 0) s)"

definition merge_usage :: "stats \<Rightarrow> stats \<Rightarrow> stats" where
  "merge_usage s acc =
     (case st_usage s of None \<Rightarrow> acc
      | Some u \<Rightarrow> acc\<lparr>st_usage := Some (add_keys usage_keys u (opt_default [] (st_usage acc)))\<rparr>)"

definition build_summary :: "stats list \<Rightarrow> stats" where
  "build_summary stats_list =
     (let acc = fold add_period stats_list empty_summary;
          acc = fold average_one timing_prefixes acc
      in fold merge_usage stats_list acc)"

section \<open>Monthly stats\<close>

text \<open>What follows the first \<open>p\<close> in \<open>s\<close>.\<close>

fun after_sub :: "string \<Rightarrow> string \<Rightarrow> string option" where
  "after_sub p [] = (if p = [] then Some [] else None)"
| "after_sub p (c # cs) =
     (if starts_with p (c # cs) then Some (drop (length p) (c # cs)) else after_sub p cs)"

definition tenant_of_key :: "string \<Rightarrow> string" where
  "tenant_of_key key =
     (case after_sub ''/tenant='' key of None \<Rightarrow> ''__global__''
      | Some rest \<Rightarrow> takeWhile (\<lambda>c. c \<noteq> CHR ''/'') rest)"

type_synonym by_tenant_days = "(string \<times> stats list) list"

definition append_stats :: "string \<Rightarrow> stats \<Rightarrow> by_tenant_days \<Rightarrow> by_tenant_days" where
  "append_stats t s bt = AList.update t (opt_default [] (map_of bt t) @ [s]) bt"

fun collect_stats :: "metrics_env \<Rightarrow> string list \<Rightarrow> by_tenant_days \<Rightarrow> by_tenant_days mprog" where
  "collect_stats e [] bt = ret bt"
| "collect_stats e (key # keys) bt =
     (if \<not> ends_with ''stats.json'' key then collect_stats e keys bt
      else bindP (get_stats e key)
             (\<lambda>s. collect_stats e keys (append_stats (tenant_of_key key) s bt)))"

definition get_daily_stats_for_month :: "metrics_env \<Rightarrow> string \<Rightarrow> by_tenant_days mprog" where
  "get_daily_stats_for_month e yyyymm =
     bindP (list_keys e (daily_prefix @ ''='' @ yyyymm @ ''-'')) (\<lambda>keys. collect_stats e keys [])"

definition scoped_monthly_key :: "string \<Rightarrow> string \<Rightarrow> string" where
  "scoped_monthly_key yyyymm tenant_id =
     (if tenant_id = ''__global__'' then monthly_key yyyymm else monthly_tenant_key yyyymm tenant_id)"

fun write_months :: "metrics_env \<Rightarrow> string \<Rightarrow> by_tenant_days \<Rightarrow> nat \<Rightarrow> nat mprog" where
  "write_months e yyyymm [] days_processed = ret days_processed"
| "write_months e yyyymm ((tenant_id, daily_stats) # rest) days_processed =
     (let monthly_stats = build_summary daily_stats\<lparr>st_month := Some yyyymm\<rparr>
      in thenP (put_stats e (scoped_monthly_key yyyymm tenant_id) monthly_stats)
           (write_months e yyyymm rest (max days_processed (length daily_stats))))"

definition stats_location :: "string \<Rightarrow> string \<Rightarrow> pyval" where
  "stats_location bucket_name key = PStr (''s3://'' @ bucket_name @ ''/'' @ key)"

definition aggregate_monthly :: "metrics_env \<Rightarrow> string \<Rightarrow> string \<Rightarrow> dict option mprog" where
  "aggregate_monthly e bucket_name yyyymm =
     bindP (get_daily_stats_for_month e yyyymm) (\<lambda>daily_stats_by_tenant.
       if daily_stats_by_tenant = [] then ret None
       else bindP (write_months e yyyymm daily_stats_by_tenant 0) (\<lambda>days_processed.
         ret (Some [(''month'', PStr yyyymm),
                    (''outputLocation'', stats_location bucket_name (monthly_key yyyymm)),
                    (''daysProcessed'', PNum (of_nat days_processed))])))"

section \<open>The job\<close>

definition required :: "string \<Rightarrow> string option \<Rightarrow> string mprog" where
  "required name v =
     (if truthy_str v then ret (opt_default [] v)
      else raise (ValueErr (name @ '' environment variable not set'')))"

definition total_records :: "stats \<Rightarrow> rat" where
  "total_records s = num_get (st_totals s) ''total_records''"

definition existing_result :: "metrics_env \<Rightarrow> string \<Rightarrow> string \<Rightarrow> dict mprog" where
  "existing_result e bucket_name target_date =
     bindP (get_stats e (daily_key target_date)) (\<lambda>existing_stats.
       ret [(''statusCode'', PNum 200), (''date'', PStr target_date),
            (''message'', PStr ''Already aggregated''),
            (''outputLocation'', stats_location bucket_name (daily_key target_date)),
            (''recordsProcessed'', PNum (total_records existing_stats))])"

definition query_records :: "metrics_env \<Rightarrow> string \<Rightarrow> row list mprog" where
  "query_records e target_date =
     bindP (required ''GLUE_DATABASE_NAME'' (me_glue_database e)) (\<lambda>database_name.
     bindP (required ''DDB_RAW_DATA_TABLE_NAME'' (me_raw_table e)) (\<lambda>table_name.
     bindP (required ''ATHENA_WORKGROUP_NAME'' (me_workgroup e)) (\<lambda>workgroup_name.
     bindP (lift_result (start_query (me_athena e)
              (build_deduplication_query database_name table_name target_date)
              database_name workgroup_name)) (\<lambda>execution_id.
       lift_result (get_athena_results (me_athena e) execution_id)))))"

definition write_day :: "metrics_env \<Rightarrow> string \<Rightarrow> string \<Rightarrow> row list \<Rightarrow> dict mprog" where
  "write_day e bucket_name target_date records =
     (let stats_by_tenant = aggregate_records records target_date
      in bindP (write_aggregated_stats e stats_by_tenant target_date) (\<lambda>s3_key.
           ret [(''statusCode'', PNum 200), (''date'', PStr target_date),
                (''recordsProcessed'',
                 PNum (total_records (the (map_of stats_by_tenant ''__global__'')))),
                (''outputLocation'', stats_location bucket_name s3_key)]))"

definition no_records_result :: "string \<Rightarrow> dict" where
  "no_records_result target_date =
     [(''statusCode'', PNum 200), (''date'', PStr target_date), (''recordsProcessed'', PNum 0),
      (''message'', PStr ''No records found, skipping aggregation'')]"

definition monthly_results :: "metrics_env \<Rightarrow> string \<Rightarrow> string \<Rightarrow> ymd \<Rightarrow> dict list mprog" where
  "monthly_results e bucket_name yyyymm date =
     bindP (aggregate_monthly e bucket_name yyyymm) (\<lambda>monthly_result.
       case date of (y, m, d) \<Rightarrow>
         if d = 1 then
           bindP (lift_result (previous_month y m)) (\<lambda>yyyymm_previous.
           bindP (aggregate_monthly e bucket_name yyyymm_previous) (\<lambda>prev_result.
             ret (case_option [] (\<lambda>r. [r]) monthly_result @ case_option [] (\<lambda>r. [r]) prev_result)))
         else ret (case_option [] (\<lambda>r. [r]) monthly_result))"

definition with_months ::
  "metrics_env \<Rightarrow> string \<Rightarrow> string \<Rightarrow> ymd \<Rightarrow> dict \<Rightarrow> dict mprog" where
  "with_months e bucket_name target_date date daily_result =
     bindP (monthly_results e bucket_name (take 7 target_date) date) (\<lambda>months.
       ret (daily_result @ [(''monthlyAggregations'', PList (map PDict months))]))"

definition aggregate_metrics :: "metrics_env \<Rightarrow> string \<Rightarrow> bool \<Rightarrow> dict mprog" where
  "aggregate_metrics e target_date overwrite =
     bindP (lift_result (validate_yyyymmdd_format target_date)) (\<lambda>date.
     bindP (required ''DDB_EXPORT_BUCKET_NAME'' (me_export_bucket e)) (\<lambda>bucket_name.
     bindP (if overwrite then ret False else check_if_previously_aggregated e target_date)
       (\<lambda>aggregated.
     if aggregated then
       bindP (existing_result e bucket_name target_date) (with_months e bucket_name target_date date)
     else
       bindP (query_records e target_date) (\<lambda>records.
         if records = [] then ret (no_records_result target_date)
         else bindP (write_day e bucket_name target_date records)
                (with_months e bucket_name target_date date)))))"

section \<open>utils/metrics.py\<close>

definition map_response_codes :: "stats \<Rightarrow> stats" where
  "map_response_codes s =
     (case map_of (st_tallies s) ''by_response_code'' of None \<Rightarrow> s
      | Some codes \<Rightarrow>
          s\<lparr>st_tallies := AList.update ''by_response_code''
             (fold (\<lambda>(code, count). AList.update
                      (if get_message code \<noteq> [] then code @ '' - '' @ get_message code else code) count)
                codes []) (st_tallies s)\<rparr>)"

text \<open>A period without stats is skipped; any other failure is raised.\<close>

definition read_period :: "metrics_env \<Rightarrow> string \<Rightarrow> stats list mprog" where
  "read_period e key =
     catchP (bindP (get_stats e key) (\<lambda>s. ret [map_response_codes s]))
       (\<lambda>x. if x = ClientErr ''NoSuchKey'' then ret [] else raise x)"

definition read_daily_key :: "string option \<Rightarrow> ymd \<Rightarrow> string" where
  "read_daily_key tenant_id date =
     (if truthy_str tenant_id then daily_tenant_key (ymd_str date) (opt_default [] tenant_id)
      else daily_key (ymd_str date))"

definition read_monthly_key :: "string option \<Rightarrow> string \<Rightarrow> string" where
  "read_monthly_key tenant_id yyyymm =
     (if truthy_str tenant_id then monthly_tenant_key yyyymm (opt_default [] tenant_id)
      else monthly_key yyyymm)"

text \<open>A month number for the measure of the loops over dates.\<close>

fun date_index :: "ymd \<Rightarrow> int" where
  "date_index (y, m, d) = (12 * y + min m 12) * 32 + min d 31"

fun index_bound :: "ymd \<Rightarrow> int" where
  "index_bound (y, m, d) = (12 * y + 12) * 32 + 31"

lemma date_index_bound: "date_le a b \<Longrightarrow> date_index a \<le> index_bound b"
  by (cases a, cases b) auto

lemma next_day_index: "next_day a = Inr b \<Longrightarrow> date_index a < date_index b"
  by (cases a) (auto simp: days_in_month_def split: if_splits)

lemma next_month_index: "next_month a = Inr b \<Longrightarrow> date_index a < date_index b"
  by (cases a) (auto split: if_splits)

function daily_loop :: "metrics_env \<Rightarrow> string option \<Rightarrow> ymd \<Rightarrow> ymd \<Rightarrow> stats list mprog" where
  "daily_loop e tenant_id current end_dt =
     (if date_le current end_dt then
        bindP (read_period e (read_daily_key tenant_id current)) (\<lambda>s.
          (case next_day current of Inl x \<Rightarrow> raise x
           | Inr following \<Rightarrow> bindP (daily_loop e tenant_id following end_dt) (\<lambda>rest. ret (s @ rest))))
      else ret [])"
  by pat_completeness auto


termination
proof (relation "measure (\<lambda>(e, t, a, b). nat (index_bound b + 1 - date_index a))", goal_cases)
  case 1
  show ?case by simp
next
  case (2 e tenant_id current end_dt)
  then show ?case by (auto dest: date_index_bound next_day_index)
qed

declare daily_loop.simps [simp del]

record metrics_response =
  mr_start_date :: string
  mr_end_date :: string
  mr_granularity :: string
  mr_periods :: "stats list"
  mr_summary :: stats

text \<open>The dates are those of a request that was checked; \<open>strptime\<close> of another text raises.\<close>

definition strptime :: "string \<Rightarrow> ymd mprog" where
  "strptime s =
     (case strptime_ymd s of None \<Rightarrow> raise (ValueErr ''time data does not match format'')
      | Some date \<Rightarrow> ret date)"

definition get_daily_metrics ::
  "metrics_env \<Rightarrow> string \<Rightarrow> string \<Rightarrow> string option \<Rightarrow> metrics_response mprog" where
  "get_daily_metrics e start_date end_date tenant_id =
     bindP (strptime start_date) (\<lambda>start_dt.
     bindP (strptime end_date) (\<lambda>end_dt.
     bindP (daily_loop e tenant_id start_dt end_dt) (\<lambda>daily_stats.
       ret \<lparr>mr_start_date = start_date, mr_end_date = end_date,
            mr_granularity = granularity_value DAILY, mr_periods = daily_stats,
            mr_summary = build_summary daily_stats\<rparr>)))"

text \<open>The months from a date on up to another, in the loop of the code.\<close>

function months_from :: "ymd \<Rightarrow> ymd \<Rightarrow> exn + string list" where
  "months_from current end_dt =
     (if date_le current end_dt then
        (case next_month current of Inl x \<Rightarrow> Inl x
         | Inr following \<Rightarrow>
             (case months_from following end_dt of Inl x \<Rightarrow> Inl x
              | Inr rest \<Rightarrow> Inr (month_str (fst current) (fst (snd current)) # rest)))
      else Inr [])"
  by pat_completeness auto

termination
proof (relation "measure (\<lambda>(a, b). nat (index_bound b + 1 - date_index a))", goal_cases)
  case 1
  show ?case by simp
next
  case (2 current end_dt)
  then show ?case by (auto dest: date_index_bound next_month_index)
qed

declare months_from.simps [simp del]

fun monthly_loop :: "metrics_env \<Rightarrow> string option \<Rightarrow> string list \<Rightarrow> stats list mprog" where
  "monthly_loop e tenant_id [] = ret []"
| "monthly_loop e tenant_id (yyyymm # months) =
     bindP (read_period e (read_monthly_key tenant_id yyyymm)) (\<lambda>s.
     bindP (monthly_loop e tenant_id months) (\<lambda>rest. ret (s @ rest)))"

definition get_monthly_metrics ::
  "metrics_env \<Rightarrow> string \<Rightarrow> string \<Rightarrow> string option \<Rightarrow> metrics_response mprog" where
  "get_monthly_metrics e start_date end_date tenant_id =
     bindP (strptime start_date) (\<lambda>start_dt.
     bindP (strptime end_date) (\<lambda>end_dt.
     bindP (lift_result (months_from start_dt end_dt)) (\<lambda>months.
     bindP (monthly_loop e tenant_id (sort (remdups months))) (\<lambda>monthly_stats.
       ret \<lparr>mr_start_date = start_date, mr_end_date = end_date,
            mr_granularity = granularity_value MONTHLY, mr_periods = monthly_stats,
            mr_summary = build_summary monthly_stats\<rparr>))))"

definition get_aggregated_metrics ::
  "metrics_env \<Rightarrow> string \<Rightarrow> string \<Rightarrow> granularity \<Rightarrow> string option \<Rightarrow> metrics_response mprog" where
  "get_aggregated_metrics e start_date end_date gran tenant_id =
     (if gran = MONTHLY then get_monthly_metrics e start_date end_date tenant_id
      else get_daily_metrics e start_date end_date tenant_id)"

section \<open>routers/metrics.py\<close>

definition max_daily_span :: int where
  "max_daily_span = 366"

definition max_monthly_span :: int where
  "max_monthly_span = 60"

definition check_span :: "ymd \<Rightarrow> ymd \<Rightarrow> granularity \<Rightarrow> exn + unit" where
  "check_span start_dt end_dt gran =
     (let days = toordinal end_dt - toordinal start_dt;
          months = (fst end_dt - fst start_dt) * 12 + (fst (snd end_dt) - fst (snd start_dt)) + 1
      in if gran = DAILY \<and> days > max_daily_span
         then Inl (ValueErr ''Daily range cannot exceed 366 days'')
         else if gran = MONTHLY \<and> months > max_monthly_span
         then Inl (ValueErr ''Monthly range cannot exceed 60 months'')
         else Inr ())"

definition metrics_request ::
  "metrics_env \<Rightarrow> user_context \<Rightarrow> string \<Rightarrow> string option \<Rightarrow> granularity \<Rightarrow> string option \<Rightarrow>
   metrics_response mprog" where
  "metrics_request e c start_date0 end_date0 gran tenant_id =
     bindP (lift_result (validate_date_range start_date0 end_date0)) (\<lambda>range.
       case range of (start_date, end_date) \<Rightarrow>
         bindP (strptime start_date) (\<lambda>start_dt.
         bindP (strptime end_date) (\<lambda>end_dt.
         bindP (lift_result (check_span start_dt end_dt gran)) (\<lambda>_.
         if \<not> truthy_str (me_export_bucket e)
         then raise (HTTPExc 500 ''Metrics bucket not configured'')
         else bindP (lift_result (resolve_tenant_from_context c tenant_id)) (\<lambda>resolved_tenant.
                get_aggregated_metrics e start_date end_date gran resolved_tenant)))))"

definition metrics_error :: "exn \<Rightarrow> exn" where
  "metrics_error x =
     (case x of ValueErr s \<Rightarrow> HTTPExc 400 s
      | HTTPExc n s \<Rightarrow> x
      | _ \<Rightarrow> HTTPExc 500 ''Failed to retrieve metrics'')"

definition get_metrics ::
  "metrics_env \<Rightarrow> user_context \<Rightarrow> string \<Rightarrow> string option \<Rightarrow> granularity \<Rightarrow> string option \<Rightarrow>
   metrics_response mprog" where
  "get_metrics e c start_date end_date gran tenant_id =
     catchP (metrics_request e c start_date end_date gran tenant_id)
       (\<lambda>x. raise (metrics_error x))"

end
