(* ===== verification/Metric_Laws.thy ===== *)
theory Metric_Laws
  imports Metrics
begin

text \<open>
  The laws of the metrics.  Every number of the stats is a sum over the records (locale
  \<open>accumulator\<close>), so the global stats are the sum of those of the tenants, the stats of a tenant are
  those of its own records, and the summary of several days is what counting all their records
  gives.
\<close>

section \<open>Dictionaries of numbers\<close>

lemma num_get_Nil [simp]: "num_get [] k = 0"
  by (simp add: num_get_def)

lemma num_get_Cons: "num_get ((a, n) # d) k = (if k = a then n else num_get d k)"
  by (simp add: num_get_def)

lemma num_get_zeros [simp]: "num_get (zeros ks) k = 0"
  by (induction ks) (auto simp: zeros_def num_get_Cons)

lemma num_get_update [simp]: "num_get (AList.update k n d) k' = (if k' = k then n else num_get d k')"
  by (simp add: num_get_def update_conv')

lemma num_get_add [simp]: "num_get (num_add k n d) k' = num_get d k' + (if k' = k then n else 0)"
  by (simp add: num_add_def)

lemma distinct_num_add [simp]: "distinct (map fst d) \<Longrightarrow> distinct (map fst (num_add k n d))"
  by (simp add: num_add_def distinct_update)

lemma num_get_add_all:
  "distinct (map fst d) \<Longrightarrow> num_get (add_all d acc) k = num_get acc k + num_get d k"
  unfolding add_all_def
proof (induction d arbitrary: acc)
  case Nil
  then show ?case by simp
next
  case (Cons p d)
  obtain a n where p: "p = (a, n)" by (cases p)
  have "a \<notin> fst ` set d" using Cons.prems p by simp
  then have "num_get d a = 0" by (simp add: num_get_def map_of_eq_None_iff [THEN iffD2])
  with Cons p show ?case by (simp add: num_get_Cons)
qed

lemma num_get_add_keys:
  "distinct ks \<Longrightarrow>
   num_get (add_keys ks d acc) k = num_get acc k + (if k \<in> set ks then num_get d k else 0)"
  unfolding add_keys_def by (induction ks arbitrary: acc) auto

section \<open>One number of the stats\<close>

fun read_metric :: "metric \<Rightarrow> stats \<Rightarrow> rat" where
  "read_metric (Total k) s = num_get (st_totals s) k"
| "read_metric (Tally by k) s = num_get (tally s by) k"
| "read_metric (Timing k) s = timing s k"
| "read_metric (Usage k) s = num_get (opt_default [] (st_usage s)) k"

text \<open>The averages are recomputed and the sums of times are rounded; the rest are counts.\<close>

definition is_average :: "metric \<Rightarrow> bool" where
  "is_average m = (\<exists>p \<in> set timing_prefixes. m = Timing (p @ ''_avg''))"

definition is_time_sum :: "metric \<Rightarrow> bool" where
  "is_time_sum m = (\<exists>p \<in> set timing_prefixes. m = Timing (p @ ''_sum''))"

lemma tally_update [simp]:
  "tally (s\<lparr>st_tallies := AList.update by t (st_tallies s)\<rparr>) by' = (if by' = by then t else tally s by')"
  by (simp add: tally_def update_conv')

lemma tally_other [simp]:
  "tally (s\<lparr>st_totals := a\<rparr>) by = tally s by" "tally (s\<lparr>st_timing := b\<rparr>) by = tally s by"
  "tally (s\<lparr>st_usage := c\<rparr>) by = tally s by" "tally (s\<lparr>st_month := d\<rparr>) by = tally s by"
  by (simp_all add: tally_def)

lemma timing_other [simp]:
  "timing (s\<lparr>st_totals := a\<rparr>) k = timing s k" "timing (s\<lparr>st_tallies := b\<rparr>) k = timing s k"
  "timing (s\<lparr>st_usage := c\<rparr>) k = timing s k" "timing (s\<lparr>st_month := d\<rparr>) k = timing s k"
  by (simp_all add: timing_def)

lemma read_bump: "read_metric m (bump m' n s) = read_metric m s + (if m = m' then n else 0)"
  by (cases m; cases m') (auto simp: timing_def)

lemma read_initialize [simp]: "read_metric m (initialize_stats d) = 0"
  by (cases m) (auto simp: initialize_stats_def tally_def timing_def map_of_map
      split: option.splits dest!: map_of_SomeD)

lemma timing_set_timing: "timing (set_timing k x s) k' = (if k' = k then x else timing s k')"
  by (simp add: set_timing_def timing_def)

lemma read_set_timing:
  "read_metric m (set_timing k x s) = (if m = Timing k then x else read_metric m s)"
  by (cases m) (auto simp: timing_set_timing, auto simp: set_timing_def tally_def)

section \<open>Accumulation\<close>

text \<open>
  A reading accumulates over a step when each record adds an amount of its own, whatever was there.
\<close>

locale accumulator =
  fixes step :: "'r \<Rightarrow> 's \<Rightarrow> 's" and reading :: "'s \<Rightarrow> rat" and gain :: "'r \<Rightarrow> rat"
  assumes reading_step: "reading (step r s) = reading s + gain r"
begin

lemma reading_fold: "reading (fold step rs s) = reading s + sum_list (map gain rs)"
  by (induction rs arbitrary: s) (simp_all add: reading_step)

lemma reading_concat:
  assumes "reading s0 = 0"
  shows "reading (fold step (concat rss) s0) = sum_list (map (\<lambda>rs. reading (fold step rs s0)) rss)"
  using assms by (induction rss) (simp_all add: reading_fold map_concat)

end

text \<open>
  A record of its own decides which numbers it adds to and how much, so what it does to the stats is
  a sequence of additions.
\<close>

definition bumps :: "(metric \<times> rat) list \<Rightarrow> stats \<Rightarrow> stats" where
  "bumps l s = fold (\<lambda>(m, n). bump m n) l s"

lemma read_bumps:
  "read_metric m (bumps l s) = read_metric m s + sum_list (map (\<lambda>(m', n). if m = m' then n else 0) l)"
  unfolding bumps_def by (induction l arbitrary: s) (auto simp: read_bump)

definition shifting :: "(stats \<Rightarrow> stats) \<Rightarrow> bool" where
  "shifting f = (\<exists>l. \<forall>s. f s = bumps l s)"

lemma shifting_id: "shifting (\<lambda>s. s)"
  unfolding shifting_def by (rule exI [of _ "[]"]) (simp add: bumps_def)

lemma shifting_comp:
  assumes "shifting g" and "shifting f"
  shows "shifting (\<lambda>s. g (f s))"
proof -
  obtain k l where "\<forall>s. g s = bumps k s" "\<forall>s. f s = bumps l s"
    using assms by (auto simp: shifting_def)
  then have "\<forall>s. g (f s) = bumps (l @ k) s" by (simp add: bumps_def)
  then show ?thesis unfolding shifting_def by (rule exI)
qed

lemma shifting_bump1: "shifting (bump m n)"
  unfolding shifting_def by (rule exI [of _ "[(m, n)]"]) (simp add: bumps_def)

lemma shifting_bump: "shifting f \<Longrightarrow> shifting (\<lambda>s. bump m n (f s))"
  by (rule shifting_comp [OF shifting_bump1])

lemma shifting_if: "shifting f \<Longrightarrow> shifting g \<Longrightarrow> shifting (\<lambda>s. if b then f s else g s)"
  by (cases b) simp_all

lemma shifting_option:
  "shifting f \<Longrightarrow> (\<And>x. shifting (g x)) \<Longrightarrow>
   shifting (\<lambda>s. case v of None \<Rightarrow> f s | Some x \<Rightarrow> g x s)"
  by (cases v) simp_all

lemma shifting_tallies: "shifting (add_tallies r)"
  unfolding add_tallies_def Let_def by (intro shifting_bump shifting_id)

lemma shifting_invocations: "shifting (add_invocations r)"
  unfolding add_invocations_def Let_def by (intro shifting_if shifting_bump shifting_id)

lemma shifting_hour: "shifting (add_hour r)"
  unfolding add_hour_def by (intro shifting_option shifting_bump shifting_id)

lemma shifting_usage: "shifting (count_usage v k)"
  unfolding count_usage_def by (intro shifting_option shifting_bump shifting_id)

lemma shifting_timing: "shifting (add_timing v p)"
  unfolding add_timing_def by (intro shifting_option shifting_bump shifting_id)

lemma shifting_process: "shifting (process_metrics_record r)"
  unfolding process_metrics_record_def Let_def
  by (intro shifting_comp [OF shifting_timing] shifting_comp [OF shifting_usage]
      shifting_comp [OF shifting_hour] shifting_comp [OF shifting_invocations]
      shifting_comp [OF shifting_tallies] shifting_bump shifting_id)

text \<open>What one record contributes to a number.\<close>

definition gain :: "metric \<Rightarrow> row \<Rightarrow> rat" where
  "gain m r = read_metric m (process_metrics_record r (initialize_stats []))"

lemma read_process: "read_metric m (process_metrics_record r s) = read_metric m s + gain m r"
proof -
  obtain l where "\<forall>s. process_metrics_record r s = bumps l s"
    using shifting_process [of r] by (auto simp: shifting_def)
  then show ?thesis by (simp add: gain_def read_bumps)
qed

interpretation day: accumulator process_metrics_record "read_metric m" "gain m" for m
  by unfold_locales (rule read_process)

section \<open>Averages and rounding\<close>

lemma read_finalize_one:
  "m \<noteq> Timing (p @ ''_avg'') \<Longrightarrow> read_metric m (finalize_one p s) = read_metric m s"
  by (simp add: finalize_one_def Let_def read_set_timing)

lemma read_finalize: "\<not> is_average m \<Longrightarrow> read_metric m (finalize_timing s) = read_metric m s"
  unfolding finalize_timing_def
proof (induction timing_prefixes arbitrary: s rule: rev_induct)
  case Nil
  then show ?case by (simp add: timing_prefixes_def)
next
  case (snoc p ps)
  then show ?case
    by (simp add: timing_prefixes_def is_average_def read_finalize_one)
qed

lemma read_round_sum:
  "read_metric m (round_sum p s) =
     (if m = Timing (p @ ''_sum'') then py_round2 (read_metric m s) else read_metric m s)"
  by (simp add: round_sum_def read_set_timing)

lemma read_round_sums:
  "read_metric m (round_sums s) = (if is_time_sum m then py_round2 (read_metric m s) else read_metric m s)"
  by (simp add: round_sums_def timing_prefixes_def is_time_sum_def read_round_sum)

lemma py_round2_close: "\<bar>py_round2 x - x\<bar> \<le> 1/200"
  by (rule py_round2_error)

section \<open>Stats by tenant\<close>

definition value_sum :: "('s \<Rightarrow> rat) \<Rightarrow> ('k \<times> 's) list \<Rightarrow> rat" where
  "value_sum f d = sum_list (map (\<lambda>p. f (snd p)) d)"

lemma value_sum_update:
  "distinct (map fst d) \<Longrightarrow>
   value_sum f (AList.update k v d) =
     value_sum f d + f v - (case map_of d k of None \<Rightarrow> 0 | Some w \<Rightarrow> f w)"
proof (induction d)
  case Nil
  then show ?case by (simp add: value_sum_def)
next
  case (Cons p d)
  then show ?case
    by (cases p) (auto simp: value_sum_def split: option.splits)
qed

lemma add_record_sums:
  assumes "distinct (map fst bt)" and "read_metric m g = value_sum (read_metric m) bt"
  shows "distinct (map fst (add_to_tenant d r bt))"
    and "read_metric m (process_metrics_record r g) = value_sum (read_metric m) (add_to_tenant d r bt)"
proof -
  show "distinct (map fst (add_to_tenant d r bt))"
    using assms(1) by (simp add: add_to_tenant_def distinct_update)
  show "read_metric m (process_metrics_record r g) = value_sum (read_metric m) (add_to_tenant d r bt)"
    using assms by (auto simp: add_to_tenant_def value_sum_update read_process split: option.splits)
qed

lemma add_record_pair:
  "add_record d r (g, bt) = (process_metrics_record r g, add_to_tenant d r bt)"
  by (simp add: add_record_def)

lemma fold_add_record_sums:
  assumes "distinct (map fst bt)" and "read_metric m g = value_sum (read_metric m) bt"
    and "fold (add_record d) rs (g, bt) = (g', bt')"
  shows "distinct (map fst bt') \<and> read_metric m g' = value_sum (read_metric m) bt'"
  using assms
proof (induction rs arbitrary: g bt)
  case Nil
  then show ?case by simp
next
  case (Cons r rs)
  from Cons.prems(3) have "fold (add_record d) rs (process_metrics_record r g, add_to_tenant d r bt) = (g', bt')"
    by (simp add: add_record_pair)
  with add_record_sums [OF Cons.prems(1,2)] show ?case by (rule Cons.IH)
qed

lemma fold_add_record_distinct:
  "distinct (map fst bt) \<Longrightarrow> distinct (map fst (snd (fold (add_record d) rs (g, bt))))"
proof (induction rs arbitrary: g bt)
  case Nil
  then show ?case by simp
next
  case (Cons r rs)
  have "distinct (map fst (add_to_tenant d r bt))"
    using Cons.prems by (simp add: add_to_tenant_def distinct_update)
  then have "distinct (map fst (snd (fold (add_record d) rs (add_record d r (g, bt)))))"
    unfolding add_record_pair by (rule Cons.IH)
  then show ?case by (simp only: fold_simps)
qed

lemma aggregate_distinct: "distinct (map fst (aggregate_records rs d))"
proof -
  obtain g bt where f: "fold (add_record d) rs (initialize_stats d, []) = (g, bt)"
    by (cases "fold (add_record d) rs (initialize_stats d, [])")
  then have "distinct (map fst bt)"
    using fold_add_record_distinct [of "[]" d rs "initialize_stats d"] by simp
  moreover have "map fst (map (\<lambda>(t, s). (t, finalize_timing s)) bt) = map fst bt" by auto
  ultimately show ?thesis
    using f by (simp add: aggregate_records_def distinct_update del: map_map)
qed

text \<open>Each tenant has the stats of its own records, in their order.\<close>

definition tenant_rows :: "string \<Rightarrow> row list \<Rightarrow> row list" where
  "tenant_rows t rs = filter (\<lambda>r. record_tenant r = t) rs"

definition stats_of :: "string \<Rightarrow> row list \<Rightarrow> stats" where
  "stats_of d rs = fold process_metrics_record rs (initialize_stats d)"

lemma fold_add_record_global:
  "fst (fold (add_record d) rs a) = fold process_metrics_record rs (fst a)"
  by (induction rs arbitrary: a) (simp_all add: add_record_def)

lemma fold_add_record_tenant:
  "map_of (snd (fold (add_record d) rs (g, bt))) t =
     (if tenant_rows t rs = [] then map_of bt t
      else Some (fold process_metrics_record (tenant_rows t rs)
                  (opt_default (initialize_stats d) (map_of bt t))))"
proof (induction rs arbitrary: g bt)
  case Nil
  then show ?case by (simp add: tenant_rows_def)
next
  case (Cons r rs)
  have "map_of (snd (fold (add_record d) (r # rs) (g, bt))) t =
      (if tenant_rows t rs = [] then map_of (add_to_tenant d r bt) t
       else Some (fold process_metrics_record (tenant_rows t rs)
                   (opt_default (initialize_stats d) (map_of (add_to_tenant d r bt) t))))"
    by (simp add: add_record_pair Cons.IH)
  then show ?case by (simp add: add_to_tenant_def update_conv' tenant_rows_def)
qed

lemma aggregate_tenant:
  assumes "t \<noteq> ''__global__''"
  shows "map_of (aggregate_records rs d) t =
     (if tenant_rows t rs = [] then None
      else Some (finalize_timing (stats_of d (tenant_rows t rs))))"
proof -
  obtain g bt where f: "fold (add_record d) rs (initialize_stats d, []) = (g, bt)"
    by (cases "fold (add_record d) rs (initialize_stats d, [])")
  have "map_of bt t = (if tenant_rows t rs = [] then None else Some (stats_of d (tenant_rows t rs)))"
    using fold_add_record_tenant [of d rs "initialize_stats d" "[]" t] f by (simp add: stats_of_def)
  moreover have "map_of (map (\<lambda>(t, s). (t, finalize_timing s)) bt) t = map_option finalize_timing (map_of bt t)"
    by (simp add: map_of_map)
  ultimately show ?thesis
    using assms f by (simp add: aggregate_records_def update_conv')
qed

lemma aggregate_global:
  "map_of (aggregate_records rs d) ''__global__'' = Some (finalize_timing (stats_of d rs))"
proof -
  obtain g bt where f: "fold (add_record d) rs (initialize_stats d, []) = (g, bt)"
    by (cases "fold (add_record d) rs (initialize_stats d, [])")
  then have "g = stats_of d rs"
    using fold_add_record_global [of d rs "(initialize_stats d, [])"] by (simp add: stats_of_def)
  then show ?thesis using f by (simp add: aggregate_records_def update_conv')
qed

lemma update_new: "k \<notin> fst ` set d \<Longrightarrow> AList.update k v d = d @ [(k, v)]"
  by (induction d) auto

definition tenant_entries :: "by_tenant \<Rightarrow> by_tenant" where
  "tenant_entries a = filter (\<lambda>(t, s). t \<noteq> ''__global__'') a"

lemma aggregate_shape:
  assumes "''__global__'' \<notin> record_tenant ` set rs"
  obtains bt where "aggregate_records rs d =
      map (\<lambda>(t, s). (t, finalize_timing s)) bt @ [(''__global__'', finalize_timing (stats_of d rs))]"
    and "fold (add_record d) rs (initialize_stats d, []) = (stats_of d rs, bt)"
    and "''__global__'' \<notin> fst ` set bt"
proof -
  obtain g bt where f: "fold (add_record d) rs (initialize_stats d, []) = (g, bt)"
    by (cases "fold (add_record d) rs (initialize_stats d, [])")
  have g: "g = stats_of d rs"
    using fold_add_record_global [of d rs "(initialize_stats d, [])"] f by (simp add: stats_of_def)
  have "tenant_rows ''__global__'' rs = []"
    using assms by (force simp: tenant_rows_def filter_empty_conv)
  then have "map_of bt ''__global__'' = None"
    using fold_add_record_tenant [of d rs "initialize_stats d" "[]" "''__global__''"] f by simp
  then have n: "''__global__'' \<notin> fst ` set bt" by (simp add: map_of_eq_None_iff)
  then have "''__global__'' \<notin> fst ` set (map (\<lambda>(t, s). (t, finalize_timing s)) bt)"
    by (auto simp: image_iff split: prod.splits)
  then have "aggregate_records rs d =
      map (\<lambda>(t, s). (t, finalize_timing s)) bt @ [(''__global__'', finalize_timing (stats_of d rs))]"
    using f g by (simp add: aggregate_records_def update_new del: set_map)
  with f g n show thesis by (intro that) auto
qed


section \<open>Summaries\<close>

text \<open>The tallies are dictionaries: no key is there twice.\<close>

definition tallies_distinct :: "stats \<Rightarrow> bool" where
  "tallies_distinct s = (\<forall>by. distinct (map fst (tally s by)))"

lemma tallies_distinct_bump: "tallies_distinct s \<Longrightarrow> tallies_distinct (bump m n s)"
  by (cases m) (auto simp: tallies_distinct_def)

lemma tallies_distinct_process: "tallies_distinct s \<Longrightarrow> tallies_distinct (process_metrics_record r s)"
proof -
  have "tallies_distinct s \<Longrightarrow> tallies_distinct (bumps l s)" for l
    unfolding bumps_def by (induction l arbitrary: s) (auto simp: tallies_distinct_bump)
  moreover obtain l where "\<forall>s. process_metrics_record r s = bumps l s"
    using shifting_process [of r] by (auto simp: shifting_def)
  ultimately show "tallies_distinct s \<Longrightarrow> tallies_distinct (process_metrics_record r s)" by simp
qed

lemma tallies_distinct_initialize: "tallies_distinct (initialize_stats d)"
  by (auto simp: tallies_distinct_def tally_def initialize_stats_def map_of_map
      split: option.splits dest!: map_of_SomeD)

lemma tallies_distinct_stats_of: "tallies_distinct (stats_of d rs)"
proof -
  have "tallies_distinct s \<Longrightarrow> tallies_distinct (fold process_metrics_record rs s)" for s
    by (induction rs arbitrary: s) (auto simp: tallies_distinct_process)
  then show ?thesis by (simp add: stats_of_def tallies_distinct_initialize)
qed

lemma tally_set_timing [simp]: "tally (set_timing k x s) by = tally s by"
  by (simp add: set_timing_def)

lemma tally_finalize [simp]: "tally (finalize_timing s) by = tally s by"
  by (simp add: finalize_timing_def timing_prefixes_def finalize_one_def Let_def)

lemma tally_round_sums [simp]: "tally (round_sums s) by = tally s by"
  by (simp add: round_sums_def timing_prefixes_def round_sum_def)

lemma tallies_distinct_written: "tallies_distinct (round_sums (finalize_timing (stats_of d rs)))"
  using tallies_distinct_stats_of [of d rs] by (simp add: tallies_distinct_def)

text \<open>The numbers that a summary sums: all but the averages.\<close>

fun summed :: "metric \<Rightarrow> bool" where
  "summed (Total k) = (k \<in> set total_keys)"
| "summed (Tally by k) = (by \<in> set tally_keys)"
| "summed (Timing k) = (k \<in> set sum_count_keys)"
| "summed (Usage k) = (k \<in> set usage_keys)"

lemma summed_not_average: "summed m \<Longrightarrow> \<not> is_average m"
  by (cases m) (auto simp: is_average_def sum_count_keys_def timing_prefixes_def)

lemma distinct_keys: "distinct total_keys" "distinct usage_keys" "distinct sum_count_keys"
  "distinct tally_keys"
  by (simp_all add: total_keys_def usage_keys_def sum_count_keys_def timing_prefixes_def
      tally_keys_def)

lemma fold_add_tally:
  assumes "tallies_distinct s" and "distinct bys"
  shows "num_get (tally (fold (add_tally s) bys acc) by) k =
     num_get (tally acc by) k + (if by \<in> set bys then num_get (tally s by) k else 0)"
  using assms(2)
proof (induction bys arbitrary: acc)
  case Nil
  then show ?case by simp
next
  case (Cons b bys)
  have "distinct (map fst (tally s b))" using assms(1) by (simp add: tallies_distinct_def)
  with Cons show ?case by (auto simp: add_tally_def num_get_add_all)
qed

lemma fold_add_tally_other:
  "st_totals (fold (add_tally s) bys acc) = st_totals acc"
  "st_timing (fold (add_tally s) bys acc) = st_timing acc"
  "st_usage (fold (add_tally s) bys acc) = st_usage acc"
  by (induction bys arbitrary: acc) (simp_all add: add_tally_def)

fun is_usage :: "metric \<Rightarrow> bool" where
  "is_usage (Usage k) = True"
| "is_usage _ = False"

lemma read_add_period:
  assumes "tallies_distinct s" and "summed m"
  shows "read_metric m (add_period s acc) = read_metric m acc + (if is_usage m then 0 else read_metric m s)"
proof (cases m)
  case (Total k)
  then show ?thesis using assms(2)
    by (simp add: add_period_def Let_def fold_add_tally_other num_get_add_keys distinct_keys
        split: option.split)
next
  case (Tally b k)
  then show ?thesis using assms
    by (simp add: add_period_def Let_def fold_add_tally distinct_keys split: option.split)
next
  case (Timing k)
  then show ?thesis using assms(2)
    by (simp add: add_period_def Let_def fold_add_tally_other timing_def num_get_add_keys distinct_keys
        split: option.split)
next
  case (Usage k)
  then show ?thesis
    by (simp add: add_period_def Let_def fold_add_tally_other split: option.split)
qed

lemma read_merge_usage:
  "summed m \<Longrightarrow>
   read_metric m (merge_usage s acc) = read_metric m acc + (if is_usage m then read_metric m s else 0)"
  by (cases m) (auto simp: merge_usage_def num_get_add_keys distinct_keys timing_def split: option.split)

lemma read_average:
  "\<not> is_average m \<Longrightarrow> read_metric m (fold average_one timing_prefixes s) = read_metric m s"
  by (simp add: timing_prefixes_def average_one_def Let_def read_set_timing is_average_def)

lemma read_empty_summary [simp]: "read_metric m empty_summary = 0"
  by (cases m) (auto simp: empty_summary_def tally_def timing_def map_of_map
      split: option.splits dest!: map_of_SomeD)

theorem read_build_summary:
  assumes "\<forall>s \<in> set ss. tallies_distinct s" and "summed m"
  shows "read_metric m (build_summary ss) = sum_list (map (read_metric m) ss)"
proof -
  have *: "read_metric m (fold add_period ss acc) =
      read_metric m acc + (if is_usage m then 0 else sum_list (map (read_metric m) ss))" for acc
    using assms by (induction ss arbitrary: acc) (auto simp: read_add_period)
  have **: "read_metric m (fold merge_usage ss acc) =
      read_metric m acc + (if is_usage m then sum_list (map (read_metric m) ss) else 0)" for acc
    using assms(2) by (induction ss arbitrary: acc) (auto simp: read_merge_usage)
  show ?thesis
    using summed_not_average [OF assms(2)]
    by (simp add: build_summary_def Let_def * ** read_average)
qed


section \<open>The days and their records\<close>

text \<open>The records that the stats of a scope, a tenant or all of them, count.\<close>

definition scope_rows :: "string \<Rightarrow> row list \<Rightarrow> row list" where
  "scope_rows t rs = (if t = ''__global__'' then rs else tenant_rows t rs)"

lemma aggregate_scope:
  "map_of (aggregate_records rs d) t =
     (if t \<noteq> ''__global__'' \<and> tenant_rows t rs = [] then None
      else Some (finalize_timing (stats_of d (scope_rows t rs))))"
  by (simp add: aggregate_tenant aggregate_global scope_rows_def)

definition scope_metric :: "metric \<Rightarrow> string \<Rightarrow> by_tenant \<Rightarrow> rat" where
  "scope_metric m t a = (case map_of a t of None \<Rightarrow> 0 | Some s \<Rightarrow> read_metric m s)"

text \<open>What the job stores for a scope and a day: rounded sums, and nothing for a tenant without records.\<close>

definition day_docs :: "string \<Rightarrow> string \<times> row list \<Rightarrow> stats list" where
  "day_docs t day =
     (case map_of (aggregate_records (snd day) (fst day)) t of None \<Rightarrow> [] | Some s \<Rightarrow> [round_sums s])"

lemma read_stats_of: "read_metric m (stats_of d rs) = sum_list (map (gain m) rs)"
  by (simp add: stats_of_def day.reading_fold)

lemma scope_rows_concat: "scope_rows t (concat rss) = concat (map (scope_rows t) rss)"
  by (induction rss) (auto simp: scope_rows_def tenant_rows_def)

lemma scope_metric_gain:
  "\<not> is_average m \<Longrightarrow>
   scope_metric m t (aggregate_records rs d) = sum_list (map (gain m) (scope_rows t rs))"
  by (auto simp: scope_metric_def aggregate_scope read_finalize read_stats_of scope_rows_def)

lemma day_docs_distinct: "s \<in> set (day_docs t day) \<Longrightarrow> tallies_distinct s"
  by (auto simp: day_docs_def aggregate_scope tallies_distinct_written split: if_splits)

lemma day_docs_metric:
  assumes "\<not> is_average m"
  shows "\<bar>sum_list (map (read_metric m) (day_docs t day)) - sum_list (map (gain m) (scope_rows t (snd day)))\<bar>
     \<le> (if is_time_sum m then 1/200 else 0)"
  using assms py_round2_error [of "sum_list (map (gain m) (scope_rows t (snd day)))"]
  by (auto simp: day_docs_def aggregate_scope read_round_sums read_finalize read_stats_of scope_rows_def)

lemma sum_list_close:
  fixes f g :: "'a \<Rightarrow> rat"
  assumes "\<And>x. \<bar>f x - g x\<bar> \<le> c"
  shows "\<bar>sum_list (map f xs) - sum_list (map g xs)\<bar> \<le> of_nat (length xs) * c"
proof (induction xs)
  case Nil
  then show ?case by simp
next
  case (Cons x xs)
  have "\<bar>(f x + sum_list (map f xs)) - (g x + sum_list (map g xs))\<bar>
      \<le> \<bar>f x - g x\<bar> + \<bar>sum_list (map f xs) - sum_list (map g xs)\<bar>" by linarith
  also have "\<dots> \<le> c + of_nat (length xs) * c" using assms [of x] Cons.IH by linarith
  finally show ?case by (simp add: algebra_simps)
qed


text \<open>C17: a summary equals one count of everything: reading the stored stats of several days of a
  tenant, or of all, and summing them with \<open>build_summary\<close> gives the same totals, tallies and usage
  as aggregating all the records of these days at once, and sums of times that differ by the rounding
  of the days only, at most half a hundredth each.\<close>
theorem summary_equals_one_count:
  assumes "summed m"
  shows "\<bar>read_metric m (build_summary (concat (map (day_docs t) days))) -
           scope_metric m t (aggregate_records (concat (map snd days)) d)\<bar>
       \<le> (if is_time_sum m then of_nat (length days) / 200 else 0)"
proof -
  have a: "\<not> is_average m" using assms by (rule summed_not_average)
  have "\<forall>s \<in> set (concat (map (day_docs t) days)). tallies_distinct s"
    by (auto intro: day_docs_distinct)
  then have l: "read_metric m (build_summary (concat (map (day_docs t) days))) =
      sum_list (map (\<lambda>day. sum_list (map (read_metric m) (day_docs t day))) days)"
    using assms by (simp add: read_build_summary) (induction days, simp_all)
  have r: "scope_metric m t (aggregate_records (concat (map snd days)) d) =
      sum_list (map (\<lambda>day. sum_list (map (gain m) (scope_rows t (snd day)))) days)"
    using a by (simp add: scope_metric_gain scope_rows_concat) (induction days, simp_all)
  have "\<bar>sum_list (map (\<lambda>day. sum_list (map (read_metric m) (day_docs t day))) days) -
      sum_list (map (\<lambda>day. sum_list (map (gain m) (scope_rows t (snd day)))) days)\<bar>
      \<le> of_nat (length days) * (if is_time_sum m then 1/200 else 0)"
    by (rule sum_list_close) (rule day_docs_metric [OF a])
  then show ?thesis by (simp add: l r split: if_splits)
qed


section \<open>The keys of the bucket\<close>

lemma tenant_key_not_global: "daily_tenant_key d t \<noteq> daily_key d"
  by (simp add: daily_tenant_key_def daily_key_def)

lemma daily_tenant_key_inj [simp]: "daily_tenant_key d t = daily_tenant_key d t' \<longleftrightarrow> t = t'"
  by (simp add: daily_tenant_key_def)

lemma scoped_daily_key_inj: "scoped_daily_key d t = scoped_daily_key d t' \<longleftrightarrow> t = t'"
  using tenant_key_not_global [of d t] tenant_key_not_global [of d t']
  by (auto simp: scoped_daily_key_def)

text \<open>The keys of the months are not those of the days.\<close>

definition monthly_object :: "string \<Rightarrow> bool" where
  "monthly_object k = starts_with monthly_prefix k"

lemma scoped_monthly_object: "monthly_object (scoped_monthly_key m t)"
  by (simp add: monthly_object_def scoped_monthly_key_def monthly_key_def monthly_tenant_key_def
      starts_with_append)

lemma daily_not_monthly: "\<not> monthly_object (daily_prefix @ s)"
  by (simp add: monthly_object_def starts_with_def monthly_prefix_def daily_prefix_def)

lemma daily_keys_not_monthly: "\<not> monthly_object (daily_key d)" "\<not> monthly_object (daily_tenant_key d t)"
  by (simp_all add: daily_key_def daily_tenant_key_def daily_not_monthly)

section \<open>What the job writes\<close>

definition keeps_days :: "bucket \<Rightarrow> bucket \<Rightarrow> bool" where
  "keeps_days b b' = (\<forall>k. \<not> monthly_object k \<longrightarrow> map_of b' k = map_of b k)"

interpretation days: state_order keeps_days
  by unfold_locales (auto simp: keeps_days_def)

lemma keeps_days_reads: "read_only m \<Longrightarrow> guarantees keeps_days m"
  by (rule read_only_guarantees) (auto simp: keeps_days_def)

lemma read_only_failing: "read_only m \<Longrightarrow> read_only (failing err key m)"
  by (simp add: failing_def read_only_def split: option.split)

lemma read_only_get: "read_only (get_stats e key)"
  unfolding get_stats_def
  by (rule read_only_failing) (simp add: read_only_def bindP_run split: option.split)

lemma read_only_head: "read_only (head_stats e key)"
  unfolding head_stats_def
  by (rule read_only_failing) (simp add: read_only_def bindP_run)

lemma read_only_list: "read_only (list_keys e p)"
  unfolding list_keys_def by (rule read_only_failing) (simp add: read_only_def)

lemma read_only_collect: "read_only (collect_stats e keys bt)"
  unfolding read_only_iff
proof (induction keys arbitrary: bt)
  case Nil
  then show ?case by (simp only: collect_stats.simps) (rule unchanged.g_ret)
next
  case (Cons key keys)
  then show ?case
    using read_only_get [of e key, unfolded read_only_iff] by (auto intro: unchanged.g_bind)
qed

lemma read_only_month: "read_only (get_daily_stats_for_month e m)"
  using read_only_list read_only_collect
  by (auto simp: get_daily_stats_for_month_def read_only_iff intro: unchanged.g_bind)

lemma keeps_days_put: "monthly_object key \<Longrightarrow> guarantees keeps_days (put_stats e key s)"
  by (rule guaranteesI) (auto simp: put_stats_def failing_def keeps_days_def update_conv' split: option.splits)

lemma keeps_days_write_months: "guarantees keeps_days (write_months e m bt n)"
proof (induction bt arbitrary: n)
  case Nil
  then show ?case by (simp only: write_months.simps) (rule days.g_ret)
next
  case (Cons p bt)
  then show ?case
    by (cases p) (auto simp: Let_def intro!: days.g_then keeps_days_put scoped_monthly_object)
qed

lemma keeps_days_aggregate_monthly: "guarantees keeps_days (aggregate_monthly e bucket_name m)"
  unfolding aggregate_monthly_def
  by (intro days.g_bind days.g_if days.g_ret keeps_days_write_months keeps_days_reads read_only_month)

lemma keeps_days_with_months: "guarantees keeps_days (with_months e bucket_name d date result)"
  unfolding with_months_def monthly_results_def
  by (intro days.g_rules keeps_days_aggregate_monthly)

section \<open>The order of the writes\<close>

text \<open>Writing a list of stats documents: a failure leaves the documents before it written.\<close>

definition put_all :: "(string \<times> stats) list \<Rightarrow> bucket \<Rightarrow> bucket" where
  "put_all docs b = fold (\<lambda>(k, s). AList.update k s) docs b"

definition day_doc_of :: "string \<Rightarrow> string \<times> stats \<Rightarrow> string \<times> stats" where
  "day_doc_of d entry = (scoped_daily_key d (fst entry), round_sums (snd entry))"

lemma write_entries:
  assumes "forP (write_tenant_stats e d) es b = (r, b')"
  shows "(r = Inr () \<and> b' = put_all (map (day_doc_of d) es) b) \<or>
         (\<exists>x k. r = Inl x \<and> k < length es \<and> b' = put_all (map (day_doc_of d) (take k es)) b)"
  using assms
proof (induction es arbitrary: b)
  case Nil
  then show ?case by (simp add: put_all_def)
next
  case (Cons p es)
  show ?case
  proof (cases "put_error e (scoped_daily_key d (fst p))")
    case (Some x)
    with Cons.prems have "r = Inl x" "b' = b"
      by (simp_all add: thenP_run write_tenant_stats_def put_stats_def failing_def)
    then show ?thesis by (auto simp: put_all_def intro!: exI [of _ 0])
  next
    case None
    let ?b = "AList.update (scoped_daily_key d (fst p)) (round_sums (snd p)) b"
    from None have "write_tenant_stats e d p b = (Inr (), ?b)"
      by (simp add: write_tenant_stats_def put_stats_def failing_def)
    with Cons.prems have "forP (write_tenant_stats e d) es ?b = (r, b')" by (simp add: thenP_run)
    then show ?thesis
    proof (cases rule: Cons.IH [THEN disjE, consumes 1, case_names all some])
      case all
      then show ?thesis by (simp add: put_all_def day_doc_of_def)
    next
      case some
      then obtain x k where "r = Inl x" "k < length es"
        "b' = put_all (map (day_doc_of d) (take k es)) ?b" by blast
      then have "r = Inl x \<and> Suc k < length (p # es) \<and>
          b' = put_all (map (day_doc_of d) (take (Suc k) (p # es))) b"
        by (simp add: put_all_def day_doc_of_def)
      then show ?thesis by blast
    qed
  qed
qed

lemma map_of_put_all_other: "k \<notin> fst ` set docs \<Longrightarrow> map_of (put_all docs b) k = map_of b k"
  unfolding put_all_def by (induction docs arbitrary: b) (auto simp: update_conv')

lemma map_of_put_all:
  assumes "distinct (map fst docs)" and "(k, s) \<in> set docs"
  shows "map_of (put_all docs b) k = Some s"
  using assms
proof (induction docs arbitrary: b)
  case Nil
  then show ?case by simp
next
  case (Cons p docs)
  show ?case
  proof (cases "(k, s) \<in> set docs")
    case True
    with Cons show ?thesis by (cases p) (simp add: put_all_def)
  next
    case False
    with Cons.prems have p: "p = (k, s)" "k \<notin> fst ` set docs" by force+
    have "map_of (put_all docs (AList.update k s b)) k = map_of (AList.update k s b) k"
      using p(2) by (rule map_of_put_all_other)
    then show ?thesis using p(1) by (simp add: put_all_def update_conv')
  qed
qed


section \<open>A day that is stored is complete\<close>

text \<open>The documents of all tenants of the records of a day, and the one of the day itself.\<close>

definition tenant_doc :: "string \<Rightarrow> string \<Rightarrow> row list \<Rightarrow> stats" where
  "tenant_doc d t rs = round_sums (finalize_timing (stats_of d (tenant_rows t rs)))"

definition global_doc :: "string \<Rightarrow> row list \<Rightarrow> stats" where
  "global_doc d rs = round_sums (finalize_timing (stats_of d rs))"

definition day_complete :: "bucket \<Rightarrow> string \<Rightarrow> row list \<Rightarrow> bool" where
  "day_complete b d rs =
     (map_of b (daily_key d) = Some (global_doc d rs) \<and>
      (\<forall>t \<in> record_tenant ` set rs. map_of b (daily_tenant_key d t) = Some (tenant_doc d t rs)))"

text \<open>The day is as it was, or complete, or its tenants are partly there and its global stats are not.\<close>

definition day_safe :: "bucket \<Rightarrow> bucket \<Rightarrow> string \<Rightarrow> row list \<Rightarrow> bool" where
  "day_safe b b' d rs =
     (day_complete b' d rs \<or> map_of b' (daily_key d) = map_of b (daily_key d))"

lemma keeps_days_complete: "keeps_days b b' \<Longrightarrow> day_complete b d rs \<Longrightarrow> day_complete b' d rs"
  by (auto simp: keeps_days_def day_complete_def daily_keys_not_monthly)

lemma write_day_run:
  assumes "''__global__'' \<notin> record_tenant ` set rs"
    and "forP (write_tenant_stats e d) (aggregate_records rs d) b = (r, b')"
  shows "(r = Inr () \<and> day_complete b' d rs) \<or>
         (\<exists>x. r = Inl x \<and> map_of b' (daily_key d) = map_of b (daily_key d))"
proof -
  obtain bt where shape: "aggregate_records rs d =
      map (\<lambda>(t, s). (t, finalize_timing s)) bt @ [(''__global__'', finalize_timing (stats_of d rs))]"
    and n: "''__global__'' \<notin> fst ` set bt"
    using assms(1) by (rule aggregate_shape)
  let ?ts = "map (\<lambda>(t, s). (t, finalize_timing s)) bt"
  let ?docs = "map (day_doc_of d) (aggregate_records rs d)"
  from write_entries [OF assms(2)] show ?thesis
  proof
    assume all: "r = Inr () \<and> b' = put_all ?docs b"
    have docs: "distinct (map fst ?docs)"
      using aggregate_distinct [of rs d]
      by (simp add: day_doc_of_def o_def distinct_map inj_on_def scoped_daily_key_inj)
    have entry: "map_of b' (scoped_daily_key d t) = Some (round_sums s)"
      if "map_of (aggregate_records rs d) t = Some s" for t s
    proof -
      have "(scoped_daily_key d t, round_sums s) \<in> set ?docs"
        using map_of_SomeD [OF that] by (force simp: day_doc_of_def)
      then show ?thesis using all map_of_put_all [OF docs] by simp
    qed
    have "map_of b' (daily_key d) = Some (global_doc d rs)"
      using entry [OF aggregate_global] by (simp add: scoped_daily_key_def global_doc_def)
    moreover have "map_of b' (daily_tenant_key d t) = Some (tenant_doc d t rs)"
      if "t \<in> record_tenant ` set rs" for t
    proof -
      have t: "t \<noteq> ''__global__''" using that assms(1) by blast
      moreover have "tenant_rows t rs \<noteq> []"
        using that by (auto simp: tenant_rows_def filter_empty_conv)
      ultimately show ?thesis
        using entry [of t "finalize_timing (stats_of d (tenant_rows t rs))"] 
        by (simp add: aggregate_tenant scoped_daily_key_def tenant_doc_def)
    qed
    ultimately show ?thesis using all by (simp add: day_complete_def)
  next
    assume "\<exists>x k. r = Inl x \<and> k < length (aggregate_records rs d) \<and>
        b' = put_all (map (day_doc_of d) (take k (aggregate_records rs d))) b"
    then obtain x k where r: "r = Inl x" and k: "k < length (aggregate_records rs d)"
      and b': "b' = put_all (map (day_doc_of d) (take k (aggregate_records rs d))) b" by blast
    have "take k (aggregate_records rs d) = take k ?ts" using k by (simp add: shape)
    then have "set (take k (aggregate_records rs d)) \<subseteq> set ?ts"
      by (simp only: set_take_subset)
    then have "fst ` set (take k (aggregate_records rs d)) \<subseteq> fst ` set ?ts" by (rule image_mono)
    moreover have "fst ` set ?ts = fst ` set bt" by (simp add: image_image split_beta)
    ultimately have first: "fst ` set (take k (aggregate_records rs d)) \<subseteq> fst ` set bt" by simp
    have "daily_key d \<notin> fst ` set (map (day_doc_of d) (take k (aggregate_records rs d)))"
    proof
      assume "daily_key d \<in> fst ` set (map (day_doc_of d) (take k (aggregate_records rs d)))"
      then obtain p where p: "p \<in> set (take k (aggregate_records rs d))"
        and "scoped_daily_key d ''__global__'' = scoped_daily_key d (fst p)"
        by (auto simp: day_doc_of_def scoped_daily_key_def)
      then have "fst p = ''__global__''" by (simp only: scoped_daily_key_inj)
      with p first n show False by force
    qed
    then show ?thesis using r b' by (simp add: map_of_put_all_other)
  qed
qed

lemma read_only_required: "read_only (required n v)"
  by (simp add: required_def read_only_def)

lemma read_only_query: "read_only (query_records e d)"
  unfolding query_records_def read_only_iff
  by (intro unchanged.g_bind unchanged.g_lift) (simp_all add: read_only_required flip: read_only_iff)

lemma read_only_check: "read_only (check_if_previously_aggregated e d)"
  unfolding check_if_previously_aggregated_def read_only_iff
  by (intro unchanged.g_rules) (simp add: read_only_head flip: read_only_iff)

lemma read_only_existing: "read_only (existing_result e bucket_name d)"
  unfolding existing_result_def read_only_iff
  by (intro unchanged.g_rules) (simp add: read_only_get flip: read_only_iff)


lemma read_only_state: "read_only m \<Longrightarrow> m b = (r, b') \<Longrightarrow> b' = b"
  by (simp add: read_only_def) (metis snd_conv)

lemma keeps_days_state: "guarantees keeps_days m \<Longrightarrow> m b = (r, b') \<Longrightarrow> keeps_days b b'"
  by (rule guaranteesD)

text \<open>A run either leaves the stats of the days alone, having found them there or having failed or
  found nothing before it wrote, or goes on from what writing the day left.\<close>

lemma write_day_state:
  assumes "''__global__'' \<notin> record_tenant ` set rs"
    and "write_day e bucket_name d rs b = (r, b')"
  shows "(\<exists>result. r = Inr result \<and> day_complete b' d rs) \<or>
         (\<exists>x. r = Inl x \<and> map_of b' (daily_key d) = map_of b (daily_key d))"
proof -
  obtain q b1 where w: "forP (write_tenant_stats e d) (aggregate_records rs d) b = (q, b1)"
    by (cases "forP (write_tenant_stats e d) (aggregate_records rs d) b")
  from write_day_run [OF assms(1) w] show ?thesis
    using assms(2) w
    by (auto simp: write_day_def write_aggregated_stats_def bindP_run thenP_run Let_def)
qed

lemma rewritten_day:
  assumes g: "''__global__'' \<notin> record_tenant ` set rs"
    and m: "bindP (query_records e d) (\<lambda>records.
         if records = [] then ret (no_records_result d)
         else bindP (write_day e bucket_name d records) (with_months e bucket_name d date)) b = (r, b')"
    and q: "fst (query_records e d b) = Inr rs"
  shows "(map_of b' (daily_key d) = map_of b (daily_key d) \<and> (\<forall>x. r = Inr x \<longrightarrow> rs = [])) \<or>
         day_complete b' d rs"
proof -
  have qb: "query_records e d b = (Inr rs, b)"
    using q read_only_query [of e d] by (simp add: read_only_def prod_eq_iff)
  show ?thesis
  proof (cases "rs = []")
    case True
    then show ?thesis using m qb by (simp add: bindP_run)
  next
    case False
    obtain q' b1 where w: "write_day e bucket_name d rs b = (q', b1)"
      by (cases "write_day e bucket_name d rs b")
    show ?thesis
    proof (cases q')
      case (Inl x)
      then show ?thesis using m qb False w write_day_state [OF g w] by (auto simp: bindP_run)
    next
      case (Inr result)
      then have "day_complete b1 d rs" using write_day_state [OF g w] by auto
      moreover have "with_months e bucket_name d date result b1 = (r, b')"
        using m qb False w Inr by (simp add: bindP_run)
      ultimately show ?thesis
        using keeps_days_state [OF keeps_days_with_months] keeps_days_complete by blast
    qed
  qed
qed

lemma run_cases:
  assumes "aggregate_metrics e d overwrite b = (r, b')"
  obtains (rejected) x where "r = Inl x" "b' = b"
  | (found) "map_of b (daily_key d) \<noteq> None" "\<not> overwrite" "keeps_days b b'"
  | (fresh) date bucket_name where "validate_yyyymmdd_format d = Inr date"
      "bindP (query_records e d) (\<lambda>records.
         if records = [] then ret (no_records_result d)
         else bindP (write_day e bucket_name d records) (with_months e bucket_name d date)) b = (r, b')"
proof (cases "validate_yyyymmdd_format d")
  case (Inl x)
  then show thesis using assms by (intro rejected) (auto simp: aggregate_metrics_def bindP_run)
next
  case date: (Inr date)
  show thesis
  proof (cases "truthy_str (me_export_bucket e)")
    case False
    then show thesis using assms date
      by (intro rejected) (auto simp: aggregate_metrics_def bindP_run required_def)
  next
    case True
    let ?bucket = "opt_default [] (me_export_bucket e)"
    have main: "bindP (if overwrite then ret False else check_if_previously_aggregated e d)
        (\<lambda>aggregated.
           if aggregated then bindP (existing_result e ?bucket d) (with_months e ?bucket d date)
           else bindP (query_records e d) (\<lambda>records.
             if records = [] then ret (no_records_result d)
             else bindP (write_day e ?bucket d records) (with_months e ?bucket d date))) b = (r, b')"
      using assms date True by (simp add: aggregate_metrics_def bindP_run required_def)
    show thesis
    proof (cases overwrite)
      case True
      with main show thesis by (intro fresh [OF date]) simp_all
    next
      case False
      obtain c b1 where c: "check_if_previously_aggregated e d b = (c, b1)"
        by (cases "check_if_previously_aggregated e d b")
      have b1: "b1 = b" using read_only_check c by (rule read_only_state)
      show thesis
      proof (cases c)
        case (Inl x)
        with main c b1 False show thesis by (intro rejected) (auto simp: bindP_run)
      next
        case (Inr found)
        show thesis
        proof (cases found)
          case True
          have "map_of b (daily_key d) \<noteq> None"
            using c Inr True
            by (auto simp: check_if_previously_aggregated_def head_stats_def failing_def catchP_run
                thenP_run bindP_run split: option.splits if_splits)
          moreover have "bindP (existing_result e ?bucket d) (with_months e ?bucket d date) b = (r, b')"
            using main c b1 False Inr True by (simp add: bindP_run)
          then have "keeps_days b b'"
            by (rule keeps_days_state [rotated])
              (intro days.g_bind keeps_days_with_months keeps_days_reads read_only_existing)
          ultimately show thesis using False found by blast
        next
          case no: False
          show thesis
            using main c b1 False Inr no by (intro fresh [OF date]) (simp_all add: bindP_run)
        qed
      qed
    qed
  qed
qed


text \<open>C15: the global stats of a day appear only with those of all its tenants.  Whatever fails, a run
  that starts without stats for the day and leaves some has stored the stats of every tenant that
  has records and the global ones, each the aggregation of the records that Athena returned; so
  finding them and skipping the day loses nothing.  A run that returns with records has stored them.\<close>
theorem stored_day_is_complete:
  assumes "aggregate_metrics e d overwrite b = (r, b')"
    and "fst (query_records e d b) = Inr rs" and "''__global__'' \<notin> record_tenant ` set rs"
    and "map_of b (daily_key d) = None"
    and "map_of b' (daily_key d) \<noteq> None \<or> ((\<exists>x. r = Inr x) \<and> rs \<noteq> [])"
  shows "day_complete b' d rs"
  using assms(1)
proof (cases rule: run_cases)
  case (rejected x)
  then show ?thesis using assms(4,5) by simp
next
  case found
  then show ?thesis using assms(4) by simp
next
  case (fresh date bucket_name)
  then show ?thesis using rewritten_day [OF assms(3) fresh(2) assms(2)] assms(4,5) by auto
qed

section \<open>Reading the metrics\<close>

lemma record_tenant_nonempty: "t \<in> record_tenant ` set rs \<Longrightarrow> t \<noteq> []"
  by (auto simp: record_tenant_def cell_or_def cell_def opt_default_def split: option.splits if_splits)

lemma read_period_found:
  "get_error e key = None \<Longrightarrow> map_of b key = Some s \<Longrightarrow>
   read_period e key b = (Inr [map_response_codes s], b)"
  by (simp add: read_period_def catchP_run bindP_run get_stats_def failing_def)

lemma daily_loop_one:
  assumes "next_day date = Inr following" and "read_period e (read_daily_key t date) b = (Inr ss, b)"
  shows "daily_loop e t date date b = (Inr ss, b)"
  using assms next_day_later [OF assms(1)]
  by (simp add: daily_loop.simps [of e t date date] daily_loop.simps [of e t following date] bindP_run)

lemma one_day_request:
  assumes date: "validate_yyyymmdd_format d = Inr date" and "next_day date = Inr following"
    and "truthy_str (me_export_bucket e)"
    and "resolve_tenant_from_context c req = Inr scope"
    and "read_period e (read_daily_key scope date) b = (Inr ss, b)"
  shows "get_metrics e c d None DAILY req b =
     (Inr \<lparr>mr_start_date = d, mr_end_date = d, mr_granularity = ''daily'', mr_periods = ss,
           mr_summary = build_summary ss\<rparr>, b)"
proof -
  have "validate_date_range d None = Inr (d, d)"
    using date by (simp add: validate_date_range_def truthy_str_def)
  moreover have "strptime d = ret date"
    using validate_date(3) [OF date] by (simp add: strptime_def fun_eq_iff)
  moreover have "check_span date date DAILY = Inr ()"
    by (simp add: check_span_def Let_def max_daily_span_def)
  ultimately show ?thesis
    using assms(3,4) daily_loop_one [OF assms(2,5)]
    by (simp add: get_metrics_def metrics_request_def catchP_run bindP_run get_aggregated_metrics_def
        get_daily_metrics_def)
qed

lemma total_gain: "gain (Total ''total_records'') r = 1"
proof -
  have 1: "read_metric (Total ''total_records'') (count_usage v k s) = read_metric (Total ''total_records'') s"
    for v k s by (simp add: count_usage_def read_bump del: bump.simps read_metric.simps split: option.split)
  have 2: "read_metric (Total ''total_records'') (add_timing v k s) = read_metric (Total ''total_records'') s"
    for v k s by (simp add: add_timing_def read_bump del: bump.simps read_metric.simps split: option.split)
  have 3: "read_metric (Total ''total_records'') (add_hour r s) = read_metric (Total ''total_records'') s"
    for s by (simp add: add_hour_def read_bump del: bump.simps read_metric.simps split: option.split)
  have 4: "read_metric (Total ''total_records'') (add_invocations r s) = read_metric (Total ''total_records'') s"
    for s by (simp add: add_invocations_def Let_def read_bump del: bump.simps read_metric.simps)
  have 5: "read_metric (Total ''total_records'') (add_tallies r s) = read_metric (Total ''total_records'') s"
    for s by (simp add: add_tallies_def Let_def read_bump del: bump.simps read_metric.simps)
  show ?thesis
    by (simp add: gain_def process_metrics_record_def Let_def 1 2 3 4 5 read_bump
        del: bump.simps read_metric.simps)
qed

lemma total_records_doc: "total_records (tenant_doc d t rs) = of_nat (length (tenant_rows t rs))"
proof -
  have "total_records s = read_metric (Total ''total_records'') s" for s
    by (simp add: total_records_def)
  moreover have "\<not> is_time_sum (Total k)" "\<not> is_average (Total k)" for k
    by (simp_all add: is_time_sum_def is_average_def)
  moreover have "sum_list (map (gain (Total ''total_records'')) rs) = of_nat (length rs)" for rs
    by (induction rs) (simp_all add: total_gain)
  ultimately show ?thesis
    by (simp add: tenant_doc_def read_round_sums read_finalize read_stats_of del: read_metric.simps)
qed

lemma codes_keep_totals: "total_records (map_response_codes s) = total_records s"
  by (simp add: map_response_codes_def total_records_def split: option.split)

lemma ymd_of_last_day: "ymd_str (9999, 12, 31) = ''9999-12-31''"
  by code_simp



section \<open>What a request depends on\<close>

text \<open>A program that only reads, and reads nothing but the objects of some keys.\<close>

definition reads_keys :: "string set \<Rightarrow> 'a mprog \<Rightarrow> bool" where
  "reads_keys K m =
     (\<forall>b b'. (\<forall>k \<in> K. map_of b k = map_of b' k) \<longrightarrow>
        fst (m b) = fst (m b') \<and> snd (m b) = b \<and> snd (m b') = b')"

lemma reads_keysI:
  "(\<And>b. snd (m b) = b) \<Longrightarrow>
   (\<And>b b'. (\<And>k. k \<in> K \<Longrightarrow> map_of b k = map_of b' k) \<Longrightarrow> fst (m b) = fst (m b')) \<Longrightarrow> reads_keys K m"
  unfolding reads_keys_def by blast

lemma rk_ret: "reads_keys K (ret x)"
  by (rule reads_keysI) simp_all

lemma rk_raise: "reads_keys K (raise x)"
  by (rule reads_keysI) simp_all

lemma rk_lift: "reads_keys K (lift_result r)"
  by (rule reads_keysI) simp_all

lemma rk_state: "reads_keys K m \<Longrightarrow> snd (m b) = b"
  unfolding reads_keys_def by blast

lemma rk_value:
  "reads_keys K m \<Longrightarrow> (\<And>k. k \<in> K \<Longrightarrow> map_of b k = map_of b' k) \<Longrightarrow> fst (m b) = fst (m b')"
  unfolding reads_keys_def by blast

lemma rk_run: "reads_keys K m \<Longrightarrow> m b = (fst (m b), b)"
  using rk_state [of K m b] by (simp add: prod_eq_iff)

lemma rk_bind:
  assumes "reads_keys K m" and "\<And>x. reads_keys K (f x)"
  shows "reads_keys K (bindP m f)"
proof (rule reads_keysI)
  fix b :: bucket
  show "snd (bindP m f b) = b"
    unfolding bindP_run by (subst rk_run [OF assms(1)]) (auto simp: rk_state [OF assms(2)] split: sum.split)
next
  fix b b' :: bucket
  assume k: "\<And>k. k \<in> K \<Longrightarrow> map_of b k = map_of b' k"
  have same: "fst (m b) = fst (m b')" "\<And>x. fst (f x b) = fst (f x b')"
    using rk_value [OF assms(1) k] rk_value [OF assms(2) k] by auto
  obtain r where "m b = (r, b)" "m b' = (r, b')"
    using rk_run [OF assms(1), of b] rk_run [OF assms(1), of b'] same(1) by metis
  then show "fst (bindP m f b) = fst (bindP m f b')"
    using same(2) by (cases r) (simp_all add: bindP_run)
qed

lemma rk_catch:
  assumes "reads_keys K m" and "\<And>x. reads_keys K (h x)"
  shows "reads_keys K (catchP m h)"
proof (rule reads_keysI)
  fix b :: bucket
  show "snd (catchP m h b) = b"
    unfolding catchP_run by (subst rk_run [OF assms(1)]) (auto simp: rk_state [OF assms(2)] split: sum.split)
next
  fix b b' :: bucket
  assume k: "\<And>k. k \<in> K \<Longrightarrow> map_of b k = map_of b' k"
  have same: "fst (m b) = fst (m b')" "\<And>x. fst (h x b) = fst (h x b')"
    using rk_value [OF assms(1) k] rk_value [OF assms(2) k] by auto
  obtain r where "m b = (r, b)" "m b' = (r, b')"
    using rk_run [OF assms(1), of b] rk_run [OF assms(1), of b'] same(1) by metis
  then show "fst (catchP m h b) = fst (catchP m h b')"
    using same(2) by (cases r) (simp_all add: catchP_run)
qed

lemma rk_if: "(p \<Longrightarrow> reads_keys K m) \<Longrightarrow> (\<not> p \<Longrightarrow> reads_keys K n) \<Longrightarrow> reads_keys K (if p then m else n)"
  by simp

lemma rk_sum:
  "(\<And>x. reads_keys K (f x)) \<Longrightarrow> (\<And>x. z = Inr x \<Longrightarrow> reads_keys K (g x)) \<Longrightarrow>
   reads_keys K (case z of Inl x \<Rightarrow> f x | Inr x \<Rightarrow> g x)"
  by (cases z) simp_all

lemma rk_get: "key \<in> K \<Longrightarrow> reads_keys K (get_stats e key)"
  by (rule reads_keysI)
    (auto simp: get_stats_def failing_def bindP_run split: option.split)

lemmas rk_rules = rk_bind rk_catch rk_if rk_ret rk_raise rk_lift rk_get

lemma rk_read_period: "key \<in> K \<Longrightarrow> reads_keys K (read_period e key)"
  unfolding read_period_def by (intro rk_rules)

lemma rk_daily_loop:
  assumes "\<And>d. read_daily_key t d \<in> K"
  shows "reads_keys K (daily_loop e t current end_dt)"
  using assms
proof (induction e t current end_dt rule: daily_loop.induct)
  case (1 e t current end_dt)
  have step: "reads_keys K (case next_day current of Inl x \<Rightarrow> raise x
      | Inr following \<Rightarrow> bindP (daily_loop e t following end_dt) (\<lambda>rest. ret (s @ rest)))"
    if "date_le current end_dt" for s
    using 1 that by (intro rk_sum rk_bind rk_ret rk_raise) auto
  show ?case
    unfolding daily_loop.simps [of e t current end_dt]
    by (intro rk_if rk_bind rk_ret rk_read_period step 1(2))
qed

lemma rk_monthly_loop:
  assumes "\<And>m. read_monthly_key t m \<in> K"
  shows "reads_keys K (monthly_loop e t months)"
proof (induction months)
  case Nil
  show ?case unfolding monthly_loop.simps by (rule rk_ret)
next
  case (Cons m months)
  show ?case unfolding monthly_loop.simps
    by (intro rk_bind rk_ret rk_read_period assms Cons)
qed

lemma rk_strptime: "reads_keys K (strptime s)"
  unfolding strptime_def by (cases "strptime_ymd s") (simp_all only: option.case rk_ret rk_raise)

lemma rk_aggregated:
  assumes "\<And>d. read_daily_key t d \<in> K" and "\<And>m. read_monthly_key t m \<in> K"
  shows "reads_keys K (get_aggregated_metrics e s en gran t)"
  unfolding get_aggregated_metrics_def get_daily_metrics_def get_monthly_metrics_def
  by (intro rk_if rk_bind rk_ret rk_lift rk_strptime rk_daily_loop rk_monthly_loop assms)

text \<open>The keys of the stats of a tenant.\<close>

definition tenant_objects :: "string \<Rightarrow> string set" where
  "tenant_objects t = range (\<lambda>d. daily_tenant_key d t) \<union> range (\<lambda>m. monthly_tenant_key m t)"

lemma rk_tenant_metrics:
  assumes "uc_auth_method c = ''api_key'' \<or> uc_tenant_id c \<noteq> super_admin" and "uc_tenant_id c \<noteq> []"
  shows "reads_keys (tenant_objects (uc_tenant_id c)) (get_metrics e c s en gran req)"
proof -
  let ?K = "tenant_objects (uc_tenant_id c)"
  have own: "scope = Some (uc_tenant_id c)" if "resolve_tenant_from_context c req = Inr scope" for scope
    using that assms(1) by (auto simp: resolve_tenant_from_context_def Let_def split: if_splits)
  have keys: "read_daily_key (Some (uc_tenant_id c)) d \<in> ?K"
    "read_monthly_key (Some (uc_tenant_id c)) m \<in> ?K" for d m
    using assms(2) by (auto simp: read_daily_key_def read_monthly_key_def truthy_str_def tenant_objects_def)
  have scoped: "reads_keys ?K (bindP (lift_result (resolve_tenant_from_context c req))
      (get_aggregated_metrics e start_date end_date gran))" for start_date end_date
  proof (cases "resolve_tenant_from_context c req")
    case (Inl x)
    then have "bindP (lift_result (resolve_tenant_from_context c req))
      (get_aggregated_metrics e start_date end_date gran) = raise x"
      by (simp add: bindP_run fun_eq_iff)
    then show ?thesis by (simp only: rk_raise)
  next
    case (Inr scope)
    then have "bindP (lift_result (resolve_tenant_from_context c req))
      (get_aggregated_metrics e start_date end_date gran) =
      get_aggregated_metrics e start_date end_date gran (Some (uc_tenant_id c))"
      using own by (simp add: bindP_run fun_eq_iff)
    then show ?thesis using rk_aggregated [OF keys] by simp
  qed
  show ?thesis
    unfolding get_metrics_def metrics_request_def
    by (intro rk_catch rk_raise rk_bind rk_lift) (auto intro!: rk_bind rk_lift rk_strptime rk_if rk_raise scoped)
qed

text \<open>C19: the metrics of a caller do not depend on other tenants.  For a caller with an API key, or
  with a token of a tenant, every answer of the metrics endpoint, errors included and whatever dates,
  granularity and tenant are asked for, is the same in two buckets that agree on the stats of the
  caller's own tenant; and the request changes nothing.\<close>
theorem metrics_depend_on_own_stats:
  assumes "uc_auth_method c = ''api_key'' \<or> uc_tenant_id c \<noteq> super_admin" and "uc_tenant_id c \<noteq> []"
    and "\<forall>k \<in> tenant_objects (uc_tenant_id c). map_of b k = map_of b' k"
  shows "fst (get_metrics e c start_date end_date gran req b) =
           fst (get_metrics e c start_date end_date gran req b')
       \<and> snd (get_metrics e c start_date end_date gran req b) = b"
  using rk_tenant_metrics [OF assms(1,2)] assms(3) by (auto simp: reads_keys_def)


section \<open>The size of an answer\<close>

lemma next_day_le:
  assumes "date_le a e" and "a \<noteq> e" and "next_day a = Inr b" and "valid_date a" and "valid_date e"
  shows "date_le b e"
  using assms by (cases a; cases e) (auto split: if_splits)

lemma read_period_length:
  "read_period e key b = (Inr ss, b') \<Longrightarrow> b' = b \<and> length ss \<le> 1"
  by (auto simp: read_period_def get_stats_def failing_def catchP_run bindP_run
      split: option.splits sum.splits prod.splits if_splits)

lemma daily_loop_bound:
  assumes "daily_loop e t current end_dt b = (Inr ss, b')" and "valid_date current" and "valid_date end_dt"
  shows "int (length ss) \<le> (if date_le current end_dt then toordinal end_dt - toordinal current + 1 else 0)"
  using assms
proof (induction e t current end_dt arbitrary: ss rule: daily_loop.induct)
  case (1 e t current end_dt)
  show ?case
  proof (cases "date_le current end_dt")
    case False
    then show ?thesis using 1(2) by (simp add: daily_loop.simps [of e t current end_dt])
  next
    case le: True
    then obtain s following rest where s: "read_period e (read_daily_key t current) b = (Inr s, b)"
      and n: "next_day current = Inr following"
      and r: "daily_loop e t following end_dt b = (Inr rest, b')" and ss: "ss = s @ rest"
      using 1(2) read_period_length [of e "read_daily_key t current" b]
      by (auto simp: daily_loop.simps [of e t current end_dt] bindP_run split: sum.splits prod.splits)
    have v: "valid_date following" "toordinal following = toordinal current + 1"
      using toordinal_next [OF 1(3) n] by simp_all
    have IH: "int (length rest) \<le>
        (if date_le following end_dt then toordinal end_dt - toordinal following + 1 else 0)"
      by (rule 1(1) [OF le n r v(1) 1(4)])
    have one: "length s \<le> 1" using read_period_length [OF s] by simp
    show ?thesis
    proof (cases "current = end_dt")
      case True
      then show ?thesis using IH one next_day_later [OF n] by (simp add: ss)
    next
      case False
      then have "date_le following end_dt" using next_day_le [OF le _ n 1(3,4)] by blast
      then show ?thesis using IH one le v(2) by (simp add: ss)
    qed
  qed
qed

definition month_number :: "ymd \<Rightarrow> int" where
  "month_number date = fst date * 12 + fst (snd date)"

lemma date_le_month: "date_le a e \<Longrightarrow> valid_date a \<Longrightarrow> valid_date e \<Longrightarrow> month_number a \<le> month_number e"
  by (cases a; cases e) (auto simp: month_number_def)

lemma next_month_number:
  "next_month a = Inr b \<Longrightarrow> valid_date a \<Longrightarrow> month_number b = month_number a + 1 \<and> valid_date b"
  by (cases a) (auto simp: month_number_def days_in_month_def split: if_splits)

lemma months_from_bound:
  assumes "months_from current end_dt = Inr ms" and "valid_date current" and "valid_date end_dt"
  shows "int (length ms) \<le> max 0 (month_number end_dt - month_number current + 1)"
  using assms
proof (induction current end_dt arbitrary: ms rule: months_from.induct)
  case (1 current end_dt)
  show ?case
  proof (cases "date_le current end_dt")
    case False
    then show ?thesis using 1(2) by (simp add: months_from.simps [of current end_dt])
  next
    case le: True
    then obtain following rest where n: "next_month current = Inr following"
      and r: "months_from following end_dt = Inr rest" and ms: "length ms = Suc (length rest)"
      using 1(2) by (auto simp: months_from.simps [of current end_dt] split: sum.splits)
    have v: "valid_date following" "month_number following = month_number current + 1"
      using next_month_number [OF n 1(3)] by simp_all
    have "int (length rest) \<le> max 0 (month_number end_dt - month_number following + 1)"
      by (rule 1(1) [OF le n r v(1) 1(4)])
    then show ?thesis using date_le_month [OF le 1(3,4)] v(2) ms by simp
  qed
qed

lemma monthly_loop_length:
  "monthly_loop e t months b = (Inr ss, b') \<Longrightarrow> length ss \<le> length months"
proof (induction months arbitrary: ss)
  case Nil
  then show ?case by simp
next
  case (Cons m months)
  then obtain s rest where "read_period e (read_monthly_key t m) b = (Inr s, b)"
    "monthly_loop e t months b = (Inr rest, b')" "ss = s @ rest"
    using read_period_length [of e "read_monthly_key t m" b]
    by (auto simp: bindP_run split: sum.splits prod.splits)
  then show ?case using Cons.IH read_period_length [of e "read_monthly_key t m" b s b] by fastforce
qed

lemma strptime_run: "strptime s b = (Inr date, b') \<longleftrightarrow> strptime_ymd s = Some date \<and> b' = b"
  by (auto simp: strptime_def split: option.splits)

lemma strptime_valid: "strptime_ymd s = Some date \<Longrightarrow> valid_date date"
  by (auto simp: strptime_ymd_def Let_def split: list.splits if_splits simp del: valid_date.simps)

text \<open>C20: an answer of the metrics endpoint has at most 367 periods by day and at most 60 by month,
  whatever dates are asked for and whatever is stored: the check of the span comes before the loops,
  and each turn of a loop adds one period at most.\<close>
theorem metrics_answer_bounded:
  assumes "fst (get_metrics e c start_date end_date gran req b) = Inr resp"
  shows "length (mr_periods resp) \<le> (case gran of DAILY \<Rightarrow> 367 | MONTHLY \<Rightarrow> 60)"
proof -
  obtain b' where "metrics_request e c start_date end_date gran req b = (Inr resp, b')"
    using assms
    by (auto simp: get_metrics_def catchP_run split: sum.splits prod.splits)
  then obtain s en start_dt end_dt scope where dates: "strptime_ymd s = Some start_dt" "strptime_ymd en = Some end_dt"
    and span: "check_span start_dt end_dt gran = Inr ()"
    and run: "get_aggregated_metrics e s en gran scope b = (Inr resp, b')"
    by (auto simp: metrics_request_def bindP_run strptime_run
        split: sum.splits prod.splits if_splits)
  have valid: "valid_date start_dt" "valid_date end_dt"
    using strptime_valid [OF dates(1)] strptime_valid [OF dates(2)] .
  show ?thesis
  proof (cases gran)
    case DAILY
    then obtain ss where "daily_loop e scope start_dt end_dt b = (Inr ss, b')" "mr_periods resp = ss"
      using run dates
      by (auto simp: get_aggregated_metrics_def get_daily_metrics_def bindP_run strptime_def
          split: sum.splits prod.splits)
    then show ?thesis
      using daily_loop_bound [OF _ valid] span DAILY
      by (force simp: check_span_def Let_def max_daily_span_def split: if_splits)
  next
    case MONTHLY
    then obtain months ss where m: "months_from start_dt end_dt = Inr months"
      and l: "monthly_loop e scope (sort (remdups months)) b = (Inr ss, b')" and p: "mr_periods resp = ss"
      using run dates
      by (auto simp: get_aggregated_metrics_def get_monthly_metrics_def bindP_run strptime_def
          split: sum.splits prod.splits)
    have "length (mr_periods resp) \<le> length months"
      using monthly_loop_length [OF l] length_remdups_leq [of months]
      unfolding p length_sort by (rule order_trans)
    moreover have "month_number end_dt - month_number start_dt + 1 \<le> 60"
      using span MONTHLY
      by (simp add: check_span_def Let_def max_monthly_span_def month_number_def algebra_simps split: if_splits)
    ultimately show ?thesis using months_from_bound [OF m valid] MONTHLY by simp
  qed
qed


section \<open>Examples\<close>

definition example_rows :: "row list" where
  "example_rows =
     [[(''tenant_id'', ''acme''), (''process_status'', ''success''), (''response_code'', ''000''),
       (''content_type'', ''application/pdf''), (''created_at'', ''2025-07-02T13:05:09+00:00''),
       (''file_size_bytes'', ''1024''), (''total_processing_time_seconds'', ''12.345'')],
      [(''tenant_id'', ''globex''), (''process_status'', ''failed''),
       (''bda_processing_time_seconds'', ''1.0E1'')]]"

definition example_page :: result_page where
  "example_page =
     \<lparr>rp_columns = [''tenant_id'', ''process_status''],
      rp_rows = [[Some ''tenant_id'', Some ''process_status''], [Some ''acme'', Some ''success''],
                 [Some ''globex'', None]]\<rparr>"

definition example_athena :: "result_page list \<Rightarrow> athena" where
  "example_athena pages =
     \<lparr>start_query = (\<lambda>q db w. Inr ''execution-1''), query_state = (\<lambda>i n. Inr ''SUCCEEDED''),
      query_pages = (\<lambda>i. Inr pages)\<rparr>"

definition example_metrics_env :: "result_page list \<Rightarrow> metrics_env" where
  "example_metrics_env pages =
     \<lparr>me_export_bucket = Some ''metrics'', me_glue_database = Some ''documents'',
      me_raw_table = Some ''raw'', me_workgroup = Some ''primary'', me_athena = example_athena pages,
      head_error = (\<lambda>k. None), get_error = (\<lambda>k. None), put_error = (\<lambda>k. None),
      list_error = (\<lambda>k. None)\<rparr>"

lemma example_poll: "poll_query (example_athena pages) q 0 athena_query_timeout_seconds = Inr ''SUCCEEDED''"
proof -
  have "athena_query_timeout_seconds = Suc 299" by (simp add: athena_query_timeout_seconds_def)
  show ?thesis unfolding \<open>athena_query_timeout_seconds = Suc 299\<close> poll_query.simps
    by (simp add: example_athena_def is_final_query_def del: One_nat_def)
qed

lemma example_results: "get_athena_results (example_athena pages) q = read_pages pages"
  by (simp add: get_athena_results_def example_poll) (simp add: example_athena_def)

lemma example_query:
  "query_records (example_metrics_env pages) d b = (read_pages pages, b)"
  by (simp add: query_records_def example_metrics_env_def bindP_run required_def truthy_str_def
      example_results) (simp add: example_athena_def)

definition example_results_rows :: "row list" where
  "example_results_rows =
     [[(''tenant_id'', ''acme''), (''process_status'', ''success'')],
      [(''tenant_id'', ''globex''), (''process_status'', '''')]]"

lemma example_read: "read_pages [example_page] = Inr example_results_rows"
  by code_simp

text \<open>Only the first page of the results of Athena has a header row, but the first row of every page
  is dropped: of the records \<open>acme\<close>, \<open>globex\<close> and \<open>initech\<close>, the second is lost.\<close>
lemma later_pages_lose_first_row:
  "get_athena_results (example_athena
     [\<lparr>rp_columns = [''tenant_id''], rp_rows = [[Some ''tenant_id''], [Some ''acme'']]\<rparr>,
      \<lparr>rp_columns = [''tenant_id''], rp_rows = [[Some ''globex''], [Some ''initech'']]\<rparr>]) q =
   Inr [[(''tenant_id'', ''acme'')], [(''tenant_id'', ''initech'')]]"
  by (simp add: example_results)


theorem summary_equals_one_count_witness:
  "\<bar>read_metric (Total ''total_records'')
      (build_summary (concat (map (day_docs ''acme'')
         [(''2025-07-01'', example_rows), (''2025-07-02'', example_rows)]))) -
    scope_metric (Total ''total_records'') ''acme''
      (aggregate_records (concat (map snd
         [(''2025-07-01'', example_rows), (''2025-07-02'', example_rows)])) ''2025-07-01'')\<bar> \<le> 0"
  using summary_equals_one_count [of "Total ''total_records''" "''acme''"
      "[(''2025-07-01'', example_rows), (''2025-07-02'', example_rows)]" "''2025-07-01''"]
  by (simp only: summed.simps total_keys_def list.set insert_iff simp_thms is_time_sum_def
      timing_prefixes_def metric.distinct bex_simps if_False)


abbreviation example_run :: "(exn + dict) \<times> bucket" where
  "example_run \<equiv> aggregate_metrics (example_metrics_env [example_page]) ''2025-07-02'' False []"

lemma example_run_returns: "\<exists>result b'. example_run = (Inr result, b')"
proof -
  have "\<not> isl (fst example_run)" by code_simp
  then show ?thesis by (cases example_run; cases "fst example_run") auto
qed

lemma example_rows_found:
  "fst (query_records (example_metrics_env [example_page]) ''2025-07-02'' []) = Inr example_results_rows"
  by (simp only: example_query example_read fst_conv)

lemma example_rows_nonempty: "example_results_rows \<noteq> []"
  by (simp add: example_results_rows_def)

lemma example_tenants: "record_tenant ` set example_results_rows = {''acme'', ''globex''}"
  by (simp add: example_results_rows_def record_tenant_def cell_or_def cell_def)

definition acme_caller :: user_context where
  "acme_caller =
     \<lparr>uc_tenant_id = ''acme'', uc_api_key_name = ''key'', uc_auth_method = ''api_key''\<rparr>"

theorem stored_day_is_complete_witness:
  "day_complete (snd example_run) ''2025-07-02'' example_results_rows"
proof -
  obtain result b' where run: "example_run = (Inr result, b')" using example_run_returns by blast
  have "day_complete b' ''2025-07-02'' example_results_rows"
    by (rule stored_day_is_complete [OF run example_rows_found])
      (simp_all add: example_tenants example_rows_nonempty)
  then show ?thesis by (simp add: run)
qed


theorem metrics_depend_on_own_stats_witness:
  "fst (get_metrics (example_metrics_env []) acme_caller ''2025-07-02'' None DAILY None []) =
   fst (get_metrics (example_metrics_env []) acme_caller ''2025-07-02'' None DAILY None
     [(daily_tenant_key ''2025-07-02'' ''globex'', initialize_stats ''2025-07-02'')])"
proof -
  have "daily_tenant_key d' ''globex'' \<noteq> daily_tenant_key d ''acme''" for d d'
    unfolding daily_tenant_key_def
    by (rule notI, drule arg_cong [where f = rev]) simp
  moreover have "daily_tenant_key d' ''globex'' \<noteq> monthly_tenant_key d ''acme''" for d d'
    unfolding daily_tenant_key_def monthly_tenant_key_def
    by (rule notI, drule arg_cong [where f = rev]) simp
  ultimately have "\<forall>k \<in> tenant_objects (uc_tenant_id acme_caller). map_of [] k =
      map_of [(daily_tenant_key ''2025-07-02'' ''globex'', initialize_stats ''2025-07-02'')] k"
    by (auto simp: tenant_objects_def acme_caller_def)
  then show ?thesis
    by (intro metrics_depend_on_own_stats [THEN conjunct1]) (simp_all add: acme_caller_def)
qed

theorem metrics_answer_bounded_witness:
  "length (mr_periods (projr (fst (get_metrics (example_metrics_env []) acme_caller ''2025-06-29''
     (Some ''2025-07-02'') DAILY None [(daily_tenant_key ''2025-07-01'' ''acme'', initialize_stats ''2025-07-01'')]))))
   \<le> 367"
proof -
  let ?r = "fst (get_metrics (example_metrics_env []) acme_caller ''2025-06-29''
     (Some ''2025-07-02'') DAILY None [(daily_tenant_key ''2025-07-01'' ''acme'', initialize_stats ''2025-07-01'')])"
  have "\<not> isl ?r" by code_simp
  then have "?r = Inr (projr ?r)" by (cases ?r) simp_all
  then show ?thesis using metrics_answer_bounded [of _ _ _ _ DAILY] by fastforce
qed

end
