(* ===== verification/Spec2Isabelle.thy ===== *)
theory Spec2Isabelle
  imports Document_Writes Batches Crud_Laws Readers Extraction_Rules Api_Laws Classification_Laws
    Write_Limit_Laws Upload_Laws Build_Laws Processor_Laws Result_Laws Reaper_Laws Job_Laws
    Tenant_Laws Admin_Laws Document_Laws Batch_Upload_Laws Metric_Laws
begin

text \<open>
  A model of the DocumentAI service (the Python package under
  \<open>src/documentai-api/src/documentai_api\<close>; paths below are relative to it) with the theorems that
  make it correct.

  \<^bold>\<open>The program.\<close>  A client uploads a document, or the pages of a build, for its tenant.  The
  upload is checked against the tenant's write quota, its bytes go to S3 and a record of it to the
  table of documents.  The S3 event starts the document processor: it examines the document
  (password, sampling, blur, classification, blueprint match), claims it, and hands it to an
  engine: Textract for an identity document, otherwise Bedrock Data Automation (BDA), which reports
  through another event.  A document ends in one of the final statuses of \<open>ProcessStatus\<close>; the
  terminal write is conditional, and the one that takes effect enqueues the document for the
  metrics, counts it for its batch and stores the response that the API returns for the job.
  A caller is known by an API key, which is issued to a tenant and can be revoked, or by a token; the
  administrators change keys, tenants and users within their scope.
  Every part keeps its state in DynamoDB tables and reaches them through \<open>services/ddb.py\<close>, so
  the parts interact through the items of these tables, the messages on SQS and the objects in S3.

  \<^bold>\<open>How it is modelled.\<close>  A program is a function from a world to a value or an exception and a
  world (theory \<open>Prelude\<close>); what was written before an exception stays written.  The world holds
  the tables, the messages sent, the writes to S3, the invocations of the engines and the caches of
  the container (\<open>Dynamo\<close>).  An item is a list of attributes with Python values, numbers are exact
  rationals, and a \<open>json.dumps\<close> text is the value it was made of.  Every operation is the function
  of that name in the code, with its branches, its early returns and its exceptions in order.

  Code outside the repository is a parameter: the table client (record \<open>client\<close>, with the laws that
  DynamoDB documents as the locales \<open>ddb_laws\<close> and \<open>reliable_ddb\<close>, met by the executable
  \<open>mem_client\<close>), SQS, the reads and failures of S3, the clock, the identifiers and the feature flags
  (record \<open>env\<close>), the MIME sniffer, the converters and the PDF merge (\<open>codecs\<close>), the analysers of a
  document (\<open>analysers\<close>), the engines and the image library (\<open>engines\<close>), the digests, the source of
  random keys, the secret and the verification of tokens (\<open>auth_services\<close>), Cognito (\<open>cognito\<close>) and
  Athena with the errors of S3 (\<open>metrics_env\<close>).  Nothing is assumed of
  any of these but the table client: a theorem about \<open>ddb_laws\<close> holds however the services fail, a
  theorem about \<open>reliable_ddb\<close> holds where the tables do not fail on their own.

  \<^bold>\<open>The theories.\<close>
  \<^item> \<open>Prelude\<close>, \<open>Py_Text\<close>: values, programs and the locale \<open>state_order\<close> of two-state guarantees;
    \<open>utils/strings.py\<close>, \<open>utils/dates.py\<close> and the keys of \<open>utils/s3.py\<close>.
  \<^item> \<open>Processing_Status\<close>: \<open>constants/processing.py\<close> and \<open>utils/response_codes.py\<close>; the statuses are
    partitioned into final ones and those the guarded writers replace.
  \<^item> \<open>Dynamo\<close>, \<open>Store_Reasoning\<close>, \<open>Footprints\<close>: \<open>services/ddb.py\<close>, expressions and their meaning,
    what one call does to the items, guarantees on items (locale \<open>item_order\<close>), and which program
    writes which tables.
  \<^item> \<open>Document_Record\<close>, \<open>Document_Writes\<close>: \<open>utils/ddb.py\<close> and its records; the update expressions
    are accepted by DynamoDB and write what they promise.
  \<^item> \<open>Batches\<close>: \<open>utils/batch_operations.py\<close>; the counter is safe and batches finish.
  \<^item> \<open>Crud_Tables\<close>, \<open>Crud_Laws\<close>: the generic tables, tenants, categories and cache; they refine maps.
  \<^item> \<open>Readers\<close>, \<open>Extraction_Rules\<close>: the readers of stored results and the tenant rules, with the
    agreement of their two evaluations.
  \<^item> \<open>Api_Response\<close>, \<open>Api_Laws\<close>: \<open>classifiers/api_response.py\<close>, the response of a job.
  \<^item> \<open>Classification\<close>, \<open>Classification_Laws\<close>: \<open>classifiers/document_classification.py\<close>; a document
    becomes final at most once and pays at most one message and one count.
  \<^item> \<open>Write_Limits\<close>, \<open>Write_Limit_Laws\<close>: \<open>utils/write_limit.py\<close>, the quota and its rollback.
  \<^item> \<open>Uploads\<close>, \<open>Upload_Laws\<close>: \<open>utils/uploads.py\<close>, \<open>constants/file_validation.py\<close>, \<open>pipeline/uploads.py\<close>.
  \<^item> \<open>Builds\<close>, \<open>Build_Laws\<close>: \<open>utils/document_build.py\<close> and \<open>routers/build.py\<close>; the submit lock.
  \<^item> \<open>Document_Claims\<close>, \<open>Lifecycle\<close>: \<open>pipeline/document_lifecycle.py\<close>.
  \<^item> \<open>Doc_Processor\<close>, \<open>Processor_Laws\<close>: \<open>jobs/document_processor/main.py\<close> with the start of BDA, the
    image optimisation and the Textract path; the claim, the engines, the attempts, the round trips.
  \<^item> \<open>Bda_Results\<close>, \<open>Result_Laws\<close>: \<open>jobs/bda_result_processor\<close> with \<open>processors/bda.py\<close>,
    \<open>extractors/bda.py\<close> and \<open>utils/bda.py\<close>: the result of a BDA job takes effect once.
  \<^item> \<open>Reaper\<close>, \<open>Reaper_Laws\<close>: \<open>jobs/document_reaper/main.py\<close>; no document stays stuck.
  \<^item> \<open>Job_Polling\<close>, \<open>Job_Laws\<close>: \<open>utils/jobs.py\<close>, \<open>pipeline/jobs.py\<close> and the presentation of a response.

  \<^item> \<open>Wp_Rules\<close>: weakest preconditions, and what each call to a table may return and leave behind.
  \<^item> \<open>Auth\<close>, \<open>Auth_Laws\<close>, \<open>Key_Laws\<close>, \<open>Tenant_Laws\<close>: \<open>utils/auth.py\<close>, \<open>utils/jwt_auth.py\<close> and
    \<open>utils/tenant_access.py\<close>; who is admitted, for which tenant, and for how long.
  \<^item> \<open>Admin\<close>, \<open>Admin_Laws\<close>: \<open>routers/api_keys.py\<close>, \<open>routers/tenants.py\<close>, \<open>routers/users.py\<close>,
    \<open>services/cognito.py\<close> and the writer of \<open>utils/audit_log.py\<close>; an administrator stays in the tenant.
  \<^item> \<open>Documents\<close>, \<open>Document_Laws\<close>: \<open>routers/documents.py\<close>; what a caller sees and deletes.
  \<^item> \<open>Batch_Uploads\<close>, \<open>Batch_Upload_Laws\<close>: \<open>routers/batch.py\<close> and \<open>utils/zip.py\<close>; archives stay within
    their limits and an accepted batch covers its files.
  \<^item> \<open>Calendar\<close>, \<open>Metrics\<close>, \<open>Metric_Laws\<close>: dates and numbers in texts; \<open>jobs/metrics_aggregator\<close>,
    \<open>utils/metrics.py\<close> and \<open>routers/metrics.py\<close>: the stats add up, a stored day is complete, and a
    tenant sees its own.  Their state is the bucket of the stats documents, on its own.

  \<^bold>\<open>Loops.\<close>  Nearly all loops of the modelled code run over a list or count down the attempts left, so
  they are structural recursions.  The polling loop has the time left as its measure, the search
  for identifiers the length of the text, and the loops over dates the months and days up to the end.  No fuel is needed anywhere.

  \<^bold>\<open>Findings.\<close>  The lemmas \<open>failed_upload_keeps_build_locked\<close>, \<open>rollback_leaves_page_stamps\<close>,
  \<open>refused_page_replaces_object\<close> (\<open>Build_Laws\<close>), \<open>throttled_write_starts_bda_twice\<close>,
  \<open>stale_upsert_reopens_claim\<close> (\<open>Processor_Laws\<close>), \<open>disconnect_fails_document\<close> (\<open>Job_Laws\<close>),
  \<open>failed_migration_locks_key_out\<close>, \<open>failed_read_admits_revoked_key\<close>, \<open>legacy_revocation_is_late\<close>,
  \<open>pepper_failure_sticks\<close> (\<open>Tenant_Laws\<close>), \<open>approved_super_admin_keeps_tenant\<close> (\<open>Admin_Laws\<close>),
  \<open>search_shows_deleted\<close> (\<open>Document_Laws\<close>), \<open>refused_file_leaves_batch_uploading\<close>
  (\<open>Batch_Upload_Laws\<close>) and \<open>later_pages_lose_first_row\<close> (\<open>Metric_Laws\<close>) run the code on inputs where it does not do what it means to do.

  \<^bold>\<open>Not modelled.\<close>  The framework glue (FastAPI routing, pydantic parsing of requests, Lambda
  handlers, command lines, logging and tracing), the AWS service wrappers, the web client and the
  infrastructure, which have no logic of their own; prompts and image analysis (\<open>utils/blur_detection.py\<close>,
  \<open>utils/preclassification.py\<close>, \<open>utils/bbox_detection.py\<close>), whose outcome is what a model answers.
  The queries of the audit trail, the listing of users and the masking of names for presentations
  only read.  Binary floating point is replaced by exact rationals and concurrency by sequences of operations,
  each of which DynamoDB makes atomic.
\<close>

end
